(* ===== verification/Prelude.thy ===== *)
theory Prelude
  imports Main "HOL-Library.State_Monad" "HOL-Library.Finite_Map"
    "HOL-Library.List_Lexorder" "HOL-Library.Char_ord" "HOL-Library.Word"
begin

text \<open>
  Shared vocabulary of the development: the state monad in which the operator's effects are
  written, Hoare triples over it with their rules, the loop that runs a list of steps until one
  fails, and Go's maps (a nil map is \<open>None\<close>, any other map a finite map).
\<close>

named_theorems triple_intro \<open>introduction rules for Hoare triples\<close>

type_synonym int32 = "32 word"
type_synonym 'v gomap = "(string, 'v) fmap option"

abbreviation return :: "'a \<Rightarrow> ('s, 'a) state" where
  "return \<equiv> State_Monad.return"

section \<open>Go maps\<close>

text \<open>A map literal; the keys of every literal in the source are distinct.\<close>

definition mapLit :: "(string \<times> 'v) list \<Rightarrow> 'v gomap" where
  "mapLit kvs = Some (fmap_of_list kvs)"

definition mapGet :: "'v gomap \<Rightarrow> string \<Rightarrow> 'v option" where
  "mapGet m k = (case m of None \<Rightarrow> None | Some f \<Rightarrow> fmlookup f k)"

text \<open>\<open>for key, value := range src { dst[key] = value }\<close> on a non-nil \<open>dst\<close>.\<close>

definition mapAssignAll :: "'v gomap \<Rightarrow> 'v gomap \<Rightarrow> 'v gomap" where
  "mapAssignAll dst src =
     (case (dst, src) of (Some d, Some f) \<Rightarrow> Some (d ++\<^sub>f f) | _ \<Rightarrow> dst)"

definition mapPut :: "string \<Rightarrow> 'v \<Rightarrow> 'v gomap \<Rightarrow> 'v gomap" where
  "mapPut k v m = map_option (fmupd k v) m"

definition orEmpty :: "'v gomap \<Rightarrow> 'v gomap" where
  "orEmpty m = (case m of None \<Rightarrow> Some fmempty | Some f \<Rightarrow> Some f)"

lemma mapGet_mapLit [simp]: "mapGet (mapLit kvs) k = map_of kvs k"
  by (simp add: mapGet_def mapLit_def fmlookup_of_list)

lemma mapGet_None [simp]: "mapGet None k = None"
  by (simp add: mapGet_def)

lemma mapGet_orEmpty [simp]: "mapGet (orEmpty m) k = mapGet m k"
  by (simp add: mapGet_def orEmpty_def split: option.split)

lemma orEmpty_not_None [simp]: "orEmpty m \<noteq> None"
  by (simp add: orEmpty_def split: option.split)

lemma orEmpty_idem [simp]: "orEmpty (orEmpty m) = orEmpty m"
  by (simp add: orEmpty_def split: option.split)

lemma orEmpty_Some [simp]: "orEmpty (Some f) = Some f"
  by (simp add: orEmpty_def)

lemma orEmpty_mapLit [simp]: "orEmpty (mapLit kvs) = mapLit kvs"
  by (simp add: orEmpty_def mapLit_def)

lemma mapGet_mapPut:
  "m \<noteq> None \<Longrightarrow> mapGet (mapPut k v m) k' = (if k = k' then Some v else mapGet m k')"
  by (auto simp: mapGet_def mapPut_def)

lemma mapPut_not_None [simp]: "mapPut k v m = None \<longleftrightarrow> m = None"
  by (simp add: mapPut_def)

lemma mapGet_mapAssignAll:
  "dst \<noteq> None \<Longrightarrow>
     mapGet (mapAssignAll dst src) k =
       (case mapGet src k of Some v \<Rightarrow> Some v | None \<Rightarrow> mapGet dst k)"
  by (cases dst; cases src)
    (auto simp: mapGet_def mapAssignAll_def fmlookup_dom_iff split: option.splits)

lemma mapAssignAll_None_iff [simp]: "mapAssignAll dst src = None \<longleftrightarrow> dst = None"
  by (cases dst; cases src) (simp_all add: mapAssignAll_def)

lemma gomap_eqI:
  assumes "m \<noteq> None" and "n \<noteq> None" and "\<And>k. mapGet m k = mapGet n k"
  shows "m = n"
proof -
  from assms(1,2) obtain f g where fg: "m = Some f" "n = Some g"
    by blast
  with assms(3) have "fmlookup f k = fmlookup g k" for k
    by (simp add: mapGet_def)
  then show ?thesis
    by (simp add: fg fmap_ext)
qed

lemma mapAssignAll_idem [simp]:
  "mapAssignAll (mapAssignAll dst src) src = mapAssignAll dst src"
proof (cases "dst = None")
  case True
  then show ?thesis by (simp add: mapAssignAll_def)
next
  case False
  then show ?thesis
    by (intro gomap_eqI) (auto simp: mapGet_mapAssignAll split: option.split)
qed

lemma mapAssignAll_self [simp]: "mapAssignAll m m = m"
proof (cases "m = None")
  case True
  then show ?thesis by (simp add: mapAssignAll_def)
next
  case False
  then show ?thesis
    by (intro gomap_eqI) (auto simp: mapGet_mapAssignAll split: option.split)
qed

lemma mapAssignAll_absorb:
  assumes "dst \<noteq> None" and "\<And>k v. mapGet src k = Some v \<Longrightarrow> mapGet dst k = Some v"
  shows "mapAssignAll dst src = dst"
  using assms by (intro gomap_eqI) (auto simp: mapGet_mapAssignAll split: option.split)

section \<open>Hoare triples for the state monad\<close>

definition triple ::
    "('s \<Rightarrow> bool) \<Rightarrow> ('s, 'a) state \<Rightarrow> ('a \<Rightarrow> 's \<Rightarrow> bool) \<Rightarrow> bool" where
  "triple P m Q \<longleftrightarrow> (\<forall>s a s'. P s \<longrightarrow> run_state m s = (a, s') \<longrightarrow> Q a s')"

lemma tripleI:
  "(\<And>s a s'. P s \<Longrightarrow> run_state m s = (a, s') \<Longrightarrow> Q a s') \<Longrightarrow> triple P m Q"
  by (auto simp: triple_def)

lemma tripleD: "triple P m Q \<Longrightarrow> P s \<Longrightarrow> run_state m s = (a, s') \<Longrightarrow> Q a s'"
  by (auto simp: triple_def)

lemma triple_return: "(\<And>s. P s \<Longrightarrow> Q a s) \<Longrightarrow> triple P (return a) Q"
  by (auto simp: triple_def)

lemma triple_bind:
  assumes "triple P m R" and "\<And>a. triple (R a) (f a) Q"
  shows "triple P (State_Monad.bind m f) Q"
  using assms by (force simp: triple_def split: prod.splits)

lemma triple_post:
  assumes "triple P m Q'" and "\<And>a s. Q' a s \<Longrightarrow> Q a s"
  shows "triple P m Q"
  using assms by (auto simp: triple_def)

text \<open>\<open>keeps I m\<close>: the program \<open>m\<close> keeps the invariant \<open>I\<close>, whatever it returns.\<close>

definition keeps :: "('s \<Rightarrow> bool) \<Rightarrow> ('s, 'a) state \<Rightarrow> bool" where
  "keeps I m \<longleftrightarrow> triple I m (\<lambda>_. I)"

lemma keepsI: "(\<And>s a s'. I s \<Longrightarrow> run_state m s = (a, s') \<Longrightarrow> I s') \<Longrightarrow> keeps I m"
  by (auto simp: keeps_def triple_def)

lemma keepsD: "keeps I m \<Longrightarrow> I s \<Longrightarrow> run_state m s = (a, s') \<Longrightarrow> I s'"
  by (auto simp: keeps_def triple_def)

lemma keeps_return [triple_intro]: "keeps I (return a)"
  by (simp add: keeps_def triple_return)

lemma keeps_bind [triple_intro]:
  "keeps I m \<Longrightarrow> (\<And>a. keeps I (f a)) \<Longrightarrow> keeps I (State_Monad.bind m f)"
  unfolding keeps_def by (rule triple_bind)

lemma keeps_if [triple_intro]:
  "(b \<Longrightarrow> keeps I m) \<Longrightarrow> (\<not> b \<Longrightarrow> keeps I n) \<Longrightarrow> keeps I (if b then m else n)"
  by simp

lemma keeps_case_option [triple_intro]:
  "(x = None \<Longrightarrow> keeps I m) \<Longrightarrow> (\<And>y. x = Some y \<Longrightarrow> keeps I (n y)) \<Longrightarrow>
     keeps I (case x of None \<Rightarrow> m | Some y \<Rightarrow> n y)"
  by (cases x) auto

lemma keeps_case_sum [triple_intro]:
  "(\<And>e. x = Inl e \<Longrightarrow> keeps I (m e)) \<Longrightarrow> (\<And>y. x = Inr y \<Longrightarrow> keeps I (n y)) \<Longrightarrow>
     keeps I (case x of Inl e \<Rightarrow> m e | Inr y \<Rightarrow> n y)"
  by (cases x) auto

lemma keeps_case_prod [triple_intro]:
  "(\<And>y z. x = (y, z) \<Longrightarrow> keeps I (m y z)) \<Longrightarrow> keeps I (case x of (y, z) \<Rightarrow> m y z)"
  by (cases x) auto

lemma keeps_let [triple_intro]: "(\<And>y. y = x \<Longrightarrow> keeps I (f y)) \<Longrightarrow> keeps I (Let x f)"
  by simp

text \<open>\<open>yields I m R\<close>: besides keeping \<open>I\<close>, the program returns only values that satisfy \<open>R\<close>.\<close>

definition yields :: "('s \<Rightarrow> bool) \<Rightarrow> ('s, 'a) state \<Rightarrow> ('a \<Rightarrow> bool) \<Rightarrow> bool" where
  "yields I m R \<longleftrightarrow> triple I m (\<lambda>a s. I s \<and> R a)"

lemma yieldsD: "yields I m R \<Longrightarrow> I s \<Longrightarrow> run_state m s = (a, s') \<Longrightarrow> I s' \<and> R a"
  by (auto simp: yields_def triple_def)

lemma yields_keeps: "yields I m R \<Longrightarrow> keeps I m"
  by (auto simp: yields_def keeps_def intro: triple_post)

lemma keeps_yields: "keeps I m \<Longrightarrow> (\<And>a. R a) \<Longrightarrow> yields I m R"
  by (auto simp: yields_def keeps_def intro: triple_post)

lemma yields_return: "R a \<Longrightarrow> yields I (return a) R"
  by (simp add: yields_def triple_return)

lemma triple_pure: "(b \<Longrightarrow> triple P m Q) \<Longrightarrow> triple (\<lambda>s. P s \<and> b) m Q"
  by (cases b) (auto simp: triple_def)

lemma yields_bind:
  "yields I m R' \<Longrightarrow> (\<And>a. R' a \<Longrightarrow> yields I (f a) R) \<Longrightarrow> yields I (State_Monad.bind m f) R"
  unfolding yields_def by (rule triple_bind, assumption, rule triple_pure)

lemma keeps_bind_yields:
  "yields I m R \<Longrightarrow> (\<And>a. R a \<Longrightarrow> keeps I (f a)) \<Longrightarrow> keeps I (State_Monad.bind m f)"
  unfolding yields_def keeps_def by (rule triple_bind, assumption, rule triple_pure)

lemma yields_bind_keeps:
  "keeps I m \<Longrightarrow> (\<And>a. yields I (f a) R) \<Longrightarrow> yields I (State_Monad.bind m f) R"
  by (rule yields_bind [OF keeps_yields [where R = "\<lambda>_. True"]]) simp_all

lemma yields_if:
  "(b \<Longrightarrow> yields I m R) \<Longrightarrow> (\<not> b \<Longrightarrow> yields I n R) \<Longrightarrow> yields I (if b then m else n) R"
  by simp

lemma yields_case_sum:
  "(\<And>e. x = Inl e \<Longrightarrow> yields I (m e) R) \<Longrightarrow> (\<And>y. x = Inr y \<Longrightarrow> yields I (n y) R) \<Longrightarrow>
     yields I (case x of Inl e \<Rightarrow> m e | Inr y \<Rightarrow> n y) R"
  by (cases x) auto

lemmas yields_intro = yields_return yields_if yields_case_sum

section \<open>Running steps until one fails\<close>

text \<open>
  \<open>for _, f := range fs { err = f(...); if err != nil { break } }\<close>: the error of the first
  step that fails, or \<open>None\<close> when all ran.
\<close>

fun runUntilError :: "('s, 'e option) state list \<Rightarrow> ('s, 'e option) state" where
  "runUntilError [] = return None"
| "runUntilError (f # fs) = do {
     err \<leftarrow> f;
     (case err of None \<Rightarrow> runUntilError fs | Some e \<Rightarrow> return (Some e))
   }"

lemma keeps_runUntilError:
  "(\<And>f. f \<in> set fs \<Longrightarrow> keeps I f) \<Longrightarrow> keeps I (runUntilError fs)"
  by (induction fs) (auto intro!: triple_intro)

end
