(* ===== verification/GoStrings.thy ===== *)
theory GoStrings
  imports Prelude
begin

text \<open>
  The part of Go's \<open>strings\<close>, \<open>strconv\<close> and \<open>fmt\<close> packages that the operator calls. A Go
  string is a sequence of bytes, here a \<^typ>\<open>char list\<close> whose characters are the bytes, so
  \<open>length\<close> is Go's \<open>len\<close>. Functions keep their Go names; separators, always one byte in the
  source, are characters.
\<close>

section \<open>Bytes\<close>

abbreviation byte :: "char \<Rightarrow> nat" where
  "byte c \<equiv> of_char c"

definition isDigit :: "char \<Rightarrow> bool" where
  "isDigit c \<longleftrightarrow> 48 \<le> byte c \<and> byte c \<le> 57"

definition isLower :: "char \<Rightarrow> bool" where
  "isLower c \<longleftrightarrow> 97 \<le> byte c \<and> byte c \<le> 122"

definition isUpper :: "char \<Rightarrow> bool" where
  "isUpper c \<longleftrightarrow> 65 \<le> byte c \<and> byte c \<le> 90"

definition isHex :: "char \<Rightarrow> bool" where
  "isHex c \<longleftrightarrow> isDigit c \<or> (97 \<le> byte c \<and> byte c \<le> 102) \<or> (65 \<le> byte c \<and> byte c \<le> 70)"

definition hexVal :: "char \<Rightarrow> nat" where
  "hexVal c = (if isDigit c then byte c - 48
               else if 97 \<le> byte c then byte c - 97 + 10 else byte c - 65 + 10)"

definition digitVal :: "char \<Rightarrow> nat" where
  "digitVal c = byte c - 48"

definition digitChar :: "nat \<Rightarrow> char" where
  "digitChar d = char_of (48 + d)"

definition toLowerByte :: "char \<Rightarrow> char" where
  "toLowerByte c = (if isUpper c then char_of (byte c + 32) else c)"

section \<open>Package strings\<close>

text \<open>\<open>strings.Cut\<close> at the first occurrence of a byte; \<open>None\<close> when it does not occur.\<close>

primrec Cut :: "char \<Rightarrow> string \<Rightarrow> (string \<times> string) option" where
  "Cut c [] = None"
| "Cut c (x # xs) = (if x = c then Some ([], xs)
                     else map_option (\<lambda>(a, b). (x # a, b)) (Cut c xs))"

text \<open>The same at the last occurrence (\<open>strings.LastIndex\<close>).\<close>

definition CutLast :: "char \<Rightarrow> string \<Rightarrow> (string \<times> string) option" where
  "CutLast c s = map_option (\<lambda>(a, b). (rev b, rev a)) (Cut c (rev s))"

text \<open>\<open>strings.SplitN(s, c, n)\<close> for \<open>n \<ge> 0\<close>.\<close>

fun SplitN :: "char \<Rightarrow> string \<Rightarrow> nat \<Rightarrow> string list" where
  "SplitN c s 0 = []"
| "SplitN c s (Suc 0) = [s]"
| "SplitN c s (Suc (Suc n)) =
     (case Cut c s of None \<Rightarrow> [s] | Some (a, b) \<Rightarrow> a # SplitN c b (Suc n))"

primrec Split :: "char \<Rightarrow> string \<Rightarrow> string list" where
  "Split c [] = [[]]"
| "Split c (x # xs) =
     (if x = c then [] # Split c xs
      else (case Split c xs of [] \<Rightarrow> [[x]] | p # ps \<Rightarrow> (x # p) # ps))"

fun HasPrefix :: "string \<Rightarrow> string \<Rightarrow> bool" where
  "HasPrefix s [] = True"
| "HasPrefix [] (p # ps) = False"
| "HasPrefix (x # s) (p # ps) = (x = p \<and> HasPrefix s ps)"

definition HasSuffix :: "string \<Rightarrow> string \<Rightarrow> bool" where
  "HasSuffix s p = HasPrefix (rev s) (rev p)"

definition CutSuffix :: "string \<Rightarrow> string \<Rightarrow> string \<times> bool" where
  "CutSuffix s p = (if HasSuffix s p then (take (length s - length p) s, True) else (s, False))"

primrec Contains :: "string \<Rightarrow> string \<Rightarrow> bool" where
  "Contains [] p = (p = [])"
| "Contains (x # s) p = (HasPrefix (x # s) p \<or> Contains s p)"

definition ToLower :: "string \<Rightarrow> string" where
  "ToLower s = map toLowerByte s"

text \<open>
  The Unicode white space that \<open>strings.TrimSpace\<close> removes: the six ASCII characters and the
  UTF-8 encodings of U+0085, U+00A0, U+1680, U+2000 to U+200A, U+2028, U+2029, U+202F, U+205F
  and U+3000.
\<close>

definition spaceEncodings :: "string list" where
  "spaceEncodings =
     map (\<lambda>n. [char_of n]) [9, 10, 11, 12, 13, 32 :: nat] @
     map (map char_of) ([[194, 133], [194, 160], [225, 154, 128], [226, 128, 168],
       [226, 128, 169], [226, 128, 175], [226, 129, 159], [227, 128, 128 :: nat]] @
       map (\<lambda>n. [226, 128, n]) [128 ..< 139])"

function trimLeftWith :: "string list \<Rightarrow> string \<Rightarrow> string" where
  "trimLeftWith ps s =
     (case find (\<lambda>p. p \<noteq> [] \<and> HasPrefix s p) ps of
        None \<Rightarrow> s
      | Some p \<Rightarrow> if s = [] then s else trimLeftWith ps (drop (length p) s))"
  by pat_completeness auto
termination
  by (relation "measure (\<lambda>(ps, s). length s)") (auto simp: find_Some_iff)

declare trimLeftWith.simps [simp del]

definition TrimSpace :: "string \<Rightarrow> string" where
  "TrimSpace s =
     rev (trimLeftWith (map rev spaceEncodings) (rev (trimLeftWith spaceEncodings s)))"

section \<open>Packages strconv and fmt\<close>

fun decDigits :: "nat \<Rightarrow> string" where
  "decDigits n = (if n < 10 then [digitChar n] else decDigits (n div 10) @ [digitChar (n mod 10)])"

declare decDigits.simps [simp del]

text \<open>\<open>fmt\<close>'s \<open>%d\<close>.\<close>

definition Itoa :: "int \<Rightarrow> string" where
  "Itoa n = (if n < 0 then CHR ''-'' # decDigits (nat (- n)) else decDigits (nat n))"

definition digitsVal :: "string \<Rightarrow> int" where
  "digitsVal s = foldl (\<lambda>n c. 10 * n + int (digitVal c)) 0 s"

text \<open>
  \<open>strconv.ParseInt(s, 10, 32)\<close>: \<open>None\<close> stands for both error results, a syntax error and a
  value outside the 32-bit range.
\<close>

definition ParseInt10_32 :: "string \<Rightarrow> int option" where
  "ParseInt10_32 s =
     (let neg = (case s of c # _ \<Rightarrow> c = CHR ''-'' | [] \<Rightarrow> False);
          ds = (case s of c # cs \<Rightarrow> if c = CHR ''-'' \<or> c = CHR ''+'' then cs else s | [] \<Rightarrow> [])
      in if ds = [] \<or> \<not> list_all isDigit ds then None
         else if neg then (if digitsVal ds > 2 ^ 31 then None else Some (- digitsVal ds))
         else (if digitsVal ds \<ge> 2 ^ 31 then None else Some (digitsVal ds)))"

definition hexDigit :: "nat \<Rightarrow> char" where
  "hexDigit n = (if n < 10 then char_of (48 + n) else char_of (87 + n))"

text \<open>
  \<open>fmt\<close>'s \<open>%q\<close> (\<open>strconv.Quote\<close>) on ASCII text. The strings the operator quotes are Kubernetes
  names, URL schemes, port digits and its own constants, which are ASCII; a byte above 127 is
  written as \<open>\x..\<close>, as Go does for bytes that are not valid UTF-8.
\<close>

definition quoteByte :: "char \<Rightarrow> string" where
  "quoteByte c =
     (if c = CHR 0x22 \<or> c = CHR 0x5C then [CHR 0x5C, c]
      else if 32 \<le> byte c \<and> byte c < 127 then [c]
      else if byte c = 7 then [CHR 0x5C, CHR ''a'']
      else if byte c = 8 then [CHR 0x5C, CHR ''b'']
      else if byte c = 12 then [CHR 0x5C, CHR ''f'']
      else if byte c = 10 then [CHR 0x5C, CHR ''n'']
      else if byte c = 13 then [CHR 0x5C, CHR ''r'']
      else if byte c = 9 then [CHR 0x5C, CHR ''t'']
      else if byte c = 11 then [CHR 0x5C, CHR ''v'']
      else [CHR 0x5C, CHR ''x'', hexDigit (byte c div 16), hexDigit (byte c mod 16)])"

definition Quote :: "string \<Rightarrow> string" where
  "Quote s = [CHR 0x22] @ concat (map quoteByte s) @ [CHR 0x22]"

section \<open>Lemmas\<close>

lemma Cut_None_iff: "Cut c s = None \<longleftrightarrow> c \<notin> set s"
  by (induction s) auto

lemma Cut_Some_iff: "Cut c s = Some (a, b) \<longleftrightarrow> s = a @ c # b \<and> c \<notin> set a"
proof (induction s arbitrary: a b)
  case Nil
  then show ?case by simp
next
  case (Cons x xs)
  then show ?case by (cases a) auto
qed

lemma Cut_append [simp]: "c \<notin> set a \<Longrightarrow> Cut c (a @ c # b) = Some (a, b)"
  by (simp add: Cut_Some_iff)

lemma separated_eq_iff:
  fixes c :: char
  assumes "c \<notin> set a" and "c \<notin> set a'"
  shows "a @ c # b = a' @ c # b' \<longleftrightarrow> a = a' \<and> b = b'"
proof
  assume eq: "a @ c # b = a' @ c # b'"
  have "Some (a, b) = Cut c (a @ c # b)" using assms(1) by simp
  also have "\<dots> = Some (a', b')" unfolding eq using assms(2) by simp
  finally show "a = a' \<and> b = b'" by simp
qed simp

lemma Cut_absent [simp]: "c \<notin> set s \<Longrightarrow> Cut c s = None"
  by (simp add: Cut_None_iff)

lemma CutLast_None_iff: "CutLast c s = None \<longleftrightarrow> c \<notin> set s"
  by (simp add: CutLast_def Cut_None_iff)

lemma CutLast_absent [simp]: "c \<notin> set s \<Longrightarrow> CutLast c s = None"
  by (simp add: CutLast_None_iff)

lemma CutLast_append [simp]: "c \<notin> set b \<Longrightarrow> CutLast c (a @ c # b) = Some (a, b)"
  by (simp add: CutLast_def)

lemma CutLast_Some_iff: "CutLast c s = Some (a, b) \<longleftrightarrow> s = a @ c # b \<and> c \<notin> set b"
proof
  assume "CutLast c s = Some (a, b)"
  then have "Cut c (rev s) = Some (rev b, rev a)"
    by (auto simp: CutLast_def)
  then have "rev s = rev b @ c # rev a \<and> c \<notin> set b"
    by (simp add: Cut_Some_iff)
  then show "s = a @ c # b \<and> c \<notin> set b"
    by (metis append.assoc append_Cons append_Nil rev.simps(2) rev_append rev_rev_ident)
qed auto

lemma Split_not_Nil [simp]: "Split c s \<noteq> []"
  by (cases s) (auto split: list.split)

lemma Split_absent [simp]: "c \<notin> set s \<Longrightarrow> Split c s = [s]"
  by (induction s) auto

lemma Split_append: "c \<notin> set a \<Longrightarrow> Split c (a @ c # b) = a # Split c b"
  by (induction a) auto

lemma Split_snoc: "c \<notin> set b \<Longrightarrow> Split c (a @ c # b) = Split c a @ [b]"
proof (induction a)
  case (Cons x a)
  show ?case
  proof (cases "x = c")
    case False
    obtain p ps where "Split c a = p # ps" by (cases "Split c a") auto
    with False Cons show ?thesis by simp
  qed (use Cons in simp)
qed simp

lemma Split_piece_absent: "p \<in> set (Split c s) \<Longrightarrow> c \<notin> set p"
proof (induction s arbitrary: p)
  case (Cons x s)
  show ?case
  proof (cases "x = c")
    case False
    obtain q qs where q: "Split c s = q # qs" by (cases "Split c s") auto
    with False Cons.prems have "p = x # q \<or> p \<in> set qs" by auto
    with False q Cons.IH show ?thesis by auto
  qed (use Cons in auto)
qed auto

text \<open>Joining the pieces gives the string back.\<close>

fun joinWith :: "char \<Rightarrow> string list \<Rightarrow> string" where
  "joinWith c [] = []"
| "joinWith c [p] = p"
| "joinWith c (p # q # ps) = p @ c # joinWith c (q # ps)"

lemma joinWith_Cons: "ps \<noteq> [] \<Longrightarrow> joinWith c (p # ps) = p @ c # joinWith c ps"
  by (cases ps) auto

lemma join_Split: "joinWith c (Split c s) = s"
proof (induction s)
  case (Cons x s)
  obtain q qs where q: "Split c s = q # qs" by (cases "Split c s") auto
  with Cons show ?case by (cases qs) (auto simp: joinWith_Cons)
qed simp

lemma HasPrefix_iff: "HasPrefix s p \<longleftrightarrow> (\<exists>t. s = p @ t)"
  by (induction s p rule: HasPrefix.induct) auto

lemma HasSuffix_iff: "HasSuffix s p \<longleftrightarrow> (\<exists>t. s = t @ p)"
  unfolding HasSuffix_def HasPrefix_iff
  by (metis rev_append rev_rev_ident)

lemma HasSuffix_append [simp]: "HasSuffix (t @ p) p"
  by (auto simp: HasSuffix_iff)

lemma CutSuffix_append [simp]: "CutSuffix (t @ p) p = (t, True)"
  by (simp add: CutSuffix_def)

lemma Contains_iff: "Contains s p \<longleftrightarrow> (\<exists>a b. s = a @ p @ b)"
proof (induction s)
  case (Cons x s)
  show ?case
  proof
    assume "Contains (x # s) p"
    then consider "HasPrefix (x # s) p" | "Contains s p" by auto
    then show "\<exists>a b. x # s = a @ p @ b"
    proof cases
      case 1
      then obtain t where "x # s = [] @ p @ t" by (auto simp: HasPrefix_iff)
      then show ?thesis by blast
    next
      case 2
      with Cons.IH obtain a b where "x # s = (x # a) @ p @ b" by auto
      then show ?thesis by blast
    qed
  next
    assume "\<exists>a b. x # s = a @ p @ b"
    then obtain a b where ab: "x # s = a @ p @ b" by blast
    show "Contains (x # s) p"
    proof (cases a)
      case Nil
      with ab have "HasPrefix (x # s) p" by (simp add: HasPrefix_iff)
      then show ?thesis by simp
    next
      case (Cons y a')
      with ab have "s = a' @ p @ b" by simp
      then show ?thesis using Cons.IH by auto
    qed
  qed
qed simp

lemma SplitN_2: "SplitN c s 2 = (case Cut c s of None \<Rightarrow> [s] | Some (a, b) \<Rightarrow> [a, b])"
  by (simp add: numeral_2_eq_2 split: option.split)

lemma digitChar_inverse [simp]: "d < 10 \<Longrightarrow> digitVal (digitChar d) = d"
  by (simp add: digitVal_def digitChar_def)

lemma isDigit_digitChar [simp]: "d < 10 \<Longrightarrow> isDigit (digitChar d)"
  by (simp add: isDigit_def digitChar_def)

lemma decDigits_digits: "list_all isDigit (decDigits n)"
proof (induction n rule: decDigits.induct)
  case (1 n)
  then show ?case
    by (cases "n < 10") (simp_all add: decDigits.simps [of n])
qed

lemma decDigits_not_Nil [simp]: "decDigits n \<noteq> []"
  by (subst decDigits.simps) simp

lemma digitsVal_snoc: "digitsVal (s @ [c]) = 10 * digitsVal s + int (digitVal c)"
  by (simp add: digitsVal_def)

lemma digitsVal_decDigits [simp]: "digitsVal (decDigits n) = int n"
proof (induction n rule: decDigits.induct)
  case (1 n)
  then show ?case
  proof (cases "n < 10")
    case True
    then show ?thesis by (subst decDigits.simps) (simp add: digitsVal_def)
  next
    case False
    with 1 have IH: "digitsVal (decDigits (n div 10)) = int (n div 10)" by simp
    from False show ?thesis
      by (subst decDigits.simps) (simp add: digitsVal_snoc IH, presburger)
  qed
qed

lemma trimLeftWith_id:
  "list_all (\<lambda>p. p = [] \<or> \<not> HasPrefix s p) ps \<Longrightarrow> trimLeftWith ps s = s"
proof -
  assume "list_all (\<lambda>p. p = [] \<or> \<not> HasPrefix s p) ps"
  then have "find (\<lambda>p. p \<noteq> [] \<and> HasPrefix s p) ps = None"
    by (auto simp: find_None_iff list_all_iff)
  then show ?thesis by (subst trimLeftWith.simps) simp
qed

text \<open>A string that neither begins nor ends with a byte outside printable ASCII or a space is kept.\<close>

definition solidByte :: "char \<Rightarrow> bool" where
  "solidByte c \<longleftrightarrow> 32 < byte c \<and> byte c < 127"

lemma spaceEncodings_bytes: "list_all (\<lambda>p. p \<noteq> [] \<and> list_all (\<lambda>c. \<not> solidByte c) p) spaceEncodings"
  by code_simp

lemma trimLeftWith_solid:
  assumes "s = [] \<or> solidByte (hd s)" and "list_all (\<lambda>p. p \<noteq> [] \<and> list_all (\<lambda>c. \<not> solidByte c) p) ps"
  shows "trimLeftWith ps s = s"
proof (rule trimLeftWith_id)
  have "\<not> HasPrefix s p" if "p \<noteq> []" "list_all (\<lambda>c. \<not> solidByte c) p" for p
    using assms(1) that by (cases p; cases s) auto
  with assms(2) show "list_all (\<lambda>p. p = [] \<or> \<not> HasPrefix s p) ps"
    by (auto simp: list_all_iff)
qed

lemma TrimSpace_solid:
  assumes "s = [] \<or> solidByte (hd s) \<and> solidByte (last s)"
  shows "TrimSpace s = s"
proof -
  have "trimLeftWith (map rev spaceEncodings) (rev s) = rev s"
    using assms spaceEncodings_bytes
    by (intro trimLeftWith_solid) (auto simp: list_all_iff hd_rev)
  then show ?thesis
    using trimLeftWith_solid [OF _ spaceEncodings_bytes, of s] assms
    by (auto simp: TrimSpace_def)
qed

text \<open>Printing a port in decimal and parsing it gives the port back.\<close>

lemma ParseInt_decDigits: "n < 2 ^ 31 \<Longrightarrow> ParseInt10_32 (decDigits n) = Some (int n)"
proof -
  assume n: "n < 2 ^ 31"
  obtain c cs where c: "decDigits n = c # cs" by (cases "decDigits n") auto
  have "isDigit c" using decDigits_digits [of n] c by simp
  then have "c \<noteq> CHR ''-''" "c \<noteq> CHR ''+''" by (auto simp: isDigit_def)
  then show ?thesis
    using n decDigits_digits [of n] digitsVal_decDigits [of n]
    by (simp add: ParseInt10_32_def c)
qed

end
