(* ===== verification/GoNet.thy ===== *)
theory GoNet
  imports GoStrings
begin

text \<open>
  The part of Go's \<open>net\<close> and \<open>net/netip\<close> packages behind \<open>net.SplitHostPort\<close>, \<open>net.ParseIP\<close>,
  \<open>net.ParseCIDR\<close> and \<open>IPNet.Contains\<close>, which the network policy's egress rules rest on.
  Addresses are lists of bytes as in Go (4 or 16 of them). Only whether a parse failed is kept
  of an error, since that is all the operator looks at.
\<close>

unbundle bit_operations_syntax

type_synonym octet = "8 word"

section \<open>SplitHostPort\<close>

definition SplitHostPort :: "string \<Rightarrow> (string \<times> string) option" where
  "SplitHostPort hostport =
     (case CutLast (CHR '':'') hostport of
        None \<Rightarrow> None
      | Some (addrPart, port) \<Rightarrow>
          if hostport \<noteq> [] \<and> hd hostport = CHR ''['' then
            (case Cut (CHR '']'') hostport of
               None \<Rightarrow> None
             | Some (front, _) \<Rightarrow>
                 if Suc (length front) \<noteq> length addrPart then None
                 else let host = drop 1 front in
                   if CHR ''['' \<in> set (drop 1 hostport) then None
                   else if CHR '']'' \<in> set (drop (Suc (length front)) hostport) then None
                   else Some (host, port))
          else if CHR '':'' \<in> set addrPart then None
          else if CHR ''['' \<in> set hostport then None
          else if CHR '']'' \<in> set hostport then None
          else Some (addrPart, port))"

section \<open>IP addresses\<close>

datatype addr = Addr4 "octet list" | Addr6 "octet list" string

definition v4InV6Prefix :: "octet list" where
  "v4InV6Prefix = replicate 10 0 @ [255, 255]"

text \<open>
  \<open>netip.parseIPv4Fields\<close>: the loop's variables are \<open>val\<close>, \<open>digLen\<close> and the fields filled so
  far; \<open>start\<close> says that the loop stands at the first byte or behind a dot.
\<close>

fun parseIPv4Fields :: "bool \<Rightarrow> nat \<Rightarrow> nat \<Rightarrow> octet list \<Rightarrow> string \<Rightarrow> octet list option" where
  "parseIPv4Fields start val digLen fields [] =
     (if length fields < 3 then None else Some (fields @ [of_nat val]))"
| "parseIPv4Fields start val digLen fields (c # cs) =
     (if isDigit c then
        (if digLen = 1 \<and> val = 0 then None
         else let val' = val * 10 + digitVal c in
           if val' > 255 then None else parseIPv4Fields False val' (Suc digLen) fields cs)
      else if c = CHR ''.'' then
        (if start \<or> cs = [] then None
         else if length fields = 3 then None
         else parseIPv4Fields True 0 0 (fields @ [of_nat val]) cs)
      else None)"

definition parseIPv4 :: "string \<Rightarrow> octet list option" where
  "parseIPv4 s = parseIPv4Fields True 0 0 [] s"

definition groupVal :: "string \<Rightarrow> nat" where
  "groupVal ds = foldl (\<lambda>n c. 16 * n + hexVal c) 0 ds"

text \<open>
  The loop of \<open>netip.parseIPv6\<close>, \<open>for i < 16\<close>: every turn that continues stores two bytes, so
  eight turns are exactly the turns it can make (\<open>parseIPv6\<close> below starts it with 8).
\<close>

fun ipv6Loop ::
    "nat \<Rightarrow> octet list \<Rightarrow> nat option \<Rightarrow> string \<Rightarrow> (octet list \<times> nat option \<times> string) option" where
  "ipv6Loop 0 ip ellipsis s = Some (ip, ellipsis, s)"
| "ipv6Loop (Suc n) ip ellipsis s =
     (let ds = takeWhile isHex s; rest = dropWhile isHex s;
          ip' = ip @ [of_nat (groupVal ds div 256), of_nat (groupVal ds mod 256)]
      in if length ds > 4 \<or> ds = [] then None
         else case rest of
             [] \<Rightarrow> Some (ip', ellipsis, [])
           | c # rest1 \<Rightarrow>
               if c = CHR ''.'' then
                 (if ellipsis = None \<and> length ip \<noteq> 12 then None
                  else if length ip + 4 > 16 then None
                  else map_option (\<lambda>q. (ip @ q, ellipsis, [])) (parseIPv4 s))
               else if c \<noteq> CHR '':'' \<or> rest1 = [] then None
               else if hd rest1 = CHR '':'' then
                 (if ellipsis \<noteq> None then None
                  else if tl rest1 = [] then Some (ip', Some (length ip'), [])
                  else ipv6Loop n ip' (Some (length ip')) (tl rest1))
               else ipv6Loop n ip' ellipsis rest1)"

definition parseIPv6 :: "string \<Rightarrow> addr option" where
  "parseIPv6 str =
     (let (s, zone, badZone) =
            (case Cut (CHR ''%'') str of
               None \<Rightarrow> (str, [], False) | Some (a, z) \<Rightarrow> (a, z, z = []));
          lead = HasPrefix s ''::'';
          s' = (if lead then drop 2 s else s)
      in if badZone then None
         else if lead \<and> s' = [] then Some (Addr6 (replicate 16 0) zone)
         else (case ipv6Loop 8 [] (if lead then Some 0 else None) s' of
             None \<Rightarrow> None
           | Some (ip, ellipsis, left) \<Rightarrow>
               if left \<noteq> [] then None
               else if length ip < 16 then
                 (case ellipsis of
                    None \<Rightarrow> None
                  | Some e \<Rightarrow>
                      Some (Addr6 (take e ip @ replicate (16 - length ip) 0 @ drop e ip) zone))
               else if ellipsis \<noteq> None then None
               else Some (Addr6 ip zone)))"

text \<open>\<open>netip.ParseAddr\<close>: the first of the bytes \<open>.\<close>, \<open>:\<close> and \<open>%\<close> decides the family.\<close>

definition ParseAddr :: "string \<Rightarrow> addr option" where
  "ParseAddr s =
     (case find (\<lambda>c. c \<in> {CHR ''.'', CHR '':'', CHR ''%''}) s of
        None \<Rightarrow> None
      | Some c \<Rightarrow>
          if c = CHR ''.'' then map_option Addr4 (parseIPv4 s)
          else if c = CHR '':'' then parseIPv6 s else None)"

fun As16 :: "addr \<Rightarrow> octet list" where
  "As16 (Addr4 q) = v4InV6Prefix @ q"
| "As16 (Addr6 b zone) = b"

fun BitLen :: "addr \<Rightarrow> nat" where
  "BitLen (Addr4 q) = 32"
| "BitLen (Addr6 b zone) = 128"

fun Zone :: "addr \<Rightarrow> string" where
  "Zone (Addr4 q) = []"
| "Zone (Addr6 b zone) = zone"

text \<open>\<open>net.ParseIP\<close>: \<open>None\<close> is the nil IP.\<close>

definition ParseIP :: "string \<Rightarrow> octet list option" where
  "ParseIP s =
     (case ParseAddr s of
        None \<Rightarrow> None | Some a \<Rightarrow> if Zone a \<noteq> [] then None else Some (As16 a))"

definition To4 :: "octet list \<Rightarrow> octet list option" where
  "To4 ip =
     (if length ip = 4 then Some ip
      else if length ip = 16 \<and> take 12 ip = v4InV6Prefix then Some (drop 12 ip)
      else None)"

section \<open>CIDR blocks\<close>

record ip_net =
  net_IP :: "octet list"
  net_Mask :: "octet list"

fun maskBytes :: "nat \<Rightarrow> nat \<Rightarrow> octet list" where
  "maskBytes 0 n = []"
| "maskBytes (Suc l) n =
     (if n \<ge> 8 then 255 # maskBytes l (n - 8)
      else NOT (drop_bit n 255) # maskBytes l 0)"

definition CIDRMask :: "nat \<Rightarrow> nat \<Rightarrow> octet list" where
  "CIDRMask ones bits = maskBytes (bits div 8) ones"

text \<open>\<open>IP.Mask\<close>; \<open>[]\<close> is the nil result for lengths that do not fit.\<close>

definition maskIP :: "octet list \<Rightarrow> octet list \<Rightarrow> octet list" where
  "maskIP ip msk =
     (let msk' = (if length msk = 16 \<and> length ip = 4 \<and> list_all (\<lambda>b. b = 255) (take 12 msk)
                   then drop 12 msk else msk);
          ip' = (if length msk' = 4 \<and> length ip = 16 \<and> take 12 ip = v4InV6Prefix
                 then drop 12 ip else ip)
      in if length ip' = length msk' then map2 (AND) ip' msk' else [])"

text \<open>\<open>net.dtoi\<close> on a whole string: fails on other bytes and from \<open>0xFFFFFF\<close> on.\<close>

definition dtoi :: "string \<Rightarrow> nat option" where
  "dtoi s = (if s = [] \<or> \<not> list_all isDigit s \<or> digitsVal s \<ge> 16777215 then None
             else Some (nat (digitsVal s)))"

definition ParseCIDR :: "string \<Rightarrow> (octet list \<times> ip_net) option" where
  "ParseCIDR s =
     (case Cut (CHR ''/'') s of
        None \<Rightarrow> None
      | Some (a, msk) \<Rightarrow>
          (case ParseAddr a of
             None \<Rightarrow> None
           | Some ip \<Rightarrow>
               if Zone ip \<noteq> [] then None
               else (case dtoi msk of
                   None \<Rightarrow> None
                 | Some n \<Rightarrow>
                     if n > BitLen ip then None
                     else let m = CIDRMask n (BitLen ip) in
                       Some (As16 ip, \<lparr>net_IP = maskIP (As16 ip) m, net_Mask = m\<rparr>))))"

text \<open>\<open>IPNet.Contains\<close>, with \<open>networkNumberAndMask\<close> inlined; a nil network contains nothing.\<close>

definition networkNumberAndMask :: "ip_net \<Rightarrow> octet list \<times> octet list" where
  "networkNumberAndMask n =
     (let ip = (case To4 (net_IP n) of Some q \<Rightarrow> q | None \<Rightarrow> net_IP n);
          m = net_Mask n
      in if length ip \<noteq> 4 \<and> length ip \<noteq> 16 then ([], [])
         else if length m = 4 then (if length ip \<noteq> 4 then ([], []) else (ip, m))
         else if length m = 16 then (ip, if length ip = 4 then drop 12 m else m)
         else ([], []))"

definition NetContains :: "ip_net \<Rightarrow> octet list \<Rightarrow> bool" where
  "NetContains n ip =
     (let (nn, m) = networkNumberAndMask n;
          x = (case To4 ip of Some q \<Rightarrow> q | None \<Rightarrow> ip)
      in length x = length nn \<and>
         list_all (\<lambda>(a, b, k). a AND k = b AND k) (zip nn (zip x m)))"

section \<open>Lemmas\<close>

lemma SplitHostPort_plain:
  assumes "set h \<inter> {CHR '':'', CHR ''['', CHR '']''} = {}"
    and "set p \<inter> {CHR '':'', CHR ''['', CHR '']''} = {}"
  shows "SplitHostPort (h @ CHR '':'' # p) = Some (h, p)"
proof -
  have "hd (h @ CHR '':'' # p) \<noteq> CHR ''[''" using assms by (cases h) auto
  then show ?thesis using assms by (auto simp: SplitHostPort_def)
qed

lemma SplitHostPort_no_colon [simp]: "CHR '':'' \<notin> set s \<Longrightarrow> SplitHostPort s = None"
  by (simp add: SplitHostPort_def)

lemma parseIPv4Fields_length:
  "parseIPv4Fields st v d fs s = Some q \<Longrightarrow> length fs \<le> 3 \<Longrightarrow> length q = 4"
  by (induction st v d fs s rule: parseIPv4Fields.induct)
    (auto simp: Let_def split: if_splits)

lemma parseIPv4_length: "parseIPv4 s = Some q \<Longrightarrow> length q = 4"
  unfolding parseIPv4_def by (erule parseIPv4Fields_length) simp

text \<open>A dotted quad, and how the parser reads it back.\<close>

definition dotted :: "octet list \<Rightarrow> string" where
  "dotted q = joinWith (CHR ''.'') (map (\<lambda>b. decDigits (unat b)) q)"

lemma decDigits_1: "n < 10 \<Longrightarrow> decDigits n = [digitChar n]"
  by (subst decDigits.simps) simp

lemma decDigits_2: "10 \<le> n \<Longrightarrow> n < 100 \<Longrightarrow> decDigits n = [digitChar (n div 10), digitChar (n mod 10)]"
  by (subst decDigits.simps) (simp add: decDigits_1)

lemma decDigits_3:
  "100 \<le> n \<Longrightarrow> n < 1000 \<Longrightarrow>
     decDigits n = [digitChar (n div 100), digitChar (n div 10 mod 10), digitChar (n mod 10)]"
  by (subst decDigits.simps) (simp add: decDigits_2 div_mult2_eq [symmetric])

lemma parseIPv4Fields_decDigits:
  assumes "n \<le> 255"
  shows "parseIPv4Fields True 0 0 fs (decDigits n @ r) =
           parseIPv4Fields False n (length (decDigits n)) fs r"
proof -
  consider "n < 10" | "10 \<le> n" "n < 100" | "100 \<le> n" by linarith
  then show ?thesis
  proof cases
    case 1
    then show ?thesis by (simp add: decDigits_1)
  next
    case 2
    then have "10 * (n div 10) + n mod 10 = n" "n div 10 \<noteq> 0" "n div 10 \<le> 255" by auto
    with 2 show ?thesis by (simp add: decDigits_2 Let_def mult.commute)
  next
    case 3
    have "n div 10 * 10 + n mod 10 = n" by simp
    moreover have "n div 100 * 10 + n div 10 mod 10 = n div 10"
      using div_mult_mod_eq [of "n div 10" 10] by (simp add: div_mult2_eq [symmetric])
    moreover have "n div 100 \<noteq> 0" "n div 100 < 10" "n div 10 \<le> 255" using 3 assms by auto
    ultimately show ?thesis using 3 assms
      by (simp add: decDigits_3 Let_def)
  qed
qed

lemma not_isDigit_dot [simp]: "\<not> isDigit (CHR ''.'')"
  by (simp add: isDigit_def)

lemma parseIPv4_dotted:
  assumes "length q = 4"
  shows "parseIPv4 (dotted q) = Some q"
proof -
  from assms obtain a b c d where q: "q = [a, b, c, d]"
    by (auto simp: numeral_eq_Suc length_Suc_conv)
  have le: "unat x \<le> 255" for x :: octet
    using unsigned_less [of x, where ?'a = nat] by simp
  have last: "parseIPv4Fields True 0 0 fs (decDigits (unat d)) =
      parseIPv4Fields False (unat d) (length (decDigits (unat d))) fs []" for fs
    using parseIPv4Fields_decDigits [OF le, of fs d "[]"] by simp
  show ?thesis
    by (simp add: q parseIPv4_def dotted_def parseIPv4Fields_decDigits [OF le] last)
qed

text \<open>Bit \<open>i\<close> of an address, counted from its most significant bit.\<close>

definition ipBit :: "octet list \<Rightarrow> nat \<Rightarrow> bool" where
  "ipBit ip i = bit (ip ! (i div 8)) (7 - i mod 8)"

lemma octet_255: "(255 :: octet) = - 1"
  by simp

lemma bit_octet_mask: "bit (NOT (drop_bit n (255 :: octet))) i \<longleftrightarrow> i < 8 \<and> 8 - n \<le> i"
proof -
  have b255: "bit (255 :: octet) k \<longleftrightarrow> k < 8" for k
    unfolding octet_255 by (simp add: bit_minus_1_iff possible_bit_word)
  have "bit (NOT (drop_bit n (255 :: octet))) i \<longleftrightarrow> i < 8 \<and> \<not> n + i < 8"
    by (simp only: bit_not_iff bit_drop_bit_eq possible_bit_word b255 comp_apply) simp
  then show ?thesis by (simp only:) arith
qed

lemma octet_and_mask_eq:
  "n \<le> 8 \<Longrightarrow> (a AND NOT (drop_bit n 255) = b AND NOT (drop_bit n (255 :: octet)))
     \<longleftrightarrow> (\<forall>i < n. bit a (7 - i) = bit b (7 - i))"
proof
  assume eq: "a AND NOT (drop_bit n 255) = b AND NOT (drop_bit n (255 :: octet))" and n: "n \<le> 8"
  show "\<forall>i < n. bit a (7 - i) = bit b (7 - i)"
  proof (intro allI impI)
    fix i assume "i < n"
    with n have "7 - i < 8" "8 - n \<le> 7 - i" by auto
    moreover have "bit (a AND NOT (drop_bit n 255)) (7 - i) = bit (b AND NOT (drop_bit n 255)) (7 - i)"
      by (simp add: eq)
    ultimately show "bit a (7 - i) = bit b (7 - i)"
      by (simp add: bit_and_iff bit_octet_mask)
  qed
next
  assume bits: "\<forall>i < n. bit a (7 - i) = bit b (7 - i)" and n: "n \<le> 8"
  show "a AND NOT (drop_bit n 255) = b AND NOT (drop_bit n (255 :: octet))"
  proof (rule bit_word_eqI)
    fix j assume "j < LENGTH(8)"
    show "bit (a AND NOT (drop_bit n 255)) j = bit (b AND NOT (drop_bit n (255 :: octet))) j"
    proof (cases "j < 8 \<and> 8 - n \<le> j")
      case True
      then have "7 - j < n" "7 - (7 - j) = j" using n by auto
      with bits have "bit a j = bit b j" by metis
      then show ?thesis by (simp add: bit_and_iff)
    qed (auto simp: bit_and_iff bit_octet_mask)
  qed
qed

lemma octet_and_255: "a AND 255 = (a :: octet)"
  unfolding octet_255 by simp

lemma all_less_split:
  "8 \<le> (n :: nat) \<Longrightarrow> (\<forall>i < n. P i) \<longleftrightarrow> (\<forall>i < 8. P i) \<and> (\<forall>j < n - 8. P (8 + j))"
proof -
  assume n: "8 \<le> n"
  have "(\<forall>i < n. P i)" if "\<forall>i < 8. P i" "\<forall>j < n - 8. P (8 + j)"
  proof (intro allI impI)
    fix i assume "i < n"
    then show "P i" using that n by (cases "i < 8") (auto dest: spec [of _ "i - 8"])
  qed
  with n show ?thesis by auto
qed

lemma maskBytes_eq:
  assumes "length xs = l" and "length ys = l" and "n \<le> 8 * l"
  shows "list_all (\<lambda>(a, b, k). a AND k = b AND k) (zip xs (zip ys (maskBytes l n)))
           \<longleftrightarrow> (\<forall>i < n. ipBit xs i = ipBit ys i)"
  using assms
proof (induction l n arbitrary: xs ys rule: maskBytes.induct)
  case (1 n)
  then show ?case by simp
next
  case (2 l n)
  from "2.prems" obtain x xs' y ys' where xy: "xs = x # xs'" "ys = y # ys'"
    and len: "length xs' = l" "length ys' = l"
    by (auto simp: length_Suc_conv)
  have shift: "ipBit (z # zs) (8 + j) = ipBit zs j" for z zs j
    by (simp add: ipBit_def)
  have first: "i < 8 \<Longrightarrow> ipBit (z # zs) i = bit z (7 - i)" for z zs i
    by (simp add: ipBit_def)
  show ?case
  proof (cases "n \<ge> 8")
    case True
    have "(\<forall>i < n. ipBit xs i = ipBit ys i) \<longleftrightarrow>
        (\<forall>i < 8. ipBit xs i = ipBit ys i) \<and> (\<forall>j < n - 8. ipBit xs (8 + j) = ipBit ys (8 + j))"
      using all_less_split [OF True] .
    moreover have "x = y \<longleftrightarrow> (\<forall>i < 8. bit x (7 - i) = bit y (7 - i))"
      using octet_and_mask_eq [of 8 x y] by (simp add: octet_and_255)
    ultimately show ?thesis
      using True "2.IH"(1) [OF True len] "2.prems"(3) by (simp add: xy octet_and_255 shift first)
  next
    case False
    have "list_all (\<lambda>(a, b, k). a AND k = b AND k) (zip xs' (zip ys' (maskBytes l 0)))"
      using "2.IH"(2) [OF False len] by simp
    with False show ?thesis by (simp add: xy octet_and_mask_eq first)
  qed
qed

lemma length_maskBytes [simp]: "length (maskBytes l n) = l"
  by (induction l n rule: maskBytes.induct) simp_all

text \<open>
  The meaning of a CIDR block for two IPv4 addresses: the block contains exactly the addresses
  that agree with it on the first \<open>n\<close> bits.
\<close>

lemma To4_As16: "length q = 4 \<Longrightarrow> To4 (As16 (Addr4 q)) = Some q"
  by (simp add: To4_def v4InV6Prefix_def)

end
