(* ===== verification/GoUrl.thy ===== *)
theory GoUrl
  imports GoStrings
begin

text \<open>
  The part of Go's \<open>net/url\<close> package behind \<open>url.Parse\<close>, \<open>URL.Port\<close> and \<open>URL.String\<close>, on which
  \<open>portFromURL\<close> rests: the proxy settings come from the environment and may hold credentials,
  so which part of a URL ends up in a parse error or in the redacted string matters. Errors are
  their text.
\<close>

datatype encoding = EncPath | EncHost | EncZone | EncUserPassword | EncFragment

record userinfo =
  ui_username :: string
  ui_password :: "string option"

record URL =
  u_Scheme :: string
  u_Opaque :: string
  u_User :: "userinfo option"
  u_Host :: string
  u_Path :: string
  u_RawPath :: string
  u_OmitHost :: bool
  u_ForceQuery :: bool
  u_RawQuery :: string
  u_Fragment :: string
  u_RawFragment :: string

definition emptyURL :: URL where
  "emptyURL = \<lparr>u_Scheme = [], u_Opaque = [], u_User = None, u_Host = [], u_Path = [],
     u_RawPath = [], u_OmitHost = False, u_ForceQuery = False, u_RawQuery = [],
     u_Fragment = [], u_RawFragment = []\<rparr>"

section \<open>Escaping\<close>

definition isAlnum :: "char \<Rightarrow> bool" where
  "isAlnum c \<longleftrightarrow> isLower c \<or> isUpper c \<or> isDigit c"

definition shouldEscape :: "char \<Rightarrow> encoding \<Rightarrow> bool" where
  "shouldEscape c mode =
     (if isAlnum c then False
      else if (mode = EncHost \<or> mode = EncZone) \<and>
              c \<in> set (CHR 0x22 # CHR 0x27 # ''!$&()*+,;=:[]<>'') then False
      else if c \<in> set ''-_.~'' then False
      else if c \<in> set ''$&+,/:;=?@'' \<and> mode = EncPath then c = CHR ''?''
      else if c \<in> set ''$&+,/:;=?@'' \<and> mode = EncUserPassword then c \<in> set ''@/?:''
      else if c \<in> set ''$&+,/:;=?@'' \<and> mode = EncFragment then False
      else if mode = EncFragment \<and> c \<in> set ''!()*'' then False
      else True)"

definition upperHexDigit :: "nat \<Rightarrow> char" where
  "upperHexDigit n = (if n < 10 then char_of (48 + n) else char_of (55 + n))"

definition escape :: "string \<Rightarrow> encoding \<Rightarrow> string" where
  "escape s mode =
     concat (map (\<lambda>c. if shouldEscape c mode
                      then [CHR ''%'', upperHexDigit (byte c div 16), upperHexDigit (byte c mod 16)]
                      else [c]) s)"

definition escapeError :: "string \<Rightarrow> string" where
  "escapeError s = ''invalid URL escape '' @ Quote s"

text \<open>\<open>url.unescape\<close> in the modes used here (no query mode, so \<open>+\<close> stays as it is).\<close>

fun unescape :: "encoding \<Rightarrow> string \<Rightarrow> string + string" where
  "unescape mode [] = Inr []"
| "unescape mode (c # s) =
     (if c = CHR ''%'' then
        (case s of
           h # l # rest \<Rightarrow>
             if \<not> (isHex h \<and> isHex l) then Inl (escapeError [c, h, l])
             else let v = hexVal h * 16 + hexVal l in
               if mode = EncHost \<and> hexVal h < 8 \<and> [c, h, l] \<noteq> ''%25''
               then Inl (escapeError [c, h, l])
               else if mode = EncZone \<and> [c, h, l] \<noteq> ''%25'' \<and> v \<noteq> 32 \<and>
                       shouldEscape (char_of v) EncHost
               then Inl (escapeError [c, h, l])
               else map_sum id (\<lambda>t. char_of v # t) (unescape mode rest)
         | _ \<Rightarrow> Inl (escapeError (c # s)))
      else if (mode = EncHost \<or> mode = EncZone) \<and> byte c < 128 \<and> shouldEscape c mode
      then Inl (''invalid character '' @ Quote [c] @ '' in host name'')
      else map_sum id (\<lambda>t. c # t) (unescape mode s))"

section \<open>Parsing\<close>

definition CTLByte :: "char \<Rightarrow> bool" where
  "CTLByte c \<longleftrightarrow> byte c < 32 \<or> byte c = 127"

text \<open>
  \<open>getScheme\<close>: the loop over the bytes, with the bytes read so far; the result is an error, or
  the scheme (empty when there is none) and the rest.
\<close>

fun getSchemeLoop :: "string \<Rightarrow> string \<Rightarrow> string \<Rightarrow> string + (string \<times> string)" where
  "getSchemeLoop raw acc [] = Inr ([], raw)"
| "getSchemeLoop raw acc (c # cs) =
     (if isLower c \<or> isUpper c then getSchemeLoop raw (acc @ [c]) cs
      else if isDigit c \<or> c \<in> set ''+-.'' then
        (if acc = [] then Inr ([], raw) else getSchemeLoop raw (acc @ [c]) cs)
      else if c = CHR '':'' then
        (if acc = [] then Inl ''missing protocol scheme'' else Inr (acc, cs))
      else Inr ([], raw))"

definition getScheme :: "string \<Rightarrow> string + (string \<times> string)" where
  "getScheme raw = getSchemeLoop raw [] raw"

definition validOptionalPort :: "string \<Rightarrow> bool" where
  "validOptionalPort p =
     (case p of [] \<Rightarrow> True | c # cs \<Rightarrow> c = CHR '':'' \<and> list_all isDigit cs)"

definition validUserinfo :: "string \<Rightarrow> bool" where
  "validUserinfo s =
     list_all (\<lambda>c. isAlnum c \<or> c \<in> set (CHR 0x27 # ''-._:~!$&()*+,;=%@'')) s"

text \<open>The part of a bracketed host before and from its first \<open>%25\<close> (RFC 6874).\<close>

fun findZone :: "string \<Rightarrow> (string \<times> string) option" where
  "findZone [] = None"
| "findZone (c # s) =
     (if HasPrefix (c # s) ''%25'' then Some ([], c # s)
      else map_option (\<lambda>(a, b). (c # a, b)) (findZone s))"

definition parseHost :: "string \<Rightarrow> string + string" where
  "parseHost host =
     (if HasPrefix host ''['' then
        (case CutLast (CHR '']'') host of
           None \<Rightarrow> Inl (''missing '' @ [CHR 0x27, CHR '']'', CHR 0x27] @ '' in host'')
         | Some (front, colonPort) \<Rightarrow>
             if \<not> validOptionalPort colonPort
             then Inl (''invalid port '' @ Quote colonPort @ '' after host'')
             else (case findZone front of
                 Some (h1, z) \<Rightarrow>
                   (case unescape EncHost h1 of Inl e \<Rightarrow> Inl e | Inr host1 \<Rightarrow>
                    (case unescape EncZone z of Inl e \<Rightarrow> Inl e | Inr host2 \<Rightarrow>
                     (case unescape EncHost (CHR '']'' # colonPort) of Inl e \<Rightarrow> Inl e
                      | Inr host3 \<Rightarrow> Inr (host1 @ host2 @ host3))))
               | None \<Rightarrow> unescape EncHost host))
      else case CutLast (CHR '':'') host of
          Some (h, p) \<Rightarrow>
            if \<not> validOptionalPort (CHR '':'' # p)
            then Inl (''invalid port '' @ Quote (CHR '':'' # p) @ '' after host'')
            else unescape EncHost host
        | None \<Rightarrow> unescape EncHost host)"

definition parseAuthority :: "string \<Rightarrow> string + (userinfo option \<times> string)" where
  "parseAuthority authority =
     (let (ui, h) = (case CutLast (CHR ''@'') authority of
                       None \<Rightarrow> (None, authority) | Some (u, h) \<Rightarrow> (Some u, h))
      in case parseHost h of
           Inl e \<Rightarrow> Inl e
         | Inr host \<Rightarrow>
             (case ui of
                None \<Rightarrow> Inr (None, host)
              | Some u \<Rightarrow>
                  if \<not> validUserinfo u then Inl ''net/url: invalid userinfo''
                  else (case Cut (CHR '':'') u of
                      None \<Rightarrow>
                        (case unescape EncUserPassword u of Inl e \<Rightarrow> Inl e
                         | Inr name \<Rightarrow>
                             Inr (Some \<lparr>ui_username = name, ui_password = None\<rparr>, host))
                    | Some (n, p) \<Rightarrow>
                        (case unescape EncUserPassword n of Inl e \<Rightarrow> Inl e
                         | Inr name \<Rightarrow>
                             (case unescape EncUserPassword p of Inl e \<Rightarrow> Inl e
                              | Inr pw \<Rightarrow>
                                  Inr (Some \<lparr>ui_username = name, ui_password = Some pw\<rparr>, host))))))"

definition setPath :: "string \<Rightarrow> URL \<Rightarrow> string + URL" where
  "setPath p u =
     (case unescape EncPath p of
        Inl e \<Rightarrow> Inl e
      | Inr path \<Rightarrow>
          Inr (u\<lparr>u_Path := path, u_RawPath := (if p = escape path EncPath then [] else p)\<rparr>))"

definition setFragment :: "string \<Rightarrow> URL \<Rightarrow> string + URL" where
  "setFragment f u =
     (case unescape EncFragment f of
        Inl e \<Rightarrow> Inl e
      | Inr frag \<Rightarrow>
          Inr (u\<lparr>u_Fragment := frag,
                 u_RawFragment := (if f = escape frag EncFragment then [] else f)\<rparr>))"

text \<open>The query part: \<open>(ForceQuery, RawQuery, rest)\<close>.\<close>

definition cutQuery :: "string \<Rightarrow> bool \<times> string \<times> string" where
  "cutQuery rest =
     (case Cut (CHR ''?'') rest of
        None \<Rightarrow> (False, [], rest)
      | Some (a, q) \<Rightarrow> (q = [], q, a))"

text \<open>\<open>url.parse(rawURL, false)\<close>.\<close>

definition parseRest :: "URL \<Rightarrow> string \<Rightarrow> string + URL" where
  "parseRest u rest =
     (if \<not> HasPrefix rest ''/'' \<and> u_Scheme u \<noteq> [] then Inr (u\<lparr>u_Opaque := rest\<rparr>)
      else if \<not> HasPrefix rest ''/'' \<and>
              CHR '':'' \<in> set (case Cut (CHR ''/'') rest of None \<Rightarrow> rest | Some (a, _) \<Rightarrow> a)
      then Inl ''first path segment in URL cannot contain colon''
      else if (u_Scheme u \<noteq> [] \<or> \<not> HasPrefix rest ''///'') \<and> HasPrefix rest ''//'' then
        (let (authority, path) =
               (case Cut (CHR ''/'') (drop 2 rest) of
                  None \<Rightarrow> (drop 2 rest, []) | Some (a, b) \<Rightarrow> (a, CHR ''/'' # b))
         in case parseAuthority authority of
              Inl e \<Rightarrow> Inl e
            | Inr (user, host) \<Rightarrow> setPath path (u\<lparr>u_User := user, u_Host := host\<rparr>))
      else if u_Scheme u \<noteq> [] \<and> HasPrefix rest ''/''
      then setPath rest (u\<lparr>u_OmitHost := True\<rparr>)
      else setPath rest u)"

definition parseURL :: "string \<Rightarrow> string + URL" where
  "parseURL rawURL =
     (if list_ex CTLByte rawURL then Inl ''net/url: invalid control character in URL''
      else if rawURL = ''*'' then Inr (emptyURL\<lparr>u_Path := ''*''\<rparr>)
      else case getScheme rawURL of
          Inl e \<Rightarrow> Inl e
        | Inr (scheme, rest) \<Rightarrow>
            (let (force, query, rest') = cutQuery rest
             in parseRest (emptyURL\<lparr>u_Scheme := ToLower scheme, u_ForceQuery := force,
                                    u_RawQuery := query\<rparr>) rest'))"

text \<open>The text of a \<open>*url.Error\<close>: it repeats the URL that did not parse.\<close>

definition urlError :: "string \<Rightarrow> string \<Rightarrow> string" where
  "urlError u e = ''parse '' @ Quote u @ '': '' @ e"

definition Parse :: "string \<Rightarrow> string + URL" where
  "Parse rawURL =
     (let (u, frag) = (case Cut (CHR ''#'') rawURL of None \<Rightarrow> (rawURL, []) | Some p \<Rightarrow> p)
      in case parseURL u of
           Inl e \<Rightarrow> Inl (urlError u e)
         | Inr url \<Rightarrow>
             if frag = [] then Inr url
             else (case setFragment frag url of
                 Inl e \<Rightarrow> Inl (urlError rawURL e)
               | Inr url' \<Rightarrow> Inr url'))"

section \<open>Reading a URL back\<close>

definition splitURLPort :: "string \<Rightarrow> string" where
  "splitURLPort host =
     (case CutLast (CHR '':'') host of
        None \<Rightarrow> [] | Some (_, p) \<Rightarrow> if validOptionalPort (CHR '':'' # p) then p else [])"

definition Port :: "URL \<Rightarrow> string" where
  "Port u = splitURLPort (u_Host u)"

definition UserString :: "userinfo \<Rightarrow> string" where
  "UserString ui =
     escape (ui_username ui) EncUserPassword @
     (case ui_password ui of None \<Rightarrow> [] | Some p \<Rightarrow> CHR '':'' # escape p EncUserPassword)"

text \<open>\<open>validEncoded\<close>: whether a raw path or fragment may be printed as it is.\<close>

definition validEncoded :: "string \<Rightarrow> encoding \<Rightarrow> bool" where
  "validEncoded s mode =
     list_all (\<lambda>c. c \<in> set (CHR 0x27 # ''!$&()*+,;=:@'') \<or> c \<in> set ''[]'' \<or> c = CHR ''%'' \<or>
                   \<not> shouldEscape c mode) s"

definition EscapedPath :: "URL \<Rightarrow> string" where
  "EscapedPath u =
     (if u_RawPath u \<noteq> [] \<and> validEncoded (u_RawPath u) EncPath \<and>
         unescape EncPath (u_RawPath u) = Inr (u_Path u) then u_RawPath u
      else if u_Path u = ''*'' then ''*''
      else escape (u_Path u) EncPath)"

definition EscapedFragment :: "URL \<Rightarrow> string" where
  "EscapedFragment u =
     (if u_RawFragment u \<noteq> [] \<and> validEncoded (u_RawFragment u) EncFragment \<and>
         unescape EncFragment (u_RawFragment u) = Inr (u_Fragment u) then u_RawFragment u
      else escape (u_Fragment u) EncFragment)"

definition authorityString :: "URL \<Rightarrow> string" where
  "authorityString u =
     (if u_Scheme u \<noteq> [] \<or> u_Host u \<noteq> [] \<or> u_User u \<noteq> None then
        (if u_OmitHost u \<and> u_Host u = [] \<and> u_User u = None then []
         else (if u_Host u \<noteq> [] \<or> u_Path u \<noteq> [] \<or> u_User u \<noteq> None then ''//'' else []) @
              (case u_User u of None \<Rightarrow> [] | Some ui \<Rightarrow> UserString ui @ ''@'') @
              escape (u_Host u) EncHost)
      else [])"

definition URLString :: "URL \<Rightarrow> string" where
  "URLString u =
     (let start = (if u_Scheme u \<noteq> [] then u_Scheme u @ '':'' else []);
          body =
            (if u_Opaque u \<noteq> [] then start @ u_Opaque u
             else
               let path = EscapedPath u;
                   buf = start @ authorityString u;
                   buf1 = buf @ (if path \<noteq> [] \<and> hd path \<noteq> CHR ''/'' \<and> u_Host u \<noteq> []
                                 then ''/'' else []);
                   seg = (case Cut (CHR ''/'') path of None \<Rightarrow> path | Some (a, _) \<Rightarrow> a);
                   buf2 = buf1 @ (if buf1 = [] \<and> CHR '':'' \<in> set seg then ''./'' else [])
               in buf2 @ path)
      in body @
         (if u_ForceQuery u \<or> u_RawQuery u \<noteq> [] then CHR ''?'' # u_RawQuery u else []) @
         (if u_Fragment u \<noteq> [] then CHR ''#'' # EscapedFragment u else []))"

end
