(* ===== verification/Egress.thy ===== *)
theory Egress
  imports GoNet GoUrl
begin

text \<open>
  The network policy's egress computation of \<open>controllers/new.go\<close>: which ports the operand must
  reach (\<open>egressPorts\<close>), whether the registry bypasses the cluster proxy (\<open>noProxy\<close>), the port
  of a URL with its redacted form (\<open>portFromURL\<close>) and the namespace of an in-cluster registry
  (\<open>namespaceFromInternalHost\<close>). The process environment is a function from names to values,
  with the empty string for a variable that is not set, as \<open>os.Getenv\<close> has it.
\<close>

type_synonym environ = "string \<Rightarrow> string"

section \<open>Definitions\<close>

definition redactUser :: "URL \<Rightarrow> URL" where
  "redactUser u =
     (if u_User u \<noteq> None
      then u\<lparr>u_User := Some \<lparr>ui_username = ''xxx'', ui_password = Some ''xxx''\<rparr>\<rparr> else u)"

text \<open>The port, the redacted URL, and the error's text when there is one.\<close>

definition portFromURL :: "string \<Rightarrow> int32 \<times> string \<times> string option" where
  "portFromURL rawURL =
     (case Parse rawURL of
        Inl err \<Rightarrow> (0, ''url is redacted'', Some (''failed to parse URL: '' @ err))
      | Inr u0 \<Rightarrow>
          (let u = redactUser u0; p = Port u in
           if p \<noteq> [] then
             (case ParseInt10_32 p of
                None \<Rightarrow> (0, URLString u, Some (''invalid port '' @ Quote p @ '' in URL''))
              | Some n \<Rightarrow>
                  if n < 1 \<or> n > 65535
                  then (0, URLString u, Some (''invalid port '' @ Quote p @ '' in URL''))
                  else (word_of_int n, URLString u, None))
           else if u_Scheme u = ''http'' then (80, URLString u, None)
           else if u_Scheme u = ''https'' then (443, URLString u, None)
           else (0, URLString u, Some (''invalid URL scheme '' @ Quote (u_Scheme u)))))"

definition namespaceFromInternalHost :: "string \<Rightarrow> string" where
  "namespaceFromInternalHost host =
     (let h = (case SplitHostPort host of None \<Rightarrow> host | Some (h, _) \<Rightarrow> h);
          (prefix1, found1) = CutSuffix h ''.svc.cluster.local'';
          (prefix, found) = (if found1 then (prefix1, True) else CutSuffix h ''.svc'')
      in if \<not> found then []
         else let parts = Split (CHR ''.'') prefix in
           if length parts < 2 then [] else last parts)"

definition noProxyEntry :: "string \<Rightarrow> string \<Rightarrow> bool" where
  "noProxyEntry registry s =
     (let trimmed = TrimSpace s in
      trimmed = ''*'' \<or>
      trimmed = registry \<or>
      (HasPrefix trimmed ''.'' \<and> HasSuffix registry trimmed) \<or>
      (case ParseIP registry of
         None \<Rightarrow> False
       | Some ip \<Rightarrow>
           (case ParseCIDR trimmed of
              None \<Rightarrow> False | Some (_, ipNet) \<Rightarrow> NetContains ipNet ip)))"

definition noProxy :: "environ \<Rightarrow> string \<Rightarrow> bool" where
  "noProxy getenv registry =
     (let noProxyEnv = getenv ''NO_PROXY'';
          registry' = (case Cut (CHR '':'') registry of None \<Rightarrow> registry | Some (a, _) \<Rightarrow> a)
      in noProxyEnv \<noteq> [] \<and> list_ex (noProxyEntry registry') (Split (CHR '','') noProxyEnv))"

text \<open>
  The closure \<open>add\<close>. Its map \<open>seen\<close> holds exactly the ports already listed, so the list alone
  is the state.
\<close>

definition addPort :: "string \<Rightarrow> bool \<Rightarrow> int32 list \<Rightarrow> int32 list" where
  "addPort url addDefaultOnErr ports =
     (let (p0, redacted, err) = portFromURL url in
      if err \<noteq> None \<and> \<not> addDefaultOnErr then ports
      else let p = (if err \<noteq> None then 443 else p0) in
        if p \<in> set ports then ports else ports @ [p])"

definition registryOf :: "string \<Rightarrow> string" where
  "registryOf releases = hd (SplitN (CHR ''/'') releases 2)"

definition egressPorts :: "environ \<Rightarrow> string \<Rightarrow> int32 list" where
  "egressPorts getenv releases =
     (let registry = registryOf releases;
          registryNoProxy = noProxy getenv registry;
          ports =
            (if namespaceFromInternalHost registry = [] \<and> \<not> registryNoProxy
             then fold (\<lambda>env ports. let v = getenv env in
                           if v \<noteq> [] then addPort v False ports else ports)
                    [''HTTP_PROXY'', ''HTTPS_PROXY''] []
             else [])
      in if ports = [] then addPort (''https://'' @ registry) True ports else ports)"

section \<open>Lemmas\<close>

definition portInRange :: "int32 \<Rightarrow> bool" where
  "portInRange p \<longleftrightarrow> 1 \<le> sint p \<and> sint p \<le> 65535"

lemma sint_port: "1 \<le> n \<Longrightarrow> n \<le> 65535 \<Longrightarrow> sint (word_of_int n :: int32) = n"
  by (simp add: int_word_sint)

lemma portInRange_consts: "portInRange 80" "portInRange 443"
  by (simp_all add: portInRange_def)

lemma portFromURL_range:
  "portFromURL url = (p, r, None) \<Longrightarrow> portInRange p"
  by (auto simp: portFromURL_def Let_def portInRange_consts portInRange_def sint_port
      split: sum.splits option.splits if_splits)

lemma addPort_range:
  "list_all portInRange ports \<Longrightarrow> list_all portInRange (addPort url d ports)"
  by (cases "portFromURL url")
    (auto simp: addPort_def Let_def portInRange_consts list_all_iff
      dest: portFromURL_range split: prod.splits)

lemma addPort_distinct: "distinct ports \<Longrightarrow> distinct (addPort url d ports)"
  by (cases "portFromURL url") (auto simp: addPort_def Let_def)

lemma addPort_default_not_Nil: "addPort url True ports \<noteq> []"
  by (cases "portFromURL url") (auto simp: addPort_def Let_def)

lemma egressPorts_ok:
  "egressPorts getenv releases \<noteq> [] \<and> distinct (egressPorts getenv releases) \<and>
   list_all portInRange (egressPorts getenv releases)"
  by (auto simp: egressPorts_def Let_def addPort_default_not_Nil
      intro!: addPort_distinct addPort_range)

section \<open>The proxy bypass and address blocks\<close>

lemma solid_digit: "isDigit c \<Longrightarrow> solidByte c"
  by (auto simp: isDigit_def solidByte_def)

lemma decDigits_bytes: "c \<in> set (decDigits n) \<Longrightarrow> isDigit c"
  using decDigits_digits [of n] by (simp add: list_all_iff)

lemma hd_decDigits: "isDigit (hd (decDigits n))"
  by (rule decDigits_bytes [of _ n]) simp

lemma last_decDigits: "isDigit (last (decDigits n))"
  by (rule decDigits_bytes [of _ n]) simp

lemma set_joinWith: "set (joinWith c ps) \<subseteq> insert c (\<Union> (set ` set ps))"
  by (induction c ps rule: joinWith.induct) auto

lemma dotted_bytes: "c \<in> set (dotted q) \<Longrightarrow> isDigit c \<or> c = CHR ''.''"
  using set_joinWith [of "CHR ''.''" "map (\<lambda>b. decDigits (unat b)) q"]
  by (auto simp: dotted_def dest: decDigits_bytes)

lemma dotted_no_slash: "CHR ''/'' \<notin> set (dotted q)"
  using dotted_bytes [of "CHR ''/''" q] by (auto simp: isDigit_def)

lemma hd_dotted: "length q = 4 \<Longrightarrow> dotted q \<noteq> [] \<and> isDigit (hd (dotted q))"
  using hd_decDigits by (auto simp: dotted_def numeral_eq_Suc length_Suc_conv)

lemma find_family_dotted:
  assumes "length q = 4"
  shows "find (\<lambda>c. c \<in> {CHR ''.'', CHR '':'', CHR ''%''}) (dotted q) = Some (CHR ''.'')"
proof -
  have "CHR ''.'' \<in> set (dotted q)"
    using assms by (auto simp: dotted_def numeral_eq_Suc length_Suc_conv)
  then obtain c where c: "find (\<lambda>c. c \<in> {CHR ''.'', CHR '':'', CHR ''%''}) (dotted q) = Some c"
    by (cases "find (\<lambda>c. c \<in> {CHR ''.'', CHR '':'', CHR ''%''}) (dotted q)")
      (auto simp: find_None_iff)
  then have "c \<in> set (dotted q)" "c \<in> {CHR ''.'', CHR '':'', CHR ''%''}"
    by (auto simp: find_Some_iff in_set_conv_nth)
  then have "c = CHR ''.''" using dotted_bytes [of c q] by (auto simp: isDigit_def)
  with c show ?thesis by simp
qed

lemma ParseAddr_dotted: "length q = 4 \<Longrightarrow> ParseAddr (dotted q) = Some (Addr4 q)"
  by (simp add: ParseAddr_def find_family_dotted parseIPv4_dotted del: set_simps insert_iff)

lemma ParseIP_dotted: "length q = 4 \<Longrightarrow> ParseIP (dotted q) = Some (v4InV6Prefix @ q)"
  by (simp add: ParseIP_def ParseAddr_dotted)

lemma dtoi_decDigits: "n < 16777215 \<Longrightarrow> dtoi (decDigits n) = Some n"
  by (simp add: dtoi_def decDigits_digits)

lemma ParseCIDR_dotted:
  assumes "length q = 4" and "n \<le> 32"
  shows "ParseCIDR (dotted q @ CHR ''/'' # decDigits n) =
    Some (v4InV6Prefix @ q, \<lparr>net_IP = map2 (AND) q (maskBytes 4 n), net_Mask = maskBytes 4 n\<rparr>)"
proof -
  have "maskIP (v4InV6Prefix @ q) (CIDRMask n 32) = map2 (AND) q (maskBytes 4 n)"
    using assms(1) by (simp add: maskIP_def CIDRMask_def v4InV6Prefix_def)
  then show ?thesis
    using assms by (simp add: ParseCIDR_def dotted_no_slash ParseAddr_dotted dtoi_decDigits
        CIDRMask_def Let_def)
qed

lemma list_all_masked:
  "length xs = length ys \<Longrightarrow> length ys = length ks \<Longrightarrow>
     list_all (\<lambda>(a, b, k). a AND k = b AND k) (zip (map2 (AND) xs ks) (zip ys ks)) \<longleftrightarrow>
     list_all (\<lambda>(a, b, k). a AND k = b AND (k :: octet)) (zip xs (zip ys ks))"
  by (induction xs ys ks rule: list_induct3) (auto simp: and.assoc)

lemma NetContains_v4:
  assumes "length q = 4" and "length r = 4" and "n \<le> 32"
  shows "NetContains \<lparr>net_IP = map2 (AND) q (maskBytes 4 n), net_Mask = maskBytes 4 n\<rparr>
           (v4InV6Prefix @ r) \<longleftrightarrow> (\<forall>i < n. ipBit q i = ipBit r i)"
proof -
  have "To4 (v4InV6Prefix @ r) = Some r" using To4_As16 [OF assms(2)] by simp
  then show ?thesis
    using assms maskBytes_eq [of q 4 r n]
    by (simp add: NetContains_def networkNumberAndMask_def To4_def list_all_masked Let_def)
qed

lemma noProxyEntry_dotted:
  assumes "length q = 4" and "length r = 4" and "n \<le> 32"
  shows "noProxyEntry (dotted r) (dotted q @ CHR ''/'' # decDigits n) \<longleftrightarrow>
           (\<forall>i < n. ipBit q i = ipBit r i)"
proof -
  let ?s = "dotted q @ CHR ''/'' # decDigits n"
  have hd: "isDigit (hd ?s)" using hd_dotted [OF assms(1)] by (cases "dotted q") auto
  then have trim: "TrimSpace ?s = ?s"
    using last_decDigits [of n] by (intro TrimSpace_solid) (auto intro!: solid_digit)
  have np: "\<not> HasPrefix ?s ''.''"
    using hd by (cases ?s) (auto simp: isDigit_def)
  define s where "s = ?s"
  have "CHR ''/'' \<in> set s" by (simp add: s_def)
  then have ne: "s \<noteq> dotted r" "s \<noteq> ''*''" using dotted_no_slash [of r] by auto
  have "noProxyEntry (dotted r) s \<longleftrightarrow> (\<forall>i < n. ipBit q i = ipBit r i)"
    using ne np trim ParseCIDR_dotted [OF assms(1,3)] NetContains_v4 [OF assms]
    by (simp add: noProxyEntry_def ParseIP_dotted [OF assms(2)] flip: s_def)
  then show ?thesis by (simp add: s_def)
qed

section \<open>URLs of plain registries\<close>

definition hostChar :: "char \<Rightarrow> bool" where
  "hostChar c \<longleftrightarrow> isAlnum c \<or> c = CHR ''.'' \<or> c = CHR ''-''"

definition authorityChar :: "char \<Rightarrow> bool" where
  "authorityChar c \<longleftrightarrow> hostChar c \<or> c = CHR '':''"

lemma authorityChar_absent:
  "list_all authorityChar a \<Longrightarrow> \<not> authorityChar c \<Longrightarrow> c \<notin> set a"
  by (auto simp: list_all_iff)

lemma not_authorityChar:
  "\<not> authorityChar (CHR ''/'')" "\<not> authorityChar (CHR ''#'')" "\<not> authorityChar (CHR ''?'')"
  "\<not> authorityChar (CHR ''@'')" "\<not> authorityChar (CHR ''['')" "\<not> authorityChar (CHR ''%'')"
  by (simp_all add: authorityChar_def hostChar_def isAlnum_def isLower_def isUpper_def isDigit_def)

lemma authorityChar_plain:
  "authorityChar c \<Longrightarrow> \<not> CTLByte c \<and> \<not> shouldEscape c EncHost"
  by (auto simp: authorityChar_def hostChar_def shouldEscape_def CTLByte_def isAlnum_def
      isLower_def isUpper_def isDigit_def)

lemma unescape_host: "list_all authorityChar a \<Longrightarrow> unescape EncHost a = Inr a"
proof (induction a)
  case (Cons c a)
  have "c \<noteq> CHR ''%''" using Cons.prems not_authorityChar by auto
  moreover have "\<not> shouldEscape c EncHost" using Cons.prems authorityChar_plain by simp
  ultimately show ?case using Cons by simp
qed simp

lemma parseHost_plain:
  assumes "list_all authorityChar a"
    and "\<And>h p. CutLast (CHR '':'') a = Some (h, p) \<Longrightarrow> list_all isDigit p"
  shows "parseHost a = Inr a"
proof -
  have "\<not> HasPrefix a ''[''"
    using assms(1) not_authorityChar by (cases a) auto
  then show ?thesis
    using assms by (auto simp: parseHost_def unescape_host validOptionalPort_def split: option.split)
qed

lemma Parse_https:
  assumes "list_all authorityChar a"
    and "\<And>h p. CutLast (CHR '':'') a = Some (h, p) \<Longrightarrow> list_all isDigit p"
  shows "Parse (''https://'' @ a) = Inr (emptyURL\<lparr>u_Scheme := ''https'', u_Host := a\<rparr>)"
proof -
  note absent = authorityChar_absent [OF assms(1)] not_authorityChar
  have ctl: "\<not> list_ex CTLByte a"
    using assms(1) authorityChar_plain by (auto simp: list_all_iff list_ex_iff)
  have sch: "getScheme (''https://'' @ a) = Inr (''https'', ''//'' @ a)"
    by (simp add: getScheme_def isLower_def isDigit_def isUpper_def)
  have query: "cutQuery (''//'' @ a) = (False, [], ''//'' @ a)"
    using absent by (simp add: cutQuery_def)
  have auth: "parseAuthority a = Inr (None, a)"
    using absent parseHost_plain [OF assms] by (simp add: parseAuthority_def)
  have rest: "parseRest (emptyURL\<lparr>u_Scheme := ''https''\<rparr>) (''//'' @ a) =
      Inr (emptyURL\<lparr>u_Scheme := ''https'', u_Host := a\<rparr>)"
    using absent by (simp add: parseRest_def auth setPath_def escape_def emptyURL_def)
  have low: "ToLower ''https'' = ''https''" by code_simp
  have raw: "parseURL (''https://'' @ a) = Inr (emptyURL\<lparr>u_Scheme := ''https'', u_Host := a\<rparr>)"
    using ctl sch query rest low
    by (simp add: parseURL_def CTLByte_def) (simp add: emptyURL_def)
  have "Cut (CHR ''#'') (''https://'' @ a) = None"
    using absent by (simp add: Cut_None_iff)
  then show ?thesis using raw by (simp add: Parse_def)
qed

lemma portFromURL_host:
  assumes "list_all hostChar h"
  shows "\<exists>r. portFromURL (''https://'' @ h) = (443, r, None)"
proof -
  have a: "list_all authorityChar h" and nc: "CHR '':'' \<notin> set h"
    using assms by (auto simp: list_all_iff authorityChar_def hostChar_def isAlnum_def
        isLower_def isUpper_def isDigit_def)
  have "Parse (''https://'' @ h) = Inr (emptyURL\<lparr>u_Scheme := ''https'', u_Host := h\<rparr>)"
    using a nc by (intro Parse_https) auto
  then show ?thesis
    using nc by (simp add: portFromURL_def redactUser_def Port_def splitURLPort_def emptyURL_def)
qed

lemma portFromURL_host_port:
  assumes "list_all hostChar h" and "1 \<le> n" and "n \<le> 65535"
  shows "\<exists>r. portFromURL (''https://'' @ h @ CHR '':'' # decDigits n) = (word_of_int (int n), r, None)"
proof -
  let ?a = "h @ CHR '':'' # decDigits n"
  have nc: "CHR '':'' \<notin> set (decDigits n)"
    using decDigits_bytes [of "CHR '':''" n] by (auto simp: isDigit_def)
  have a: "list_all authorityChar ?a"
    using assms(1) decDigits_bytes [of _ n]
    by (auto simp: list_all_iff authorityChar_def hostChar_def isAlnum_def)
  have "Parse (''https://'' @ ?a) = Inr (emptyURL\<lparr>u_Scheme := ''https'', u_Host := ?a\<rparr>)"
    using a nc decDigits_digits by (intro Parse_https) auto
  moreover have "ParseInt10_32 (decDigits n) = Some (int n)"
    using assms(3) by (intro ParseInt_decDigits) simp
  ultimately show ?thesis
    using assms nc decDigits_digits [of n]
    by (simp add: portFromURL_def redactUser_def Port_def splitURLPort_def emptyURL_def
        validOptionalPort_def Let_def)
qed

section \<open>What egressPorts computes\<close>

text \<open>The ports of the proxies that are set and whose URL has a port, HTTP first.\<close>

definition proxyPorts :: "environ \<Rightarrow> int32 list" where
  "proxyPorts getenv =
     concat (map (\<lambda>env. let v = getenv env in
        case portFromURL v of (p, _, err) \<Rightarrow> if v \<noteq> [] \<and> err = None then [p] else [])
      [''HTTP_PROXY'', ''HTTPS_PROXY''])"

definition registryPort :: "string \<Rightarrow> int32" where
  "registryPort registry =
     (case portFromURL (''https://'' @ registry) of (p, _, err) \<Rightarrow> if err = None then p else 443)"

lemma addPort_Nil_default: "addPort (''https://'' @ registry) True [] = [registryPort registry]"
  by (cases "portFromURL (''https://'' @ registry)") (auto simp: addPort_def registryPort_def)

lemmas addPort_default = addPort_Nil_default addPort_Nil_default [simplified]

lemma egressPorts_direct:
  "namespaceFromInternalHost (registryOf releases) \<noteq> [] \<or> noProxy getenv (registryOf releases) \<Longrightarrow>
     egressPorts getenv releases = [registryPort (registryOf releases)]"
  by (auto simp: egressPorts_def Let_def addPort_default)

lemma egressPorts_proxied:
  "namespaceFromInternalHost (registryOf releases) = [] \<Longrightarrow> \<not> noProxy getenv (registryOf releases) \<Longrightarrow>
     egressPorts getenv releases =
       (if proxyPorts getenv = [] then [registryPort (registryOf releases)]
        else rev (remdups (rev (proxyPorts getenv))))"
  by (cases "portFromURL (getenv ''HTTP_PROXY'')"; cases "portFromURL (getenv ''HTTPS_PROXY'')")
    (auto simp: egressPorts_def Let_def addPort_default proxyPorts_def,
      auto simp: addPort_def)

lemma registryOf_append: "CHR ''/'' \<notin> set reg \<Longrightarrow> registryOf (reg @ CHR ''/'' # repo) = reg"
  by (simp add: registryOf_def SplitN_2)

section \<open>Properties\<close>

text \<open>
  C27: whatever the environment and the \<open>releases\<close> setting hold, the egress rule of the network
  policy lists at least one port, no port twice, and only ports from 1 to 65535.
\<close>

theorem egress_ports_valid:
  "egressPorts getenv releases \<noteq> [] \<and> distinct (egressPorts getenv releases) \<and>
   (\<forall>p \<in> set (egressPorts getenv releases). 1 \<le> sint p \<and> sint p \<le> 65535)"
  using egressPorts_ok [of getenv releases] by (auto simp: list_all_iff portInRange_def)

theorem egress_ports_valid_witness:
  "egressPorts (\<lambda>k. if k = ''HTTP_PROXY'' then ''http://a.b:0'' else []) ''quay.io/x'' \<noteq> []"
  using egress_ports_valid [of "\<lambda>k. if k = ''HTTP_PROXY'' then ''http://a.b:0'' else []" "''quay.io/x''"]
  by blast

text \<open>
  C28: the egress ports are the registry's own port alone when the registry is inside the cluster,
  is exempted by \<open>NO_PROXY\<close>, or no proxy URL has a usable port; otherwise they are the proxies'
  ports alone, each once, in the order HTTP, HTTPS.
\<close>

theorem egress_ports_equation:
  "egressPorts getenv releases =
     (if namespaceFromInternalHost (registryOf releases) = [] \<and>
         \<not> noProxy getenv (registryOf releases) \<and> proxyPorts getenv \<noteq> []
      then rev (remdups (rev (proxyPorts getenv)))
      else [registryPort (registryOf releases)])"
proof (cases "namespaceFromInternalHost (registryOf releases) = [] \<and>
    \<not> noProxy getenv (registryOf releases)")
  case True
  then show ?thesis by (simp add: egressPorts_proxied)
next
  case False
  then show ?thesis by (auto simp: egressPorts_direct)
qed

text \<open>
  C37: for a registry written as a host name with a decimal port, the port opened towards it is
  that port; for a bare host name it is 443.
\<close>

theorem registry_port_roundtrip:
  assumes "list_all hostChar h" and "1 \<le> n" and "n \<le> 65535"
  shows "registryPort (h @ CHR '':'' # decDigits n) = of_nat n \<and> registryPort h = 443"
  using portFromURL_host_port [OF assms] portFromURL_host [OF assms(1)]
  by (auto simp: registryPort_def)

theorem registry_port_roundtrip_witness:
  "registryPort (''registry.example.com'' @ CHR '':'' # decDigits 5000) = of_nat 5000"
proof -
  have "list_all hostChar ''registry.example.com''" by code_simp
  from registry_port_roundtrip [OF this, of 5000] show ?thesis by simp
qed

text \<open>
  A registry host \<open>svc.ns.svc\<close> or \<open>svc.ns.svc.cluster.local\<close>, with or without a port, is
  recognised as in-cluster in the namespace \<open>ns\<close>, and then the proxy settings have no influence
  on the egress ports.
\<close>

theorem internal_host_namespace:
  assumes "set (svc @ ns @ port) \<inter> {CHR '':'', CHR ''['', CHR '']''} = {}"
    and "CHR ''.'' \<notin> set ns" and "ns \<noteq> []"
    and "suffix = ''.svc'' \<or> suffix = ''.svc.cluster.local''"
    and "host = svc @ ''.'' @ ns @ suffix \<or> host = svc @ ''.'' @ ns @ suffix @ '':'' @ port"
    and "CHR ''/'' \<notin> set host"
  shows "namespaceFromInternalHost host = ns \<and>
         egressPorts getenv (host @ ''/'' @ repo) = [registryPort host]"
proof -
  let ?h = "svc @ ''.'' @ ns @ suffix"
  have plain: "set ?h \<inter> {CHR '':'', CHR ''['', CHR '']''} = {}"
    using assms(1,4) by auto
  have h: "(case SplitHostPort host of None \<Rightarrow> host | Some (h, _) \<Rightarrow> h) = ?h"
    using assms(5)
  proof
    assume "host = svc @ ''.'' @ ns @ suffix @ '':'' @ port"
    then show ?thesis using SplitHostPort_plain [OF plain, of port] assms(1) by auto
  qed (use plain in auto)
  have cut: "(case CutSuffix ?h ''.svc.cluster.local'' of (p, f) \<Rightarrow>
      if f then (p, True) else CutSuffix ?h ''.svc'') = (svc @ ''.'' @ ns, True)"
    using assms(4) CutSuffix_append [of "svc @ ''.'' @ ns" suffix]
    by (auto simp: CutSuffix_def HasSuffix_def)
  have "Split (CHR ''.'') (svc @ ''.'' @ ns) = Split (CHR ''.'') svc @ [ns]"
    using Split_snoc [OF assms(2), of svc] by simp
  then have ns: "namespaceFromInternalHost host = ns"
    using h cut by (simp add: namespaceFromInternalHost_def Let_def split: prod.splits)
      (auto split: if_splits)
  moreover have "registryOf (host @ ''/'' @ repo) = host"
    using registryOf_append [OF assms(6)] by simp
  ultimately show ?thesis
    using egressPorts_direct [of "host @ ''/'' @ repo" getenv] assms(3) by simp
qed

theorem internal_host_namespace_witness:
  "namespaceFromInternalHost ''image-registry.openshift-image-registry.svc:5000'' =
     ''openshift-image-registry''"
  using internal_host_namespace [of "''image-registry''" "''openshift-image-registry''" "''5000''"
      "''.svc''" "''image-registry.openshift-image-registry.svc:5000''" "\<lambda>_. []" "[]"]
  by simp





definition quotedAsIs :: "char \<Rightarrow> bool" where
  "quotedAsIs c \<longleftrightarrow> 32 \<le> byte c \<and> byte c < 127 \<and> c \<noteq> CHR 0x22 \<and> c \<noteq> CHR 0x5C"

lemma Quote_as_is: "list_all quotedAsIs s \<Longrightarrow> Quote s = [CHR 0x22] @ s @ [CHR 0x22]"
proof -
  assume "list_all quotedAsIs s"
  then have "concat (map quoteByte s) = s"
    by (induction s) (auto simp: quotedAsIs_def quoteByte_def)
  then show ?thesis by (simp add: Quote_def)
qed

text \<open>
  A proxy URL that does not parse is repeated in the error that \<open>egressPorts\<close> logs, with the
  credentials it holds, although the URL logged beside the error is redacted.
\<close>

theorem unparsable_proxy_url_is_logged:
  assumes "list_all quotedAsIs url" and "CHR ''#'' \<notin> set url" and "Parse url = Inl err"
  shows "\<exists>msg. portFromURL url = (0, ''url is redacted'', Some msg) \<and> Contains msg url"
proof -
  obtain e where "err = urlError url e"
    using assms(2,3) by (auto simp: Parse_def split: sum.splits)
  then have "portFromURL url = (0, ''url is redacted'',
      Some (''failed to parse URL: parse '' @ [CHR 0x22] @ url @ [CHR 0x22] @ '': '' @ e))"
    using assms(3) by (simp add: portFromURL_def urlError_def Quote_as_is [OF assms(1)])
  moreover have "Contains (a @ url @ b) url" for a b
    by (auto simp: Contains_iff)
  then have "Contains (''failed to parse URL: parse '' @ [CHR 0x22] @ url @ [CHR 0x22] @ '': '' @ e) url"
    by (metis append.assoc)
  ultimately show ?thesis by blast
qed

theorem unparsable_proxy_url_is_logged_witness:
  "\<exists>msg. portFromURL ''http://alice:my secret@proxy:3128'' = (0, ''url is redacted'', Some msg) \<and>
         Contains msg ''http://alice:my secret@proxy:3128''"
proof -
  have "list_all quotedAsIs ''http://alice:my secret@proxy:3128''" by code_simp
  moreover have "CHR ''#'' \<notin> set ''http://alice:my secret@proxy:3128''" by simp
  moreover have "Parse ''http://alice:my secret@proxy:3128'' =
      Inl (urlError ''http://alice:my secret@proxy:3128'' ''net/url: invalid userinfo'')"
    by code_simp
  ultimately show ?thesis by (rule unparsable_proxy_url_is_logged)
qed

end
