(* ===== verification/KubeTypes.thy ===== *)
theory KubeTypes
  imports Prelude
begin

text \<open>
  The Kubernetes API objects the operator reads and writes, one record per Go struct. Every field
  that the operator's code reads or sets has its own record field; the remaining fields of a
  struct, which the operator leaves at their zero value in the objects it renders and carries
  along unchanged in the objects it fetched, are one field \<open>..._other\<close>, \<open>[]\<close> being their zero
  value, so that \<open>reflect.DeepEqual\<close> is equality here. A pointer to a struct or scalar is an
  option; a Go map is a \<open>gomap\<close>, whose nil is \<open>None\<close>; a nil slice and an empty one are both
  \<open>[]\<close>.
\<close>

type_synonym other_fields = "(string \<times> string) list"

text \<open>Unix time in seconds.\<close>

type_synonym time = int

datatype int_or_string = FromInt32 int32 | FromString string

section \<open>Metadata\<close>

record owner_ref =
  or_APIVersion :: string
  or_Kind :: string
  or_Name :: string
  or_UID :: string
  or_Controller :: "bool option"
  or_BlockOwnerDeletion :: "bool option"

record object_meta =
  om_Name :: string
  om_Namespace :: string
  om_UID :: string
  om_Labels :: "string gomap"
  om_Annotations :: "string gomap"
  om_OwnerReferences :: "owner_ref list"
  om_other :: other_fields

record label_selector =
  ls_MatchLabels :: "string gomap"
  ls_other :: other_fields

text \<open>A composite literal \<open>metav1.ObjectMeta{Name: ..., Namespace: ...}\<close>, its other fields unset.\<close>

definition newMeta :: "string \<Rightarrow> string \<Rightarrow> object_meta" where
  "newMeta name ns = \<lparr>om_Name = name, om_Namespace = ns, om_UID = [], om_Labels = None,
     om_Annotations = None, om_OwnerReferences = [], om_other = []\<rparr>"

definition matchLabels :: "(string \<times> string) list \<Rightarrow> label_selector" where
  "matchLabels kvs = \<lparr>ls_MatchLabels = mapLit kvs, ls_other = []\<rparr>"

section \<open>ConfigMap, Secret, Service\<close>

record config_map =
  cm_meta :: object_meta
  cm_Data :: "string gomap"
  cm_other :: other_fields

record secret =
  sec_meta :: object_meta
  sec_Data :: "string gomap"
  sec_other :: other_fields

record service_port =
  sp_Name :: string
  sp_Port :: int32
  sp_TargetPort :: int_or_string
  sp_Protocol :: string
  sp_other :: other_fields

record service_spec =
  ss_Type :: string
  ss_Ports :: "service_port list"
  ss_Selector :: "string gomap"
  ss_ClusterIP :: string
  ss_SessionAffinity :: string
  ss_other :: other_fields

record service =
  svc_meta :: object_meta
  svc_Spec :: service_spec
  svc_other :: other_fields

section \<open>PodDisruptionBudget, Route, NetworkPolicy\<close>

record pdb_spec =
  ps_MinAvailable :: "int_or_string option"
  ps_Selector :: "label_selector option"
  ps_other :: other_fields

record pdb =
  pdb_meta :: object_meta
  pdb_Spec :: pdb_spec
  pdb_other :: other_fields

record tls_config =
  tls_Termination :: string
  tls_InsecureEdgeTerminationPolicy :: string
  tls_other :: other_fields

record route_target =
  rt_Kind :: string
  rt_Name :: string
  rt_other :: other_fields

record route_spec =
  rs_Port :: "int_or_string option"
  rs_To :: route_target
  rs_TLS :: "tls_config option"
  rs_other :: other_fields

record ingress_condition =
  ic_Type :: string
  ic_Status :: string

record route_ingress =
  ri_Host :: string
  ri_Conditions :: "ingress_condition list"

record route =
  route_meta :: object_meta
  route_Spec :: route_spec
  route_Ingress :: "route_ingress list"
  route_other :: other_fields

record np_port =
  npp_Protocol :: "string option"
  npp_Port :: "int_or_string option"
  npp_other :: other_fields

record np_peer =
  peer_PodSelector :: "label_selector option"
  peer_NamespaceSelector :: "label_selector option"
  peer_other :: other_fields

record np_ingress_rule =
  ing_From :: "np_peer list"
  ing_Ports :: "np_port list"

record np_egress_rule =
  eg_To :: "np_peer list"
  eg_Ports :: "np_port list"

record np_spec =
  nps_PodSelector :: label_selector
  nps_Ingress :: "np_ingress_rule list"
  nps_Egress :: "np_egress_rule list"
  nps_other :: other_fields

record network_policy =
  np_meta :: object_meta
  np_Spec :: np_spec
  np_other :: other_fields

section \<open>Pods and Deployments\<close>

text \<open>
  \<open>resource.Quantity\<close>: the amount \<open>value * 10^scale\<close> with its format; \<open>qty_cached\<close> is the cached
  text form, the part that makes \<open>DeepEqual\<close> differ on equal amounts.
\<close>

record quantity =
  qty_value :: int
  qty_scale :: int
  qty_Format :: string
  qty_cached :: string

definition quantityEqual :: "quantity \<Rightarrow> quantity \<Rightarrow> bool" where
  "quantityEqual a b =
     (let m = min (qty_scale a) (qty_scale b)
      in qty_value a * 10 ^ nat (qty_scale a - m) = qty_value b * 10 ^ nat (qty_scale b - m))"

definition newQuantity :: "int \<Rightarrow> string \<Rightarrow> quantity" where
  "newQuantity v f = \<lparr>qty_value = v, qty_scale = 0, qty_Format = f, qty_cached = []\<rparr>"

definition newMilliQuantity :: "int \<Rightarrow> string \<Rightarrow> quantity" where
  "newMilliQuantity v f = \<lparr>qty_value = v, qty_scale = - 3, qty_Format = f, qty_cached = []\<rparr>"

lemma quantityEqual_refl [simp]: "quantityEqual q q"
  by (simp add: quantityEqual_def)

datatype env_source = ConfigMapKeyRef (ref_key: string) (ref_name: string) | OtherEnvSource string

record env_var =
  env_Name :: string
  env_Value :: string
  env_ValueFrom :: "env_source option"

record container_port =
  cp_Name :: string
  cp_ContainerPort :: int32
  cp_Protocol :: string
  cp_other :: other_fields

record volume_mount =
  vm_Name :: string
  vm_ReadOnly :: bool
  vm_MountPath :: string
  vm_other :: other_fields

datatype probe_handler = HTTPGet string int_or_string string | OtherHandler string

record probe =
  pr_Handler :: probe_handler
  pr_FailureThreshold :: int32
  pr_SuccessThreshold :: int32
  pr_InitialDelaySeconds :: int32
  pr_PeriodSeconds :: int32
  pr_TimeoutSeconds :: int32
  pr_other :: other_fields

record container =
  c_Name :: string
  c_Image :: string
  c_ImagePullPolicy :: string
  c_Command :: "string list"
  c_Args :: "string list"
  c_Ports :: "container_port list"
  c_Env :: "env_var list"
  c_Limits :: "quantity gomap"
  c_Requests :: "quantity gomap"
  c_VolumeMounts :: "volume_mount list"
  c_LivenessProbe :: "probe option"
  c_ReadinessProbe :: "probe option"
  c_other :: other_fields

text \<open>A container literal with only its name, image and pull policy set.\<close>

definition newContainer :: "string \<Rightarrow> string \<Rightarrow> string \<Rightarrow> container" where
  "newContainer name img policy =
     \<lparr>c_Name = name, c_Image = img, c_ImagePullPolicy = policy, c_Command = [], c_Args = [],
      c_Ports = [], c_Env = [], c_Limits = None, c_Requests = None, c_VolumeMounts = [],
      c_LivenessProbe = None, c_ReadinessProbe = None, c_other = []\<rparr>"

datatype volume_source =
    ConfigMapVolume (vs_ConfigMap: string) "(string \<times> string) list" "int32 option"
  | EmptyDirVolume
  | SecretVolume (vs_Secret: string) "int32 option"
  | OtherVolume string

record volume =
  vol_Name :: string
  vol_Source :: volume_source

record pod_spec =
  pod_Volumes :: "volume list"
  pod_InitContainers :: "container list"
  pod_Containers :: "container list"
  pod_RestartPolicy :: string
  pod_other :: other_fields

record pod_template =
  pt_meta :: object_meta
  pt_Spec :: pod_spec

record deployment_strategy =
  st_Type :: string
  st_MaxUnavailable :: "int_or_string option"
  st_MaxSurge :: "int_or_string option"

record deployment_spec =
  ds_Replicas :: "int32 option"
  ds_Selector :: "label_selector option"
  ds_Strategy :: deployment_strategy
  ds_Template :: pod_template
  ds_other :: other_fields

record deployment =
  dep_meta :: object_meta
  dep_Spec :: deployment_spec
  dep_other :: other_fields

record container_status =
  cs_ImageID :: string
  cs_other :: other_fields

record pod =
  p_meta :: object_meta
  p_Spec :: pod_spec
  p_Phase :: string
  p_ContainerStatuses :: "container_status list"
  p_other :: other_fields

section \<open>The cluster's Image configuration and the UpdateService\<close>

record image_config =
  img_meta :: object_meta
  img_AdditionalTrustedCA :: string
  img_other :: other_fields

record condition =
  cond_Type :: string
  cond_Status :: string
  cond_Reason :: string
  cond_Message :: string
  cond_LastHeartbeatTime :: time
  cond_LastTransitionTime :: time

record us_spec =
  us_Replicas :: int32
  us_Releases :: string
  us_GraphDataImage :: string

record us_status =
  us_Conditions :: "condition list"
  us_PolicyEngineURI :: string

record group_version_kind =
  gvk_Group :: string
  gvk_Version :: string
  gvk_Kind :: string

record update_service =
  us_gvk :: group_version_kind
  us_meta :: object_meta
  us_Spec :: us_spec
  us_Status :: us_status

definition emptyStatus :: us_status where
  "emptyStatus = \<lparr>us_Conditions = [], us_PolicyEngineURI = []\<rparr>"

abbreviation instName :: "update_service \<Rightarrow> string" where
  "instName instance \<equiv> om_Name (us_meta instance)"

abbreviation instNamespace :: "update_service \<Rightarrow> string" where
  "instNamespace instance \<equiv> om_Namespace (us_meta instance)"

section \<open>All kinds of objects\<close>

datatype kind =
    ConfigMapKind | SecretKind | ServiceKind | DeploymentKind | PDBKind | RouteKind
  | NetworkPolicyKind | PodKind | ImageKind | UpdateServiceKind

datatype kobject =
    ConfigMapObj config_map
  | SecretObj secret
  | ServiceObj service
  | DeploymentObj deployment
  | PDBObj pdb
  | RouteObj route
  | NetworkPolicyObj network_policy
  | PodObj pod
  | ImageObj image_config
  | UpdateServiceObj update_service

fun objKind :: "kobject \<Rightarrow> kind" where
  "objKind (ConfigMapObj _) = ConfigMapKind"
| "objKind (SecretObj _) = SecretKind"
| "objKind (ServiceObj _) = ServiceKind"
| "objKind (DeploymentObj _) = DeploymentKind"
| "objKind (PDBObj _) = PDBKind"
| "objKind (RouteObj _) = RouteKind"
| "objKind (NetworkPolicyObj _) = NetworkPolicyKind"
| "objKind (PodObj _) = PodKind"
| "objKind (ImageObj _) = ImageKind"
| "objKind (UpdateServiceObj _) = UpdateServiceKind"

fun objMeta :: "kobject \<Rightarrow> object_meta" where
  "objMeta (ConfigMapObj x) = cm_meta x"
| "objMeta (SecretObj x) = sec_meta x"
| "objMeta (ServiceObj x) = svc_meta x"
| "objMeta (DeploymentObj x) = dep_meta x"
| "objMeta (PDBObj x) = pdb_meta x"
| "objMeta (RouteObj x) = route_meta x"
| "objMeta (NetworkPolicyObj x) = np_meta x"
| "objMeta (PodObj x) = p_meta x"
| "objMeta (ImageObj x) = img_meta x"
| "objMeta (UpdateServiceObj x) = us_meta x"

text \<open>\<open>types.NamespacedName\<close>\<close>

record namespaced_name =
  nn_Name :: string
  nn_Namespace :: string

definition keyOf :: "object_meta \<Rightarrow> namespaced_name" where
  "keyOf m = \<lparr>nn_Name = om_Name m, nn_Namespace = om_Namespace m\<rparr>"

abbreviation objKey :: "kobject \<Rightarrow> namespaced_name" where
  "objKey ob \<equiv> keyOf (objMeta ob)"

end
