(* ===== verification/Names.thy ===== *)
theory Names
  imports KubeTypes
begin

text \<open>
  \<open>controllers/names.go\<close>: the constants and the names of the objects that belong to an
  UpdateService, with the budget's \<open>getMinAvailablePBD\<close>.
\<close>

section \<open>Definitions\<close>

definition NameContainerGraphBuilder :: string where
  "NameContainerGraphBuilder = ''graph-builder''"

definition NameContainerPolicyEngine :: string where
  "NameContainerPolicyEngine = ''policy-engine''"

definition NameInitContainerGraphData :: string where
  "NameInitContainerGraphData = ''graph-data''"

definition OpenshiftConfigNamespace :: string where
  "OpenshiftConfigNamespace = ''openshift-config''"

definition NameTrustedCAVolume :: string where
  "NameTrustedCAVolume = ''trusted-ca''"

definition NameCertConfigMapKey :: string where
  "NameCertConfigMapKey = ''updateservice-registry''"

definition NameClusterTrustedCAVolume :: string where
  "NameClusterTrustedCAVolume = ''cluster-trusted-ca''"

definition NameClusterCertConfigMapKey :: string where
  "NameClusterCertConfigMapKey = ''ca-bundle.crt''"

definition namePullSecret :: string where
  "namePullSecret = ''pull-secret''"

definition ClusterCAMountDir :: string where
  "ClusterCAMountDir = ''/etc/pki/ca-trust/extracted/cluster-ca/''"

definition nameDeployment :: "update_service \<Rightarrow> string" where
  "nameDeployment instance = instName instance"

definition namePodDisruptionBudget :: "update_service \<Rightarrow> string" where
  "namePodDisruptionBudget instance = instName instance"

definition nameEnvConfig :: "update_service \<Rightarrow> string" where
  "nameEnvConfig instance = instName instance @ ''-env''"

definition nameConfig :: "update_service \<Rightarrow> string" where
  "nameConfig instance = instName instance @ ''-config''"

definition namePolicyEngineService :: "update_service \<Rightarrow> string" where
  "namePolicyEngineService instance = instName instance @ ''-policy-engine''"

definition nameGraphBuilderService :: "update_service \<Rightarrow> string" where
  "nameGraphBuilderService instance = instName instance @ ''-graph-builder''"

definition namePolicyEngineRoute :: "update_service \<Rightarrow> string" where
  "namePolicyEngineRoute instance = instName instance @ ''-route''"

definition oldPolicyEngineRouteName :: "update_service \<Rightarrow> string" where
  "oldPolicyEngineRouteName instance = namePolicyEngineService instance @ ''-route''"

definition nameAdditionalTrustedCA :: "update_service \<Rightarrow> string" where
  "nameAdditionalTrustedCA instance = instName instance @ ''-trusted-ca''"

definition namePullSecretCopy :: "update_service \<Rightarrow> string" where
  "namePullSecretCopy instance = instName instance @ ''-'' @ namePullSecret"

definition getMinAvailablePBD :: "update_service \<Rightarrow> int_or_string" where
  "getMinAvailablePBD instance =
     (if 2 \<le> sint (us_Replicas (us_Spec instance)) then FromInt32 1 else FromInt32 0)"

lemmas name_defs = nameDeployment_def namePodDisruptionBudget_def nameEnvConfig_def nameConfig_def
  namePolicyEngineService_def nameGraphBuilderService_def namePolicyEngineRoute_def
  oldPolicyEngineRouteName_def nameAdditionalTrustedCA_def namePullSecretCopy_def
  namePullSecret_def NameClusterTrustedCAVolume_def

section \<open>Properties\<close>

text \<open>The ConfigMaps a reconcile may write for one UpdateService.\<close>

definition configMapNames :: "update_service \<Rightarrow> string list" where
  "configMapNames instance =
     [nameEnvConfig instance, nameConfig instance, nameAdditionalTrustedCA instance,
      NameClusterTrustedCAVolume]"

lemma configMapNames_distinct:
  "distinct (configMapNames instance) \<longleftrightarrow> instName instance \<noteq> ''cluster''"
proof -
  have suffix: "instName instance @ s \<noteq> t"
    if "drop (length t - length s) t \<noteq> s" for s t
    using that by auto
  have "nameEnvConfig instance \<noteq> NameClusterTrustedCAVolume"
    "nameConfig instance \<noteq> NameClusterTrustedCAVolume"
    unfolding name_defs by (rule suffix, simp)+
  moreover have "nameAdditionalTrustedCA instance = NameClusterTrustedCAVolume \<longleftrightarrow>
      instName instance = ''cluster''"
    using append_same_eq [of "instName instance" "''-trusted-ca''" "''cluster''"]
    by (simp add: name_defs)
  moreover have "x @ ''-env'' \<noteq> x @ ''-config''" "x @ ''-env'' \<noteq> x @ ''-trusted-ca''"
    "x @ ''-config'' \<noteq> x @ ''-trusted-ca''" for x :: string
    by simp_all
  ultimately show ?thesis
    by (auto simp: configMapNames_def nameEnvConfig_def nameConfig_def nameAdditionalTrustedCA_def)
qed

text \<open>
  The four ConfigMaps of an UpdateService have four different names, except for an
  UpdateService named \<open>cluster\<close>: its copy of the registry CA then has the name of the
  cluster-wide CA's ConfigMap.
\<close>

theorem config_map_names_distinct:
  "distinct (configMapNames instance) \<longleftrightarrow> instName instance \<noteq> ''cluster''"
  by (rule configMapNames_distinct)

text \<open>
  The legacy route name of one UpdateService is the current route name of another exactly when
  the other's name is the first one's with \<open>-policy-engine\<close> behind it, so two UpdateServices of one
  namespace can both lay claim to one Route.
\<close>

theorem old_route_name_clash:
  "oldPolicyEngineRouteName a = namePolicyEngineRoute b \<longleftrightarrow> instName b = instName a @ ''-policy-engine''"
  using append_same_eq [of "instName a @ ''-policy-engine''" "''-route''" "instName b"]
  by (auto simp: name_defs simp del: append_same_eq append_assoc)

text \<open>
  The PodDisruptionBudget never asks for all replicas: it demands fewer available pods than
  there are replicas, and one as soon as there are two replicas, so that an eviction is possible
  and one pod stays up.
\<close>

theorem min_available_below_replicas:
  assumes "1 \<le> sint (us_Replicas (us_Spec instance))"
  shows "\<exists>n. getMinAvailablePBD instance = FromInt32 n \<and>
             0 \<le> sint n \<and> sint n < sint (us_Replicas (us_Spec instance)) \<and>
             (1 \<le> sint n \<longleftrightarrow> 2 \<le> sint (us_Replicas (us_Spec instance)))"
  using assms by (auto simp: getMinAvailablePBD_def)

theorem min_available_below_replicas_witness:
  "getMinAvailablePBD
     \<lparr>us_gvk = \<lparr>gvk_Group = [], gvk_Version = [], gvk_Kind = []\<rparr>, us_meta = newMeta ''app'' ''ns'',
      us_Spec = \<lparr>us_Replicas = 1, us_Releases = [], us_GraphDataImage = []\<rparr>,
      us_Status = emptyStatus\<rparr> = FromInt32 0"
  using min_available_below_replicas
    [of "\<lparr>us_gvk = \<lparr>gvk_Group = [], gvk_Version = [], gvk_Kind = []\<rparr>, us_meta = newMeta ''app'' ''ns'',
      us_Spec = \<lparr>us_Replicas = 1, us_Releases = [], us_GraphDataImage = []\<rparr>,
      us_Status = emptyStatus\<rparr>"]
  by (simp add: getMinAvailablePBD_def)

end
