(* ===== verification/Client.thy ===== *)
theory Client
  imports KubeTypes GoStrings
begin

text \<open>
  What lies outside the operator's process and how the operator reaches it. The API server is not
  part of this repository: it is the parameter \<open>r_api\<close> of a reconciler, a function from a request
  and the state \<open>'w\<close> of everything outside to an answer and the next such state, about which
  nothing is assumed here. The clock and the process environment are parameters in the same way.
  A session records, besides that state, the status of the UpdateService being reconciled (which
  the Go code mutates through \<open>instance.Status\<close>) and the list of requests made so far, oldest
  first; the list is a ghost: no definition of the operator reads it.
\<close>

section \<open>Errors\<close>

text \<open>
  An error that implements \<open>APIStatus\<close> (reason, HTTP code and text), or any other error (its text).
\<close>

datatype go_error =
    StatusError (err_Reason: string) (err_Code: int) (err_Text: string)
  | PlainError (err_Text: string)

definition knownReasons :: "string list" where
  "knownReasons =
     [''Unauthorized'', ''Forbidden'', ''NotFound'', ''AlreadyExists'', ''Conflict'', ''Gone'',
      ''Invalid'', ''ServerTimeout'', ''Timeout'', ''TooManyRequests'', ''BadRequest'',
      ''MethodNotAllowed'', ''NotAcceptable'', ''RequestEntityTooLarge'',
      ''UnsupportedMediaType'', ''InternalError'', ''Expired'', ''ServiceUnavailable'']"

fun IsNotFound :: "go_error \<Rightarrow> bool" where
  "IsNotFound (StatusError reason code text) =
     (reason = ''NotFound'' \<or> (reason \<notin> set knownReasons \<and> code = 404))"
| "IsNotFound (PlainError text) = False"

section \<open>Requests and answers\<close>

datatype api_call =
    Get kind namespaced_name
  | ListUpdateServices string
  | Create kobject
  | Update kobject
  | Delete kobject
  | UpdateStatus update_service

datatype api_result =
    Failed go_error
  | Found kobject
  | Listed "update_service list"
  | Done

record 'w reconciler =
  r_api :: "api_call \<Rightarrow> 'w \<Rightarrow> api_result \<times> 'w"
  r_now :: "'w \<Rightarrow> time \<times> 'w"
  r_getenv :: "string \<Rightarrow> string"
  r_Scheme :: "group_version_kind list"
  r_OperandImage :: string
  r_OperatorNamespace :: string

record 'w sess =
  se_world :: 'w
  se_status :: us_status
  se_calls :: "api_call list"

definition invoke :: "'w reconciler \<Rightarrow> api_call \<Rightarrow> ('w sess, api_result) state" where
  "invoke r c = State (\<lambda>s.
     case r_api r c (se_world s) of
       (res, w) \<Rightarrow> (res, s\<lparr>se_world := w, se_calls := se_calls s @ [c]\<rparr>))"

definition timeNow :: "'w reconciler \<Rightarrow> ('w sess, time) state" where
  "timeNow r = State (\<lambda>s. case r_now r (se_world s) of (t, w) \<Rightarrow> (t, s\<lparr>se_world := w\<rparr>))"

definition getStatus :: "('w sess, us_status) state" where
  "getStatus = State (\<lambda>s. (se_status s, s))"

definition putStatus :: "us_status \<Rightarrow> ('w sess, unit) state" where
  "putStatus st = State (\<lambda>s. ((), s\<lparr>se_status := st\<rparr>))"

section \<open>The typed client\<close>

text \<open>
  \<open>client.Get\<close> reads into a typed object: an object of another type is an error, as in the
  cache reader of controller-runtime.
\<close>

definition wrongType :: go_error where
  "wrongType = PlainError ''cache had another type than was asked for''"

definition getObj ::
    "'w reconciler \<Rightarrow> kind \<Rightarrow> (kobject \<Rightarrow> 'o option) \<Rightarrow> namespaced_name \<Rightarrow>
       ('w sess, go_error + 'o) state" where
  "getObj r k as key = do {
     res \<leftarrow> invoke r (Get k key);
     return (case res of
         Failed e \<Rightarrow> Inl e
       | Found ob \<Rightarrow> (case as ob of None \<Rightarrow> Inl wrongType | Some x \<Rightarrow> Inr x)
       | _ \<Rightarrow> Inl wrongType)
   }"

definition mutate :: "'w reconciler \<Rightarrow> api_call \<Rightarrow> ('w sess, go_error option) state" where
  "mutate r c = do {
     res \<leftarrow> invoke r c;
     return (case res of Failed e \<Rightarrow> Some e | _ \<Rightarrow> None)
   }"

definition createObj :: "'w reconciler \<Rightarrow> kobject \<Rightarrow> ('w sess, go_error option) state" where
  "createObj r ob = mutate r (Create ob)"

definition updateObj :: "'w reconciler \<Rightarrow> kobject \<Rightarrow> ('w sess, go_error option) state" where
  "updateObj r ob = mutate r (Update ob)"

definition deleteObj :: "'w reconciler \<Rightarrow> kobject \<Rightarrow> ('w sess, go_error option) state" where
  "deleteObj r ob = mutate r (Delete ob)"

definition updateStatus :: "'w reconciler \<Rightarrow> update_service \<Rightarrow> ('w sess, go_error option) state" where
  "updateStatus r us = mutate r (UpdateStatus us)"

definition listUpdateServices ::
    "'w reconciler \<Rightarrow> string \<Rightarrow> ('w sess, go_error + update_service list) state" where
  "listUpdateServices r ns = do {
     res \<leftarrow> invoke r (ListUpdateServices ns);
     return (case res of Failed e \<Rightarrow> Inl e | Listed xs \<Rightarrow> Inr xs | _ \<Rightarrow> Inl wrongType)
   }"

fun asConfigMap :: "kobject \<Rightarrow> config_map option" where
  "asConfigMap (ConfigMapObj x) = Some x" | "asConfigMap _ = None"

fun asSecret :: "kobject \<Rightarrow> secret option" where
  "asSecret (SecretObj x) = Some x" | "asSecret _ = None"

fun asService :: "kobject \<Rightarrow> service option" where
  "asService (ServiceObj x) = Some x" | "asService _ = None"

fun asDeployment :: "kobject \<Rightarrow> deployment option" where
  "asDeployment (DeploymentObj x) = Some x" | "asDeployment _ = None"

fun asPDB :: "kobject \<Rightarrow> pdb option" where
  "asPDB (PDBObj x) = Some x" | "asPDB _ = None"

fun asRoute :: "kobject \<Rightarrow> route option" where
  "asRoute (RouteObj x) = Some x" | "asRoute _ = None"

fun asNetworkPolicy :: "kobject \<Rightarrow> network_policy option" where
  "asNetworkPolicy (NetworkPolicyObj x) = Some x" | "asNetworkPolicy _ = None"

fun asPod :: "kobject \<Rightarrow> pod option" where
  "asPod (PodObj x) = Some x" | "asPod _ = None"

fun asImage :: "kobject \<Rightarrow> image_config option" where
  "asImage (ImageObj x) = Some x" | "asImage _ = None"

fun asUpdateService :: "kobject \<Rightarrow> update_service option" where
  "asUpdateService (UpdateServiceObj x) = Some x" | "asUpdateService _ = None"

lemma as_Some_iff [simp]:
  "asConfigMap ob = Some cm \<longleftrightarrow> ob = ConfigMapObj cm"
  "asSecret ob = Some sec \<longleftrightarrow> ob = SecretObj sec"
  "asService ob = Some svc \<longleftrightarrow> ob = ServiceObj svc"
  "asDeployment ob = Some dep \<longleftrightarrow> ob = DeploymentObj dep"
  "asPDB ob = Some pd \<longleftrightarrow> ob = PDBObj pd"
  "asRoute ob = Some rt \<longleftrightarrow> ob = RouteObj rt"
  "asNetworkPolicy ob = Some np \<longleftrightarrow> ob = NetworkPolicyObj np"
  "asPod ob = Some pd' \<longleftrightarrow> ob = PodObj pd'"
  "asImage ob = Some im \<longleftrightarrow> ob = ImageObj im"
  "asUpdateService ob = Some us \<longleftrightarrow> ob = UpdateServiceObj us"
  by (cases ob; auto)+

section \<open>Invariants of a session\<close>

text \<open>
  A property of the requests made so far, and the rule behind every safety property of the
  operator: it holds at the end if it holds at the start and of every request in between,
  whatever the server answers.
\<close>

definition callsOK :: "(api_call \<Rightarrow> bool) \<Rightarrow> 'w sess \<Rightarrow> bool" where
  "callsOK P s \<longleftrightarrow> list_all P (se_calls s)"

lemma callsOK_Nil [simp]: "se_calls s = [] \<Longrightarrow> callsOK P s"
  by (simp add: callsOK_def)

lemma keeps_invoke:
  "P c \<Longrightarrow> keeps (callsOK P) (invoke r c)"
  by (auto simp: keeps_def triple_def invoke_def callsOK_def split: prod.splits)

lemma keeps_timeNow [triple_intro]: "keeps (callsOK P) (timeNow r)"
  by (auto simp: keeps_def triple_def timeNow_def callsOK_def split: prod.splits)

lemma keeps_getStatus [triple_intro]: "keeps (callsOK P) getStatus"
  by (auto simp: keeps_def triple_def getStatus_def)

lemma keeps_putStatus [triple_intro]: "keeps (callsOK P) (putStatus st)"
  by (auto simp: keeps_def triple_def putStatus_def callsOK_def)

lemma keeps_mutate [triple_intro]:
  "P c \<Longrightarrow> keeps (callsOK P) (mutate r c)"
  unfolding mutate_def by (intro triple_intro keeps_invoke)

lemma keeps_createObj [triple_intro]:
  "P (Create ob) \<Longrightarrow> keeps (callsOK P) (createObj r ob)"
  unfolding createObj_def by (rule keeps_mutate)

lemma keeps_updateObj [triple_intro]:
  "P (Update ob) \<Longrightarrow> keeps (callsOK P) (updateObj r ob)"
  unfolding updateObj_def by (rule keeps_mutate)

lemma keeps_deleteObj [triple_intro]:
  "P (Delete ob) \<Longrightarrow> keeps (callsOK P) (deleteObj r ob)"
  unfolding deleteObj_def by (rule keeps_mutate)

lemma keeps_updateStatus [triple_intro]:
  "P (UpdateStatus us) \<Longrightarrow> keeps (callsOK P) (updateStatus r us)"
  unfolding updateStatus_def by (rule keeps_mutate)

lemma keeps_getObj [triple_intro]:
  "P (Get k key) \<Longrightarrow> keeps (callsOK P) (getObj r k as key)"
  unfolding getObj_def by (intro triple_intro keeps_invoke)

end
