(* ===== verification/RouteName.thy ===== *)
theory RouteName
  imports Names Client
begin

text \<open>
  The check of the route's name at the start of a reconcile: \<open>validateRouteName\<close> of
  \<open>controllers/updateservice_controller.go\<close> with its regular expression. The expression is
  anchored at both ends and has no flags, so matching it is membership in a regular language,
  decided here by derivatives.
\<close>

section \<open>Definitions\<close>

datatype regexp =
    Empty
  | Epsilon
  | Class "(char \<times> char) list"
  | Seq regexp regexp
  | Alt regexp regexp
  | Star regexp

abbreviation Opt :: "regexp \<Rightarrow> regexp" where
  "Opt r \<equiv> Alt r Epsilon"

definition inClass :: "(char \<times> char) list \<Rightarrow> char \<Rightarrow> bool" where
  "inClass ranges c = list_ex (\<lambda>(lo, hi). byte lo \<le> byte c \<and> byte c \<le> byte hi) ranges"

fun nullable :: "regexp \<Rightarrow> bool" where
  "nullable Empty = False"
| "nullable Epsilon = True"
| "nullable (Class _) = False"
| "nullable (Seq r s) = (nullable r \<and> nullable s)"
| "nullable (Alt r s) = (nullable r \<or> nullable s)"
| "nullable (Star r) = True"

fun deriv :: "char \<Rightarrow> regexp \<Rightarrow> regexp" where
  "deriv c Empty = Empty"
| "deriv c Epsilon = Empty"
| "deriv c (Class ranges) = (if inClass ranges c then Epsilon else Empty)"
| "deriv c (Seq r s) =
     (if nullable r then Alt (Seq (deriv c r) s) (deriv c s) else Seq (deriv c r) s)"
| "deriv c (Alt r s) = Alt (deriv c r) (deriv c s)"
| "deriv c (Star r) = Seq (deriv c r) (Star r)"

fun fullMatch :: "regexp \<Rightarrow> string \<Rightarrow> bool" where
  "fullMatch r [] = nullable r"
| "fullMatch r (c # s) = fullMatch (deriv c r) s"

definition dns1123LabelFmt :: string where
  "dns1123LabelFmt = ''^[a-z]([-a-z0-9]*[a-z0-9])?$''"

definition dns1123LabelRegexp :: regexp where
  "dns1123LabelRegexp =
     Seq (Class [(CHR ''a'', CHR ''z'')])
       (Opt (Seq
         (Star (Class [(CHR ''-'', CHR ''-''), (CHR ''a'', CHR ''z''), (CHR ''0'', CHR ''9'')]))
         (Class [(CHR ''a'', CHR ''z''), (CHR ''0'', CHR ''9'')])))"

definition DNS1123LabelMaxLength :: nat where
  "DNS1123LabelMaxLength = 63"

definition lengthReason :: string where
  "lengthReason = ''cannot exceed RFC 1123 maximum length of '' @ Itoa (int DNS1123LabelMaxLength) @
     ''. Shorten the application name and/or namespace.''"

definition formatReason :: string where
  "formatReason = ''has invalid format; must comply with '' @ Quote dns1123LabelFmt @ ''.''"

text \<open>
  The parameter \<open>name\<close> is not used, as in the Go code. \<open>fmt.Errorf\<close> is applied to a text without
  a percent sign, which no Kubernetes name contains, and returns it as it is.
\<close>

definition validateRouteName :: "update_service \<Rightarrow> string \<Rightarrow> string \<Rightarrow> go_error option" where
  "validateRouteName instance name namespace =
     (let routeName = namePolicyEngineRoute instance @ ''-'' @ namespace;
          errReasons =
            (if length routeName > DNS1123LabelMaxLength then [lengthReason] else []) @
            (if \<not> fullMatch dns1123LabelRegexp routeName then [formatReason] else [])
      in case errReasons of
           [] \<Rightarrow> None
         | [reason] \<Rightarrow>
             Some (PlainError (''UpdateService route name '' @ Quote routeName @ '' '' @ reason))
         | reason # reason' # _ \<Rightarrow>
             Some (PlainError (''UpdateService route name '' @ Quote routeName @ '' '' @ reason @
               '' Route name '' @ reason')))"

section \<open>The language of a regular expression\<close>

text \<open>The textbook semantics, against which the derivatives are checked.\<close>

inductive accepts :: "regexp \<Rightarrow> string \<Rightarrow> bool" where
  acc_Epsilon: "accepts Epsilon []"
| acc_Class: "inClass ranges c \<Longrightarrow> accepts (Class ranges) [c]"
| acc_Seq: "accepts r u \<Longrightarrow> accepts s v \<Longrightarrow> accepts (Seq r s) (u @ v)"
| acc_Alt1: "accepts r u \<Longrightarrow> accepts (Alt r s) u"
| acc_Alt2: "accepts s u \<Longrightarrow> accepts (Alt r s) u"
| acc_Star0: "accepts (Star r) []"
| acc_Star: "accepts r u \<Longrightarrow> accepts (Star r) v \<Longrightarrow> accepts (Star r) (u @ v)"

inductive_simps accepts_simps [simp]:
  "accepts Empty u" "accepts Epsilon u" "accepts (Class ranges) u" "accepts (Alt r s) u"

inductive_simps accepts_Seq_iff: "accepts (Seq r s) w"

lemma nullable_iff: "nullable r \<longleftrightarrow> accepts r []"
proof (induction r)
  case (Star r)
  then show ?case by (simp add: acc_Star0)
qed (auto simp: accepts_Seq_iff)

lemma accepts_Star_Cons:
  "accepts (Star r) w \<Longrightarrow> w = c # w' \<Longrightarrow>
     \<exists>u v. w' = u @ v \<and> accepts r (c # u) \<and> accepts (Star r) v"
  by (induction "Star r" w arbitrary: w' rule: accepts.induct)
    (auto simp: append_eq_Cons_conv)

lemma accepts_deriv: "accepts (deriv c r) w \<longleftrightarrow> accepts r (c # w)"
proof (induction r arbitrary: w)
  case (Seq r s)
  then show ?case
    by (simp add: accepts_Seq_iff nullable_iff Cons_eq_append_conv) blast
next
  case (Star r)
  show ?case
  proof
    assume "accepts (deriv c (Star r)) w"
    then obtain u v where "w = u @ v" "accepts (deriv c r) u" "accepts (Star r) v"
      unfolding deriv.simps accepts_Seq_iff by blast
    with Star have "w = u @ v" "accepts r (c # u)" "accepts (Star r) v" by blast+
    then show "accepts (Star r) (c # w)" using acc_Star [of r "c # u" v] by simp
  next
    assume "accepts (Star r) (c # w)"
    from accepts_Star_Cons [OF this refl] obtain u v
      where "w = u @ v" "accepts r (c # u)" "accepts (Star r) v" by blast
    then show "accepts (deriv c (Star r)) w"
      using Star acc_Seq [of "deriv c r" u "Star r" v] by simp
  qed
qed auto

lemma fullMatch_iff: "fullMatch r s \<longleftrightarrow> accepts r s"
  by (induction r s rule: fullMatch.induct) (auto simp: nullable_iff accepts_deriv)

lemma accepts_Star_Class: "accepts (Star (Class ranges)) s \<longleftrightarrow> list_all (inClass ranges) s"
proof
  assume "accepts (Star (Class ranges)) s"
  then show "list_all (inClass ranges) s"
    by (induction "Star (Class ranges)" s rule: accepts.induct) auto
next
  assume "list_all (inClass ranges) s"
  then show "accepts (Star (Class ranges)) s"
  proof (induction s)
    case (Cons c s)
    then show ?case using acc_Star [of "Class ranges" "[c]" s] by simp
  qed (rule acc_Star0)
qed

section \<open>Labels\<close>

definition labelChar :: "char \<Rightarrow> bool" where
  "labelChar c \<longleftrightarrow> isLower c \<or> isDigit c \<or> c = CHR ''-''"

definition dnsLabel :: "string \<Rightarrow> bool" where
  "dnsLabel s \<longleftrightarrow> s \<noteq> [] \<and> isLower (hd s) \<and> last s \<noteq> CHR ''-'' \<and> list_all labelChar s"

lemma inClass_label [simp]:
  "inClass [(CHR ''a'', CHR ''z'')] c \<longleftrightarrow> isLower c"
  "inClass [(CHR ''-'', CHR ''-''), (CHR ''a'', CHR ''z''), (CHR ''0'', CHR ''9'')] c \<longleftrightarrow> labelChar c"
  "inClass [(CHR ''a'', CHR ''z''), (CHR ''0'', CHR ''9'')] c \<longleftrightarrow> isLower c \<or> isDigit c"
proof -
  have "byte c = 45 \<longleftrightarrow> c = CHR ''-''"
    using of_char_eq_iff [of c "CHR ''-''", where 'a = nat] by simp
  moreover have "45 \<le> byte c \<and> byte c \<le> 45 \<longleftrightarrow> byte c = 45" by auto
  ultimately show
    "inClass [(CHR ''-'', CHR ''-''), (CHR ''a'', CHR ''z''), (CHR ''0'', CHR ''9'')] c \<longleftrightarrow> labelChar c"
    by (auto simp: inClass_def labelChar_def isLower_def isDigit_def)
qed (auto simp: inClass_def isLower_def isDigit_def)

lemma not_dash: "isLower c \<Longrightarrow> c \<noteq> CHR ''-''" "isDigit c \<Longrightarrow> c \<noteq> CHR ''-''"
  by (auto simp: isLower_def isDigit_def)

lemma accepts_tail:
  "accepts (Seq
       (Star (Class [(CHR ''-'', CHR ''-''), (CHR ''a'', CHR ''z''), (CHR ''0'', CHR ''9'')]))
       (Class [(CHR ''a'', CHR ''z''), (CHR ''0'', CHR ''9'')])) t \<longleftrightarrow>
     t \<noteq> [] \<and> list_all labelChar t \<and> last t \<noteq> CHR ''-''"
  by (cases t rule: rev_cases)
    (auto simp: accepts_Seq_iff accepts_Star_Class list_all_iff labelChar_def dest: not_dash)

lemma fullMatch_label: "fullMatch dns1123LabelRegexp s \<longleftrightarrow> dnsLabel s"
proof (cases s)
  case Nil
  then show ?thesis
    by (simp add: fullMatch_iff dns1123LabelRegexp_def accepts_Seq_iff dnsLabel_def)
next
  case (Cons c t)
  have first: "(\<exists>u v. c # t = u @ v \<and> (\<exists>d. u = [d] \<and> P d) \<and> Q v) \<longleftrightarrow> P c \<and> Q t" for P Q
  proof
    assume "P c \<and> Q t"
    then show "\<exists>u v. c # t = u @ v \<and> (\<exists>d. u = [d] \<and> P d) \<and> Q v"
      by (intro exI [of _ "[c]"] exI [of _ t]) simp
  qed auto
  have "fullMatch dns1123LabelRegexp s \<longleftrightarrow>
      isLower c \<and> (t = [] \<or> (list_all labelChar t \<and> last t \<noteq> CHR ''-''))"
    unfolding fullMatch_iff dns1123LabelRegexp_def accepts_Seq_iff [of "Class [(CHR ''a'', CHR ''z'')]"]
      accepts_simps accepts_tail inClass_label Cons first
    by auto
  then show ?thesis by (auto simp: dnsLabel_def Cons labelChar_def dest: not_dash)
qed

section \<open>Properties\<close>

text \<open>
  C22: the route name check accepts exactly when the name with the namespace behind it is a DNS
  label that starts with a letter and has at most 63 bytes: in terms of the resource, when its
  name is not empty and starts with a lower-case letter, name and namespace are made of
  lower-case letters, digits and dashes, the namespace is not empty and does not end in a dash,
  and both together have at most 56 bytes.
\<close>

theorem validate_route_name_accepts:
  "validateRouteName instance name ns = None \<longleftrightarrow>
     instName instance \<noteq> [] \<and> isLower (hd (instName instance)) \<and>
     list_all labelChar (instName instance) \<and>
     ns \<noteq> [] \<and> last ns \<noteq> CHR ''-'' \<and> list_all labelChar ns \<and>
     length (instName instance) + length ns \<le> 56"
proof -
  let ?r = "instName instance @ ''-route'' @ ''-'' @ ns"
  have "validateRouteName instance name ns = None \<longleftrightarrow> length ?r \<le> 63 \<and> dnsLabel ?r"
    by (auto simp: validateRouteName_def namePolicyEngineRoute_def fullMatch_label Let_def
        DNS1123LabelMaxLength_def)
  also have "dnsLabel ?r \<longleftrightarrow> instName instance \<noteq> [] \<and> isLower (hd (instName instance)) \<and>
      list_all labelChar (instName instance) \<and> ns \<noteq> [] \<and> last ns \<noteq> CHR ''-'' \<and>
      list_all labelChar ns"
    by (cases "instName instance")
      (auto simp: dnsLabel_def labelChar_def isLower_def isDigit_def split: if_splits)
  finally show ?thesis by auto
qed

text \<open>
  A rejected name gets an error that quotes the route name and gives the reasons that apply:
  the length when it has more than 63 bytes, the format when it is not a DNS label, and the
  length first when both do.
\<close>

theorem validate_route_name_errors:
  assumes "routeName = instName instance @ ''-route-'' @ ns"
  shows "validateRouteName instance name ns =
    (let intro = ''UpdateService route name '' @ Quote routeName @ '' ''
     in case (length routeName \<le> 63, dnsLabel routeName) of
          (True, True) \<Rightarrow> None
        | (True, False) \<Rightarrow> Some (PlainError (intro @ formatReason))
        | (False, True) \<Rightarrow> Some (PlainError (intro @ lengthReason))
        | (False, False) \<Rightarrow>
            Some (PlainError (intro @ lengthReason @ '' Route name '' @ formatReason)))"
  using assms
  by (simp add: validateRouteName_def namePolicyEngineRoute_def fullMatch_label Let_def
      DNS1123LabelMaxLength_def)

theorem validate_route_name_errors_witness:
  "validateRouteName
     \<lparr>us_gvk = \<lparr>gvk_Group = [], gvk_Version = [], gvk_Kind = []\<rparr>, us_meta = newMeta ''a.b'' ''ns'',
      us_Spec = \<lparr>us_Replicas = 1, us_Releases = [], us_GraphDataImage = []\<rparr>,
      us_Status = emptyStatus\<rparr> ''a.b'' ''ns'' =
   Some (PlainError (''UpdateService route name '' @ Quote ''a.b-route-ns'' @ '' '' @ formatReason))"
proof -
  have "\<not> dnsLabel ''a.b-route-ns''" by code_simp
  moreover have "length ''a.b-route-ns'' \<le> 63" by simp
  ultimately show ?thesis
    by (subst validate_route_name_errors [where routeName = "''a.b-route-ns''"])
      (simp_all add: newMeta_def)
qed

end
