(* ===== verification/GoHash.thy ===== *)
theory GoHash
  imports GoStrings
begin

text \<open>
  \<open>checksumMap\<close> of \<open>controllers/new.go\<close> with the parts of Go's standard library it is made of:
  the streaming encoder of \<open>encoding/base64\<close>, SHA-256 (\<open>crypto/sha256\<close>, FIPS 180-4) and \<open>%x\<close>.
  The encoder buffers up to two bytes between two calls of \<open>Write\<close>, while \<open>checksumMap\<close> writes
  its separators to the hash directly; both go into the byte stream \<open>checksumStream\<close>.
\<close>

section \<open>Base64\<close>

definition base64Alphabet :: string where
  "base64Alphabet =
     ''ABCDEFGHIJKLMNOPQRSTUVWXYZabcdefghijklmnopqrstuvwxyz0123456789+/''"

definition b64Char :: "nat \<Rightarrow> char" where
  "b64Char n = base64Alphabet ! n"

definition b64Quad :: "char \<Rightarrow> char \<Rightarrow> char \<Rightarrow> string" where
  "b64Quad a b c =
     [b64Char (byte a div 4),
      b64Char (byte a mod 4 * 16 + byte b div 16),
      b64Char (byte b mod 16 * 4 + byte c div 64),
      b64Char (byte c mod 64)]"

text \<open>Encodes the full groups of three bytes; the second result is what stays in the buffer.\<close>

fun b64Groups :: "string \<Rightarrow> string \<times> string" where
  "b64Groups (a # b # c # s) = (case b64Groups s of (out, left) \<Rightarrow> (b64Quad a b c @ out, left))"
| "b64Groups s = ([], s)"

text \<open>The final, padded group.\<close>

fun b64Tail :: "string \<Rightarrow> string" where
  "b64Tail [] = []"
| "b64Tail [a] = [b64Char (byte a div 4), b64Char (byte a mod 4 * 16), CHR ''='', CHR ''='']"
| "b64Tail (a # b # s) =
     [b64Char (byte a div 4), b64Char (byte a mod 4 * 16 + byte b div 16),
      b64Char (byte b mod 16 * 4), CHR ''='']"

definition b64Encode :: "string \<Rightarrow> string" where
  "b64Encode s = (case b64Groups s of (out, left) \<Rightarrow> out @ b64Tail left)"

text \<open>\<open>encoder.Write\<close>: the buffer before, the data; the bytes written on and the buffer after.\<close>

definition encoderWrite :: "string \<Rightarrow> string \<Rightarrow> string \<times> string" where
  "encoderWrite buf p = b64Groups (buf @ p)"

section \<open>SHA-256\<close>

text \<open>
  The constants, computed as the standard defines them: the first 32 bits of the fractional parts
  of the square roots of the first 8 primes and of the cube roots of the first 64. The root of
  \<open>p * 2 ^ (32 * k)\<close> is found bit by bit from the top; its integer part is cut off by the
  conversion to a word.
\<close>

definition smallPrimes :: "int list" where
  "smallPrimes = filter (\<lambda>n. list_all (\<lambda>d. n \<le> d \<or> n mod d \<noteq> 0) [2 .. 17]) [2 .. 311]"

fun rootBits :: "nat \<Rightarrow> nat \<Rightarrow> int \<Rightarrow> int \<Rightarrow> int" where
  "rootBits k 0 x acc = acc"
| "rootBits k (Suc b) x acc =
     rootBits k b x (if (acc + 2 ^ b) ^ k \<le> x then acc + 2 ^ b else acc)"

definition rootFraction :: "nat \<Rightarrow> int \<Rightarrow> 32 word" where
  "rootFraction k p = word_of_int (rootBits k 36 (p * 2 ^ (32 * k)) 0)"

definition sha256K :: "32 word list" where
  "sha256K = map (rootFraction 3) smallPrimes"

definition sha256H0 :: "32 word list" where
  "sha256H0 = map (rootFraction 2) (take 8 smallPrimes)"

unbundle bit_operations_syntax

definition beWord :: "char list \<Rightarrow> 32 word" where
  "beWord bs = foldl (\<lambda>w b. push_bit 8 w OR word_of_int (int (byte b))) 0 bs"

fun beWords :: "nat \<Rightarrow> char list \<Rightarrow> 32 word list" where
  "beWords 0 bs = []"
| "beWords (Suc n) bs = beWord (take 4 bs) # beWords n (drop 4 bs)"

definition smallSigma0 :: "32 word \<Rightarrow> 32 word" where
  "smallSigma0 x = word_rotr 7 x XOR word_rotr 18 x XOR drop_bit 3 x"

definition smallSigma1 :: "32 word \<Rightarrow> 32 word" where
  "smallSigma1 x = word_rotr 17 x XOR word_rotr 19 x XOR drop_bit 10 x"

definition bigSigma0 :: "32 word \<Rightarrow> 32 word" where
  "bigSigma0 x = word_rotr 2 x XOR word_rotr 13 x XOR word_rotr 22 x"

definition bigSigma1 :: "32 word \<Rightarrow> 32 word" where
  "bigSigma1 x = word_rotr 6 x XOR word_rotr 11 x XOR word_rotr 25 x"

text \<open>The message schedule, newest word first; it starts from the 16 words of a block.\<close>

fun extendSchedule :: "nat \<Rightarrow> 32 word list \<Rightarrow> 32 word list" where
  "extendSchedule 0 ws = ws"
| "extendSchedule (Suc n) ws =
     extendSchedule n
       ((smallSigma1 (ws ! 1) + ws ! 6 + smallSigma0 (ws ! 14) + ws ! 15) # ws)"

fun sha256Round :: "32 word list \<Rightarrow> 32 word \<times> 32 word \<Rightarrow> 32 word list" where
  "sha256Round [a, b, c, d, e, f, g, h] (k, w) =
     (let t1 = h + bigSigma1 e + ((e AND f) XOR (NOT e AND g)) + k + w;
          t2 = bigSigma0 a + ((a AND b) XOR (a AND c) XOR (b AND c))
      in [t1 + t2, a, b, c, d + t1, e, f, g])"
| "sha256Round st kw = st"

definition sha256Block :: "32 word list \<Rightarrow> char list \<Rightarrow> 32 word list" where
  "sha256Block st blk =
     map2 (+) st
       (foldl sha256Round st (zip sha256K (rev (extendSchedule 48 (rev (beWords 16 blk))))))"

definition beBytes :: "nat \<Rightarrow> int \<Rightarrow> char list" where
  "beBytes n x = map (\<lambda>i. char_of (nat (x div 2 ^ (8 * i) mod 256))) (rev [0 ..< n])"

definition sha256Pad :: "char list \<Rightarrow> char list" where
  "sha256Pad s =
     s @ [CHR 0x80] @ replicate ((119 - length s mod 64) mod 64) (CHR 0x00) @
       beBytes 8 (8 * int (length s))"

fun sha256Blocks :: "nat \<Rightarrow> 32 word list \<Rightarrow> char list \<Rightarrow> 32 word list" where
  "sha256Blocks 0 st s = st"
| "sha256Blocks (Suc n) st s = sha256Blocks n (sha256Block st (take 64 s)) (drop 64 s)"

definition sha256 :: "char list \<Rightarrow> char list" where
  "sha256 s =
     (let p = sha256Pad s
      in concat (map (\<lambda>w. beBytes 4 (uint w)) (sha256Blocks (length p div 64) sha256H0 p)))"

definition hexBytes :: "char list \<Rightarrow> string" where
  "hexBytes bs = concat (map (\<lambda>b. [hexDigit (byte b div 16), hexDigit (byte b mod 16)]) bs)"

section \<open>checksumMap\<close>

definition goKeys :: "string gomap \<Rightarrow> string list" where
  "goKeys m = (case m of None \<Rightarrow> [] | Some f \<Rightarrow> sorted_list_of_fset (fmdom f))"

text \<open>
  The loop over the sorted keys: for the key and then the value, \<open>encoder.Write(data)\<close> followed by
  \<open>hash.Write(":")\<close>; after the loop \<open>encoder.Close()\<close>. \<open>hash.Write\<close> never fails, so neither does
  the encoder, and the two error branches of the Go code are dead.
\<close>

fun writePieces :: "string \<Rightarrow> string list \<Rightarrow> string \<times> string" where
  "writePieces buf [] = ([], buf)"
| "writePieces buf (p # ps) =
     (case encoderWrite buf p of
        (out, buf') \<Rightarrow> (case writePieces buf' ps of
                          (out', left) \<Rightarrow> (out @ '':'' @ out', left)))"

definition mapPieces :: "string gomap \<Rightarrow> string list" where
  "mapPieces m = concat (map (\<lambda>k. [k, (case mapGet m k of None \<Rightarrow> [] | Some v \<Rightarrow> v)]) (goKeys m))"

definition checksumStream :: "string gomap \<Rightarrow> string" where
  "checksumStream m = (case writePieces [] (mapPieces m) of (out, left) \<Rightarrow> out @ b64Tail left)"

definition checksumMap :: "string gomap \<Rightarrow> string" where
  "checksumMap m = hexBytes (sha256 (checksumStream m))"

section \<open>Lemmas on the encoder\<close>

lemma b64Groups_append:
  "b64Groups (x @ y) =
     (case b64Groups x of (o1, l1) \<Rightarrow> case b64Groups (l1 @ y) of (o2, l2) \<Rightarrow> (o1 @ o2, l2))"
  by (induction x rule: b64Groups.induct) (auto split: prod.splits)

lemma b64Groups_left: "length (snd (b64Groups s)) < 3"
  by (induction s rule: b64Groups.induct) (auto split: prod.splits)

lemma b64Groups_length: "length (fst (b64Groups s)) = 4 * (length s div 3)"
  by (induction s rule: b64Groups.induct) (auto simp: b64Quad_def split: prod.splits)

lemma length_base64Alphabet: "length base64Alphabet = 64"
  by (simp add: base64Alphabet_def)

lemma distinct_base64Alphabet: "distinct base64Alphabet"
  by (simp add: base64Alphabet_def)

lemma b64Char_mem: "n < 64 \<Longrightarrow> b64Char n \<in> set base64Alphabet"
  by (simp add: b64Char_def length_base64Alphabet)

lemma b64Char_inject: "m < 64 \<Longrightarrow> n < 64 \<Longrightarrow> b64Char m = b64Char n \<longleftrightarrow> m = n"
  by (simp add: b64Char_def nth_eq_iff_index_eq distinct_base64Alphabet length_base64Alphabet)

lemma b64Char_not_special: "n < 64 \<Longrightarrow> b64Char n \<noteq> CHR '':'' \<and> b64Char n \<noteq> CHR ''=''"
  using b64Char_mem [of n] by (auto simp: base64Alphabet_def)

lemma byte_less [simp]: "byte c < 256"
  using mod_less_divisor [of 256 "byte c"] by simp

lemma byte_inject [simp]: "byte a = byte b \<longleftrightarrow> a = b"
  by simp

lemma b64_digits:
  "byte a div 4 < 64" "byte a mod 4 * 16 + byte b div 16 < 64" "byte a mod 4 * 16 < 64"
  "byte b mod 16 * 4 + byte c div 64 < 64" "byte b mod 16 * 4 < 64" "byte c mod 64 < 64"
proof -
  have a: "byte a mod 4 < 4" and b: "byte b mod 16 < 16" and c: "byte c mod 64 < 64"
    by simp_all
  show "byte a div 4 < 64"
    using byte_less [of a] by (simp add: div_less_iff_less_mult)
  have "byte b div 16 < 16" using byte_less [of b] by (simp add: div_less_iff_less_mult)
  then show "byte a mod 4 * 16 + byte b div 16 < 64" using a by linarith
  show "byte a mod 4 * 16 < 64" using a by linarith
  have "byte c div 64 < 4" using byte_less [of c] by (simp add: div_less_iff_less_mult)
  then show "byte b mod 16 * 4 + byte c div 64 < 64" using b by linarith
  show "byte b mod 16 * 4 < 64" using b by linarith
  show "byte c mod 64 < 64" by (fact c)
qed

lemma split_digit:
  assumes "(y :: nat) < n" and "y' < n"
  shows "x * n + y = x' * n + y' \<longleftrightarrow> x = x' \<and> y = y'"
proof
  assume eq: "x * n + y = x' * n + y'"
  have "x = (x * n + y) div n" "x' = (x' * n + y') div n"
    "y = (x * n + y) mod n" "y' = (x' * n + y') mod n"
    using assms by simp_all
  then show "x = x' \<and> y = y'" using eq by metis
qed simp

lemma byte_parts:
  "byte a = byte b \<longleftrightarrow> byte a div n = byte b div n \<and> byte a mod n = byte b mod n"
  by (metis div_mult_mod_eq)

lemma b64Quad_inject: "b64Quad a b c = b64Quad a' b' c' \<longleftrightarrow> a = a' \<and> b = b' \<and> c = c'"
proof
  assume eq: "b64Quad a b c = b64Quad a' b' c'"
  have small: "byte x div 16 < 16" "byte x div 64 < 4" for x
    using byte_less [of x] by (simp_all add: div_less_iff_less_mult)
  from eq have "byte a div 4 = byte a' div 4 \<and>
      byte a mod 4 = byte a' mod 4 \<and> byte b div 16 = byte b' div 16 \<and>
      byte b mod 16 = byte b' mod 16 \<and> byte c div 64 = byte c' div 64 \<and>
      byte c mod 64 = byte c' mod 64"
    by (simp add: b64Quad_def b64Char_inject b64_digits split_digit small)
  then show "a = a' \<and> b = b' \<and> c = c'"
    using byte_parts [of a a' 4] byte_parts [of b b' 16] byte_parts [of c c' 64] by simp
qed simp

lemma b64Tail_inject:
  assumes "length s < 3" and "length t < 3" and "b64Tail s = b64Tail t"
  shows "s = t"
proof -
  have small: "byte x div 16 < 16" for x
    using byte_less [of x] by (simp add: div_less_iff_less_mult)
  have ne: "b64Char (byte x mod 16 * 4) \<noteq> CHR ''=''" for x
    using b64Char_not_special [OF b64_digits(5)] by simp
  show ?thesis
    using assms byte_parts [of "s ! 0" "t ! 0" 4] byte_parts [of "s ! 1" "t ! 1" 16] ne ne [symmetric]
    by (cases s rule: b64Tail.cases; cases t rule: b64Tail.cases)
      (simp_all add: b64Char_inject b64_digits split_digit small)
qed

lemma b64Encode_Cons3: "b64Encode (a # b # c # s) = b64Quad a b c @ b64Encode s"
  by (simp add: b64Encode_def split: prod.splits)

lemma b64Encode_short: "length s < 3 \<Longrightarrow> b64Encode s = b64Tail s"
  by (cases s rule: b64Groups.cases) (auto simp: b64Encode_def)

lemma b64Quad_not_tail: "length t < 3 \<Longrightarrow> b64Quad a b c @ r \<noteq> b64Tail t"
  using b64Char_not_special [OF b64_digits(6)]
  by (cases t rule: b64Tail.cases) (auto simp: b64Quad_def)

lemma b64Encode_inject_short:
  assumes "length s < 3" and "b64Encode s = b64Encode t"
  shows "s = t"
proof (cases "length t < 3")
  case True
  then show ?thesis using assms b64Tail_inject by (simp add: b64Encode_short)
next
  case False
  then obtain a b c t' where "t = a # b # c # t'"
    by (cases t rule: b64Groups.cases) auto
  then show ?thesis
    using assms b64Quad_not_tail [OF assms(1), of a b c "b64Encode t'"]
    by (simp add: b64Encode_Cons3 b64Encode_short)
qed

lemma b64Encode_inject: "b64Encode s = b64Encode t \<Longrightarrow> s = t"
proof (induction s arbitrary: t rule: b64Groups.induct)
  case (1 a b c s)
  show ?case
  proof (cases "length t < 3")
    case True
    then show ?thesis
      using "1.prems" b64Quad_not_tail [OF True] by (simp add: b64Encode_Cons3 b64Encode_short)
  next
    case False
    then obtain a' b' c' t' where t: "t = a' # b' # c' # t'"
      by (cases t rule: b64Groups.cases) auto
    have "b64Quad a b c = b64Quad a' b' c' \<and> b64Encode s = b64Encode t'"
      using "1.prems" by (simp add: t b64Encode_Cons3 b64Quad_def)
    then show ?thesis using "1.IH" by (simp add: t b64Quad_inject)
  qed
qed (rule b64Encode_inject_short; simp)+

section \<open>The stream that is hashed\<close>

lemmas b64_no_sep = b64_digits [THEN b64Char_not_special, THEN conjunct1]
  b64_digits [THEN b64Char_not_special, THEN conjunct1, THEN not_sym]

lemma b64Groups_no_sep: "CHR '':'' \<notin> set (fst (b64Groups s))"
  by (induction s rule: b64Groups.induct) (auto simp: b64Quad_def b64_no_sep split: prod.splits)

lemma b64Tail_no_sep: "CHR '':'' \<notin> set (b64Tail s)"
  by (cases s rule: b64Tail.cases) (simp_all add: b64_no_sep)

lemma filter_no_sep: "CHR '':'' \<notin> set s \<Longrightarrow> filter (\<lambda>c. c \<noteq> CHR '':'') s = s"
  by (auto simp: filter_id_conv)

lemma b64Groups_idle: "length buf < 3 \<Longrightarrow> b64Groups buf = ([], buf)"
  by (cases buf rule: b64Groups.cases) auto

lemma writePieces_filter:
  "length buf < 3 \<Longrightarrow> writePieces buf ps = (out, left) \<Longrightarrow>
     b64Groups (buf @ concat ps) = (filter (\<lambda>c. c \<noteq> CHR '':'') out, left)"
proof (induction ps arbitrary: buf out left)
  case Nil
  then show ?case by (simp add: b64Groups_idle)
next
  case (Cons p ps)
  obtain o1 l1 where one: "b64Groups (buf @ p) = (o1, l1)" by (cases "b64Groups (buf @ p)")
  obtain o2 l2 where two: "writePieces l1 ps = (o2, l2)" by (cases "writePieces l1 ps")
  have "length l1 < 3" using b64Groups_left [of "buf @ p"] one by simp
  from Cons.IH [OF this two]
  have "b64Groups (l1 @ concat ps) = (filter (\<lambda>c. c \<noteq> CHR '':'') o2, l2)" .
  moreover have "filter (\<lambda>c. c \<noteq> CHR '':'') o1 = o1"
    using b64Groups_no_sep [of "buf @ p"] one by (intro filter_no_sep) simp
  ultimately show ?case
    using Cons.prems(2) b64Groups_append [of "buf @ p" "concat ps"] one two
    by (auto simp: encoderWrite_def)
qed

definition groupsOut :: "string \<Rightarrow> string" where
  "groupsOut s = fst (b64Groups s)"

lemma goKeys_mapLit1: "goKeys (mapLit [(k, v)]) = [k]"
  by (simp add: goKeys_def mapLit_def sorted_list_of_fset.rep_eq)

lemma checksumStream_single:
  "checksumStream (mapLit [(k, v)]) =
     (let g = groupsOut (k @ v); n = 4 * (length k div 3)
      in take n g @ '':'' @ drop n g @ '':'' @ b64Tail (snd (b64Groups (k @ v))))"
proof -
  obtain o1 l1 where one: "b64Groups k = (o1, l1)" by (cases "b64Groups k")
  obtain o2 l2 where two: "b64Groups (l1 @ v) = (o2, l2)" by (cases "b64Groups (l1 @ v)")
  have n: "4 * (length k div 3) = length o1" using b64Groups_length [of k] one by simp
  have kv: "b64Groups (k @ v) = (o1 @ o2, l2)" using b64Groups_append [of k v] one two by simp
  show ?thesis
    unfolding n
    using one two kv
    by (simp add: checksumStream_def mapPieces_def goKeys_mapLit1 encoderWrite_def groupsOut_def)
qed

lemma checksum_stream_filter:
  "filter (\<lambda>c. c \<noteq> CHR '':'') (checksumStream m) = b64Encode (concat (mapPieces m))"
proof -
  obtain out left where w: "writePieces [] (mapPieces m) = (out, left)"
    by (cases "writePieces [] (mapPieces m)")
  then show ?thesis
    using writePieces_filter [of "[]" "mapPieces m" out left] b64Tail_no_sep [of left]
    by (simp add: checksumStream_def b64Encode_def filter_no_sep)
qed

lemma checksum_stream_filter_eq:
  "checksumStream m = checksumStream n \<Longrightarrow>
     b64Encode (concat (mapPieces m)) = b64Encode (concat (mapPieces n))"
  by (metis checksum_stream_filter)

lemma checksumStream_single_iff:
  "checksumStream (mapLit [(k, v)]) = checksumStream (mapLit [(k', v')]) \<longleftrightarrow>
     k @ v = k' @ v' \<and> length k div 3 = length k' div 3" (is "?L \<longleftrightarrow> ?R")
proof
  assume eq: ?L
  have pieces: "concat (mapPieces (mapLit [(x, y)])) = x @ y" for x y :: string
    by (simp add: mapPieces_def goKeys_mapLit1)
  from eq have "b64Encode (k @ v) = b64Encode (k' @ v')"
    using checksum_stream_filter_eq by (metis pieces)
  then have kv: "k @ v = k' @ v'" by (rule b64Encode_inject)
  let ?a = "take (4 * (length k div 3)) (groupsOut (k @ v))"
  let ?a' = "take (4 * (length k' div 3)) (groupsOut (k' @ v'))"
  have a: "CHR '':'' \<notin> set ?a" "CHR '':'' \<notin> set ?a'"
    using b64Groups_no_sep by (auto simp: groupsOut_def dest: in_set_takeD)
  have "?a = ?a'"
    using eq unfolding checksumStream_single Let_def append_Cons append_Nil
    by (simp only: separated_eq_iff [OF a])
  then have "length ?a = length ?a'" by (rule arg_cong)
  moreover have "length ?a = 4 * (length k div 3)" "length ?a' = 4 * (length k' div 3)"
    by (auto simp: groupsOut_def b64Groups_length div_le_mono)
  ultimately show ?R using kv by simp
next
  assume ?R
  then show ?L unfolding checksumStream_single Let_def by metis
qed

text \<open>For a fixed key the stream determines the value.\<close>

lemma checksumStream_same_key:
  "checksumStream (mapLit [(k, v)]) = checksumStream (mapLit [(k, w)]) \<longleftrightarrow> v = w"
  by (simp add: checksumStream_single_iff)

section \<open>The digest\<close>

lemma sha256Round_length: "length (sha256Round st kw) = length st"
  by (cases "(st, kw)" rule: sha256Round.cases) (auto simp: Let_def)

lemma sha256Rounds_length: "length (foldl sha256Round st kws) = length st"
  by (induction kws arbitrary: st) (simp_all add: sha256Round_length)

lemma sha256Block_length: "length (sha256Block st blk) = length st"
  by (simp add: sha256Block_def sha256Rounds_length)

lemma sha256Blocks_length: "length (sha256Blocks n st s) = length st"
  by (induction n st s rule: sha256Blocks.induct) (simp_all add: sha256Block_length)

lemma concat_length: "(\<And>x. x \<in> set xs \<Longrightarrow> length (f x) = n) \<Longrightarrow> length (concat (map f xs)) = n * length xs"
  by (induction xs) auto

lemma sha256_length: "length (sha256 s) = 32"
proof -
  have "length (beBytes 4 (uint w)) = 4" for w :: "32 word" by (simp add: beBytes_def)
  moreover have "length (take 8 smallPrimes) = 8" by code_simp
  ultimately show ?thesis
    by (simp add: sha256_def Let_def concat_length [of _ _ 4] sha256Blocks_length sha256H0_def)
qed

lemma hexDigit_set: "n < 16 \<Longrightarrow> hexDigit n \<in> set ''0123456789abcdef''"
proof -
  assume "n < 16"
  moreover have "\<forall>i \<in> set [0 ..< 16]. hexDigit i \<in> set ''0123456789abcdef''" by code_simp
  ultimately show ?thesis by simp
qed

lemma hexBytes_shape:
  "length (hexBytes bs) = 2 * length bs \<and> set (hexBytes bs) \<subseteq> set ''0123456789abcdef''"
proof -
  define H where "H = set ''0123456789abcdef''"
  have "byte b div 16 < 16" for b
    using byte_less [of b] by (simp add: div_less_iff_less_mult)
  then have "hexDigit (byte b div 16) \<in> H" for b unfolding H_def by (rule hexDigit_set)
  moreover have "hexDigit (byte b mod 16) \<in> H" for b unfolding H_def by (rule hexDigit_set) simp
  ultimately have "length (hexBytes bs) = 2 * length bs \<and> set (hexBytes bs) \<subseteq> H"
    unfolding hexBytes_def by (induction bs) auto
  then show ?thesis by (simp only: H_def)
qed

section \<open>Properties\<close>

text \<open>
  The separators are not part of the encoding: with the colons removed, the hashed stream is
  the Base64 text of all keys and values run together.
\<close>

theorem checksum_stream_without_separators:
  "filter (\<lambda>c. c \<noteq> CHR '':'') (checksumStream m) = b64Encode (concat (mapPieces m))"
  by (rule checksum_stream_filter)

text \<open>
  C38: for one-entry maps the hashed stream determines the key and the value only up to where one
  ends and the other begins: it is the same exactly when key and value run together are the same
  and the two keys have the same number of full three-byte groups. Maps such as
  \<open>{ab: c}\<close> and \<open>{a: bc}\<close> therefore have the same checksum, which the separators of the Go code
  are there to rule out.
\<close>

theorem checksum_stream_single_entry:
  "(checksumStream (mapLit [(k, v)]) = checksumStream (mapLit [(k', v')]) \<longleftrightarrow>
      k @ v = k' @ v' \<and> length k div 3 = length k' div 3) \<and>
   checksumMap (mapLit [(''ab'', ''c'')]) = checksumMap (mapLit [(''a'', ''bc'')])"
proof -
  have "checksumStream (mapLit [(''ab'', ''c'')]) = checksumStream (mapLit [(''a'', ''bc'')])"
    unfolding checksumStream_single_iff by simp
  then have "checksumMap (mapLit [(''ab'', ''c'')]) = checksumMap (mapLit [(''a'', ''bc'')])"
    unfolding checksumMap_def by (rule arg_cong)
  then show ?thesis by (simp add: checksumStream_single_iff)
qed

text \<open>
  A checksum is 64 lower-case hexadecimal digits, so it always is a valid annotation value.
\<close>

theorem checksum_is_hex_digest:
  "length (checksumMap m) = 64 \<and> set (checksumMap m) \<subseteq> set ''0123456789abcdef''"
  unfolding checksumMap_def using hexBytes_shape sha256_length by simp

end
