(* ===== verification/Conditions.thy ===== *)
theory Conditions
  imports Client
begin

text \<open>
  Status conditions: \<open>SetStatusCondition\<close> of the vendored package
  \<open>openshift/custom-resource-status/conditions/v1\<close>, the operator's condition types
  (\<open>api/v1/updateservice_types.go\<close>) and its two helpers \<open>handleErr\<close> and
  \<open>handleCACertStatus\<close> (\<open>controllers/updateservice_controller.go\<close>). Log output is not modelled.
\<close>

section \<open>Definitions\<close>

definition ConditionReconcileCompleted :: string where
  "ConditionReconcileCompleted = ''ReconcileCompleted''"

definition ConditionRegistryCACertFound :: string where
  "ConditionRegistryCACertFound = ''RegistryCACertFound''"

definition ConditionReconcileError :: string where
  "ConditionReconcileError = ''ReconcileError''"

definition ConditionTrue :: string where "ConditionTrue = ''True''"
definition ConditionFalse :: string where "ConditionFalse = ''False''"

lemmas condition_consts = ConditionReconcileCompleted_def ConditionRegistryCACertFound_def
  ConditionReconcileError_def ConditionTrue_def ConditionFalse_def

text \<open>A condition literal: the two times are left zero.\<close>

definition newCondition :: "string \<Rightarrow> string \<Rightarrow> string \<Rightarrow> string \<Rightarrow> condition" where
  "newCondition ty status reason message =
     \<lparr>cond_Type = ty, cond_Status = status, cond_Reason = reason, cond_Message = message,
      cond_LastHeartbeatTime = 0, cond_LastTransitionTime = 0\<rparr>"

definition FindStatusCondition :: "condition list \<Rightarrow> string \<Rightarrow> condition option" where
  "FindStatusCondition cs ty = find (\<lambda>c. cond_Type c = ty) cs"

text \<open>Writing through the pointer that \<open>FindStatusCondition\<close> returned.\<close>

fun replaceFound :: "string \<Rightarrow> condition \<Rightarrow> condition list \<Rightarrow> condition list" where
  "replaceFound ty c [] = []"
| "replaceFound ty c (x # xs) = (if cond_Type x = ty then c # xs else x # replaceFound ty c xs)"

definition SetStatusCondition :: "'w reconciler \<Rightarrow> condition \<Rightarrow> ('w sess, unit) state" where
  "SetStatusCondition r new = do {
     st \<leftarrow> getStatus;
     (case FindStatusCondition (us_Conditions st) (cond_Type new) of
        None \<Rightarrow> do {
          t1 \<leftarrow> timeNow r;
          t2 \<leftarrow> timeNow r;
          putStatus (st\<lparr>us_Conditions := us_Conditions st @
            [new\<lparr>cond_LastTransitionTime := t1, cond_LastHeartbeatTime := t2\<rparr>]\<rparr>)
        }
      | Some old \<Rightarrow> do {
          old1 \<leftarrow> (if cond_Status old \<noteq> cond_Status new then do {
                     t \<leftarrow> timeNow r;
                     return (old\<lparr>cond_Status := cond_Status new, cond_LastTransitionTime := t\<rparr>)
                   } else return old);
          t \<leftarrow> timeNow r;
          putStatus (st\<lparr>us_Conditions := replaceFound (cond_Type new)
            (old1\<lparr>cond_Reason := cond_Reason new, cond_Message := cond_Message new,
                  cond_LastHeartbeatTime := t\<rparr>) (us_Conditions st)\<rparr>)
        })
   }"

definition handleErr :: "'w reconciler \<Rightarrow> string \<Rightarrow> go_error \<Rightarrow> ('w sess, unit) state" where
  "handleErr r reason e =
     SetStatusCondition r
       (newCondition ConditionReconcileCompleted ConditionFalse reason (err_Text e))"

definition handleCACertStatus :: "'w reconciler \<Rightarrow> string \<Rightarrow> string \<Rightarrow> ('w sess, unit) state" where
  "handleCACertStatus r reason message =
     SetStatusCondition r
       (newCondition ConditionRegistryCACertFound ConditionFalse reason message)"

section \<open>Lemmas\<close>

lemma newCondition_simps [simp]:
  "cond_Type (newCondition ty st re me) = ty" "cond_Status (newCondition ty st re me) = st"
  "cond_Reason (newCondition ty st re me) = re" "cond_Message (newCondition ty st re me) = me"
  by (simp_all add: newCondition_def)

text \<open>The status of a condition type in a list, as a reader of the resource sees it.\<close>

definition statusOf :: "us_status \<Rightarrow> string \<Rightarrow> string option" where
  "statusOf st ty = map_option cond_Status (FindStatusCondition (us_Conditions st) ty)"

definition conditionTypesDistinct :: "us_status \<Rightarrow> bool" where
  "conditionTypesDistinct st \<longleftrightarrow> distinct (map cond_Type (us_Conditions st))"

lemma find_replaceFound:
  "find (\<lambda>c. cond_Type c = ty') (replaceFound ty c xs) =
     (if ty = ty' \<and> find (\<lambda>c. cond_Type c = ty) xs \<noteq> None \<and> cond_Type c = ty then Some c
      else if ty = ty' \<and> find (\<lambda>c. cond_Type c = ty) xs = None then None
      else if cond_Type c = ty then find (\<lambda>c. cond_Type c = ty') xs
      else find (\<lambda>c. cond_Type c = ty') (replaceFound ty c xs))"
  by (induction xs) auto

lemma types_replaceFound: "cond_Type c = ty \<Longrightarrow> map cond_Type (replaceFound ty c xs) = map cond_Type xs"
  by (induction xs) auto

lemma find_type: "find (\<lambda>c. cond_Type c = ty) xs = Some c \<Longrightarrow> cond_Type c = ty"
  by (auto simp: find_Some_iff)

lemma FindStatusCondition_type: "FindStatusCondition cs ty = Some c \<Longrightarrow> cond_Type c = ty"
  unfolding FindStatusCondition_def by (rule find_type)

text \<open>
  The effect of setting a condition, relative to the status before: what is found afterwards
  under each type, the other fields, the list of types and the requests.
\<close>

definition conditionSet :: "condition \<Rightarrow> 'w sess \<Rightarrow> 'w sess \<Rightarrow> bool" where
  "conditionSet new s s' \<longleftrightarrow>
     se_calls s' = se_calls s \<and>
     us_PolicyEngineURI (se_status s') = us_PolicyEngineURI (se_status s) \<and>
     (\<forall>ty. ty \<noteq> cond_Type new \<longrightarrow>
        FindStatusCondition (us_Conditions (se_status s')) ty =
        FindStatusCondition (us_Conditions (se_status s)) ty) \<and>
     (\<exists>c. FindStatusCondition (us_Conditions (se_status s')) (cond_Type new) = Some c \<and>
        cond_Status c = cond_Status new \<and> cond_Reason c = cond_Reason new \<and>
        cond_Message c = cond_Message new \<and>
        (\<forall>old. FindStatusCondition (us_Conditions (se_status s)) (cond_Type new) = Some old \<longrightarrow>
           cond_Status old = cond_Status new \<longrightarrow>
           cond_LastTransitionTime c = cond_LastTransitionTime old)) \<and>
     map cond_Type (us_Conditions (se_status s')) =
       (let tys = map cond_Type (us_Conditions (se_status s))
        in if cond_Type new \<in> set tys then tys else tys @ [cond_Type new])"

lemma find_snoc: "find P (xs @ [x]) = (case find P xs of None \<Rightarrow> if P x then Some x else None | Some y \<Rightarrow> Some y)"
  by (induction xs) auto

lemma find_type_in:
  "find (\<lambda>c. cond_Type c = ty) xs = Some c \<Longrightarrow> ty \<in> set (map cond_Type xs)"
  "find (\<lambda>c. cond_Type c = ty) xs = None \<Longrightarrow> ty \<notin> set (map cond_Type xs)"
  by (auto simp: find_Some_iff find_None_iff)

lemma SetStatusCondition_effect:
  "run_state (SetStatusCondition r new) s = ((), s') \<Longrightarrow> conditionSet new s s'"
proof (cases "FindStatusCondition (us_Conditions (se_status s)) (cond_Type new)")
  case None
  then have absent: "cond_Type new \<notin> set (map cond_Type (us_Conditions (se_status s)))"
    unfolding FindStatusCondition_def by (rule find_type_in)
  assume "run_state (SetStatusCondition r new) s = ((), s')"
  with None absent show ?thesis
    by (auto simp: SetStatusCondition_def getStatus_def timeNow_def putStatus_def conditionSet_def
        FindStatusCondition_def find_snoc split: prod.splits option.splits)
next
  case (Some old)
  have ty: "cond_Type old = cond_Type new" by (rule FindStatusCondition_type [OF Some])
  have present: "cond_Type new \<in> set (map cond_Type (us_Conditions (se_status s)))"
    using Some unfolding FindStatusCondition_def by (rule find_type_in)
  assume "run_state (SetStatusCondition r new) s = ((), s')"
  with Some ty present show ?thesis
    by (auto simp: SetStatusCondition_def getStatus_def timeNow_def putStatus_def conditionSet_def
        FindStatusCondition_def find_replaceFound types_replaceFound
        split: prod.splits if_splits)
qed

lemma SetStatusCondition_run:
  "\<exists>s'. run_state (SetStatusCondition r new) s = ((), s') \<and> conditionSet new s s'"
  using SetStatusCondition_effect [of r new s "snd (run_state (SetStatusCondition r new) s)"]
  by (metis old.unit.exhaust prod.collapse)

lemma keeps_SetStatusCondition [triple_intro]:
  "keeps (callsOK P) (SetStatusCondition r new)"
  by (rule keepsI) (auto dest: SetStatusCondition_effect simp: conditionSet_def callsOK_def)

lemma keeps_handleErr [triple_intro]: "keeps (callsOK P) (handleErr r reason e)"
  unfolding handleErr_def by (rule keeps_SetStatusCondition)

lemma keeps_handleCACertStatus [triple_intro]:
  "keeps (callsOK P) (handleCACertStatus r reason m)"
  unfolding handleCACertStatus_def by (rule keeps_SetStatusCondition)

end
