(* ===== verification/OwnerRefs.thy ===== *)
theory OwnerRefs
  imports Client
begin

text \<open>
  \<open>controllerutil.SetControllerReference\<close> of the vendored controller-runtime, with the helpers it
  calls, for an UpdateService as the owner. The object whose owner references it sets is given
  and returned as its metadata.
\<close>

section \<open>Definitions\<close>

definition ParseGroupVersion :: "string \<Rightarrow> (string \<times> string) option" where
  "ParseGroupVersion gv =
     (if gv = [] \<or> gv = ''/'' then Some ([], [])
      else case Cut (CHR ''/'') gv of
          None \<Rightarrow> Some ([], gv)
        | Some (g, v) \<Rightarrow> if CHR ''/'' \<in> set v then None else Some (g, v))"

definition referSameObject :: "owner_ref \<Rightarrow> owner_ref \<Rightarrow> bool" where
  "referSameObject a b =
     (case (ParseGroupVersion (or_APIVersion a), ParseGroupVersion (or_APIVersion b)) of
        (Some (ag, av), Some (bg, bv)) \<Rightarrow>
          ag = bg \<and> or_Kind a = or_Kind b \<and> or_Name a = or_Name b
      | _ \<Rightarrow> False)"

definition validateOwner :: "object_meta \<Rightarrow> object_meta \<Rightarrow> go_error option" where
  "validateOwner owner ob =
     (let ownerNs = om_Namespace owner; objNs = om_Namespace ob in
      if ownerNs \<noteq> [] \<and> objNs = [] then
        Some (PlainError (''cluster-scoped resource must not have a namespace-scoped owner, owner'' @
          [CHR 0x27] @ ''s namespace '' @ ownerNs))
      else if ownerNs \<noteq> [] \<and> ownerNs \<noteq> objNs then
        Some (PlainError (''cross-namespace owner references are disallowed, owner'' @
          [CHR 0x27] @ ''s namespace '' @ ownerNs @ '', obj'' @ [CHR 0x27] @ ''s namespace '' @ objNs))
      else None)"

text \<open>\<open>apiutil.GVKForObject\<close>: the kinds the scheme has registered for the owner's Go type.\<close>

definition GVKForObject ::
    "group_version_kind list \<Rightarrow> update_service \<Rightarrow> go_error + group_version_kind" where
  "GVKForObject gvks owner =
     (case gvks of
        [] \<Rightarrow> Inl (PlainError ''no GroupVersionKind associated with the Go type'')
      | [g] \<Rightarrow> Inr g
      | _ \<Rightarrow> if us_gvk owner \<in> set gvks \<and>
                us_gvk owner \<noteq> \<lparr>gvk_Group = [], gvk_Version = [], gvk_Kind = []\<rparr>
             then Inr (us_gvk owner)
             else Inl (PlainError ''multiple GroupVersionKinds associated with the Go type''))"

definition groupVersionString :: "group_version_kind \<Rightarrow> string" where
  "groupVersionString g =
     (if gvk_Group g \<noteq> [] then gvk_Group g @ ''/'' @ gvk_Version g else gvk_Version g)"

definition GetControllerOf :: "owner_ref list \<Rightarrow> owner_ref option" where
  "GetControllerOf refs = find (\<lambda>ref. or_Controller ref = Some True) refs"

fun upsertOwnerRef :: "owner_ref \<Rightarrow> owner_ref list \<Rightarrow> owner_ref list" where
  "upsertOwnerRef ref [] = [ref]"
| "upsertOwnerRef ref (x # xs) =
     (if referSameObject x ref then ref # xs else x # upsertOwnerRef ref xs)"

definition controllerRef :: "group_version_kind \<Rightarrow> update_service \<Rightarrow> owner_ref" where
  "controllerRef gvk owner =
     \<lparr>or_APIVersion = groupVersionString gvk, or_Kind = gvk_Kind gvk,
      or_Name = instName owner, or_UID = om_UID (us_meta owner),
      or_Controller = Some True, or_BlockOwnerDeletion = Some True\<rparr>"

definition alreadyOwnedError :: "object_meta \<Rightarrow> owner_ref \<Rightarrow> go_error" where
  "alreadyOwnedError ob owner =
     PlainError (''Object '' @ om_Namespace ob @ ''/'' @ om_Name ob @
       '' is already owned by another '' @ or_Kind owner @ '' controller '' @ or_Name owner)"

definition SetControllerReference ::
    "group_version_kind list \<Rightarrow> update_service \<Rightarrow> object_meta \<Rightarrow> go_error + object_meta" where
  "SetControllerReference scheme owner controlled =
     (case validateOwner (us_meta owner) controlled of
        Some e \<Rightarrow> Inl e
      | None \<Rightarrow>
          (case GVKForObject scheme owner of
             Inl e \<Rightarrow> Inl e
           | Inr gvk \<Rightarrow>
               (let ref = controllerRef gvk owner in
                case GetControllerOf (om_OwnerReferences controlled) of
                  Some existing \<Rightarrow>
                    if \<not> referSameObject existing ref then Inl (alreadyOwnedError controlled existing)
                    else Inr (controlled\<lparr>om_OwnerReferences :=
                                upsertOwnerRef ref (om_OwnerReferences controlled)\<rparr>)
                | None \<Rightarrow> Inr (controlled\<lparr>om_OwnerReferences :=
                            upsertOwnerRef ref (om_OwnerReferences controlled)\<rparr>))))"

section \<open>Lemmas\<close>

definition controlledBy :: "update_service \<Rightarrow> object_meta \<Rightarrow> bool" where
  "controlledBy owner m \<longleftrightarrow>
     (\<exists>ref \<in> set (om_OwnerReferences m).
        or_Controller ref = Some True \<and> or_Name ref = instName owner \<and>
        or_UID ref = om_UID (us_meta owner))"

lemma upsertOwnerRef_mem: "ref \<in> set (upsertOwnerRef ref refs)"
  by (induction refs) auto

lemma SetControllerReference_Inr:
  assumes "SetControllerReference scheme owner m = Inr m'"
  shows "controlledBy owner m'"
    and "\<exists>refs. m' = m\<lparr>om_OwnerReferences := refs\<rparr>"
    and "om_Namespace (us_meta owner) = [] \<or> om_Namespace m' = om_Namespace (us_meta owner)"
proof -
  from assms obtain gvk where v: "validateOwner (us_meta owner) m = None"
    and m': "m' = m\<lparr>om_OwnerReferences :=
               upsertOwnerRef (controllerRef gvk owner) (om_OwnerReferences m)\<rparr>"
    by (auto simp: SetControllerReference_def Let_def split: option.splits sum.splits if_splits)
  show "controlledBy owner m'"
    unfolding controlledBy_def m'
    by (rule bexI [where x = "controllerRef gvk owner"])
      (simp_all add: upsertOwnerRef_mem controllerRef_def)
  show "\<exists>refs. m' = m\<lparr>om_OwnerReferences := refs\<rparr>" using m' by blast
  show "om_Namespace (us_meta owner) = [] \<or> om_Namespace m' = om_Namespace (us_meta owner)"
    using v by (auto simp: m' validateOwner_def Let_def split: if_splits)
qed

lemma SetControllerReference_keeps:
  assumes "SetControllerReference scheme owner m = Inr m'"
  shows "keyOf m' = keyOf m" "om_Labels m' = om_Labels m" "om_Annotations m' = om_Annotations m"
  using SetControllerReference_Inr(2) [OF assms] by (auto simp: keyOf_def)

text \<open>For a fresh object in the owner's namespace the call succeeds.\<close>

lemma SetControllerReference_fresh:
  assumes "om_Namespace m = instNamespace owner" and "om_OwnerReferences m = []"
  shows "SetControllerReference [gvk] owner m =
           Inr (m\<lparr>om_OwnerReferences := [controllerRef gvk owner]\<rparr>)"
  using assms by (simp add: SetControllerReference_def validateOwner_def GVKForObject_def
      GetControllerOf_def Let_def)

end
