(* ===== verification/Template.thy ===== *)
theory Template
  imports GoStrings
begin

text \<open>
  The part of \<open>text/template\<close> that \<open>newGraphBuilderConfig\<close> of \<open>controllers/new.go\<close> uses, templates
  whose only actions are fields of the data (\<open>{{.Name}}\<close>), and the operator's template
  \<open>graphBuilderTOML\<close>. Parsing and execution fail as in Go; that they cannot fail on the operator's
  template is a lemma below.
\<close>

section \<open>Definitions\<close>

datatype template_node = TextNode string | FieldNode string

text \<open>The text before and after the first two \<open>c\<close> in a row.\<close>

fun cutDouble :: "char \<Rightarrow> string \<Rightarrow> (string \<times> string) option" where
  "cutDouble c (x # y # s) =
     (if x = c \<and> y = c then Some ([], s)
      else map_option (\<lambda>(a, b). (x # a, b)) (cutDouble c (y # s)))"
| "cutDouble c s = None"

lemma cutDouble_length: "cutDouble c s = Some (a, b) \<Longrightarrow> length b < length s"
  by (induction c s arbitrary: a b rule: cutDouble.induct) (fastforce split: if_splits)+

definition isField :: "string \<Rightarrow> bool" where
  "isField a \<longleftrightarrow> a \<noteq> [] \<and> hd a = CHR ''.'' \<and> tl a \<noteq> [] \<and>
     list_all (\<lambda>c. isLower c \<or> isUpper c \<or> isDigit c \<or> c = CHR ''_'') (tl a) \<and> \<not> isDigit (hd (tl a))"

function parseTemplate :: "string \<Rightarrow> template_node list option" where
  "parseTemplate s =
     (case cutDouble (CHR ''{'') s of
        None \<Rightarrow> Some [TextNode s]
      | Some (t, r) \<Rightarrow>
          (case cutDouble (CHR ''}'') r of
             None \<Rightarrow> None
           | Some (a, r') \<Rightarrow>
               if isField a then
                 map_option (\<lambda>ns. TextNode t # FieldNode (tl a) # ns) (parseTemplate r')
               else None))"
  by auto
termination
  by (relation "measure length") (auto dest!: cutDouble_length)

declare parseTemplate.simps [simp del]

fun executeTemplate :: "(string \<Rightarrow> string option) \<Rightarrow> template_node list \<Rightarrow> string option" where
  "executeTemplate data [] = Some []"
| "executeTemplate data (TextNode t # ns) = map_option ((@) t) (executeTemplate data ns)"
| "executeTemplate data (FieldNode f # ns) =
     (case data f of
        None \<Rightarrow> None
      | Some v \<Rightarrow> map_option ((@) v) (executeTemplate data ns))"

section \<open>The graph-builder's configuration\<close>

record graphBuilderProperties =
  Registry :: string
  Repository :: string

definition fieldOf :: "graphBuilderProperties \<Rightarrow> string \<Rightarrow> string option" where
  "fieldOf p f =
     (if f = ''Registry'' then Some (Registry p)
      else if f = ''Repository'' then Some (Repository p) else None)"

text \<open>A text in double quotes.\<close>

definition dq :: "string \<Rightarrow> string" where
  "dq s = [CHR 0x22] @ s @ [CHR 0x22]"

text \<open>The lines of the template before, between and after the two that hold an action.\<close>

definition tomlHead :: "string list" where
  "tomlHead =
     [''verbosity = '' @ dq ''vvv'',
      '''',
      ''[service]'',
      ''pause_secs = 300'',
      ''address = '' @ dq ''::'',
      ''port = 8080'',
      '''',
      ''[status]'',
      ''address = '' @ dq ''::'',
      ''port = 9080'',
      '''',
      ''[[plugin_settings]]'',
      ''name = '' @ dq ''release-scrape-dockerv2'']"

definition tomlTail :: "string list" where
  "tomlTail =
     [''fetch_concurrency = 16'',
      ''credentials_path = '' @ dq ''/var/lib/cincinnati/registry-credentials/.dockerconfigjson'',
      '''',
      ''[[plugin_settings]]'',
      ''name = '' @ dq ''openshift-secondary-metadata-parse'',
      ''data_directory = '' @ dq ''/var/lib/cincinnati/graph-data'',
      '''',
      ''[[plugin_settings]]'',
      ''name = '' @ dq ''edge-add-remove'']"

definition tomlLines :: "string \<Rightarrow> string \<Rightarrow> string list" where
  "tomlLines registry repository =
     tomlHead @ [''registry = '' @ dq registry, ''repository = '' @ dq repository] @ tomlTail"

definition graphBuilderTOML :: string where
  "graphBuilderTOML = joinWith (CHR 0x0A) (tomlLines ''{{.Registry}}'' ''{{.Repository}}'')"

definition renderTOML :: "graphBuilderProperties \<Rightarrow> string option" where
  "renderTOML p =
     (case parseTemplate graphBuilderTOML of
        None \<Rightarrow> None
      | Some ns \<Rightarrow> executeTemplate (fieldOf p) ns)"

section \<open>Rendering the configuration\<close>

lemma cutDouble_append:
  "c \<notin> set a \<Longrightarrow> cutDouble c (a @ c # c # b) = Some (a, b)"
proof (induction a)
  case (Cons x a)
  then show ?case by (cases a) auto
qed simp

lemma cutDouble_absent: "c \<notin> set s \<Longrightarrow> cutDouble c s = None"
  by (induction c s rule: cutDouble.induct) auto

lemma parseTemplate_field:
  assumes "CHR ''{'' \<notin> set t" and "CHR ''}'' \<notin> set f" and "isField (CHR ''.'' # f)"
  shows "parseTemplate (t @ ''{{.'' @ f @ ''}}'' @ r) =
           map_option (\<lambda>ns. TextNode t # FieldNode f # ns) (parseTemplate r)"
  using assms cutDouble_append [of "CHR ''{''" t "CHR ''.'' # f @ ''}}'' @ r"]
    cutDouble_append [of "CHR ''}''" "CHR ''.'' # f" r]
  by (subst parseTemplate.simps) simp

lemma parseTemplate_text: "CHR ''{'' \<notin> set t \<Longrightarrow> parseTemplate t = Some [TextNode t]"
  by (subst parseTemplate.simps) (simp add: cutDouble_absent)

lemma joinWith_append:
  "ps \<noteq> [] \<Longrightarrow> qs \<noteq> [] \<Longrightarrow> joinWith c (ps @ qs) = joinWith c ps @ c # joinWith c qs"
proof (induction ps)
  case (Cons p ps)
  then show ?case by (cases "ps = []") (simp_all add: joinWith_Cons)
qed simp

text \<open>The template and everything rendered from it have one shape.\<close>

definition tomlPrefix :: string where
  "tomlPrefix = joinWith (CHR 0x0A) tomlHead @ [CHR 0x0A] @ ''registry = '' @ [CHR 0x22]"

definition tomlMiddle :: string where
  "tomlMiddle = [CHR 0x22, CHR 0x0A] @ ''repository = '' @ [CHR 0x22]"

definition tomlSuffix :: string where
  "tomlSuffix = [CHR 0x22, CHR 0x0A] @ joinWith (CHR 0x0A) tomlTail"

lemma toml_shape:
  "joinWith (CHR 0x0A) (tomlLines reg repo) = tomlPrefix @ reg @ tomlMiddle @ repo @ tomlSuffix"
proof -
  have ne: "tomlHead \<noteq> []" "tomlTail \<noteq> []" by (simp_all add: tomlHead_def tomlTail_def)
  then show ?thesis
    by (simp add: tomlLines_def joinWith_append joinWith_Cons tomlPrefix_def tomlMiddle_def
        tomlSuffix_def dq_def)
qed

lemma toml_no_brace:
  "CHR ''{'' \<notin> set tomlPrefix" "CHR ''{'' \<notin> set tomlMiddle" "CHR ''{'' \<notin> set tomlSuffix"
  by code_simp+

lemma renderTOML_eq:
  "renderTOML p = Some (joinWith (CHR 0x0A) (tomlLines (Registry p) (Repository p)))"
proof -
  have fields: "isField ''.Registry''" "isField ''.Repository''" by code_simp+
  have "parseTemplate graphBuilderTOML =
      Some [TextNode tomlPrefix, FieldNode ''Registry'', TextNode tomlMiddle,
            FieldNode ''Repository'', TextNode tomlSuffix]"
    using parseTemplate_field [OF toml_no_brace(1), of "''Registry''"
        "tomlMiddle @ ''{{.Repository}}'' @ tomlSuffix"]
      parseTemplate_field [OF toml_no_brace(2), of "''Repository''" tomlSuffix] fields
    by (simp add: graphBuilderTOML_def toml_shape parseTemplate_text toml_no_brace(3))
  then show ?thesis by (simp add: renderTOML_def fieldOf_def toml_shape)
qed

lemma toml_inject:
  assumes "CHR 0x22 \<notin> set reg" and "CHR 0x22 \<notin> set reg'"
  shows "tomlLines reg repo = tomlLines reg' repo' \<longleftrightarrow> reg = reg' \<and> repo = repo'"
    and "joinWith (CHR 0x0A) (tomlLines reg repo) = joinWith (CHR 0x0A) (tomlLines reg' repo') \<longleftrightarrow>
           reg = reg' \<and> repo = repo'"
proof -
  show "tomlLines reg repo = tomlLines reg' repo' \<longleftrightarrow> reg = reg' \<and> repo = repo'"
    by (simp add: tomlLines_def dq_def)
  have "reg @ tomlMiddle @ repo = reg' @ tomlMiddle @ repo' \<longleftrightarrow> reg = reg' \<and> repo = repo'"
  proof
    assume eq: "reg @ tomlMiddle @ repo = reg' @ tomlMiddle @ repo'"
    have mid: "x @ tomlMiddle @ y = x @ CHR 0x22 # tl tomlMiddle @ y" for x y
      by (simp add: tomlMiddle_def)
    from eq show "reg = reg' \<and> repo = repo'"
      unfolding mid separated_eq_iff [OF assms] by simp
  qed simp
  moreover have "tomlPrefix @ reg @ tomlMiddle @ repo @ tomlSuffix =
        tomlPrefix @ reg' @ tomlMiddle @ repo' @ tomlSuffix \<longleftrightarrow>
      (tomlPrefix @ reg @ tomlMiddle @ repo) @ tomlSuffix =
        (tomlPrefix @ reg' @ tomlMiddle @ repo') @ tomlSuffix"
    by (simp only: append_assoc)
  ultimately show "joinWith (CHR 0x0A) (tomlLines reg repo) =
        joinWith (CHR 0x0A) (tomlLines reg' repo') \<longleftrightarrow> reg = reg' \<and> repo = repo'"
    by (simp only: toml_shape append_same_eq same_append_eq)
qed

end
