(* ===== verification/Resources.thy ===== *)
theory Resources
  imports Egress Names Client GoHash Template
begin

text \<open>
  \<open>controllers/new.go\<close>: the objects the operator wants to see in the cluster, rendered from an
  UpdateService. Each \<open>new...\<close> function takes, besides the UpdateService, the fields of
  \<open>kubeResources\<close> that its Go counterpart reads; \<open>newKubeResources\<close> fills the record in the order
  of the Go code. \<open>getenv\<close> is the process environment.
\<close>

section \<open>Constants\<close>

definition GraphBuilderConfigHashAnnotation :: string where
  "GraphBuilderConfigHashAnnotation =
     ''updateservice.operator.openshift.io/graph-builder-config-hash''"

definition EnvConfigHashAnnotation :: string where
  "EnvConfigHashAnnotation = ''updateservice.operator.openshift.io/env-config-hash''"

definition DescriptionAnnotation :: string where
  "DescriptionAnnotation = ''kubernetes.io/description''"

definition LabelMetadataName :: string where
  "LabelMetadataName = ''kubernetes.io/metadata.name''"

definition described :: "string \<Rightarrow> string gomap" where
  "described text = mapLit [(DescriptionAnnotation, text)]"

section \<open>PodDisruptionBudget and Services\<close>

definition pdbDescription :: string where
  "pdbDescription =
     ''This PodDisruptionBudget blocks graceful evictions '' @
     ''(but cannot guard against all external disruption) '' @
     ''to try and keep at least one Pod running at all times, if the Update Service instance '' @
     ''specifies two or more replicas.''"

definition newPodDisruptionBudget :: "update_service \<Rightarrow> pdb" where
  "newPodDisruptionBudget instance =
     \<lparr>pdb_meta = (newMeta (namePodDisruptionBudget instance) (instNamespace instance))
        \<lparr>om_Annotations := described pdbDescription\<rparr>,
      pdb_Spec =
        \<lparr>ps_MinAvailable = Some (getMinAvailablePBD instance),
         ps_Selector = Some (matchLabels [(''app'', nameDeployment instance)]),
         ps_other = []\<rparr>,
      pdb_other = []\<rparr>"

definition graphBuilderServiceDescription :: string where
  "graphBuilderServiceDescription =
     ''This Service exposes a client-agnostic update graph to other clients within the cluster. '' @
     ''This allows convenient in-cluster access to those graphs, and also allows platform monitoring to '' @
     ''scrape graph-builder containers for Prometheus metrics. '' @
     ''See https://github.com/openshift/cincinnati/blob/master/docs/design/cincinnati.md#graph-builder for more details''"

definition policyEngineDescription :: string where
  "policyEngineDescription =
     ''It exposes views of the update graph by applying a set of filters '' @
     ''which are defined within the particular Policy Engine instance. '' @
     ''See https://github.com/openshift/cincinnati/blob/master/docs/design/cincinnati.md#policy-engine for more details''"

definition tcpServicePort :: "string \<Rightarrow> int32 \<Rightarrow> int32 \<Rightarrow> service_port" where
  "tcpServicePort name port target =
     \<lparr>sp_Name = name, sp_Port = port, sp_TargetPort = FromInt32 target, sp_Protocol = ''TCP'',
      sp_other = []\<rparr>"

definition newGraphBuilderService :: "update_service \<Rightarrow> service" where
  "newGraphBuilderService instance =
     (let name = nameGraphBuilderService instance in
      \<lparr>svc_meta = (newMeta name (instNamespace instance))
         \<lparr>om_Annotations := described graphBuilderServiceDescription,
          om_Labels := mapLit [(''app'', name)]\<rparr>,
       svc_Spec =
         \<lparr>ss_Type = ''ClusterIP'',
          ss_Ports = [tcpServicePort ''graph-builder'' 8080 8080,
                      tcpServicePort ''status-gb'' 9080 9080],
          ss_Selector = mapLit [(''deployment'', nameDeployment instance)],
          ss_ClusterIP = [],
          ss_SessionAffinity = ''None'',
          ss_other = []\<rparr>,
       svc_other = []\<rparr>)"

definition newPolicyEngineService :: "update_service \<Rightarrow> service" where
  "newPolicyEngineService instance =
     (let name = namePolicyEngineService instance in
      \<lparr>svc_meta = (newMeta name (instNamespace instance))
         \<lparr>om_Annotations := described policyEngineDescription,
          om_Labels := mapLit [(''app'', name)]\<rparr>,
       svc_Spec =
         \<lparr>ss_Type = ''ClusterIP'',
          ss_Ports = [tcpServicePort ''policy-engine'' 80 8081,
                      tcpServicePort ''status-pe'' 9081 9081],
          ss_Selector = mapLit [(''deployment'', nameDeployment instance)],
          ss_ClusterIP = [],
          ss_SessionAffinity = ''None'',
          ss_other = []\<rparr>,
       svc_other = []\<rparr>)"

section \<open>Routes\<close>

text \<open>The two route constructors differ in the name only; the Go code writes the body twice.\<close>

definition policyEngineRouteNamed :: "string \<Rightarrow> update_service \<Rightarrow> route" where
  "policyEngineRouteNamed name instance =
     \<lparr>route_meta = (newMeta name (instNamespace instance))
        \<lparr>om_Annotations := described policyEngineDescription,
         om_Labels := mapLit [(''app'', nameDeployment instance)]\<rparr>,
      route_Spec =
        \<lparr>rs_Port = Some (FromString ''policy-engine''),
         rs_To = \<lparr>rt_Kind = ''Service'', rt_Name = namePolicyEngineService instance,
                  rt_other = []\<rparr>,
         rs_TLS = Some \<lparr>tls_Termination = ''edge'',
                        tls_InsecureEdgeTerminationPolicy = ''None'', tls_other = []\<rparr>,
         rs_other = []\<rparr>,
      route_Ingress = [],
      route_other = []\<rparr>"

definition newPolicyEngineRoute :: "update_service \<Rightarrow> route" where
  "newPolicyEngineRoute instance =
     policyEngineRouteNamed (namePolicyEngineRoute instance) instance"

definition oldPolicyEngineRoute :: "update_service \<Rightarrow> route" where
  "oldPolicyEngineRoute instance =
     policyEngineRouteNamed (oldPolicyEngineRouteName instance) instance"

section \<open>NetworkPolicy\<close>

definition policyPort :: "string \<Rightarrow> int_or_string \<Rightarrow> np_port" where
  "policyPort protocol port =
     \<lparr>npp_Protocol = Some protocol, npp_Port = Some port, npp_other = []\<rparr>"

definition namespacePeer :: "(string \<times> string) list \<Rightarrow> np_peer" where
  "namespacePeer labels =
     \<lparr>peer_PodSelector = None, peer_NamespaceSelector = Some (matchLabels labels),
      peer_other = []\<rparr>"

definition registryEgress :: "environ \<Rightarrow> update_service \<Rightarrow> np_egress_rule" where
  "registryEgress getenv instance =
     (let ports = egressPorts getenv (us_Releases (us_Spec instance));
          ns = namespaceFromInternalHost (registryOf (us_Releases (us_Spec instance)))
      in \<lparr>eg_To = (if ns \<noteq> [] then [namespacePeer [(LabelMetadataName, ns)]] else []),
          eg_Ports = map (\<lambda>p. policyPort ''TCP'' (FromInt32 p)) ports\<rparr>)"

definition dnsEgress :: np_egress_rule where
  "dnsEgress =
     \<lparr>eg_To = [\<lparr>peer_PodSelector =
                  Some (matchLabels [(''dns.operator.openshift.io/daemonset-dns'', ''default'')]),
                peer_NamespaceSelector =
                  Some (matchLabels [(''kubernetes.io/metadata.name'', ''openshift-dns'')]),
                peer_other = []\<rparr>],
      eg_Ports = [policyPort ''TCP'' (FromInt32 5353), policyPort ''UDP'' (FromInt32 5353)]\<rparr>"

definition routerIngress :: np_ingress_rule where
  "routerIngress =
     \<lparr>ing_From = [namespacePeer [(''policy-group.network.openshift.io/ingress'', '''')]],
      ing_Ports = [policyPort ''TCP'' (FromString ''policy-engine'')]\<rparr>"

definition egressDescription :: "string \<Rightarrow> string" where
  "egressDescription ns =
     (if ns \<noteq> [] then
        ''This NetworkPolicy allows egress restricted to namespace '' @ ns @
        '' on the necessary ports, to support graph-builder scraping and DNS. ''
      else ''This NetworkPolicy allows egress restricted to the necessary ports, to support graph-builder scraping and DNS. '')"

definition ingressDescription :: string where
  "ingressDescription =
     ''It allows ingress from the router, to support serving policy-engine responses. '' @
     ''All other ingress is blocked, including, for now, metrics scraping.''"

definition newNetworkPolicy :: "environ \<Rightarrow> update_service \<Rightarrow> network_policy" where
  "newNetworkPolicy getenv instance =
     (let ns = namespaceFromInternalHost (registryOf (us_Releases (us_Spec instance))) in
      \<lparr>np_meta = (newMeta (instName instance) (instNamespace instance))
         \<lparr>om_Annotations := described (egressDescription ns @ ingressDescription),
          om_Labels := mapLit [(''app'', instName instance)]\<rparr>,
       np_Spec =
         \<lparr>nps_PodSelector = matchLabels [(''app'', nameDeployment instance)],
          nps_Ingress = [routerIngress],
          nps_Egress = [registryEgress getenv instance, dnsEgress],
          nps_other = []\<rparr>,
       np_other = []\<rparr>)"

section \<open>ConfigMaps and the pull secret\<close>

definition envDescription :: string where
  "envDescription =
     ''This ConfigMap contains the environment information shared by the containers of UpdateService''"

definition envData :: "(string \<times> string) list" where
  "envData =
     [(''gb.rust_backtrace'', ''0''),
      (''pe.address'', ''::''),
      (''pe.log.verbosity'', ''vv''),
      (''pe.mandatory_client_parameters'', ''channel''),
      (''pe.rust_backtrace'', ''0''),
      (''pe.status.address'', ''::''),
      (''pe.upstream'', ''http://localhost:8080/v1/graph''),
      (''m.rust_backtrace'', ''0'')]"

definition newEnvConfig :: "update_service \<Rightarrow> config_map" where
  "newEnvConfig instance =
     \<lparr>cm_meta = (newMeta (nameEnvConfig instance) (instNamespace instance))
        \<lparr>om_Annotations := described envDescription\<rparr>,
      cm_Data = mapLit envData,
      cm_other = []\<rparr>"

definition gbConfigDescription :: string where
  "gbConfigDescription = ''This ConfigMap contains the configuration file for the graph-builder''"

definition newGraphBuilderConfig :: "update_service \<Rightarrow> go_error + config_map" where
  "newGraphBuilderConfig instance =
     (case SplitN (CHR ''/'') (us_Releases (us_Spec instance)) 2 of
        [registry, repository] \<Rightarrow>
          (case renderTOML \<lparr>Registry = registry, Repository = repository\<rparr> of
             None \<Rightarrow> Inl (PlainError ''template: gb'')
           | Some toml \<Rightarrow>
               Inr \<lparr>cm_meta = (newMeta (nameConfig instance) (instNamespace instance))
                      \<lparr>om_Annotations := described gbConfigDescription\<rparr>,
                    cm_Data = mapLit [(''gb.toml'', toml)],
                    cm_other = []\<rparr>)
      | _ \<Rightarrow> Inl (PlainError (''failed to split '' @ Quote (us_Releases (us_Spec instance)) @
               '' into registry and repository components'')))"

definition pullSecretDescription :: string where
  "pullSecretDescription =
     ''It contains the pull credentials from the global pull secret for the cluster''"

definition newPullSecret :: "update_service \<Rightarrow> secret \<Rightarrow> secret" where
  "newPullSecret instance s =
     \<lparr>sec_meta = (newMeta (namePullSecretCopy instance) (instNamespace instance))
        \<lparr>om_Annotations := described pullSecretDescription\<rparr>,
      sec_Data = sec_Data s,
      sec_other = []\<rparr>"

definition trustedCADescription :: string where
  "trustedCADescription =
     ''This ConfigMap contains additional certificate authorities to be trusted during image registry access.''"

definition newTrustedCAConfig :: "update_service \<Rightarrow> config_map option \<Rightarrow> config_map option" where
  "newTrustedCAConfig instance cm =
     (case cm of
        None \<Rightarrow> None
      | Some c \<Rightarrow>
          Some \<lparr>cm_meta = (newMeta (nameAdditionalTrustedCA instance) (instNamespace instance))
                  \<lparr>om_Annotations := described trustedCADescription\<rparr>,
                cm_Data = cm_Data c,
                cm_other = []\<rparr>)"

definition newTrustedClusterCAConfig ::
    "environ \<Rightarrow> update_service \<Rightarrow> config_map option \<Rightarrow> config_map option" where
  "newTrustedClusterCAConfig getenv instance clusterCA =
     (if getenv ''HTTP_PROXY'' = [] \<and> getenv ''HTTPS_PROXY'' = [] \<and> getenv ''NO_PROXY'' = []
      then None
      else case clusterCA of
          Some c \<Rightarrow> Some c
        | None \<Rightarrow>
            Some \<lparr>cm_meta = (newMeta NameClusterTrustedCAVolume (instNamespace instance))
                    \<lparr>om_Labels := mapLit [(''config.openshift.io/inject-trusted-cabundle'', ''true'')],
                     om_Annotations := mapLit [(''release.openshift.io/create-only'', ''true'')]\<rparr>,
                  cm_Data = None,
                  cm_other = []\<rparr>)"

end
