(* ===== verification/Workload.thy ===== *)
theory Workload
  imports Resources
begin

text \<open>
  \<open>controllers/new.go\<close>, second part: the pod's volumes and containers, the Deployment, and
  \<open>newKubeResources\<close>, which renders everything at once or fails.
\<close>

section \<open>Volumes\<close>

definition mode0644 :: int32 where
  "mode0644 = 420"

definition newVolumes ::
    "update_service \<Rightarrow> config_map option \<Rightarrow> config_map option \<Rightarrow> volume list" where
  "newVolumes instance trustedCAConfig trustedClusterCAConfig =
     [\<lparr>vol_Name = ''configs'',
       vol_Source = ConfigMapVolume (nameConfig instance) [] (Some mode0644)\<rparr>,
      \<lparr>vol_Name = ''cincinnati-graph-data'', vol_Source = EmptyDirVolume\<rparr>,
      \<lparr>vol_Name = namePullSecret,
       vol_Source = SecretVolume (namePullSecretCopy instance) (Some mode0644)\<rparr>] @
     (if trustedCAConfig \<noteq> None then
        [\<lparr>vol_Name = NameTrustedCAVolume,
          vol_Source = ConfigMapVolume (nameAdditionalTrustedCA instance)
            [(NameCertConfigMapKey, ''tls-ca-bundle.pem'')] (Some mode0644)\<rparr>]
      else []) @
     (if trustedClusterCAConfig \<noteq> None then
        [\<lparr>vol_Name = NameClusterTrustedCAVolume,
          vol_Source = ConfigMapVolume NameClusterTrustedCAVolume [] (Some mode0644)\<rparr>]
      else [])"

definition mountAt :: "string \<Rightarrow> bool \<Rightarrow> string \<Rightarrow> volume_mount" where
  "mountAt name readOnly path =
     \<lparr>vm_Name = name, vm_ReadOnly = readOnly, vm_MountPath = path, vm_other = []\<rparr>"

definition newGraphBuilderVolumeMounts ::
    "config_map option \<Rightarrow> config_map option \<Rightarrow> volume_mount list" where
  "newGraphBuilderVolumeMounts trustedCAConfig trustedClusterCAConfig =
     [mountAt ''configs'' True ''/etc/configs'',
      mountAt ''cincinnati-graph-data'' False ''/var/lib/cincinnati/graph-data'',
      mountAt namePullSecret True ''/var/lib/cincinnati/registry-credentials''] @
     (if trustedCAConfig \<noteq> None then
        [mountAt NameTrustedCAVolume True ''/etc/pki/ca-trust/extracted/pem''] else []) @
     (if trustedClusterCAConfig \<noteq> None then
        [mountAt NameClusterTrustedCAVolume True ClusterCAMountDir] else [])"

section \<open>Containers\<close>

definition newGraphDataInitContainer :: "update_service \<Rightarrow> container" where
  "newGraphDataInitContainer instance =
     (newContainer NameInitContainerGraphData (us_GraphDataImage (us_Spec instance)) ''Always'')
       \<lparr>c_VolumeMounts :=
          [mountAt ''cincinnati-graph-data'' False ''/var/lib/cincinnati/graph-data'']\<rparr>"

definition newCMEnvVar :: "string \<Rightarrow> string \<Rightarrow> string \<Rightarrow> env_var" where
  "newCMEnvVar name key cmName =
     \<lparr>env_Name = name, env_Value = [], env_ValueFrom = Some (ConfigMapKeyRef key cmName)\<rparr>"

definition proxyEnv :: "environ \<Rightarrow> string \<Rightarrow> env_var list" where
  "proxyEnv getenv name =
     (if getenv name \<noteq> []
      then [\<lparr>env_Name = name, env_Value = getenv name, env_ValueFrom = None\<rparr>] else [])"

definition tcpContainerPort :: "string \<Rightarrow> int32 \<Rightarrow> container_port" where
  "tcpContainerPort name port =
     \<lparr>cp_Name = name, cp_ContainerPort = port, cp_Protocol = ''TCP'', cp_other = []\<rparr>"

definition httpProbe :: "string \<Rightarrow> int32 \<Rightarrow> int32 \<Rightarrow> int32 \<Rightarrow> probe" where
  "httpProbe path port initialDelay period =
     \<lparr>pr_Handler = HTTPGet path (FromInt32 port) ''HTTP'',
      pr_FailureThreshold = 3, pr_SuccessThreshold = 1,
      pr_InitialDelaySeconds = initialDelay, pr_PeriodSeconds = period,
      pr_TimeoutSeconds = 3, pr_other = []\<rparr>"

text \<open>Both containers declare the same resources.\<close>

definition operandLimits :: "quantity gomap" where
  "operandLimits = mapLit [(''cpu'', newMilliQuantity 750 ''DecimalSI''),
                           (''memory'', newQuantity (512 * 1024 * 1024) ''BinarySI'')]"

definition operandRequests :: "quantity gomap" where
  "operandRequests = mapLit [(''cpu'', newMilliQuantity 150 ''DecimalSI''),
                             (''memory'', newQuantity (64 * 1024 * 1024) ''BinarySI'')]"

definition newGraphBuilderContainer ::
    "environ \<Rightarrow> update_service \<Rightarrow> string \<Rightarrow> volume_mount list \<Rightarrow> container" where
  "newGraphBuilderContainer getenv instance img graphBuilderVolumeMounts =
     (newContainer NameContainerGraphBuilder img ''IfNotPresent'')
       \<lparr>c_Command := [''/usr/bin/graph-builder''],
        c_Args := [''-c'', ''/etc/configs/gb.toml''],
        c_Ports := [tcpContainerPort ''graph-builder'' 8080, tcpContainerPort ''status-gb'' 9080],
        c_Env := [newCMEnvVar ''RUST_BACKTRACE'' ''gb.rust_backtrace'' (nameEnvConfig instance)] @
          proxyEnv getenv ''HTTP_PROXY'' @ proxyEnv getenv ''HTTPS_PROXY'' @
          proxyEnv getenv ''NO_PROXY'',
        c_Limits := operandLimits,
        c_Requests := operandRequests,
        c_VolumeMounts := graphBuilderVolumeMounts,
        c_LivenessProbe := Some (httpProbe ''/liveness'' 9080 3 10),
        c_ReadinessProbe := Some (httpProbe ''/readiness'' 9080 3 10)\<rparr>"

definition newPolicyEngineContainer :: "update_service \<Rightarrow> string \<Rightarrow> container" where
  "newPolicyEngineContainer instance img =
     (let envConfigName = nameEnvConfig instance in
      (newContainer NameContainerPolicyEngine img ''IfNotPresent'')
        \<lparr>c_Command := [''/usr/bin/policy-engine''],
         c_Args := [''-$(PE_LOG_VERBOSITY)'',
                    ''--service.address'',
                    ''$(ADDRESS)'',
                    ''--service.mandatory_client_parameters'',
                    ''$(PE_MANDATORY_CLIENT_PARAMETERS)'',
                    ''--service.path_prefix'',
                    ''/api/upgrades_info'',
                    ''--service.port'',
                    ''8081'',
                    ''--status.address'',
                    ''$(PE_STATUS_ADDRESS)'',
                    ''--status.port'',
                    ''9081'',
                    ''--upstream.cincinnati.url'',
                    ''$(UPSTREAM)''],
         c_Ports := [tcpContainerPort ''policy-engine'' 8081, tcpContainerPort ''status-pe'' 9081],
         c_Env := [newCMEnvVar ''ADDRESS'' ''pe.address'' envConfigName,
                   newCMEnvVar ''PE_STATUS_ADDRESS'' ''pe.status.address'' envConfigName,
                   newCMEnvVar ''UPSTREAM'' ''pe.upstream'' envConfigName,
                   newCMEnvVar ''PE_LOG_VERBOSITY'' ''pe.log.verbosity'' envConfigName,
                   newCMEnvVar ''PE_MANDATORY_CLIENT_PARAMETERS''
                     ''pe.mandatory_client_parameters'' envConfigName,
                   newCMEnvVar ''RUST_BACKTRACE'' ''pe.rust_backtrace'' envConfigName],
         c_Limits := operandLimits,
         c_Requests := operandRequests,
         c_LivenessProbe := Some (httpProbe ''/livez'' 9081 120 30),
         c_ReadinessProbe := Some (httpProbe ''/readyz'' 9081 120 30)\<rparr>)"

section \<open>The Deployment\<close>

text \<open>
  The Go code leaves out the init container when \<open>k.graphDataInitContainer\<close> is nil; it never is,
  \<open>newKubeResources\<close> sets it before it calls \<open>newDeployment\<close>.
\<close>

definition newDeployment ::
    "update_service \<Rightarrow> string \<Rightarrow> string \<Rightarrow> volume list \<Rightarrow> container \<Rightarrow> container \<Rightarrow>
       container option \<Rightarrow> deployment" where
  "newDeployment instance graphBuilderConfigHash envConfigHash volumes graphBuilderContainer
       policyEngineContainer graphDataInitContainer =
     (let name = nameDeployment instance in
      \<lparr>dep_meta = (newMeta name (instNamespace instance))
         \<lparr>om_Annotations := described
            (''This deployment launches the components for the OpenShift UpdateService '' @
             instName instance)\<rparr>,
       dep_Spec =
         \<lparr>ds_Replicas = Some (us_Replicas (us_Spec instance)),
          ds_Selector = Some (matchLabels [(''app'', name)]),
          ds_Strategy = \<lparr>st_Type = ''RollingUpdate'',
                         st_MaxUnavailable = Some (FromString ''50%''),
                         st_MaxSurge = Some (FromString ''100%'')\<rparr>,
          ds_Template =
            \<lparr>pt_meta = (newMeta [] [])
               \<lparr>om_Labels := mapLit [(''app'', name), (''deployment'', name)],
                om_Annotations := mapLit
                  [(GraphBuilderConfigHashAnnotation, graphBuilderConfigHash),
                   (EnvConfigHashAnnotation, envConfigHash)]\<rparr>,
             pt_Spec =
               \<lparr>pod_Volumes = volumes,
                pod_InitContainers =
                  (case graphDataInitContainer of None \<Rightarrow> [] | Some c \<Rightarrow> [c]),
                pod_Containers = [graphBuilderContainer, policyEngineContainer],
                pod_RestartPolicy = [],
                pod_other = []\<rparr>\<rparr>,
          ds_other = []\<rparr>,
       dep_other = []\<rparr>)"

section \<open>All resources\<close>

record kube_resources =
  kr_envConfig :: config_map
  kr_envConfigHash :: string
  kr_graphBuilderConfig :: config_map
  kr_graphBuilderConfigHash :: string
  kr_podDisruptionBudget :: pdb
  kr_deployment :: deployment
  kr_graphBuilderContainer :: container
  kr_graphDataInitContainer :: container
  kr_policyEngineContainer :: container
  kr_graphBuilderService :: service
  kr_policyEngineService :: service
  kr_policyEngineRoute :: route
  kr_policyEngineOldRoute :: route
  kr_networkPolicy :: network_policy
  kr_trustedCAConfig :: "config_map option"
  kr_trustedClusterCAConfig :: "config_map option"
  kr_pullSecret :: secret
  kr_volumes :: "volume list"
  kr_graphBuilderVolumeMounts :: "volume_mount list"

definition newKubeResources ::
    "environ \<Rightarrow> update_service \<Rightarrow> string \<Rightarrow> secret \<Rightarrow> config_map option \<Rightarrow>
       config_map option \<Rightarrow> go_error + kube_resources" where
  "newKubeResources getenv instance img pullSecret caConfigMap clusterCA =
     (case newGraphBuilderConfig instance of
        Inl e \<Rightarrow> Inl e
      | Inr gbConfig \<Rightarrow>
          (let graphBuilderConfigHash = checksumMap (cm_Data gbConfig);
               envConfig = newEnvConfig instance;
               envConfigHash = checksumMap (cm_Data envConfig);
               trustedCAConfig = newTrustedCAConfig instance caConfigMap;
               trustedClusterCAConfig = newTrustedClusterCAConfig getenv instance clusterCA;
               volumes = newVolumes instance trustedCAConfig trustedClusterCAConfig;
               mounts = newGraphBuilderVolumeMounts trustedCAConfig trustedClusterCAConfig;
               graphBuilderContainer = newGraphBuilderContainer getenv instance img mounts;
               graphDataInitContainer = newGraphDataInitContainer instance;
               policyEngineContainer = newPolicyEngineContainer instance img
           in Inr
             \<lparr>kr_envConfig = envConfig,
              kr_envConfigHash = envConfigHash,
              kr_graphBuilderConfig = gbConfig,
              kr_graphBuilderConfigHash = graphBuilderConfigHash,
              kr_podDisruptionBudget = newPodDisruptionBudget instance,
              kr_deployment = newDeployment instance graphBuilderConfigHash envConfigHash volumes
                graphBuilderContainer policyEngineContainer (Some graphDataInitContainer),
              kr_graphBuilderContainer = graphBuilderContainer,
              kr_graphDataInitContainer = graphDataInitContainer,
              kr_policyEngineContainer = policyEngineContainer,
              kr_graphBuilderService = newGraphBuilderService instance,
              kr_policyEngineService = newPolicyEngineService instance,
              kr_policyEngineRoute = newPolicyEngineRoute instance,
              kr_policyEngineOldRoute = oldPolicyEngineRoute instance,
              kr_networkPolicy = newNetworkPolicy getenv instance,
              kr_trustedCAConfig = trustedCAConfig,
              kr_trustedClusterCAConfig = trustedClusterCAConfig,
              kr_pullSecret = newPullSecret instance pullSecret,
              kr_volumes = volumes,
              kr_graphBuilderVolumeMounts = mounts\<rparr>))"

end
