(* ===== verification/Ensure.thy ===== *)
theory Ensure
  imports Conditions OwnerRefs Workload
begin

text \<open>
  \<open>controllers/updateservice_controller.go\<close>: the functions that look existing objects up
  (\<open>find...\<close>) and those that create or update one object (\<open>ensure...\<close>), except for the
  Deployment, the Route and the graph-data pod, which have theories of their own. An \<open>ensure\<close>
  function returns the error, \<open>None\<close> standing for nil. \<open>kubeResources\<close> holds pointers and the
  Go functions set the owner reference in place; as no other step reads the object again, the
  model sets it on a copy.
\<close>

section \<open>Looking objects up\<close>

definition namespacedName :: "string \<Rightarrow> string \<Rightarrow> namespaced_name" where
  "namespacedName name ns = \<lparr>nn_Name = name, nn_Namespace = ns\<rparr>"

definition ImageConfigName :: string where
  "ImageConfigName = ''cluster''"

definition findPullSecret :: "'w reconciler \<Rightarrow> ('w sess, go_error + secret) state" where
  "findPullSecret r = do {
     res \<leftarrow> getObj r SecretKind asSecret (namespacedName namePullSecret OpenshiftConfigNamespace);
     (case res of
        Inl err \<Rightarrow>
          if IsNotFound err
          then do { handleErr r ''PullSecretNotFound'' err; return (Inl err) }
          else return (Inl err)
      | Inr sourcePS \<Rightarrow> return (Inr sourcePS))
   }"

definition findTrustedCAConfig :: "'w reconciler \<Rightarrow> ('w sess, go_error + config_map option) state" where
  "findTrustedCAConfig r = do {
     res \<leftarrow> getObj r ImageKind asImage (namespacedName ImageConfigName []);
     (case res of
        Inl err \<Rightarrow>
          if IsNotFound err
          then do {
            handleCACertStatus r ''FindAdditionalTrustedCAFailed''
              (''image.config.openshift.io not found for name '' @ ImageConfigName);
            return (Inr None)
          }
          else return (Inl err)
      | Inr img \<Rightarrow>
          if img_AdditionalTrustedCA img = []
          then do {
            handleCACertStatus r ''NotConfigured''
              (''image.config.openshift.io.Spec.AdditionalTrustedCA.Name not set for image name '' @
               ImageConfigName);
            return (Inr None)
          }
          else do {
            res' \<leftarrow> getObj r ConfigMapKind asConfigMap
              (namespacedName (img_AdditionalTrustedCA img) OpenshiftConfigNamespace);
            (case res' of
               Inl err \<Rightarrow>
                 if IsNotFound err
                 then do {
                   handleCACertStatus r ''FindAdditionalTrustedCAFailed''
                     (''Found image.config.openshift.io.Spec.AdditionalTrustedCA.Name but did not find expected ConfigMap (Name: '' @
                      img_AdditionalTrustedCA img @ '', Namespace: '' @ OpenshiftConfigNamespace @ '')'');
                   return (Inl err)
                 }
                 else return (Inl err)
             | Inr sourceCM \<Rightarrow>
                 if mapGet (cm_Data sourceCM) NameCertConfigMapKey = None
                 then do {
                   handleCACertStatus r ''EnsureAdditionalTrustedCAFailed''
                     (''Found ConfigMap referenced by ImageConfig.Spec.AdditionalTrustedCA.Name but did not find key '' @
                      [CHR 0x27] @ ''updateservice-registry'' @ [CHR 0x27] @
                      '' for registry CA cert in ConfigMap (Name: '' @ img_AdditionalTrustedCA img @
                      '', Namespace: '' @ OpenshiftConfigNamespace @ '')'');
                   return (Inr None)
                 }
                 else return (Inr (Some sourceCM)))
          })
   }"

definition findTrustedClusterCAConfig ::
    "'w reconciler \<Rightarrow> update_service \<Rightarrow> ('w sess, go_error + config_map option) state" where
  "findTrustedClusterCAConfig r instance = do {
     res \<leftarrow> getObj r ConfigMapKind asConfigMap
       (namespacedName NameClusterTrustedCAVolume (instNamespace instance));
     (case res of
        Inl err \<Rightarrow> return (Inl err)
      | Inr sourceCM \<Rightarrow>
          if mapGet (cm_Data sourceCM) NameClusterCertConfigMapKey = None
          then do {
            handleCACertStatus r ''EnsureTrustedClusterCAFailed''
              (''Found cluster-wide CA but required key: '' @ [CHR 0x27] @
               NameClusterCertConfigMapKey @ [CHR 0x27] @ '' not found'');
            return (Inr None)
          }
          else return (Inr (Some sourceCM)))
   }"

section \<open>Create or update one object\<close>

definition ensureConfigMap :: "'w reconciler \<Rightarrow> config_map \<Rightarrow> ('w sess, go_error option) state" where
  "ensureConfigMap r cm = do {
     res \<leftarrow> getObj r ConfigMapKind asConfigMap (keyOf (cm_meta cm));
     (case res of
        Inl err \<Rightarrow> if IsNotFound err then createObj r (ConfigMapObj cm) else return (Some err)
      | Inr found \<Rightarrow>
          if cm_Data found \<noteq> cm_Data cm
          then updateObj r (ConfigMapObj (found\<lparr>cm_Data := cm_Data cm\<rparr>))
          else return None)
   }"

definition ensureSecret :: "'w reconciler \<Rightarrow> secret \<Rightarrow> ('w sess, go_error option) state" where
  "ensureSecret r sec = do {
     res \<leftarrow> getObj r SecretKind asSecret (keyOf (sec_meta sec));
     (case res of
        Inl err \<Rightarrow> if IsNotFound err then createObj r (SecretObj sec) else return (Some err)
      | Inr found \<Rightarrow>
          if sec_Data found \<noteq> sec_Data sec
          then updateObj r (SecretObj (found\<lparr>sec_Data := sec_Data sec\<rparr>))
          else return None)
   }"

definition ensureService :: "'w reconciler \<Rightarrow> service \<Rightarrow> ('w sess, go_error option) state" where
  "ensureService r svc = do {
     res \<leftarrow> getObj r ServiceKind asService (keyOf (svc_meta svc));
     (case res of
        Inl err \<Rightarrow> if IsNotFound err then createObj r (ServiceObj svc) else return (Some err)
      | Inr found \<Rightarrow>
          (let spec = (svc_Spec svc)\<lparr>ss_ClusterIP := ss_ClusterIP (svc_Spec found)\<rparr> in
           if svc_Spec found \<noteq> spec
           then updateObj r (ServiceObj (found\<lparr>svc_Spec := spec\<rparr>))
           else return None))
   }"

text \<open>\<open>if err := ...; err != nil { handleErr(..., reason, err); return err }; return nil\<close>\<close>

definition reportErr ::
    "'w reconciler \<Rightarrow> string \<Rightarrow> ('w sess, go_error option) state \<Rightarrow> ('w sess, go_error option) state"
    where
  "reportErr r reason m = do {
     err \<leftarrow> m;
     (case err of
        None \<Rightarrow> return None
      | Some e \<Rightarrow> do { handleErr r reason e; return (Some e) })
   }"

text \<open>The same, except that the error is not returned.\<close>

definition reportOnly ::
    "'w reconciler \<Rightarrow> string \<Rightarrow> ('w sess, go_error option) state \<Rightarrow> ('w sess, go_error option) state"
    where
  "reportOnly r reason m = do {
     err \<leftarrow> m;
     (case err of
        None \<Rightarrow> return None
      | Some e \<Rightarrow> do { handleErr r reason e; return None })
   }"

text \<open>Set the UpdateService as the owner and controller, or return the error.\<close>

definition withController ::
    "'w reconciler \<Rightarrow> update_service \<Rightarrow> object_meta \<Rightarrow>
       (object_meta \<Rightarrow> ('w sess, go_error option) state) \<Rightarrow> ('w sess, go_error option) state" where
  "withController r instance m f =
     (case SetControllerReference (r_Scheme r) instance m of
        Inl err \<Rightarrow> return (Some err)
      | Inr m' \<Rightarrow> f m')"

section \<open>The ensure steps\<close>

definition ensureConfig ::
    "'w reconciler \<Rightarrow> update_service \<Rightarrow> kube_resources \<Rightarrow> ('w sess, go_error option) state" where
  "ensureConfig r instance resources =
     (let config = kr_graphBuilderConfig resources in
      withController r instance (cm_meta config) (\<lambda>m.
        reportErr r ''EnsureConfigMapFailed'' (ensureConfigMap r (config\<lparr>cm_meta := m\<rparr>))))"

definition ensureEnvConfig ::
    "'w reconciler \<Rightarrow> update_service \<Rightarrow> kube_resources \<Rightarrow> ('w sess, go_error option) state" where
  "ensureEnvConfig r instance resources =
     (let config = kr_envConfig resources in
      withController r instance (cm_meta config) (\<lambda>m.
        reportErr r ''EnsureConfigMapFailed'' (ensureConfigMap r (config\<lparr>cm_meta := m\<rparr>))))"

text \<open>\<open>resources.pullSecret\<close> is never nil: \<open>newKubeResources\<close> always sets it.\<close>

definition ensurePullSecret ::
    "'w reconciler \<Rightarrow> update_service \<Rightarrow> kube_resources \<Rightarrow> ('w sess, go_error option) state" where
  "ensurePullSecret r instance resources =
     (let sec = kr_pullSecret resources in
      withController r instance (sec_meta sec) (\<lambda>m.
        reportErr r ''EnsureSecretFailed'' (ensureSecret r (sec\<lparr>sec_meta := m\<rparr>))))"

definition ensureAdditionalTrustedCA ::
    "'w reconciler \<Rightarrow> update_service \<Rightarrow> kube_resources \<Rightarrow> ('w sess, go_error option) state" where
  "ensureAdditionalTrustedCA r instance resources =
     (case kr_trustedCAConfig resources of
        None \<Rightarrow> return None
      | Some config \<Rightarrow> do {
          SetStatusCondition r
            (newCondition ConditionRegistryCACertFound ConditionTrue ''CACertFound'' []);
          withController r instance (cm_meta config) (\<lambda>m.
            reportErr r ''EnsureConfigMapFailed'' (ensureConfigMap r (config\<lparr>cm_meta := m\<rparr>)))
        })"

definition ensureTrustedClusterCA ::
    "'w reconciler \<Rightarrow> update_service \<Rightarrow> kube_resources \<Rightarrow> ('w sess, go_error option) state" where
  "ensureTrustedClusterCA r instance resources =
     (case kr_trustedClusterCAConfig resources of
        None \<Rightarrow> return None
      | Some config \<Rightarrow> do {
          res \<leftarrow> findTrustedClusterCAConfig r instance;
          (case res of
             Inr _ \<Rightarrow> return None
           | Inl err \<Rightarrow>
               if IsNotFound err
               then withController r instance (cm_meta config) (\<lambda>m.
                 reportErr r ''EnsureConfigMapFailedForClusterCA''
                   (ensureConfigMap r (config\<lparr>cm_meta := m\<rparr>)))
               else return (Some err))
        })"

definition ensureGraphBuilderService ::
    "'w reconciler \<Rightarrow> update_service \<Rightarrow> kube_resources \<Rightarrow> ('w sess, go_error option) state" where
  "ensureGraphBuilderService r instance resources =
     (let svc = kr_graphBuilderService resources in
      withController r instance (svc_meta svc) (\<lambda>m.
        reportErr r ''EnsureServiceFailed'' (ensureService r (svc\<lparr>svc_meta := m\<rparr>))))"

definition ensurePolicyEngineService ::
    "'w reconciler \<Rightarrow> update_service \<Rightarrow> kube_resources \<Rightarrow> ('w sess, go_error option) state" where
  "ensurePolicyEngineService r instance resources =
     (let svc = kr_policyEngineService resources in
      withController r instance (svc_meta svc) (\<lambda>m.
        reportErr r ''EnsureServiceFailed'' (ensureService r (svc\<lparr>svc_meta := m\<rparr>))))"

text \<open>
  The disruption budget and the network policy: a failing \<open>Get\<close> or \<open>Create\<close> is reported and
  returned, a failing \<open>Update\<close> is reported only.
\<close>

definition syncPodDisruptionBudget :: "'w reconciler \<Rightarrow> pdb \<Rightarrow> ('w sess, go_error option) state" where
  "syncPodDisruptionBudget r pdb = do {
     res \<leftarrow> getObj r PDBKind asPDB (keyOf (pdb_meta pdb));
     (case res of
        Inl err \<Rightarrow>
          if IsNotFound err then reportErr r ''CreatePDBFailed'' (createObj r (PDBObj pdb))
          else do { handleErr r ''GetPDBFailed'' err; return (Some err) }
      | Inr found \<Rightarrow>
          if pdb_Spec found \<noteq> pdb_Spec pdb
          then reportOnly r ''UpdatePDBFailed''
            (updateObj r (PDBObj (found\<lparr>pdb_Spec := pdb_Spec pdb\<rparr>)))
          else return None)
   }"

definition ensurePodDisruptionBudget ::
    "'w reconciler \<Rightarrow> update_service \<Rightarrow> kube_resources \<Rightarrow> ('w sess, go_error option) state" where
  "ensurePodDisruptionBudget r instance resources =
     (let pdb = kr_podDisruptionBudget resources in
      withController r instance (pdb_meta pdb) (\<lambda>m.
        syncPodDisruptionBudget r (pdb\<lparr>pdb_meta := m\<rparr>)))"

definition syncNetworkPolicy ::
    "'w reconciler \<Rightarrow> network_policy \<Rightarrow> ('w sess, go_error option) state" where
  "syncNetworkPolicy r policy = do {
     res \<leftarrow> getObj r NetworkPolicyKind asNetworkPolicy (keyOf (np_meta policy));
     (case res of
        Inl err \<Rightarrow>
          if IsNotFound err
          then reportErr r ''CreateNetworkPolicyFailed'' (createObj r (NetworkPolicyObj policy))
          else do { handleErr r ''GetNetworkPolicyFailed'' err; return (Some err) }
      | Inr found \<Rightarrow>
          if np_Spec found \<noteq> np_Spec policy
          then reportOnly r ''UpdateNetworkPolicyFailed''
            (updateObj r (NetworkPolicyObj (found\<lparr>np_Spec := np_Spec policy\<rparr>)))
          else return None)
   }"

definition ensureNetworkPolicy ::
    "'w reconciler \<Rightarrow> update_service \<Rightarrow> kube_resources \<Rightarrow> ('w sess, go_error option) state" where
  "ensureNetworkPolicy r instance resources =
     (let policy = kr_networkPolicy resources in
      withController r instance (np_meta policy) (\<lambda>m.
        syncNetworkPolicy r (policy\<lparr>np_meta := m\<rparr>)))"

end
