(* ===== verification/ObjectStore.thy ===== *)
theory ObjectStore
  imports Ensure
begin

text \<open>
  What the operator relies on in the API server, as locales: \<open>honest_server\<close> (a \<open>Get\<close> answers with
  the object that was asked for) and \<open>object_store\<close>, which extends it (a \<open>Get\<close> reads, \<open>Create\<close> and
  \<open>Update\<close> store the object's content under its key and touch nothing else, \<open>Delete\<close> removes it,
  \<open>UpdateStatus\<close> stores the status). A server may fill in metadata, such as the resource version. The laws describe a
  server that accepts every well-formed request, with no other writer between two requests. Both
  are interpreted on an in-memory server, which also serves the concrete examples.
\<close>

section \<open>Contents\<close>

text \<open>An object without the metadata that the server manages.\<close>

fun stripMeta :: "kobject \<Rightarrow> kobject" where
  "stripMeta (ConfigMapObj x) = ConfigMapObj (x\<lparr>cm_meta := newMeta [] []\<rparr>)"
| "stripMeta (SecretObj x) = SecretObj (x\<lparr>sec_meta := newMeta [] []\<rparr>)"
| "stripMeta (ServiceObj x) = ServiceObj (x\<lparr>svc_meta := newMeta [] []\<rparr>)"
| "stripMeta (DeploymentObj x) = DeploymentObj (x\<lparr>dep_meta := newMeta [] []\<rparr>)"
| "stripMeta (PDBObj x) = PDBObj (x\<lparr>pdb_meta := newMeta [] []\<rparr>)"
| "stripMeta (RouteObj x) = RouteObj (x\<lparr>route_meta := newMeta [] []\<rparr>)"
| "stripMeta (NetworkPolicyObj x) = NetworkPolicyObj (x\<lparr>np_meta := newMeta [] []\<rparr>)"
| "stripMeta (PodObj x) = PodObj (x\<lparr>p_meta := newMeta [] []\<rparr>)"
| "stripMeta (ImageObj x) = ImageObj (x\<lparr>img_meta := newMeta [] []\<rparr>)"
| "stripMeta (UpdateServiceObj x) = UpdateServiceObj (x\<lparr>us_meta := newMeta [] []\<rparr>)"

definition sameObject :: "kobject \<Rightarrow> kobject \<Rightarrow> bool" where
  "sameObject a b \<longleftrightarrow> objKind a = objKind b \<and> objKey a = objKey b \<and> stripMeta a = stripMeta b"

lemma sameObject_refl [simp]: "sameObject a a"
  by (simp add: sameObject_def)

section \<open>Servers\<close>

text \<open>The server's answers are about the objects that were asked for.\<close>

definition honest :: "'w reconciler \<Rightarrow> bool" where
  "honest r \<longleftrightarrow> (\<forall>k key w ob w'. r_api r (Get k key) w = (Found ob, w') \<longrightarrow>
     objKind ob = k \<and> objKey ob = key)"

locale honest_server =
  fixes r :: "'w reconciler"
  assumes found: "r_api r (Get k key) w = (Found ob, w') \<Longrightarrow> objKind ob = k \<and> objKey ob = key"
begin

lemma honest: "honest r"
  unfolding honest_def using found by blast

end

locale object_store = honest_server r for r :: "'w reconciler" +
  fixes lookup :: "'w \<Rightarrow> kind \<Rightarrow> namespaced_name \<Rightarrow> kobject option"
  assumes get: "\<exists>e. IsNotFound e \<and> r_api r (Get k key) w =
            ((case lookup w k key of None \<Rightarrow> Failed e | Some ob \<Rightarrow> Found ob), w)"
    and create: "lookup w (objKind ob) (objKey ob) = None \<Longrightarrow>
      \<exists>w' ob'. r_api r (Create ob) w = (Done, w') \<and> sameObject ob ob' \<and>
        lookup w' = (lookup w)(objKind ob := (lookup w (objKind ob))(objKey ob := Some ob'))"
    and update: "lookup w (objKind ob) (objKey ob) \<noteq> None \<Longrightarrow>
      \<exists>w' ob'. r_api r (Update ob) w = (Done, w') \<and> sameObject ob ob' \<and>
        lookup w' = (lookup w)(objKind ob := (lookup w (objKind ob))(objKey ob := Some ob'))"
    and delete: "lookup w (objKind ob) (objKey ob) \<noteq> None \<Longrightarrow>
      \<exists>w'. r_api r (Delete ob) w = (Done, w') \<and>
        lookup w' = (lookup w)(objKind ob := (lookup w (objKind ob))(objKey ob := None))"
    and status: "lookup w UpdateServiceKind (keyOf (us_meta us)) = Some (UpdateServiceObj old) \<Longrightarrow>
      \<exists>w' new. r_api r (UpdateStatus us) w = (Done, w') \<and>
        keyOf (us_meta new) = keyOf (us_meta old) \<and> us_Spec new = us_Spec old \<and>
        us_Status new = us_Status us \<and>
        lookup w' = (lookup w)(UpdateServiceKind :=
          (lookup w UpdateServiceKind)(keyOf (us_meta us) := Some (UpdateServiceObj new)))"
    and clock: "lookup (snd (r_now r w)) = lookup w"
begin

lemma getObj_run:
  "\<exists>e. IsNotFound e \<and> run_state (getObj r k as key) s =
     ((case lookup (se_world s) k key of
         None \<Rightarrow> Inl e
       | Some ob \<Rightarrow> (case as ob of None \<Rightarrow> Inl wrongType | Some x \<Rightarrow> Inr x)),
      s\<lparr>se_calls := se_calls s @ [Get k key]\<rparr>)"
proof -
  from get [of k key "se_world s"] obtain e where e: "IsNotFound e"
    "r_api r (Get k key) (se_world s) =
       ((case lookup (se_world s) k key of None \<Rightarrow> Failed e | Some ob \<Rightarrow> Found ob), se_world s)"
    by blast
  then show ?thesis
    by (intro exI [of _ e]) (simp add: getObj_def invoke_def split: option.split)
qed

lemma createObj_run:
  assumes "lookup (se_world s) (objKind ob) (objKey ob) = None"
  shows "\<exists>w' ob'. run_state (createObj r ob) s =
           (None, s\<lparr>se_world := w', se_calls := se_calls s @ [Create ob]\<rparr>) \<and> sameObject ob ob' \<and>
         lookup w' = (lookup (se_world s))
           (objKind ob := (lookup (se_world s) (objKind ob))(objKey ob := Some ob'))"
  using create [OF assms] by (auto simp: createObj_def mutate_def invoke_def)

lemma updateObj_run:
  assumes "lookup (se_world s) (objKind ob) (objKey ob) \<noteq> None"
  shows "\<exists>w' ob'. run_state (updateObj r ob) s =
           (None, s\<lparr>se_world := w', se_calls := se_calls s @ [Update ob]\<rparr>) \<and> sameObject ob ob' \<and>
         lookup w' = (lookup (se_world s))
           (objKind ob := (lookup (se_world s) (objKind ob))(objKey ob := Some ob'))"
  using update [OF assms] by (auto simp: updateObj_def mutate_def invoke_def)

lemma deleteObj_run:
  assumes "lookup (se_world s) (objKind ob) (objKey ob) \<noteq> None"
  shows "\<exists>w'. run_state (deleteObj r ob) s =
           (None, s\<lparr>se_world := w', se_calls := se_calls s @ [Delete ob]\<rparr>) \<and>
         lookup w' = (lookup (se_world s))
           (objKind ob := (lookup (se_world s) (objKind ob))(objKey ob := None))"
  using delete [OF assms] by (auto simp: deleteObj_def mutate_def invoke_def)

lemma lookup_found: "lookup w k key = Some ob \<Longrightarrow> objKind ob = k \<and> objKey ob = key"
proof -
  assume "lookup w k key = Some ob"
  then have "r_api r (Get k key) w = (Found ob, w)" using get [of k key w] by auto
  then show ?thesis by (rule found)
qed

end

section \<open>An in-memory server\<close>

text \<open>
  The objects, newest first, no two under one key, and the time. \<open>Create\<close> fails on an existing
  key, \<open>Update\<close>, \<open>Delete\<close> and \<open>UpdateStatus\<close> on a missing one.
\<close>

record mem =
  mem_objects :: "kobject list"
  mem_time :: time

definition memLookup :: "mem \<Rightarrow> kind \<Rightarrow> namespaced_name \<Rightarrow> kobject option" where
  "memLookup w k key = find (\<lambda>ob. objKind ob = k \<and> objKey ob = key) (mem_objects w)"

definition memRemove :: "kind \<Rightarrow> namespaced_name \<Rightarrow> kobject list \<Rightarrow> kobject list" where
  "memRemove k key obs = filter (\<lambda>ob. \<not> (objKind ob = k \<and> objKey ob = key)) obs"

definition memStore :: "kobject \<Rightarrow> mem \<Rightarrow> mem" where
  "memStore ob w = w\<lparr>mem_objects := ob # memRemove (objKind ob) (objKey ob) (mem_objects w)\<rparr>"

definition notFoundError :: go_error where
  "notFoundError = StatusError ''NotFound'' 404 ''not found''"

definition existsError :: go_error where
  "existsError = StatusError ''AlreadyExists'' 409 ''already exists''"

fun memApi :: "api_call \<Rightarrow> mem \<Rightarrow> api_result \<times> mem" where
  "memApi (Get k key) w =
     ((case memLookup w k key of None \<Rightarrow> Failed notFoundError | Some ob \<Rightarrow> Found ob), w)"
| "memApi (ListUpdateServices ns) w =
     (Listed (filter (\<lambda>us. instNamespace us = ns) (List.map_filter asUpdateService (mem_objects w))), w)"
| "memApi (Create ob) w =
     (if memLookup w (objKind ob) (objKey ob) = None then (Done, memStore ob w)
      else (Failed existsError, w))"
| "memApi (Update ob) w =
     (if memLookup w (objKind ob) (objKey ob) = None then (Failed notFoundError, w)
      else (Done, memStore ob w))"
| "memApi (Delete ob) w =
     (if memLookup w (objKind ob) (objKey ob) = None then (Failed notFoundError, w)
      else (Done, w\<lparr>mem_objects := memRemove (objKind ob) (objKey ob) (mem_objects w)\<rparr>))"
| "memApi (UpdateStatus us) w =
     (case memLookup w UpdateServiceKind (keyOf (us_meta us)) of
        Some (UpdateServiceObj old) \<Rightarrow>
          (Done, memStore (UpdateServiceObj (old\<lparr>us_Status := us_Status us\<rparr>)) w)
      | _ \<Rightarrow> (Failed notFoundError, w))"

definition memNow :: "mem \<Rightarrow> time \<times> mem" where
  "memNow w = (mem_time w, w\<lparr>mem_time := mem_time w + 1\<rparr>)"

definition updateServiceGVK :: group_version_kind where
  "updateServiceGVK =
     \<lparr>gvk_Group = ''updateservice.operator.openshift.io'', gvk_Version = ''v1'',
      gvk_Kind = ''UpdateService''\<rparr>"

definition memReconciler :: "environ \<Rightarrow> mem reconciler" where
  "memReconciler getenv =
     \<lparr>r_api = memApi, r_now = memNow, r_getenv = getenv, r_Scheme = [updateServiceGVK],
      r_OperandImage = ''operand'', r_OperatorNamespace = ''ns''\<rparr>"

lemma memReconciler_simps [simp]:
  "r_api (memReconciler getenv) = memApi" "r_now (memReconciler getenv) = memNow"
  "r_getenv (memReconciler getenv) = getenv" "r_Scheme (memReconciler getenv) = [updateServiceGVK]"
  "r_OperatorNamespace (memReconciler getenv) = ''ns''"
  "r_OperandImage (memReconciler getenv) = ''operand''"
  by (simp_all add: memReconciler_def)

lemma find_memRemove:
  "find (\<lambda>ob. objKind ob = k \<and> objKey ob = key) (memRemove k' key' obs) =
     (if k = k' \<and> key = key' then None else find (\<lambda>ob. objKind ob = k \<and> objKey ob = key) obs)"
  by (induction obs) (auto simp: memRemove_def)

lemma memLookup_store:
  "memLookup (memStore ob w) =
     (memLookup w)(objKind ob := (memLookup w (objKind ob))(objKey ob := Some ob))"
  by (intro ext) (auto simp: memLookup_def memStore_def find_memRemove)

lemma memLookup_remove:
  "memLookup (w\<lparr>mem_objects := memRemove k key (mem_objects w)\<rparr>) =
     (memLookup w)(k := (memLookup w k)(key := None))"
  by (intro ext) (auto simp: memLookup_def find_memRemove)

lemma memLookup_key: "memLookup w k key = Some ob \<Longrightarrow> objKind ob = k \<and> objKey ob = key"
  by (auto simp: memLookup_def find_Some_iff)

interpretation mem: object_store "memReconciler getenv" memLookup
proof unfold_locales
  show "r_api (memReconciler getenv) (Get k key) w = (Found ob, w') \<Longrightarrow> objKind ob = k \<and> objKey ob = key"
    for k key w ob w'
    by (auto simp: memLookup_def find_Some_iff split: option.splits)
  show "\<exists>e. IsNotFound e \<and> r_api (memReconciler getenv) (Get k key) w =
            ((case memLookup w k key of None \<Rightarrow> Failed e | Some ob \<Rightarrow> Found ob), w)" for k key w
    by (rule exI [of _ notFoundError]) (simp add: notFoundError_def)
  show "memLookup (snd (r_now (memReconciler getenv) w)) = memLookup w" for w
    by (intro ext) (simp add: memNow_def memLookup_def)
  show "\<exists>w' ob'. r_api (memReconciler getenv) (Create ob) w = (Done, w') \<and> sameObject ob ob' \<and>
        memLookup w' = (memLookup w)(objKind ob := (memLookup w (objKind ob))(objKey ob := Some ob'))"
    if "memLookup w (objKind ob) (objKey ob) = None" for w ob
    using that memLookup_store [of ob w] by (auto intro!: exI [of _ ob])
  show "\<exists>w' ob'. r_api (memReconciler getenv) (Update ob) w = (Done, w') \<and> sameObject ob ob' \<and>
        memLookup w' = (memLookup w)(objKind ob := (memLookup w (objKind ob))(objKey ob := Some ob'))"
    if "memLookup w (objKind ob) (objKey ob) \<noteq> None" for w ob
    using that memLookup_store [of ob w] by (auto intro!: exI [of _ ob])
  show "\<exists>w'. r_api (memReconciler getenv) (Delete ob) w = (Done, w') \<and>
        memLookup w' = (memLookup w)(objKind ob := (memLookup w (objKind ob))(objKey ob := None))"
    if "memLookup w (objKind ob) (objKey ob) \<noteq> None" for w ob
    using that by (simp add: memLookup_remove)
  show "\<exists>w' new. r_api (memReconciler getenv) (UpdateStatus us) w = (Done, w') \<and>
        keyOf (us_meta new) = keyOf (us_meta old) \<and> us_Spec new = us_Spec old \<and>
        us_Status new = us_Status us \<and>
        memLookup w' = (memLookup w)(UpdateServiceKind :=
          (memLookup w UpdateServiceKind)(keyOf (us_meta us) := Some (UpdateServiceObj new)))"
    if "memLookup w UpdateServiceKind (keyOf (us_meta us)) = Some (UpdateServiceObj old)" for w us old
  proof -
    have "keyOf (us_meta old) = keyOf (us_meta us)"
      using memLookup_key [OF that] by simp
    then show ?thesis
      using that memLookup_store [of "UpdateServiceObj (old\<lparr>us_Status := us_Status us\<rparr>)" w]
      by (auto intro!: exI [of _ "old\<lparr>us_Status := us_Status us\<rparr>"])
  qed
qed

interpretation memServer: honest_server "memReconciler getenv"
  by (rule mem.honest_server_axioms)

end
