(* ===== verification/Managed.thy ===== *)
theory Managed
  imports ObjectStore
begin

text \<open>
  The contract of a create-or-update function, as a locale: the client is told the kind of object,
  how a found object is adjusted to a wanted one, and how errors are reported; it gets the
  behaviour on every branch, which requests are made, and, on an object store, that the function
  settles its object and is quiet on a settled one. It is interpreted on \<open>ensureConfigMap\<close>,
  \<open>ensureSecret\<close>, \<open>ensureService\<close> and the cores of \<open>ensurePodDisruptionBudget\<close> and
  \<open>ensureNetworkPolicy\<close>.
\<close>

section \<open>Reporting\<close>

text \<open>A wrapper that only acts when the wrapped function fails.\<close>

definition transparent ::
    "(('w sess, go_error option) state \<Rightarrow> ('w sess, go_error option) state) \<Rightarrow> bool" where
  "transparent wrap \<longleftrightarrow>
     (\<forall>m s s'. run_state m s = (None, s') \<longrightarrow> run_state (wrap m) s = (None, s'))"

lemma transparent_id: "transparent (\<lambda>m. m)"
  by (simp add: transparent_def)

lemma transparent_reportErr: "transparent (reportErr r reason)"
  by (simp add: transparent_def reportErr_def)

lemma transparent_reportOnly: "transparent (reportOnly r reason)"
  by (simp add: transparent_def reportOnly_def)

lemma keeps_reportErr [triple_intro]:
  "keeps (callsOK P) m \<Longrightarrow> keeps (callsOK P) (reportErr r reason m)"
  unfolding reportErr_def by (intro triple_intro)

lemma keeps_reportOnly [triple_intro]:
  "keeps (callsOK P) m \<Longrightarrow> keeps (callsOK P) (reportOnly r reason m)"
  unfolding reportOnly_def by (intro triple_intro)

section \<open>The contract\<close>

locale managed_object =
  fixes k :: kind
    and wrap :: "'o \<Rightarrow> kobject"
    and as :: "kobject \<Rightarrow> 'o option"
    and meta :: "'o \<Rightarrow> object_meta"
    and adjust :: "'o \<Rightarrow> 'o \<Rightarrow> 'o"
    and onGet :: "'w reconciler \<Rightarrow> go_error \<Rightarrow> ('w sess, go_error option) state"
    and onCreate onUpdate :: "'w reconciler \<Rightarrow> ('w sess, go_error option) state \<Rightarrow>
           ('w sess, go_error option) state"
    and ensure :: "'w reconciler \<Rightarrow> 'o \<Rightarrow> ('w sess, go_error option) state"
  assumes as_wrap: "as ob = Some x \<longleftrightarrow> ob = wrap x"
    and kind_wrap: "objKind (wrap x) = k"
    and meta_wrap: "objMeta (wrap x) = meta x"
    and range_wrap: "objKind ob = k \<Longrightarrow> \<exists>x. ob = wrap x"
    and adjust_meta: "meta (adjust found wanted) = meta found"
    and adjust_idem: "adjust (adjust found wanted) wanted = adjust found wanted"
    and adjust_self: "adjust wanted wanted = wanted"
    and adjust_content: "stripMeta (wrap found) = stripMeta (wrap found') \<Longrightarrow>
           adjust found wanted = found \<Longrightarrow> adjust found' wanted = found'"
    and onCreate: "transparent (onCreate r)"
    and onUpdate: "transparent (onUpdate r)"
    and keeps_handlers:
      "keeps (callsOK P) (onGet r err)"
      "keeps (callsOK P) m \<Longrightarrow> keeps (callsOK P) (onCreate r m)"
      "keeps (callsOK P) m \<Longrightarrow> keeps (callsOK P) (onUpdate r m)"
    and ensure_eq: "ensure r wanted = do {
           res \<leftarrow> getObj r k as (keyOf (meta wanted));
           (case res of
              Inl err \<Rightarrow> if IsNotFound err then onCreate r (createObj r (wrap wanted)) else onGet r err
            | Inr found \<Rightarrow>
                if adjust found wanted \<noteq> found
                then onUpdate r (updateObj r (wrap (adjust found wanted))) else return None)
         }"
begin

lemma keeps_ensure:
  assumes "honest r"
    and "P (Get k (keyOf (meta wanted)))"
    and "P (Create (wrap wanted))"
    and "\<And>found. keyOf (meta found) = keyOf (meta wanted) \<Longrightarrow> P (Update (wrap (adjust found wanted)))"
  shows "keeps (callsOK P) (ensure r wanted)"
proof (rule keepsI)
  fix s a s'
  assume ok: "callsOK P s" and run: "run_state (ensure r wanted) s = (a, s')"
  obtain res s1 where get: "run_state (getObj r k as (keyOf (meta wanted))) s = (res, s1)"
    by (cases "run_state (getObj r k as (keyOf (meta wanted))) s")
  have s1: "callsOK P s1" using keepsD [OF keeps_getObj [of P, OF assms(2)] ok get] .
  show "callsOK P s'"
  proof (cases res)
    case (Inl err)
    then show ?thesis
      using run get s1 keepsD [OF keeps_handlers(1) s1]
        keepsD [OF keeps_handlers(2) [OF keeps_createObj [of P, OF assms(3)]] s1]
      by (auto simp: ensure_eq split: if_splits)
  next
    case (Inr found)
    have "\<exists>ob. as ob = Some found \<and> objKey ob = keyOf (meta wanted)"
      using get assms(1) unfolding Inr honest_def
      by (fastforce simp: getObj_def invoke_def split: prod.splits api_result.splits option.splits)
    then have "keyOf (meta found) = keyOf (meta wanted)" by (auto simp: as_wrap meta_wrap)
    from assms(4) [OF this] show ?thesis
      using run get s1 Inr
        keepsD [OF keeps_handlers(3) [OF keeps_updateObj [of P "wrap (adjust found wanted)"]] s1]
      by (auto simp: ensure_eq split: if_splits)
  qed
qed

end

text \<open>On an object store: convergence and quietness.\<close>

locale managed_store =
  managed_object k wrap as meta adjust onGet onCreate onUpdate ensure + object_store r lookup
  for k :: kind
    and wrap :: "'o \<Rightarrow> kobject"
    and as :: "kobject \<Rightarrow> 'o option"
    and meta :: "'o \<Rightarrow> object_meta"
    and adjust :: "'o \<Rightarrow> 'o \<Rightarrow> 'o"
    and onGet :: "'w reconciler \<Rightarrow> go_error \<Rightarrow> ('w sess, go_error option) state"
    and onCreate onUpdate :: "'w reconciler \<Rightarrow> ('w sess, go_error option) state \<Rightarrow>
           ('w sess, go_error option) state"
    and ensure :: "'w reconciler \<Rightarrow> 'o \<Rightarrow> ('w sess, go_error option) state"
    and r :: "'w reconciler"
    and lookup :: "'w \<Rightarrow> kind \<Rightarrow> namespaced_name \<Rightarrow> kobject option"
begin

definition settled :: "'o \<Rightarrow> 'w \<Rightarrow> bool" where
  "settled wanted w \<longleftrightarrow>
     (\<exists>x. lookup w k (keyOf (meta wanted)) = Some (wrap x) \<and> adjust x wanted = x)"

lemma quiet:
  assumes "settled wanted (se_world s)"
  shows "run_state (ensure r wanted) s =
    (None, s\<lparr>se_calls := se_calls s @ [Get k (keyOf (meta wanted))]\<rparr>)"
proof -
  obtain x where x: "lookup (se_world s) k (keyOf (meta wanted)) = Some (wrap x)" "adjust x wanted = x"
    using assms unfolding settled_def by blast
  have "as (wrap x) = Some x" by (simp add: as_wrap)
  then show ?thesis
    using getObj_run [of k as "keyOf (meta wanted)" s] x by (auto simp: ensure_eq)
qed

lemma same_wrap:
  assumes "sameObject (wrap x) ob"
  shows "\<exists>y. ob = wrap y \<and> stripMeta (wrap y) = stripMeta (wrap x)"
  using assms range_wrap [of ob] kind_wrap by (auto simp: sameObject_def)

lemma converges:
  "\<exists>s'. run_state (ensure r wanted) s = (None, s') \<and> settled wanted (se_world s') \<and>
     se_status s' = se_status s \<and>
     (\<forall>k' key'. (k', key') \<noteq> (k, keyOf (meta wanted)) \<longrightarrow>
        lookup (se_world s') k' key' = lookup (se_world s) k' key')"
proof (cases "lookup (se_world s) k (keyOf (meta wanted))")
  case None
  define s1 where "s1 = s\<lparr>se_calls := se_calls s @ [Get k (keyOf (meta wanted))]\<rparr>"
  obtain e where e: "IsNotFound e" "run_state (getObj r k as (keyOf (meta wanted))) s = (Inl e, s1)"
    using getObj_run [of k as "keyOf (meta wanted)" s] None by (auto simp: s1_def)
  have "lookup (se_world s1) (objKind (wrap wanted)) (objKey (wrap wanted)) = None"
    using None by (simp add: s1_def kind_wrap meta_wrap)
  from createObj_run [OF this] obtain w' ob' where
    c: "run_state (createObj r (wrap wanted)) s1 =
          (None, s1\<lparr>se_world := w', se_calls := se_calls s1 @ [Create (wrap wanted)]\<rparr>)"
      "sameObject (wrap wanted) ob'"
      "lookup w' = (lookup (se_world s))(k := (lookup (se_world s) k)(keyOf (meta wanted) := Some ob'))"
    by (auto simp: s1_def kind_wrap meta_wrap)
  obtain y where y: "ob' = wrap y" "stripMeta (wrap y) = stripMeta (wrap wanted)"
    using same_wrap [OF c(2)] by blast
  have "adjust y wanted = y" using adjust_content [OF y(2) [symmetric] adjust_self] .
  then have "settled wanted w'" using c(3) y by (auto simp: settled_def)
  moreover have "run_state (ensure r wanted) s =
      (None, s1\<lparr>se_world := w', se_calls := se_calls s1 @ [Create (wrap wanted)]\<rparr>)"
    using e onCreate [of r] c(1) by (simp add: ensure_eq transparent_def)
  ultimately show ?thesis using c(3) by (auto simp: s1_def)
next
  case (Some ob)
  then obtain x where x: "ob = wrap x" "keyOf (meta x) = keyOf (meta wanted)"
    using lookup_found [OF Some] range_wrap [of ob] by (auto simp: meta_wrap)
  define s1 where "s1 = s\<lparr>se_calls := se_calls s @ [Get k (keyOf (meta wanted))]\<rparr>"
  have "as (wrap x) = Some x" by (simp add: as_wrap)
  then have g: "run_state (getObj r k as (keyOf (meta wanted))) s = (Inr x, s1)"
    using getObj_run [of k as "keyOf (meta wanted)" s] Some x(1) by (auto simp: s1_def)
  show ?thesis
  proof (cases "adjust x wanted = x")
    case True
    then have "settled wanted (se_world s)" using Some x(1) by (auto simp: settled_def)
    then show ?thesis using quiet by simp
  next
    case False
    let ?u = "wrap (adjust x wanted)"
    have "lookup (se_world s1) (objKind ?u) (objKey ?u) \<noteq> None"
      using Some x by (simp add: s1_def kind_wrap meta_wrap adjust_meta)
    from updateObj_run [OF this] obtain w' ob' where
      c: "run_state (updateObj r ?u) s1 =
            (None, s1\<lparr>se_world := w', se_calls := se_calls s1 @ [Update ?u]\<rparr>)"
        "sameObject ?u ob'"
        "lookup w' = (lookup (se_world s))(k := (lookup (se_world s) k)(keyOf (meta wanted) := Some ob'))"
      using x(2) by (auto simp: s1_def kind_wrap meta_wrap adjust_meta)
    obtain y where y: "ob' = wrap y" "stripMeta (wrap y) = stripMeta ?u"
      using same_wrap [OF c(2)] by blast
    have "adjust y wanted = y" using adjust_content [OF y(2) [symmetric] adjust_idem] .
    then have "settled wanted w'" using c(3) y by (auto simp: settled_def)
    moreover have "run_state (ensure r wanted) s =
        (None, s1\<lparr>se_world := w', se_calls := se_calls s1 @ [Update ?u]\<rparr>)"
      using g False onUpdate [of r] c(1) by (simp add: ensure_eq transparent_def)
    ultimately show ?thesis using c(3) by (auto simp: s1_def)
  qed
qed

end

end
