(* ===== verification/ManagedObjects.thy ===== *)
theory ManagedObjects
  imports Managed
begin

text \<open>
  The five kinds of object that follow the create-or-update contract of \<open>Managed\<close>, and what the
  contract gives for each: \<open>managed_object\<close> is interpreted on the operator's functions, and every
  \<open>object_store\<close> gets the convergence facts by \<open>sublocale\<close>.
\<close>

section \<open>How a found object is adjusted\<close>

definition adjustConfigMap :: "config_map \<Rightarrow> config_map \<Rightarrow> config_map" where
  "adjustConfigMap found cm = found\<lparr>cm_Data := cm_Data cm\<rparr>"

definition adjustSecret :: "secret \<Rightarrow> secret \<Rightarrow> secret" where
  "adjustSecret found sec = found\<lparr>sec_Data := sec_Data sec\<rparr>"

definition adjustService :: "service \<Rightarrow> service \<Rightarrow> service" where
  "adjustService found svc =
     found\<lparr>svc_Spec := (svc_Spec svc)\<lparr>ss_ClusterIP := ss_ClusterIP (svc_Spec found)\<rparr>\<rparr>"

definition adjustPDB :: "pdb \<Rightarrow> pdb \<Rightarrow> pdb" where
  "adjustPDB found pdb = found\<lparr>pdb_Spec := pdb_Spec pdb\<rparr>"

definition adjustNetworkPolicy :: "network_policy \<Rightarrow> network_policy \<Rightarrow> network_policy" where
  "adjustNetworkPolicy found np = found\<lparr>np_Spec := np_Spec np\<rparr>"

text \<open>The Go code compares specs or data; that is comparing the found object with the adjusted one.\<close>

lemma adjust_iff:
  "adjustConfigMap f cm = f \<longleftrightarrow> cm_Data f = cm_Data cm"
  "adjustSecret f' sec = f' \<longleftrightarrow> sec_Data f' = sec_Data sec"
  "adjustService f'' svc = f'' \<longleftrightarrow>
     svc_Spec f'' = (svc_Spec svc)\<lparr>ss_ClusterIP := ss_ClusterIP (svc_Spec f'')\<rparr>"
  "adjustPDB g pdb = g \<longleftrightarrow> pdb_Spec g = pdb_Spec pdb"
  "adjustNetworkPolicy g' np = g' \<longleftrightarrow> np_Spec g' = np_Spec np"
proof -
  show "adjustConfigMap f cm = f \<longleftrightarrow> cm_Data f = cm_Data cm"
    by (cases f) (auto simp: adjustConfigMap_def)
  show "adjustSecret f' sec = f' \<longleftrightarrow> sec_Data f' = sec_Data sec"
    by (cases f') (auto simp: adjustSecret_def)
  show "adjustService f'' svc = f'' \<longleftrightarrow>
     svc_Spec f'' = (svc_Spec svc)\<lparr>ss_ClusterIP := ss_ClusterIP (svc_Spec f'')\<rparr>"
    by (cases f'') (auto simp: adjustService_def)
  show "adjustPDB g pdb = g \<longleftrightarrow> pdb_Spec g = pdb_Spec pdb"
    by (cases g) (auto simp: adjustPDB_def)
  show "adjustNetworkPolicy g' np = g' \<longleftrightarrow> np_Spec g' = np_Spec np"
    by (cases g') (auto simp: adjustNetworkPolicy_def)
qed

lemma stripMeta_inject:
  "stripMeta (ConfigMapObj cm) = stripMeta (ConfigMapObj cm') \<Longrightarrow> cm_Data cm = cm_Data cm'"
  "stripMeta (SecretObj sec) = stripMeta (SecretObj sec') \<Longrightarrow> sec_Data sec = sec_Data sec'"
  "stripMeta (ServiceObj svc) = stripMeta (ServiceObj svc') \<Longrightarrow> svc_Spec svc = svc_Spec svc'"
  "stripMeta (PDBObj pdb) = stripMeta (PDBObj pdb') \<Longrightarrow> pdb_Spec pdb = pdb_Spec pdb'"
  "stripMeta (NetworkPolicyObj np) = stripMeta (NetworkPolicyObj np') \<Longrightarrow> np_Spec np = np_Spec np'"
  "stripMeta (DeploymentObj dep) = stripMeta (DeploymentObj dep') \<Longrightarrow> dep_Spec dep = dep_Spec dep'"
  by (cases cm; cases cm'; cases sec; cases sec'; cases svc; cases svc'; cases pdb; cases pdb';
      cases np; cases np'; cases dep; cases dep'; simp)+

lemma kind_range:
  "objKind ob = ConfigMapKind \<Longrightarrow> \<exists>x. ob = ConfigMapObj x"
  "objKind ob = SecretKind \<Longrightarrow> \<exists>x. ob = SecretObj x"
  "objKind ob = ServiceKind \<Longrightarrow> \<exists>x. ob = ServiceObj x"
  "objKind ob = PDBKind \<Longrightarrow> \<exists>x. ob = PDBObj x"
  "objKind ob = NetworkPolicyKind \<Longrightarrow> \<exists>x. ob = NetworkPolicyObj x"
  "objKind ob = DeploymentKind \<Longrightarrow> \<exists>x. ob = DeploymentObj x"
  "objKind ob = RouteKind \<Longrightarrow> \<exists>x. ob = RouteObj x"
  by (cases ob; simp)+

section \<open>Interpretations\<close>

lemmas managed_simps = as_Some_iff adjust_iff kind_range transparent_id transparent_reportErr
  transparent_reportOnly

interpretation configMap: managed_object ConfigMapKind ConfigMapObj asConfigMap cm_meta
  adjustConfigMap "\<lambda>r err. return (Some err)" "\<lambda>r m. m" "\<lambda>r m. m" ensureConfigMap
proof unfold_locales
  show "adjustConfigMap found' wanted = found'"
    if "stripMeta (ConfigMapObj found) = stripMeta (ConfigMapObj found')"
      "adjustConfigMap found wanted = found" for found found' wanted
    using that(2) stripMeta_inject(1) [OF that(1)] by (simp add: adjust_iff)
  show "ensureConfigMap r wanted = do {
           res \<leftarrow> getObj r ConfigMapKind asConfigMap (keyOf (cm_meta wanted));
           (case res of
              Inl err \<Rightarrow> if IsNotFound err then createObj r (ConfigMapObj wanted) else return (Some err)
            | Inr found \<Rightarrow>
                if adjustConfigMap found wanted \<noteq> found
                then updateObj r (ConfigMapObj (adjustConfigMap found wanted)) else return None)
         }" for r :: "'w reconciler" and wanted
    unfolding ensureConfigMap_def adjust_iff unfolding adjustConfigMap_def by (rule refl)
qed (auto simp: managed_simps adjustConfigMap_def intro!: triple_intro)

interpretation secretObject: managed_object SecretKind SecretObj asSecret sec_meta
  adjustSecret "\<lambda>r err. return (Some err)" "\<lambda>r m. m" "\<lambda>r m. m" ensureSecret
proof unfold_locales
  show "adjustSecret found' wanted = found'"
    if "stripMeta (SecretObj found) = stripMeta (SecretObj found')"
      "adjustSecret found wanted = found" for found found' wanted
    using that(2) stripMeta_inject(2) [OF that(1)] by (simp add: adjust_iff)
  show "ensureSecret r wanted = do {
           res \<leftarrow> getObj r SecretKind asSecret (keyOf (sec_meta wanted));
           (case res of
              Inl err \<Rightarrow> if IsNotFound err then createObj r (SecretObj wanted) else return (Some err)
            | Inr found \<Rightarrow>
                if adjustSecret found wanted \<noteq> found
                then updateObj r (SecretObj (adjustSecret found wanted)) else return None)
         }" for r :: "'w reconciler" and wanted
    unfolding ensureSecret_def adjust_iff unfolding adjustSecret_def by (rule refl)
qed (auto simp: managed_simps adjustSecret_def intro!: triple_intro)

interpretation serviceObject: managed_object ServiceKind ServiceObj asService svc_meta
  adjustService "\<lambda>r err. return (Some err)" "\<lambda>r m. m" "\<lambda>r m. m" ensureService
proof unfold_locales
  show "adjustService found' wanted = found'"
    if "stripMeta (ServiceObj found) = stripMeta (ServiceObj found')"
      "adjustService found wanted = found" for found found' wanted
    using that(2) stripMeta_inject(3) [OF that(1)] by (simp add: adjust_iff)
  show "ensureService r wanted = do {
           res \<leftarrow> getObj r ServiceKind asService (keyOf (svc_meta wanted));
           (case res of
              Inl err \<Rightarrow> if IsNotFound err then createObj r (ServiceObj wanted) else return (Some err)
            | Inr found \<Rightarrow>
                if adjustService found wanted \<noteq> found
                then updateObj r (ServiceObj (adjustService found wanted)) else return None)
         }" for r :: "'w reconciler" and wanted
    unfolding ensureService_def adjust_iff Let_def unfolding adjustService_def by (rule refl)
qed (auto simp: managed_simps adjustService_def intro!: triple_intro)

interpretation pdbObject: managed_object PDBKind PDBObj asPDB pdb_meta adjustPDB
  "\<lambda>r err. do { handleErr r ''GetPDBFailed'' err; return (Some err) }"
  "\<lambda>r. reportErr r ''CreatePDBFailed''" "\<lambda>r. reportOnly r ''UpdatePDBFailed''"
  syncPodDisruptionBudget
proof unfold_locales
  show "adjustPDB found' wanted = found'"
    if "stripMeta (PDBObj found) = stripMeta (PDBObj found')"
      "adjustPDB found wanted = found" for found found' wanted
    using that(2) stripMeta_inject(4) [OF that(1)] by (simp add: adjust_iff)
  show "syncPodDisruptionBudget r wanted = do {
           res \<leftarrow> getObj r PDBKind asPDB (keyOf (pdb_meta wanted));
           (case res of
              Inl err \<Rightarrow>
                if IsNotFound err then reportErr r ''CreatePDBFailed'' (createObj r (PDBObj wanted))
                else do { handleErr r ''GetPDBFailed'' err; return (Some err) }
            | Inr found \<Rightarrow>
                if adjustPDB found wanted \<noteq> found
                then reportOnly r ''UpdatePDBFailed'' (updateObj r (PDBObj (adjustPDB found wanted)))
                else return None)
         }" for r :: "'w reconciler" and wanted
    unfolding syncPodDisruptionBudget_def adjust_iff unfolding adjustPDB_def by (rule refl)
qed (auto simp: managed_simps adjustPDB_def intro!: triple_intro)

interpretation networkPolicy: managed_object NetworkPolicyKind NetworkPolicyObj asNetworkPolicy
  np_meta adjustNetworkPolicy
  "\<lambda>r err. do { handleErr r ''GetNetworkPolicyFailed'' err; return (Some err) }"
  "\<lambda>r. reportErr r ''CreateNetworkPolicyFailed''" "\<lambda>r. reportOnly r ''UpdateNetworkPolicyFailed''"
  syncNetworkPolicy
proof unfold_locales
  show "adjustNetworkPolicy found' wanted = found'"
    if "stripMeta (NetworkPolicyObj found) = stripMeta (NetworkPolicyObj found')"
      "adjustNetworkPolicy found wanted = found" for found found' wanted
    using that(2) stripMeta_inject(5) [OF that(1)] by (simp add: adjust_iff)
  show "syncNetworkPolicy r wanted = do {
           res \<leftarrow> getObj r NetworkPolicyKind asNetworkPolicy (keyOf (np_meta wanted));
           (case res of
              Inl err \<Rightarrow>
                if IsNotFound err
                then reportErr r ''CreateNetworkPolicyFailed'' (createObj r (NetworkPolicyObj wanted))
                else do { handleErr r ''GetNetworkPolicyFailed'' err; return (Some err) }
            | Inr found \<Rightarrow>
                if adjustNetworkPolicy found wanted \<noteq> found
                then reportOnly r ''UpdateNetworkPolicyFailed''
                  (updateObj r (NetworkPolicyObj (adjustNetworkPolicy found wanted)))
                else return None)
         }" for r :: "'w reconciler" and wanted
    unfolding syncNetworkPolicy_def adjust_iff unfolding adjustNetworkPolicy_def by (rule refl)
qed (auto simp: managed_simps adjustNetworkPolicy_def intro!: triple_intro)

section \<open>On an object store\<close>

sublocale object_store < configMaps: managed_store ConfigMapKind ConfigMapObj asConfigMap cm_meta
  adjustConfigMap "\<lambda>r err. return (Some err)" "\<lambda>r m. m" "\<lambda>r m. m" ensureConfigMap r lookup
  by unfold_locales

sublocale object_store < secrets: managed_store SecretKind SecretObj asSecret sec_meta
  adjustSecret "\<lambda>r err. return (Some err)" "\<lambda>r m. m" "\<lambda>r m. m" ensureSecret r lookup
  by unfold_locales

sublocale object_store < services: managed_store ServiceKind ServiceObj asService svc_meta
  adjustService "\<lambda>r err. return (Some err)" "\<lambda>r m. m" "\<lambda>r m. m" ensureService r lookup
  by unfold_locales

sublocale object_store < pdbs: managed_store PDBKind PDBObj asPDB pdb_meta adjustPDB
  "\<lambda>r err. do { handleErr r ''GetPDBFailed'' err; return (Some err) }"
  "\<lambda>r. reportErr r ''CreatePDBFailed''" "\<lambda>r. reportOnly r ''UpdatePDBFailed''"
  syncPodDisruptionBudget r lookup
  by unfold_locales

sublocale object_store < networkPolicies: managed_store NetworkPolicyKind NetworkPolicyObj
  asNetworkPolicy np_meta adjustNetworkPolicy
  "\<lambda>r err. do { handleErr r ''GetNetworkPolicyFailed'' err; return (Some err) }"
  "\<lambda>r. reportErr r ''CreateNetworkPolicyFailed''" "\<lambda>r. reportOnly r ''UpdateNetworkPolicyFailed''"
  syncNetworkPolicy r lookup
  by unfold_locales

interpretation memConfigMaps: managed_store ConfigMapKind ConfigMapObj asConfigMap cm_meta
  adjustConfigMap "\<lambda>r err. return (Some err)" "\<lambda>r m. m" "\<lambda>r m. m" ensureConfigMap
  "memReconciler getenv" memLookup
  by unfold_locales

end
