(* ===== verification/RouteSync.thy ===== *)
theory RouteSync
  imports Ensure
begin

text \<open>
  The Route of the policy engine: \<open>findExistingRoute\<close> and \<open>ensurePolicyEngineRoute\<close> of
  \<open>controllers/updateservice_controller.go\<close>, with \<open>IngressURI\<close> of the vendored
  \<open>library-go/pkg/route/routeapihelpers\<close>.
\<close>

section \<open>Definitions\<close>

definition admitted :: "route_ingress \<Rightarrow> bool" where
  "admitted ingress \<longleftrightarrow>
     list_ex (\<lambda>c. ic_Type c = ''Admitted'' \<and> ic_Status c = ConditionTrue) (ri_Conditions ingress)"

text \<open>The loop over the ingresses, for the host that is asked for (\<open>[]\<close> for the first admitted).\<close>

fun firstAdmitted :: "string \<Rightarrow> string \<Rightarrow> string \<Rightarrow> route_ingress list \<Rightarrow> string \<Rightarrow> string + URL" where
  "firstAdmitted scheme name ns [] host =
     Inl (if host = []
          then ''no admitted ingress for route '' @ name @ '' in namespace '' @ ns
          else ''no ingress for host '' @ host @ '' in route '' @ name @ '' in namespace '' @ ns)"
| "firstAdmitted scheme name ns (ingress # rest) host =
     (if host = [] \<or> host = ri_Host ingress then
        if admitted ingress
        then Inr (emptyURL\<lparr>u_Scheme := scheme, u_Host := ri_Host ingress\<rparr>)
        else if host = ri_Host ingress
          then Inl (''ingress for host '' @ host @ '' in route '' @ name @ '' in namespace '' @ ns @
                    '' is not admitted'')
          else firstAdmitted scheme name ns rest host
      else firstAdmitted scheme name ns rest host)"

definition IngressURI :: "route \<Rightarrow> string \<Rightarrow> string + URL" where
  "IngressURI rt host =
     (let scheme = (if rs_TLS (route_Spec rt) \<noteq> None then ''https'' else ''http'')
      in firstAdmitted scheme (om_Name (route_meta rt)) (om_Namespace (route_meta rt))
           (route_Ingress rt) host)"

definition findExistingRoute ::
    "'w reconciler \<Rightarrow> kube_resources \<Rightarrow> ('w sess, go_error + route option) state" where
  "findExistingRoute r resources = do {
     res \<leftarrow> getObj r RouteKind asRoute (keyOf (route_meta (kr_policyEngineOldRoute resources)));
     (case res of
        Inr foundOldRoute \<Rightarrow> return (Inr (Some foundOldRoute))
      | Inl err \<Rightarrow>
          if IsNotFound err then do {
            res' \<leftarrow> getObj r RouteKind asRoute (keyOf (route_meta (kr_policyEngineRoute resources)));
            (case res' of
               Inr foundRoute \<Rightarrow> return (Inr (Some foundRoute))
             | Inl err' \<Rightarrow>
                 if IsNotFound err' then return (Inr None)
                 else do { handleErr r ''GetRouteFailed'' err'; return (Inl err') })
          }
          else do { handleErr r ''GetRouteFailed'' err; return (Inl err) })
   }"

definition setPolicyEngineURI :: "string \<Rightarrow> ('w sess, unit) state" where
  "setPolicyEngineURI uri = do {
     st \<leftarrow> getStatus;
     putStatus (st\<lparr>us_PolicyEngineURI := uri\<rparr>)
   }"

text \<open>The found Route with the wanted spec, its own TLS configuration kept.\<close>

definition updatedRoute :: "route \<Rightarrow> route \<Rightarrow> route" where
  "updatedRoute found rt =
     found\<lparr>route_Spec := (route_Spec rt)\<lparr>rs_TLS := rs_TLS (route_Spec found)\<rparr>\<rparr>"

definition ensurePolicyEngineRoute ::
    "'w reconciler \<Rightarrow> update_service \<Rightarrow> kube_resources \<Rightarrow> ('w sess, go_error option) state" where
  "ensurePolicyEngineRoute r instance resources =
     (let rt = kr_policyEngineRoute resources in do {
        res \<leftarrow> findExistingRoute r resources;
        (case res of
           Inl err \<Rightarrow> do { handleErr r ''GetRouteFailed'' err; return (Some err) }
         | Inr None \<Rightarrow>
             withController r instance (route_meta rt) (\<lambda>m.
               reportErr r ''CreateRouteFailed'' (createObj r (RouteObj (rt\<lparr>route_meta := m\<rparr>))))
         | Inr (Some foundRoute) \<Rightarrow> do {
             (case IngressURI foundRoute [] of
                Inr uri \<Rightarrow> setPolicyEngineURI (URLString uri)
              | Inl err \<Rightarrow> handleErr r ''RouteIngressFailed'' (PlainError err));
             (if (route_Spec foundRoute)\<lparr>rs_TLS := rs_TLS (route_Spec rt)\<rparr> \<noteq> route_Spec rt
              then reportOnly r ''UpdateRouteFailed''
                (updateObj r (RouteObj (updatedRoute foundRoute rt)))
              else return None)
           })
      })"

section \<open>Properties\<close>

text \<open>
  The URI of a Route is taken from the first ingress that fits: for a given host the first one
  with this host, for any host the first that is admitted, except that a host-less ingress which
  is not admitted ends the search before that. The result has the host of this ingress, and the
  scheme \<open>https\<close> exactly when the Route has a TLS configuration; if there is no such ingress or it
  is not admitted, the result is an error that names the Route.
\<close>

theorem ingress_uri:
  "IngressURI rt host =
     (let place = '' route '' @ om_Name (route_meta rt) @ '' in namespace '' @ om_Namespace (route_meta rt);
          fits = (\<lambda>ing. if host = [] then admitted ing \<or> ri_Host ing = [] else ri_Host ing = host)
      in case find fits (route_Ingress rt) of
           None \<Rightarrow> Inl (if host = [] then ''no admitted ingress for'' @ place
                       else ''no ingress for host '' @ host @ '' in'' @ place)
         | Some ing \<Rightarrow>
             if admitted ing
             then Inr (emptyURL\<lparr>u_Scheme := (if rs_TLS (route_Spec rt) \<noteq> None then ''https'' else ''http''),
                                u_Host := ri_Host ing\<rparr>)
             else Inl (''ingress for host '' @ host @ '' in'' @ place @ '' is not admitted''))"
proof -
  have search: "firstAdmitted scheme name ns ings host =
     (case find (\<lambda>ing. if host = [] then admitted ing \<or> ri_Host ing = [] else ri_Host ing = host) ings of
        None \<Rightarrow> Inl (if host = [] then ''no admitted ingress for'' @ '' route '' @ name @ '' in namespace '' @ ns
                    else ''no ingress for host '' @ host @ '' in'' @ '' route '' @ name @ '' in namespace '' @ ns)
      | Some ing \<Rightarrow>
          if admitted ing then Inr (emptyURL\<lparr>u_Scheme := scheme, u_Host := ri_Host ing\<rparr>)
          else Inl (''ingress for host '' @ host @ '' in'' @ '' route '' @ name @ '' in namespace '' @ ns @
                    '' is not admitted''))" for scheme name ns ings
    by (induction ings) auto
  show ?thesis unfolding IngressURI_def Let_def search append_assoc by (rule refl)
qed

end
