(* ===== verification/GoTime.thy ===== *)
theory GoTime
  imports GoStrings
begin

text \<open>
  \<open>time.Now().UTC().Format(time.RFC822)\<close>, layout \<open>02 Jan 06 15:04 MST\<close>, for a time in seconds
  since 1970: the civil date by the era method (400 years have 146097 days).
\<close>

section \<open>Definitions\<close>

text \<open>Year, month and day of a day number; day 0 is 1970-01-01.\<close>

definition civilDate :: "int \<Rightarrow> int \<times> int \<times> int" where
  "civilDate days =
     (let z = days + 719468;
          era = z div 146097;
          doe = z mod 146097;
          yoe = (doe - doe div 1460 + doe div 36524 - doe div 146096) div 365;
          doy = doe - (365 * yoe + yoe div 4 - yoe div 100);
          mp = (5 * doy + 2) div 153;
          d = doy - (153 * mp + 2) div 5 + 1;
          m = (if mp < 10 then mp + 3 else mp - 9);
          y = yoe + era * 400 + (if m \<le> 2 then 1 else 0)
      in (y, m, d))"

definition monthNames :: "string list" where
  "monthNames = [''Jan'', ''Feb'', ''Mar'', ''Apr'', ''May'', ''Jun'',
                 ''Jul'', ''Aug'', ''Sep'', ''Oct'', ''Nov'', ''Dec'']"

text \<open>Two decimal digits.\<close>

definition pad2 :: "int \<Rightarrow> string" where
  "pad2 n = [digitChar (nat (n div 10 mod 10)), digitChar (nat (n mod 10))]"

definition formatRFC822 :: "int \<Rightarrow> string" where
  "formatRFC822 t =
     (case civilDate (t div 86400) of
        (y, m, d) \<Rightarrow>
          (let s = t mod 86400
           in pad2 d @ '' '' @ monthNames ! nat (m - 1) @ '' '' @ pad2 (y mod 100) @ '' '' @
              pad2 (s div 3600) @ '':'' @ pad2 (s div 60 mod 60) @ '' UTC''))"

end
