(* ===== verification/DeploymentSync.thy ===== *)
theory DeploymentSync
  imports Ensure GoTime
begin

text \<open>
  The Deployment and the graph-data pod: \<open>ensureGraphDataSHA\<close> and \<open>ensureDeployment\<close> of
  \<open>controllers/updateservice_controller.go\<close>. The update of a found Deployment is the pure function
  \<open>mergeDeployment\<close>.
\<close>

section \<open>The graph-data pod\<close>

definition podDescription :: string where
  "podDescription =
     ''Resolve any by-tag graph-data images into by-digest pullspecs, so we can update update service Deployments if the by-tag graph data image their UpdateService requests has updated content.  The current implementation polls every 5 minutes, and the container does nothing other than request a fresh image pull.  If you want to avoid this polling, use by-digest pullspecs in all UpdateServices, and update the digest in those UpdateServices when the content of the graph-data image changes.''"

definition graphDataPod :: "update_service \<Rightarrow> int \<Rightarrow> pod" where
  "graphDataPod instance now =
     \<lparr>p_meta = (newMeta ''graph-data-tag-digest'' (instNamespace instance))
        \<lparr>om_Annotations := mapLit
           [(''kubernetes.io/description'', podDescription),
            (''updateservice.operator.openshift.io/last-refresh'', formatRFC822 now)]\<rparr>,
      p_Spec =
        \<lparr>pod_Volumes = [],
         pod_InitContainers = [],
         pod_Containers =
           [(newContainer NameInitContainerGraphData (us_GraphDataImage (us_Spec instance)) ''Always'')
              \<lparr>c_Command := [''/bin/sh'', ''-c'', ''--''], c_Args := [''sleep 300;'']\<rparr>],
         pod_RestartPolicy = ''Never'',
         pod_other = []\<rparr>,
      p_Phase = [],
      p_ContainerStatuses = [],
      p_other = []\<rparr>"

text \<open>An error, or the digest; the empty string stands for none.\<close>

definition orDigest :: "string \<Rightarrow> go_error option \<Rightarrow> go_error + string" where
  "orDigest digest err = (case err of None \<Rightarrow> Inr digest | Some e \<Rightarrow> Inl e)"

definition ensureGraphDataSHA ::
    "'w reconciler \<Rightarrow> update_service \<Rightarrow> ('w sess, go_error + string) state" where
  "ensureGraphDataSHA r instance =
     (if Contains (us_GraphDataImage (us_Spec instance)) ''@sha256'' then return (Inr [])
      else do {
        now \<leftarrow> timeNow r;
        (case SetControllerReference (r_Scheme r) instance (p_meta (graphDataPod instance now)) of
           Inl err \<Rightarrow> return (Inl err)
         | Inr m \<Rightarrow>
             (let pd = (graphDataPod instance now)\<lparr>p_meta := m\<rparr> in do {
                res \<leftarrow> getObj r PodKind asPod (keyOf (p_meta pd));
                (case res of
                   Inl err \<Rightarrow>
                     if IsNotFound err then do {
                       err' \<leftarrow> reportErr r ''CreateGraphDataPodFailed'' (createObj r (PodObj pd));
                       return (orDigest [] err')
                     }
                     else do { handleErr r ''GetGraphDataPodFailed'' err; return (Inl err) }
                 | Inr found \<Rightarrow>
                     if p_Phase found = ''Succeeded'' then do {
                       err' \<leftarrow> reportErr r ''DeleteGraphDataPodFailed'' (deleteObj r (PodObj pd));
                       return (orDigest [] err')
                     }
                     else (case p_ContainerStatuses found of
                         cs # _ \<Rightarrow> return (Inr (cs_ImageID cs))
                       | [] \<Rightarrow> do {
                           handleErr r ''GraphDataPodStatusEmpty''
                             (PlainError ''Graph-Data pod returned empty container status'');
                           return (Inr [])
                         }))
              }))
      })"

section \<open>Merging the found Deployment\<close>

text \<open>
  The loop over \<open>original.Resources.Limits\<close> (and \<open>Requests\<close>): a quantity is replaced only when it
  is missing or differs as an amount, so that a found quantity with another text form stays.
\<close>

definition mergeQuantities :: "quantity gomap \<Rightarrow> quantity gomap \<Rightarrow> quantity gomap" where
  "mergeQuantities found original =
     (case (orEmpty found, original) of
        (Some d, Some s) \<Rightarrow>
          Some (d ++\<^sub>f fmfilter (\<lambda>k. case (fmlookup d k, fmlookup s k) of
                            (Some value, Some origVal) \<Rightarrow> \<not> quantityEqual origVal value
                          | _ \<Rightarrow> True) s)
      | (d, _) \<Rightarrow> d)"

definition mergeContainer :: "container \<Rightarrow> container \<Rightarrow> container" where
  "mergeContainer original c =
     c\<lparr>c_Image := c_Image original,
       c_ImagePullPolicy := c_ImagePullPolicy original,
       c_Command := c_Command original,
       c_Args := c_Args original,
       c_Ports := c_Ports original,
       c_Env := c_Env original,
       c_Limits := mergeQuantities (c_Limits c) (c_Limits original),
       c_Requests := mergeQuantities (c_Requests c) (c_Requests original),
       c_VolumeMounts := c_VolumeMounts original,
       c_LivenessProbe := c_LivenessProbe original,
       c_ReadinessProbe := c_ReadinessProbe original\<rparr>"

text \<open>One round of the loop over the containers; an unexpected container is skipped.\<close>

definition syncContainer :: "kube_resources \<Rightarrow> container \<Rightarrow> container" where
  "syncContainer resources c =
     (if c_Name c = NameContainerGraphBuilder
      then mergeContainer (kr_graphBuilderContainer resources) c
      else if c_Name c = NameContainerPolicyEngine
      then mergeContainer (kr_policyEngineContainer resources) c
      else c)"

text \<open>
  One round of the loop over the init containers. The Go code also notes whether it saw an
  unexpected one, and then cuts its local slice \<open>initContainers\<close> down to the expected one; the
  slice is not stored back, so this has no effect on the Deployment.
\<close>

definition syncInitContainer :: "kube_resources \<Rightarrow> container \<Rightarrow> container" where
  "syncInitContainer resources c =
     (if c_Name c = ''graph-data''
      then (let original = kr_graphDataInitContainer resources in
            c\<lparr>c_Image := c_Image original,
              c_ImagePullPolicy := c_ImagePullPolicy original,
              c_VolumeMounts := c_VolumeMounts original\<rparr>)
      else c)"

definition GraphDataImageAnnotation :: string where
  "GraphDataImageAnnotation = ''updateservice.operator.openshift.io/graph-data-image''"

definition mergeTemplateMeta :: "object_meta \<Rightarrow> string \<Rightarrow> object_meta \<Rightarrow> object_meta" where
  "mergeTemplateMeta wanted imageSHA m =
     (let annotations = mapAssignAll (orEmpty (om_Annotations m)) (om_Annotations wanted)
      in m\<lparr>om_Labels := mapAssignAll (orEmpty (om_Labels m)) (om_Labels wanted),
           om_Annotations :=
             (if length imageSHA > 0 then mapPut GraphDataImageAnnotation imageSHA annotations
              else annotations)\<rparr>)"

definition mergePodSpec :: "kube_resources \<Rightarrow> pod_spec \<Rightarrow> pod_spec" where
  "mergePodSpec resources spec =
     spec\<lparr>pod_Volumes := pod_Volumes (pt_Spec (ds_Template (dep_Spec (kr_deployment resources)))),
          pod_Containers := map (syncContainer resources) (pod_Containers spec),
          pod_InitContainers := map (syncInitContainer resources) (pod_InitContainers spec)\<rparr>"

definition mergeDeploymentSpec ::
    "kube_resources \<Rightarrow> string \<Rightarrow> deployment_spec \<Rightarrow> deployment_spec" where
  "mergeDeploymentSpec resources imageSHA spec =
     (let wanted = dep_Spec (kr_deployment resources) in
      spec\<lparr>ds_Replicas := ds_Replicas wanted,
           ds_Selector := ds_Selector wanted,
           ds_Strategy := ds_Strategy wanted,
           ds_Template :=
             \<lparr>pt_meta = mergeTemplateMeta (pt_meta (ds_Template wanted)) imageSHA
                (pt_meta (ds_Template spec)),
              pt_Spec = mergePodSpec resources (pt_Spec (ds_Template spec))\<rparr>\<rparr>)"

definition hasGraphDataInit :: "deployment \<Rightarrow> bool" where
  "hasGraphDataInit d =
     list_ex (\<lambda>c. c_Name c = ''graph-data'') (pod_InitContainers (pt_Spec (ds_Template (dep_Spec d))))"

section \<open>ensureDeployment\<close>

definition ensureDeployment ::
    "'w reconciler \<Rightarrow> update_service \<Rightarrow> kube_resources \<Rightarrow> string \<Rightarrow> ('w sess, go_error option) state"
    where
  "ensureDeployment r instance resources imageSHA =
     withController r instance (dep_meta (kr_deployment resources)) (\<lambda>m.
       (let deployment = (kr_deployment resources)\<lparr>dep_meta := m\<rparr> in do {
          res \<leftarrow> getObj r DeploymentKind asDeployment (keyOf (dep_meta deployment));
          (case res of
             Inl err \<Rightarrow>
               if IsNotFound err
               then reportErr r ''CreateDeploymentFailed'' (createObj r (DeploymentObj deployment))
               else do { handleErr r ''GetDeploymentFailed'' err; return (Some err) }
           | Inr found \<Rightarrow>
               if \<not> hasGraphDataInit found then do {
                 handleErr r ''UpdateDeploymentFailed''
                   (PlainError ''Graph data init container not found'');
                 return None
               }
               else (let updated = found\<lparr>dep_Spec :=
                           mergeDeploymentSpec resources imageSHA (dep_Spec found)\<rparr> in
                 if dep_Spec updated \<noteq> dep_Spec found
                 then reportErr r ''UpdateDeploymentFailed'' (updateObj r (DeploymentObj updated))
                 else return None))
        }))"

end
