(* ===== verification/Reconcile.thy ===== *)
theory Reconcile
  imports RouteName RouteSync DeploymentSync
begin

text \<open>
  \<open>Reconcile\<close> of \<open>controllers/updateservice_controller.go\<close>. The status of the copied instance is
  the session's; it is emptied when the instance has been fetched and sent to the server at the
  end.
\<close>

section \<open>Definitions\<close>

text \<open>\<open>ctrl.Result\<close>, of which the operator sets \<open>RequeueAfter\<close> only (in nanoseconds), and the error.\<close>

record reconcile_result =
  RequeueAfter :: int
  Err :: "go_error option"

definition emptyResult :: reconcile_result where
  "emptyResult = \<lparr>RequeueAfter = 0, Err = None\<rparr>"

definition failedResult :: "go_error \<Rightarrow> reconcile_result" where
  "failedResult err = \<lparr>RequeueAfter = 0, Err = Some err\<rparr>"

definition fiveMinutes :: int where
  "fiveMinutes = 5 * 60 * 10 ^ 9"

text \<open>\<open>r.Client.Status().Update(ctx, instanceCopy)\<close>: the instance with the session's status.\<close>

definition saveStatus :: "'w reconciler \<Rightarrow> update_service \<Rightarrow> ('w sess, go_error option) state" where
  "saveStatus r instance = do {
     st \<leftarrow> getStatus;
     updateStatus r (instance\<lparr>us_Status := st\<rparr>)
   }"

definition ensureSteps ::
    "'w reconciler \<Rightarrow> update_service \<Rightarrow> kube_resources \<Rightarrow> ('w sess, go_error option) state list" where
  "ensureSteps r instance resources =
     map (\<lambda>f. f r instance resources)
       [ensureConfig,
        ensurePullSecret,
        ensureEnvConfig,
        ensureTrustedClusterCA,
        ensureAdditionalTrustedCA,
        ensureGraphBuilderService,
        ensurePolicyEngineService,
        ensurePodDisruptionBudget,
        ensurePolicyEngineRoute,
        ensureNetworkPolicy]"

text \<open>
  From the ensure steps on. The error of the steps is overwritten by that of
  \<open>ensureGraphDataSHA\<close>, and that one by the error of \<open>ensureDeployment\<close>.
\<close>

definition ensureAll ::
    "'w reconciler \<Rightarrow> update_service \<Rightarrow> kube_resources \<Rightarrow> ('w sess, reconcile_result) state" where
  "ensureAll r instance resources = do {
     SetStatusCondition r
       (newCondition ConditionReconcileCompleted ConditionFalse ''Reconcile started'' []);
     stepErr \<leftarrow> runUntilError (ensureSteps r instance resources);
     sha \<leftarrow> ensureGraphDataSHA r instance;
     err \<leftarrow> ensureDeployment r instance resources
       (case sha of Inl _ \<Rightarrow> [] | Inr imageSHA \<Rightarrow> imageSHA);
     (case err of
        Some e \<Rightarrow> return (failedResult e)
      | None \<Rightarrow> do {
          SetStatusCondition r
            (newCondition ConditionReconcileCompleted ConditionTrue ''Success'' []);
          statusErr \<leftarrow> saveStatus r instance;
          return \<lparr>RequeueAfter = fiveMinutes, Err = None\<rparr>
        })
   }"

text \<open>
  The cluster CA that rendering starts from: what was found; when nothing was, the one that
  \<open>newTrustedClusterCAConfig\<close> makes; any other error leaves it nil.
\<close>

definition clusterCAFor ::
    "environ \<Rightarrow> update_service \<Rightarrow> go_error + config_map option \<Rightarrow> config_map option" where
  "clusterCAFor getenv instance res =
     (case res of
        Inr clusterCM \<Rightarrow> clusterCM
      | Inl err \<Rightarrow>
          if IsNotFound err then newTrustedClusterCAConfig getenv instance None else None)"

definition reconcileInstance ::
    "'w reconciler \<Rightarrow> namespaced_name \<Rightarrow> update_service \<Rightarrow> ('w sess, reconcile_result) state" where
  "reconcileInstance r req instance =
     (case validateRouteName instance (nn_Name req) (nn_Namespace req) of
        Some err \<Rightarrow> do {
          SetStatusCondition r
            (newCondition ConditionReconcileError ConditionTrue
               ''Unable to create UpdateService route'' (err_Text err));
          statusErr \<leftarrow> saveStatus r instance;
          return emptyResult
        }
      | None \<Rightarrow> do {
          ps \<leftarrow> findPullSecret r;
          (case ps of
             Inl err \<Rightarrow> return (failedResult err)
           | Inr pullSecret \<Rightarrow> do {
               cm \<leftarrow> findTrustedCAConfig r;
               (case cm of
                  Inl err \<Rightarrow> return (failedResult err)
                | Inr caConfigMap \<Rightarrow> do {
                    found \<leftarrow> findTrustedClusterCAConfig r instance;
                    (case newKubeResources (r_getenv r) instance (r_OperandImage r) pullSecret
                            caConfigMap (clusterCAFor (r_getenv r) instance found) of
                       Inl err \<Rightarrow> return (failedResult err)
                     | Inr resources \<Rightarrow> ensureAll r instance resources)
                  })
             })
        })"

definition Reconcile ::
    "'w reconciler \<Rightarrow> namespaced_name \<Rightarrow> ('w sess, reconcile_result) state" where
  "Reconcile r req =
     (if nn_Namespace req \<noteq> r_OperatorNamespace r then return emptyResult
      else do {
        res \<leftarrow> getObj r UpdateServiceKind asUpdateService req;
        (case res of
           Inl err \<Rightarrow> return (if IsNotFound err then emptyResult else failedResult err)
         | Inr instance \<Rightarrow> do {
             putStatus emptyStatus;
             reconcileInstance r req (instance\<lparr>us_Status := emptyStatus\<rparr>)
           })
      })"

text \<open>One call of \<open>Reconcile\<close> in a world: the result, the world after it, the requests made.\<close>

definition runReconcile ::
    "'w reconciler \<Rightarrow> namespaced_name \<Rightarrow> 'w \<Rightarrow> reconcile_result \<times> 'w \<times> api_call list" where
  "runReconcile r req w =
     (case run_state (Reconcile r req)
             \<lparr>se_world = w, se_status = emptyStatus, se_calls = []\<rparr> of
        (res, s) \<Rightarrow> (res, se_world s, se_calls s))"

end
