(* ===== verification/Rendered.thy ===== *)
theory Rendered
  imports Workload
begin

text \<open>
  Correctness of the rendered resources: when rendering succeeds, what the graph-builder's
  configuration holds, that the objects refer to each other consistently (mounts to volumes,
  references to ConfigMap keys, selectors to labels, target ports to container ports), and what
  traffic the network policy admits, under a small semantics of selectors and policies.
\<close>

section \<open>The fields of the rendered record\<close>

lemma newGraphBuilderConfig_eq:
  "newGraphBuilderConfig instance =
     (case Cut (CHR ''/'') (us_Releases (us_Spec instance)) of
        None \<Rightarrow> Inl (PlainError (''failed to split '' @ Quote (us_Releases (us_Spec instance)) @
               '' into registry and repository components''))
      | Some (registry, repository) \<Rightarrow>
          Inr \<lparr>cm_meta = (newMeta (nameConfig instance) (instNamespace instance))
                 \<lparr>om_Annotations := described gbConfigDescription\<rparr>,
               cm_Data = mapLit [(''gb.toml'',
                 joinWith (CHR 0x0A) (tomlLines registry repository))],
               cm_other = []\<rparr>)"
  by (simp add: newGraphBuilderConfig_def SplitN_2 renderTOML_eq split: option.split prod.split)

lemma newGraphBuilderConfig_meta:
  "newGraphBuilderConfig instance = Inr gb \<Longrightarrow>
     cm_meta gb = (newMeta (nameConfig instance) (instNamespace instance))
       \<lparr>om_Annotations := described gbConfigDescription\<rparr>"
  by (auto simp: newGraphBuilderConfig_eq split: option.splits)

lemma newKubeResources_fields:
  assumes "newKubeResources getenv instance img ps ca cca = Inr k"
  shows "newGraphBuilderConfig instance = Inr (kr_graphBuilderConfig k)"
    and "kr_envConfig k = newEnvConfig instance"
    and "kr_envConfigHash k = checksumMap (cm_Data (kr_envConfig k))"
    and "kr_graphBuilderConfigHash k = checksumMap (cm_Data (kr_graphBuilderConfig k))"
    and "kr_trustedCAConfig k = newTrustedCAConfig instance ca"
    and "kr_trustedClusterCAConfig k = newTrustedClusterCAConfig getenv instance cca"
    and "kr_pullSecret k = newPullSecret instance ps"
    and "kr_podDisruptionBudget k = newPodDisruptionBudget instance"
    and "kr_volumes k = newVolumes instance (kr_trustedCAConfig k) (kr_trustedClusterCAConfig k)"
    and "kr_graphBuilderVolumeMounts k =
           newGraphBuilderVolumeMounts (kr_trustedCAConfig k) (kr_trustedClusterCAConfig k)"
    and "kr_graphBuilderContainer k =
           newGraphBuilderContainer getenv instance img (kr_graphBuilderVolumeMounts k)"
    and "kr_graphDataInitContainer k = newGraphDataInitContainer instance"
    and "kr_policyEngineContainer k = newPolicyEngineContainer instance img"
    and "kr_deployment k =
           newDeployment instance (kr_graphBuilderConfigHash k) (kr_envConfigHash k) (kr_volumes k)
             (kr_graphBuilderContainer k) (kr_policyEngineContainer k)
             (Some (kr_graphDataInitContainer k))"
    and "kr_graphBuilderService k = newGraphBuilderService instance"
    and "kr_policyEngineService k = newPolicyEngineService instance"
    and "kr_policyEngineRoute k = newPolicyEngineRoute instance"
    and "kr_policyEngineOldRoute k = oldPolicyEngineRoute instance"
    and "kr_networkPolicy k = newNetworkPolicy getenv instance"
  using assms by (auto simp: newKubeResources_def Let_def split: sum.splits)

lemmas kube_resources_simps = newKubeResources_fields(2-19)

lemma newKubeResources_Inr_iff:
  "(\<exists>k. newKubeResources getenv instance img ps ca cca = Inr k) \<longleftrightarrow>
     CHR ''/'' \<in> set (us_Releases (us_Spec instance))"
  by (auto simp: newKubeResources_def newGraphBuilderConfig_eq Let_def Cut_None_iff Cut_Some_iff
      split: option.splits)

section \<open>Selectors\<close>

text \<open>
  A label selector with \<open>matchLabels\<close> only selects the objects that carry all its labels; a
  Service selects pods in the same way.
\<close>

definition labelsMatch :: "string gomap \<Rightarrow> string gomap \<Rightarrow> bool" where
  "labelsMatch sel labels \<longleftrightarrow> (\<forall>k v. mapGet sel k = Some v \<longrightarrow> mapGet labels k = Some v)"

definition selects :: "label_selector \<Rightarrow> string gomap \<Rightarrow> bool" where
  "selects sel labels \<longleftrightarrow> ls_other sel = [] \<and> labelsMatch (ls_MatchLabels sel) labels"

lemma labelsMatch_mapLit:
  "labelsMatch (mapLit [(k, v)]) labels \<longleftrightarrow> mapGet labels k = Some v"
  by (auto simp: labelsMatch_def)

lemma selects_matchLabels [simp]:
  "selects (matchLabels [(k, v)]) labels \<longleftrightarrow> mapGet labels k = Some v"
  by (simp add: selects_def matchLabels_def labelsMatch_mapLit)

definition podLabels :: "deployment \<Rightarrow> string gomap" where
  "podLabels d = om_Labels (pt_meta (ds_Template (dep_Spec d)))"

definition podSpec :: "deployment \<Rightarrow> pod_spec" where
  "podSpec d = pt_Spec (ds_Template (dep_Spec d))"

lemma newDeployment_simps [simp]:
  "dep_meta (newDeployment i h e v g p d) = (newMeta (instName i) (instNamespace i))
     \<lparr>om_Annotations := described
        (''This deployment launches the components for the OpenShift UpdateService '' @ instName i)\<rparr>"
  "podLabels (newDeployment i h e v g p d) =
     mapLit [(''app'', instName i), (''deployment'', instName i)]"
  "pod_Volumes (podSpec (newDeployment i h e v g p d)) = v"
  "pod_Containers (podSpec (newDeployment i h e v g p d)) = [g, p]"
  "pod_InitContainers (podSpec (newDeployment i h e v g p d)) = (case d of None \<Rightarrow> [] | Some c \<Rightarrow> [c])"
  "ds_Selector (dep_Spec (newDeployment i h e v g p d)) = Some (matchLabels [(''app'', instName i)])"
  by (simp_all add: newDeployment_def podLabels_def podSpec_def nameDeployment_def Let_def)

section \<open>Traffic\<close>

text \<open>
  The traffic a rule admits towards (or from) a pod with the given labels in a namespace with the
  given labels. A rule without peers admits every peer. A numbered port is that port; a named
  port is resolved by the pod that receives the traffic (\<open>named\<close>).
\<close>

definition peerMatches :: "np_peer \<Rightarrow> string gomap \<Rightarrow> string gomap \<Rightarrow> bool" where
  "peerMatches peer nsLabels labels \<longleftrightarrow>
     (case peer_NamespaceSelector peer of None \<Rightarrow> True | Some sel \<Rightarrow> selects sel nsLabels) \<and>
     (case peer_PodSelector peer of None \<Rightarrow> True | Some sel \<Rightarrow> selects sel labels)"

definition portMatches :: "(string \<Rightarrow> int32 option) \<Rightarrow> np_port \<Rightarrow> string \<Rightarrow> int32 \<Rightarrow> bool" where
  "portMatches named p protocol port \<longleftrightarrow>
     npp_Protocol p = Some protocol \<and>
     (case npp_Port p of
        None \<Rightarrow> True
      | Some (FromInt32 n) \<Rightarrow> n = port
      | Some (FromString name) \<Rightarrow> named name = Some port)"

definition egressAllowed ::
    "np_spec \<Rightarrow> string gomap \<Rightarrow> string gomap \<Rightarrow> string \<Rightarrow> int32 \<Rightarrow> bool" where
  "egressAllowed np nsLabels labels protocol port \<longleftrightarrow>
     (\<exists>rule \<in> set (nps_Egress np).
        (eg_To rule = [] \<or> (\<exists>peer \<in> set (eg_To rule). peerMatches peer nsLabels labels)) \<and>
        (\<exists>p \<in> set (eg_Ports rule). portMatches (\<lambda>_. None) p protocol port))"

definition ingressAllowed ::
    "(string \<Rightarrow> int32 option) \<Rightarrow> np_spec \<Rightarrow> string gomap \<Rightarrow> string gomap \<Rightarrow> string \<Rightarrow> int32 \<Rightarrow> bool"
    where
  "ingressAllowed named np nsLabels labels protocol port \<longleftrightarrow>
     (\<exists>rule \<in> set (nps_Ingress np).
        (ing_From rule = [] \<or> (\<exists>peer \<in> set (ing_From rule). peerMatches peer nsLabels labels)) \<and>
        (\<exists>p \<in> set (ing_Ports rule). portMatches named p protocol port))"

text \<open>The TCP port that has a name in a pod.\<close>

definition namedPort :: "deployment \<Rightarrow> string \<Rightarrow> int32 option" where
  "namedPort d name =
     map_option cp_ContainerPort
       (find (\<lambda>p. cp_Name p = name) (concat (map c_Ports (pod_Containers (podSpec d)))))"

definition containerPorts :: "deployment \<Rightarrow> int32 set" where
  "containerPorts d = cp_ContainerPort ` set (concat (map c_Ports (pod_Containers (podSpec d))))"

lemma namespacePeer_matches [simp]:
  "peerMatches (namespacePeer [(k, v)]) nsLabels labels \<longleftrightarrow> mapGet nsLabels k = Some v"
  by (simp add: peerMatches_def namespacePeer_def)

lemma portMatches_policyPort [simp]:
  "portMatches named (policyPort pr (FromInt32 n)) protocol port \<longleftrightarrow> pr = protocol \<and> n = port"
  "portMatches named (policyPort pr (FromString s)) protocol port \<longleftrightarrow>
     pr = protocol \<and> named s = Some port"
  by (auto simp: portMatches_def policyPort_def)

section \<open>Container ports and mounts\<close>

lemma operand_ports:
  "c_Ports (newGraphBuilderContainer getenv i img m) =
     [tcpContainerPort ''graph-builder'' 8080, tcpContainerPort ''status-gb'' 9080]"
  "c_Ports (newPolicyEngineContainer i img) =
     [tcpContainerPort ''policy-engine'' 8081, tcpContainerPort ''status-pe'' 9081]"
  by (simp_all add: newGraphBuilderContainer_def newPolicyEngineContainer_def Let_def)

lemma operand_mounts:
  "c_VolumeMounts (newGraphBuilderContainer getenv i img m) = m"
  "c_VolumeMounts (newPolicyEngineContainer i img) = []"
  "c_VolumeMounts (newGraphDataInitContainer i) =
     [mountAt ''cincinnati-graph-data'' False ''/var/lib/cincinnati/graph-data'']"
  by (simp_all add: newGraphBuilderContainer_def newPolicyEngineContainer_def
      newGraphDataInitContainer_def newContainer_def Let_def)

lemma mountAt_simps [simp]:
  "vm_Name (mountAt n r p) = n" "vm_MountPath (mountAt n r p) = p" "vm_ReadOnly (mountAt n r p) = r"
  by (simp_all add: mountAt_def)

lemma tcp_simps [simp]:
  "cp_Name (tcpContainerPort n p) = n" "cp_ContainerPort (tcpContainerPort n p) = p"
  "sp_TargetPort (tcpServicePort n p t) = FromInt32 t" "sp_Name (tcpServicePort n p t) = n"
  by (simp_all add: tcpContainerPort_def tcpServicePort_def)

lemma volume_names:
  "map vol_Name (newVolumes i ca cca) =
     [''configs'', ''cincinnati-graph-data'', namePullSecret] @
     (if ca \<noteq> None then [NameTrustedCAVolume] else []) @
     (if cca \<noteq> None then [NameClusterTrustedCAVolume] else [])"
  "map vm_Name (newGraphBuilderVolumeMounts ca cca) = map vol_Name (newVolumes i ca cca)"
  by (simp_all add: newVolumes_def newGraphBuilderVolumeMounts_def)

lemma volume_names_distinct: "distinct (map vol_Name (newVolumes i ca cca))"
  by (simp add: volume_names namePullSecret_def NameTrustedCAVolume_def
      NameClusterTrustedCAVolume_def)

lemma mount_paths_distinct: "distinct (map vm_MountPath (newGraphBuilderVolumeMounts ca cca))"
  by (simp add: newGraphBuilderVolumeMounts_def ClusterCAMountDir_def)

lemma env_sources:
  "v \<in> set (c_Env (newGraphBuilderContainer getenv i img m)) \<Longrightarrow> env_ValueFrom v = Some src \<Longrightarrow>
     src = ConfigMapKeyRef ''gb.rust_backtrace'' (nameEnvConfig i)"
  "v \<in> set (c_Env (newPolicyEngineContainer i img)) \<Longrightarrow> env_ValueFrom v = Some src \<Longrightarrow>
     \<exists>key. src = ConfigMapKeyRef key (nameEnvConfig i) \<and> key \<in> fst ` set envData"
  by (auto simp: newGraphBuilderContainer_def newPolicyEngineContainer_def newCMEnvVar_def
      proxyEnv_def envData_def Let_def split: if_splits)

lemma render_config_shape:
  assumes "newKubeResources getenv i img ps ca cca = Inr k"
  shows "\<exists>reg repo. us_Releases (us_Spec i) = reg @ ''/'' @ repo \<and> CHR ''/'' \<notin> set reg \<and>
           cm_Data (kr_graphBuilderConfig k) =
             mapLit [(''gb.toml'', joinWith (CHR 0x0A) (tomlLines reg repo))]"
proof -
  from newKubeResources_fields(1) [OF assms] obtain reg repo
    where "Cut (CHR ''/'') (us_Releases (us_Spec i)) = Some (reg, repo)"
      and "kr_graphBuilderConfig k =
        \<lparr>cm_meta = (newMeta (nameConfig i) (instNamespace i))
           \<lparr>om_Annotations := described gbConfigDescription\<rparr>,
         cm_Data = mapLit [(''gb.toml'', joinWith (CHR 0x0A) (tomlLines reg repo))],
         cm_other = []\<rparr>"
    by (auto simp: newGraphBuilderConfig_eq split: option.splits)
  then show ?thesis by (auto simp: Cut_Some_iff)
qed

section \<open>Concrete inputs\<close>

definition exampleMeta :: object_meta where
  "exampleMeta = (newMeta ''app'' ''ns'')\<lparr>om_UID := ''uid-1''\<rparr>"

definition exampleInstance :: update_service where
  "exampleInstance =
     \<lparr>us_gvk = \<lparr>gvk_Group = ''updateservice.operator.openshift.io'', gvk_Version = ''v1'',
                gvk_Kind = ''UpdateService''\<rparr>,
      us_meta = exampleMeta,
      us_Spec = \<lparr>us_Replicas = 2, us_Releases = ''quay.io/release'',
                 us_GraphDataImage = ''quay.io/graph-data:latest''\<rparr>,
      us_Status = emptyStatus\<rparr>"

definition exampleSecret :: secret where
  "exampleSecret =
     \<lparr>sec_meta = newMeta ''pull-secret'' ''openshift-config'',
      sec_Data = mapLit [(''.dockerconfigjson'', ''{}'')], sec_other = []\<rparr>"

definition exampleCA :: "string \<Rightarrow> config_map" where
  "exampleCA pem =
     \<lparr>cm_meta = newMeta ''registry-ca'' ''openshift-config'',
      cm_Data = mapLit [(NameCertConfigMapKey, pem)], cm_other = []\<rparr>"

lemmas example_defs = exampleInstance_def exampleMeta_def newMeta_def

lemma example_renders: "\<exists>k. newKubeResources getenv exampleInstance img ps ca cca = Inr k"
  unfolding newKubeResources_Inr_iff by (simp add: exampleInstance_def)

section \<open>Properties\<close>

text \<open>
  Rendering fails exactly when \<open>releases\<close> has no slash, with an error that quotes it.
  Otherwise the graph-builder's configuration is the template with everything before the first
  slash as the registry and everything after it as the repository.
\<close>

theorem render_graph_builder_config:
  "case newKubeResources getenv instance img ps ca cca of
     Inl e \<Rightarrow> CHR ''/'' \<notin> set (us_Releases (us_Spec instance)) \<and>
       e = PlainError (''failed to split '' @ Quote (us_Releases (us_Spec instance)) @
                 '' into registry and repository components'')
   | Inr k \<Rightarrow> (\<exists>registry repository.
       us_Releases (us_Spec instance) = registry @ ''/'' @ repository \<and> CHR ''/'' \<notin> set registry \<and>
       cm_Data (kr_graphBuilderConfig k) =
         mapLit [(''gb.toml'', joinWith (CHR 0x0A) (tomlLines registry repository))])"
proof (cases "Cut (CHR ''/'') (us_Releases (us_Spec instance))")
  case None
  then show ?thesis
    by (simp add: newKubeResources_def newGraphBuilderConfig_eq Cut_None_iff)
next
  case (Some p)
  then show ?thesis
    by (cases p) (auto simp: newKubeResources_def newGraphBuilderConfig_eq Let_def Cut_Some_iff)
qed

text \<open>
  C30: the annotation that makes the pods roll over does its work: two UpdateServices whose
  registries hold no quotation mark have the same bytes hashed for the graph-builder's
  configuration exactly when they have the same \<open>releases\<close>, and the hash in the pod template is
  the digest of those bytes.
\<close>

theorem config_hash_follows_releases:
  assumes "newKubeResources getenv i img ps ca cca = Inr k"
    and "newKubeResources getenv' i' img' ps' ca' cca' = Inr k'"
    and "CHR 0x22 \<notin> set (registryOf (us_Releases (us_Spec i)))"
    and "CHR 0x22 \<notin> set (registryOf (us_Releases (us_Spec i')))"
  shows "(checksumStream (cm_Data (kr_graphBuilderConfig k)) =
           checksumStream (cm_Data (kr_graphBuilderConfig k')) \<longleftrightarrow>
         us_Releases (us_Spec i) = us_Releases (us_Spec i')) \<and>
         mapGet (om_Annotations (pt_meta (ds_Template (dep_Spec (kr_deployment k)))))
           GraphBuilderConfigHashAnnotation =
         Some (hexBytes (sha256 (checksumStream (cm_Data (kr_graphBuilderConfig k)))))"
proof -
  note k = newKubeResources_fields [OF assms(1)]
  obtain reg repo where r: "us_Releases (us_Spec i) = reg @ ''/'' @ repo" "CHR ''/'' \<notin> set reg"
    and d: "cm_Data (kr_graphBuilderConfig k) =
         mapLit [(''gb.toml'', joinWith (CHR 0x0A) (tomlLines reg repo))]"
    using render_config_shape [OF assms(1)] by blast
  obtain reg' repo' where r': "us_Releases (us_Spec i') = reg' @ ''/'' @ repo'" "CHR ''/'' \<notin> set reg'"
    and d': "cm_Data (kr_graphBuilderConfig k') =
         mapLit [(''gb.toml'', joinWith (CHR 0x0A) (tomlLines reg' repo'))]"
    using render_config_shape [OF assms(2)] by blast
  have q: "CHR 0x22 \<notin> set reg" "CHR 0x22 \<notin> set reg'"
    using assms(3,4) r r' registryOf_append by simp_all
  have "reg @ ''/'' @ repo = reg' @ ''/'' @ repo' \<longleftrightarrow> reg = reg' \<and> repo = repo'"
    using separated_eq_iff [OF r(2) r'(2)] by simp
  then have "checksumStream (cm_Data (kr_graphBuilderConfig k)) =
           checksumStream (cm_Data (kr_graphBuilderConfig k')) \<longleftrightarrow>
         us_Releases (us_Spec i) = us_Releases (us_Spec i')"
    using toml_inject(2) [OF q] by (simp only: d d' checksumStream_same_key r(1) r'(1))
  moreover have "mapGet (om_Annotations (pt_meta (ds_Template (dep_Spec (kr_deployment k)))))
           GraphBuilderConfigHashAnnotation =
         Some (hexBytes (sha256 (checksumStream (cm_Data (kr_graphBuilderConfig k)))))"
    using k(4) by (simp add: k(14) newDeployment_def checksumMap_def Let_def)
  ultimately show ?thesis ..
qed

theorem config_hash_follows_releases_witness:
  "\<exists>k k'. newKubeResources (\<lambda>_. []) exampleInstance [] exampleSecret None None = Inr k \<and>
         newKubeResources (\<lambda>_. []) (exampleInstance\<lparr>us_Spec := (us_Spec exampleInstance)
           \<lparr>us_Releases := ''quay.io/other''\<rparr>\<rparr>) [] exampleSecret None None = Inr k' \<and>
         checksumStream (cm_Data (kr_graphBuilderConfig k)) \<noteq>
           checksumStream (cm_Data (kr_graphBuilderConfig k'))"
proof -
  let ?i = "exampleInstance\<lparr>us_Spec := (us_Spec exampleInstance)\<lparr>us_Releases := ''quay.io/other''\<rparr>\<rparr>"
  obtain k where k: "newKubeResources (\<lambda>_. []) exampleInstance [] exampleSecret None None = Inr k"
    using example_renders by blast
  have "\<exists>k'. newKubeResources (\<lambda>_. []) ?i [] exampleSecret None None = Inr k'"
    unfolding newKubeResources_Inr_iff by (simp add: exampleInstance_def)
  then obtain k' where k': "newKubeResources (\<lambda>_. []) ?i [] exampleSecret None None = Inr k'"
    by blast
  have "registryOf ''quay.io/release'' = ''quay.io''" "registryOf ''quay.io/other'' = ''quay.io''"
    by code_simp+
  then have "checksumStream (cm_Data (kr_graphBuilderConfig k)) \<noteq>
      checksumStream (cm_Data (kr_graphBuilderConfig k'))"
    using config_hash_follows_releases [OF k k'] by (simp add: exampleInstance_def)
  with k k' show ?thesis by (intro exI conjI)
qed

text \<open>
  Every volume mount of every container of the pod names a volume of the pod, no two volumes
  have the same name, and no container mounts two volumes at one path.
\<close>

theorem mounts_resolve:
  assumes "newKubeResources getenv instance img ps ca cca = Inr k"
    and "spec = podSpec (kr_deployment k)"
    and "c \<in> set (pod_InitContainers spec @ pod_Containers spec)"
  shows "set (map vm_Name (c_VolumeMounts c)) \<subseteq> set (map vol_Name (pod_Volumes spec)) \<and>
         distinct (map vol_Name (pod_Volumes spec)) \<and>
         distinct (map vm_MountPath (c_VolumeMounts c))"
proof -
  note k = kube_resources_simps [OF assms(1)]
  have v: "pod_Volumes spec = newVolumes instance (kr_trustedCAConfig k) (kr_trustedClusterCAConfig k)"
    using k by (simp add: assms(2))
  have cs: "c_VolumeMounts c =
        newGraphBuilderVolumeMounts (kr_trustedCAConfig k) (kr_trustedClusterCAConfig k) \<or>
      c_VolumeMounts c = [] \<or>
      c_VolumeMounts c = [mountAt ''cincinnati-graph-data'' False ''/var/lib/cincinnati/graph-data'']"
    using assms(3) k by (auto simp: assms(2) operand_mounts)
  have "set (map vm_Name (c_VolumeMounts c)) \<subseteq> set (map vol_Name (pod_Volumes spec))"
    using cs
  proof (elim disjE)
    assume "c_VolumeMounts c =
        newGraphBuilderVolumeMounts (kr_trustedCAConfig k) (kr_trustedClusterCAConfig k)"
    then show ?thesis unfolding v by (simp only: volume_names(2) [of _ _ "instance"] order_refl)
  qed (simp_all add: v volume_names flip: set_map)
  moreover have "distinct (map vol_Name (pod_Volumes spec))"
    unfolding v by (rule volume_names_distinct)
  moreover have "distinct (map vm_MountPath (c_VolumeMounts c))"
    using cs mount_paths_distinct by auto
  ultimately show ?thesis by blast
qed

theorem mounts_resolve_witness:
  "\<exists>k. newKubeResources (\<lambda>_. []) exampleInstance ''img'' exampleSecret (Some (exampleCA ''pem'')) None =
         Inr k \<and>
       distinct (map vol_Name (pod_Volumes (podSpec (kr_deployment k))))"
proof -
  obtain k where k:
    "newKubeResources (\<lambda>_. []) exampleInstance ''img'' exampleSecret (Some (exampleCA ''pem'')) None =
       Inr k"
    using example_renders by blast
  have "newPolicyEngineContainer exampleInstance ''img'' \<in>
      set (pod_InitContainers (podSpec (kr_deployment k)) @ pod_Containers (podSpec (kr_deployment k)))"
    by (simp add: kube_resources_simps [OF k])
  from mounts_resolve [OF k refl this] k show ?thesis by blast
qed

text \<open>
  C23: everything the pods refer to is rendered beside them in the same namespace: each ConfigMap
  or Secret volume is the configuration, the pull-secret copy, the registry CA or the cluster CA;
  an item a volume takes out of the registry CA is there; and each environment variable that
  comes from a ConfigMap names a key of the environment ConfigMap.
\<close>

definition renderedConfigMaps :: "kube_resources \<Rightarrow> config_map list" where
  "renderedConfigMaps k =
     [kr_envConfig k, kr_graphBuilderConfig k] @
     (case kr_trustedCAConfig k of None \<Rightarrow> [] | Some c \<Rightarrow> [c]) @
     (case kr_trustedClusterCAConfig k of None \<Rightarrow> [] | Some c \<Rightarrow> [c])"

definition volumeResolves :: "kube_resources \<Rightarrow> string \<Rightarrow> volume \<Rightarrow> bool" where
  "volumeResolves k ns v =
     (case vol_Source v of
        ConfigMapVolume name items _ \<Rightarrow>
          list_ex (\<lambda>c. om_Name (cm_meta c) = name \<and> om_Namespace (cm_meta c) = ns \<and>
                       list_all (\<lambda>(key, path). mapGet (cm_Data c) key \<noteq> None) items)
            (renderedConfigMaps k)
      | SecretVolume name _ \<Rightarrow>
          om_Name (sec_meta (kr_pullSecret k)) = name \<and> om_Namespace (sec_meta (kr_pullSecret k)) = ns
      | EmptyDirVolume \<Rightarrow> True
      | OtherVolume _ \<Rightarrow> False)"

definition envResolves :: "kube_resources \<Rightarrow> env_var \<Rightarrow> bool" where
  "envResolves k v =
     (case env_ValueFrom v of
        None \<Rightarrow> True
      | Some (ConfigMapKeyRef key name) \<Rightarrow>
          name = om_Name (cm_meta (kr_envConfig k)) \<and> mapGet (cm_Data (kr_envConfig k)) key \<noteq> None
      | Some (OtherEnvSource _) \<Rightarrow> False)"

theorem references_resolve:
  assumes "newKubeResources getenv instance img ps ca cca = Inr k"
    and "\<And>c. ca = Some c \<Longrightarrow> mapGet (cm_Data c) NameCertConfigMapKey \<noteq> None"
    and "\<And>c. cca = Some c \<Longrightarrow> om_Name (cm_meta c) = NameClusterTrustedCAVolume \<and>
               om_Namespace (cm_meta c) = instNamespace instance"
    and "spec = podSpec (kr_deployment k)"
  shows "(\<forall>v \<in> set (pod_Volumes spec). volumeResolves k (instNamespace instance) v) \<and>
         (\<forall>c \<in> set (pod_Containers spec). \<forall>v \<in> set (c_Env c). envResolves k v)"
proof
  note k = kube_resources_simps [OF assms(1)]
  have gb: "om_Name (cm_meta (kr_graphBuilderConfig k)) = nameConfig instance"
    "om_Namespace (cm_meta (kr_graphBuilderConfig k)) = instNamespace instance"
    using newGraphBuilderConfig_meta [OF newKubeResources_fields(1) [OF assms(1)]]
    by (simp_all add: newMeta_def)
  have ca: "case kr_trustedCAConfig k of None \<Rightarrow> True | Some c \<Rightarrow>
      om_Name (cm_meta c) = nameAdditionalTrustedCA instance \<and>
      om_Namespace (cm_meta c) = instNamespace instance \<and> mapGet (cm_Data c) NameCertConfigMapKey \<noteq> None"
    using assms(2) by (simp add: k(4) newTrustedCAConfig_def newMeta_def split: option.split)
  have cca: "case kr_trustedClusterCAConfig k of None \<Rightarrow> True | Some c \<Rightarrow>
      om_Name (cm_meta c) = NameClusterTrustedCAVolume \<and>
      om_Namespace (cm_meta c) = instNamespace instance"
    using assms(3) by (simp add: k(5) newTrustedClusterCAConfig_def newMeta_def split: option.split)
  have "pod_Volumes spec = newVolumes instance (kr_trustedCAConfig k) (kr_trustedClusterCAConfig k)"
    using k by (simp add: assms(4))
  then show "\<forall>v \<in> set (pod_Volumes spec). volumeResolves k (instNamespace instance) v"
    using gb ca cca
    by (auto simp: newVolumes_def volumeResolves_def renderedConfigMaps_def k(6) newPullSecret_def
        newMeta_def split: option.splits)
  have env: "mapGet (cm_Data (kr_envConfig k)) key \<noteq> None" if "key \<in> fst ` set envData" for key
    using that by (simp add: k(1) newEnvConfig_def map_of_eq_None_iff)
  have gbkey: "''gb.rust_backtrace'' \<in> fst ` set envData" by (simp add: envData_def)
  have "envResolves k v" if "\<And>src. env_ValueFrom v = Some src \<Longrightarrow>
      \<exists>key. src = ConfigMapKeyRef key (nameEnvConfig instance) \<and> key \<in> fst ` set envData" for v
    using that env by (cases "env_ValueFrom v")
      (fastforce simp: envResolves_def k(1) newEnvConfig_def newMeta_def)+
  then show "\<forall>c \<in> set (pod_Containers spec). \<forall>v \<in> set (c_Env c). envResolves k v"
    using env_sources gbkey by (simp add: assms(4) k(10,12,13)) blast
qed

theorem references_resolve_witness:
  "\<exists>k. newKubeResources (\<lambda>_. []) exampleInstance ''img'' exampleSecret (Some (exampleCA ''pem'')) None =
         Inr k \<and>
       (\<forall>v \<in> set (pod_Volumes (podSpec (kr_deployment k))). volumeResolves k ''ns'' v)"
proof -
  obtain k where k:
    "newKubeResources (\<lambda>_. []) exampleInstance ''img'' exampleSecret (Some (exampleCA ''pem'')) None =
       Inr k"
    using example_renders by blast
  have "instNamespace exampleInstance = ''ns''" by (simp add: example_defs)
  then show ?thesis
    using k references_resolve [OF k _ _ refl] by (simp add: exampleCA_def)
qed

text \<open>
  C24: the Deployment's own selector, the disruption budget, the network policy and both Services
  select the pods of the Deployment, and no selector of one UpdateService selects the pods of
  another one of a different name.
\<close>

definition renderedSelectors :: "kube_resources \<Rightarrow> label_selector list" where
  "renderedSelectors k =
     (case ds_Selector (dep_Spec (kr_deployment k)) of None \<Rightarrow> [] | Some s \<Rightarrow> [s]) @
     (case ps_Selector (pdb_Spec (kr_podDisruptionBudget k)) of None \<Rightarrow> [] | Some s \<Rightarrow> [s]) @
     [nps_PodSelector (np_Spec (kr_networkPolicy k)),
      \<lparr>ls_MatchLabels = ss_Selector (svc_Spec (kr_graphBuilderService k)), ls_other = []\<rparr>,
      \<lparr>ls_MatchLabels = ss_Selector (svc_Spec (kr_policyEngineService k)), ls_other = []\<rparr>]"

theorem selectors_select_own_pods:
  assumes "newKubeResources getenv i img ps ca cca = Inr k"
    and "newKubeResources getenv' i' img' ps' ca' cca' = Inr k'"
  shows "length (renderedSelectors k) = 5 \<and>
         (\<forall>sel \<in> set (renderedSelectors k).
            selects sel (podLabels (kr_deployment k')) \<longleftrightarrow> instName i = instName i')"
proof -
  note k = kube_resources_simps [OF assms(1)] and k' = kube_resources_simps [OF assms(2)]
  have labels: "podLabels (kr_deployment k') =
      mapLit [(''app'', instName i'), (''deployment'', instName i')]"
    by (simp add: k')
  have service: "selects \<lparr>ls_MatchLabels = mapLit [(x, v)], ls_other = []\<rparr> ls \<longleftrightarrow> mapGet ls x = Some v"
    for x v ls
    by (simp add: selects_def labelsMatch_mapLit)
  have "renderedSelectors k =
      [matchLabels [(''app'', instName i)], matchLabels [(''app'', instName i)],
       matchLabels [(''app'', instName i)],
       \<lparr>ls_MatchLabels = mapLit [(''deployment'', instName i)], ls_other = []\<rparr>,
       \<lparr>ls_MatchLabels = mapLit [(''deployment'', instName i)], ls_other = []\<rparr>]"
    by (simp add: renderedSelectors_def k newPodDisruptionBudget_def newNetworkPolicy_def
        newGraphBuilderService_def newPolicyEngineService_def nameDeployment_def Let_def)
  then show ?thesis by (auto simp: labels service)
qed

theorem selectors_select_own_pods_witness:
  "\<exists>k. newKubeResources (\<lambda>_. []) exampleInstance ''img'' exampleSecret None None = Inr k \<and>
       (\<forall>sel \<in> set (renderedSelectors k). selects sel (podLabels (kr_deployment k)))"
proof -
  obtain k where k: "newKubeResources (\<lambda>_. []) exampleInstance ''img'' exampleSecret None None = Inr k"
    using example_renders by blast
  then show ?thesis using selectors_select_own_pods [OF k k] by blast
qed

text \<open>
  C25: traffic arrives: each port of a Service goes to a port that a container of the pod opens,
  the Route leads to a named port of the policy-engine Service, the probes ask ports their own
  container opens, and the one port the network policy lets in from the router is the one that
  the Route's Service port leads to.
\<close>

definition probePort :: "probe \<Rightarrow> int32 option" where
  "probePort p = (case pr_Handler p of HTTPGet _ (FromInt32 n) _ \<Rightarrow> Some n | _ \<Rightarrow> None)"

theorem ports_agree:
  assumes "newKubeResources getenv instance img ps ca cca = Inr k"
    and "dep = kr_deployment k"
  shows "(\<forall>p \<in> set (ss_Ports (svc_Spec (kr_graphBuilderService k)) @
                  ss_Ports (svc_Spec (kr_policyEngineService k))).
            \<exists>n \<in> containerPorts dep. sp_TargetPort p = FromInt32 n) \<and>
         rt_Name (rs_To (route_Spec (kr_policyEngineRoute k))) =
           om_Name (svc_meta (kr_policyEngineService k)) \<and>
         (\<exists>p \<in> set (ss_Ports (svc_Spec (kr_policyEngineService k))).
            rs_Port (route_Spec (kr_policyEngineRoute k)) = Some (FromString (sp_Name p)) \<and>
            (\<forall>nsLabels labels protocol port.
               ingressAllowed (namedPort dep) (np_Spec (kr_networkPolicy k)) nsLabels labels
                 protocol port \<longleftrightarrow>
               mapGet nsLabels ''policy-group.network.openshift.io/ingress'' = Some [] \<and>
               protocol = ''TCP'' \<and> sp_TargetPort p = FromInt32 port)) \<and>
         (\<forall>c \<in> set (pod_Containers (podSpec dep)).
            \<forall>pr \<in> set_option (c_LivenessProbe c) \<union> set_option (c_ReadinessProbe c).
              \<exists>p \<in> set (c_Ports c). probePort pr = Some (cp_ContainerPort p))"
proof -
  note k = kube_resources_simps [OF assms(1)]
  have cs: "pod_Containers (podSpec dep) =
      [newGraphBuilderContainer getenv instance img (kr_graphBuilderVolumeMounts k),
       newPolicyEngineContainer instance img]"
    by (simp add: assms(2) k)
  have ports: "containerPorts dep = {8080, 9080, 8081, 9081}"
    by (simp add: containerPorts_def cs operand_ports)
  have named: "namedPort dep ''policy-engine'' = Some 8081"
    by (simp add: namedPort_def cs operand_ports)
  have svc: "ss_Ports (svc_Spec (kr_graphBuilderService k)) =
        [tcpServicePort ''graph-builder'' 8080 8080, tcpServicePort ''status-gb'' 9080 9080]"
      "ss_Ports (svc_Spec (kr_policyEngineService k)) =
        [tcpServicePort ''policy-engine'' 80 8081, tcpServicePort ''status-pe'' 9081 9081]"
    by (simp_all add: k newGraphBuilderService_def newPolicyEngineService_def Let_def)
  have ing: "nps_Ingress (np_Spec (kr_networkPolicy k)) = [routerIngress]"
    by (simp add: k newNetworkPolicy_def Let_def)
  have "ingressAllowed (namedPort dep) (np_Spec (kr_networkPolicy k)) nsLabels labels protocol port \<longleftrightarrow>
      mapGet nsLabels ''policy-group.network.openshift.io/ingress'' = Some [] \<and>
      protocol = ''TCP'' \<and> 8081 = port" for nsLabels labels protocol port
    by (auto simp: ingressAllowed_def ing routerIngress_def named)
  moreover have rp: "rs_Port (route_Spec (kr_policyEngineRoute k)) = Some (FromString ''policy-engine'')"
    by (simp add: k newPolicyEngineRoute_def policyEngineRouteNamed_def)
  ultimately have route: "\<exists>p \<in> set (ss_Ports (svc_Spec (kr_policyEngineService k))).
            rs_Port (route_Spec (kr_policyEngineRoute k)) = Some (FromString (sp_Name p)) \<and>
            (\<forall>nsLabels labels protocol port.
               ingressAllowed (namedPort dep) (np_Spec (kr_networkPolicy k)) nsLabels labels
                 protocol port \<longleftrightarrow>
               mapGet nsLabels ''policy-group.network.openshift.io/ingress'' = Some [] \<and>
               protocol = ''TCP'' \<and> sp_TargetPort p = FromInt32 port)"
    using rp by (intro bexI [where x = "tcpServicePort ''policy-engine'' 80 8081"]) (auto simp: svc)
  moreover have "\<forall>c \<in> set (pod_Containers (podSpec dep)).
      \<forall>pr \<in> set_option (c_LivenessProbe c) \<union> set_option (c_ReadinessProbe c).
        \<exists>p \<in> set (c_Ports c). probePort pr = Some (cp_ContainerPort p)"
    unfolding cs by (simp add: operand_ports)
      (simp add: newGraphBuilderContainer_def newPolicyEngineContainer_def httpProbe_def
        probePort_def Let_def)
  moreover have "rt_Name (rs_To (route_Spec (kr_policyEngineRoute k))) =
      om_Name (svc_meta (kr_policyEngineService k))"
    by (simp add: k newPolicyEngineRoute_def policyEngineRouteNamed_def newPolicyEngineService_def
        newMeta_def Let_def)
  ultimately show ?thesis by (simp add: ports svc)
qed

theorem ports_agree_witness:
  "\<exists>k. newKubeResources (\<lambda>_. []) exampleInstance ''img'' exampleSecret None None = Inr k \<and>
       rt_Name (rs_To (route_Spec (kr_policyEngineRoute k))) =
         om_Name (svc_meta (kr_policyEngineService k))"
proof -
  obtain k where k: "newKubeResources (\<lambda>_. []) exampleInstance ''img'' exampleSecret None None = Inr k"
    using example_renders by blast
  then show ?thesis using ports_agree [OF k refl] by blast
qed

text \<open>
  C26: the egress the network policy admits, for every destination, protocol and port: the TCP
  ports of \<open>egressPorts\<close>, towards the registry's namespace only when the registry is in the
  cluster, and port 5353 of the cluster's DNS pods; nothing else.
\<close>

theorem network_policy_egress:
  "egressAllowed (np_Spec (newNetworkPolicy getenv instance)) nsLabels labels protocol port =
     (let releases = us_Releases (us_Spec instance);
          ns = namespaceFromInternalHost (registryOf releases)
      in protocol = ''TCP'' \<and> port \<in> set (egressPorts getenv releases) \<and>
           (if ns = [] then True else mapGet nsLabels LabelMetadataName = Some ns) \<or>
         protocol \<in> {''TCP'', ''UDP''} \<and> port = 5353 \<and>
           mapGet nsLabels ''kubernetes.io/metadata.name'' = Some ''openshift-dns'' \<and>
           mapGet labels ''dns.operator.openshift.io/daemonset-dns'' = Some ''default'')"
proof -
  have dns: "peerMatches
      \<lparr>peer_PodSelector = Some (matchLabels [(''dns.operator.openshift.io/daemonset-dns'', ''default'')]),
       peer_NamespaceSelector = Some (matchLabels [(''kubernetes.io/metadata.name'', ''openshift-dns'')]),
       peer_other = []\<rparr> nsLabels labels \<longleftrightarrow>
      mapGet nsLabels ''kubernetes.io/metadata.name'' = Some ''openshift-dns'' \<and>
      mapGet labels ''dns.operator.openshift.io/daemonset-dns'' = Some ''default''"
    by (simp add: peerMatches_def)
  have rules: "nps_Egress (np_Spec (newNetworkPolicy getenv instance)) =
      [registryEgress getenv instance, dnsEgress]"
    by (simp add: newNetworkPolicy_def Let_def)
  show ?thesis
    by (auto simp: egressAllowed_def rules registryEgress_def dnsEgress_def dns Let_def)
qed

text \<open>
  The Deployment does not depend on the contents of the registry CA: rendering with another
  certificate in it gives the same Deployment, down to its annotations, so a change of
  certificate does not roll the pods over.
\<close>

theorem deployment_ignores_ca_contents:
  assumes "newKubeResources getenv instance img ps (Some ca) cca = Inr k"
    and "newKubeResources getenv instance img ps' (Some ca') cca = Inr k'"
  shows "kr_deployment k = kr_deployment k' \<and>
         map_option cm_Data (kr_trustedCAConfig k) = Some (cm_Data ca) \<and>
         map_option cm_Data (kr_trustedCAConfig k') = Some (cm_Data ca')"
proof -
  note k = newKubeResources_fields [OF assms(1)] and k' = newKubeResources_fields [OF assms(2)]
  have "kr_graphBuilderConfig k = kr_graphBuilderConfig k'"
    using k(1) k'(1) by simp
  then have "kr_deployment k = kr_deployment k'"
    by (simp add: k(2-14) k'(2-14) newVolumes_def newGraphBuilderVolumeMounts_def
        newTrustedCAConfig_def)
  then show ?thesis by (simp add: k(5) k'(5) newTrustedCAConfig_def)
qed

theorem deployment_ignores_ca_contents_witness:
  "\<exists>k k'. newKubeResources (\<lambda>_. []) exampleInstance ''img'' exampleSecret (Some (exampleCA ''old'')) None =
            Inr k \<and>
          newKubeResources (\<lambda>_. []) exampleInstance ''img'' exampleSecret (Some (exampleCA ''new'')) None =
            Inr k' \<and>
          exampleCA ''old'' \<noteq> exampleCA ''new'' \<and> kr_deployment k = kr_deployment k'"
proof -
  obtain k where k:
    "newKubeResources (\<lambda>_. []) exampleInstance ''img'' exampleSecret (Some (exampleCA ''old'')) None =
       Inr k"
    using example_renders by blast
  obtain k' where k':
    "newKubeResources (\<lambda>_. []) exampleInstance ''img'' exampleSecret (Some (exampleCA ''new'')) None =
       Inr k'"
    using example_renders by blast
  have "mapGet (cm_Data (exampleCA pem)) NameCertConfigMapKey = Some pem" for pem
    by (simp add: exampleCA_def)
  from this [of "''old''"] this [of "''new''"] have "exampleCA ''old'' \<noteq> exampleCA ''new''"
    by fastforce
  then show ?thesis using k k' deployment_ignores_ca_contents [OF k k'] by blast
qed

end
