(* ===== verification/DeploymentProps.thy ===== *)
theory DeploymentProps
  imports Rendered DeploymentSync
begin

text \<open>
  The update of a found Deployment: what it changes and what it leaves alone, that it is
  idempotent, that a Deployment which was just created from the same resources is left as it is,
  and what the operator does about init containers.
\<close>

section \<open>Quantities\<close>

lemma mergeQuantities_not_None [simp]: "mergeQuantities found original \<noteq> None"
  by (auto simp: mergeQuantities_def orEmpty_def split: option.split)

lemma mapGet_mergeQuantities:
  "mapGet (mergeQuantities found original) x =
     (case mapGet original x of
        None \<Rightarrow> mapGet found x
      | Some q \<Rightarrow> (case mapGet found x of
            None \<Rightarrow> Some q
          | Some v \<Rightarrow> if quantityEqual q v then Some v else Some q))"
  by (cases found; cases original)
    (auto simp: mergeQuantities_def orEmpty_def mapGet_def fmlookup_dom_iff split: option.splits)

lemma mergeQuantities_idem [simp]:
  "mergeQuantities (mergeQuantities found original) original = mergeQuantities found original"
  by (intro gomap_eqI) (auto simp: mapGet_mergeQuantities split: option.split)

lemma mergeQuantities_self [simp]: "m \<noteq> None \<Longrightarrow> mergeQuantities m m = m"
  by (intro gomap_eqI) (auto simp: mapGet_mergeQuantities split: option.split)

section \<open>Containers\<close>

lemma mergeContainer_Name [simp]: "c_Name (mergeContainer original c) = c_Name c"
  by (simp add: mergeContainer_def)

lemma mergeContainer_idem [simp]:
  "mergeContainer original (mergeContainer original c) = mergeContainer original c"
  by (simp add: mergeContainer_def)

lemma mergeContainer_self:
  "c_Limits c \<noteq> None \<Longrightarrow> c_Requests c \<noteq> None \<Longrightarrow> mergeContainer c c = c"
  by (simp add: mergeContainer_def)

lemma syncContainer_Name [simp]: "c_Name (syncContainer k c) = c_Name c"
  by (simp add: syncContainer_def)

lemma syncContainer_idem [simp]: "syncContainer k (syncContainer k c) = syncContainer k c"
  by (simp add: syncContainer_def)

lemma syncInitContainer_Name [simp]: "c_Name (syncInitContainer k c) = c_Name c"
  by (simp add: syncInitContainer_def Let_def)

lemma syncInitContainer_idem [simp]:
  "syncInitContainer k (syncInitContainer k c) = syncInitContainer k c"
  by (simp add: syncInitContainer_def Let_def)

section \<open>Templates\<close>

lemma mapPut_put [simp]: "mapPut x v (mapPut x v m) = mapPut x v m"
  by (cases m) (auto simp: mapPut_def intro: fmap_ext)

lemma mapGet_mapPut_orEmpty [simp]:
  "mapGet (mapPut x v (mapAssignAll (orEmpty m) n)) y =
     (if x = y then Some v else mapGet (mapAssignAll (orEmpty m) n) y)"
  by (rule mapGet_mapPut) simp

lemma orEmpty_id [simp]: "m \<noteq> None \<Longrightarrow> orEmpty m = m"
  by (auto simp: orEmpty_def)

lemma mergeTemplateMeta_idem:
  "mapGet (om_Annotations wanted) GraphDataImageAnnotation = None \<Longrightarrow>
     mergeTemplateMeta wanted sha (mergeTemplateMeta wanted sha m) = mergeTemplateMeta wanted sha m"
proof -
  assume new: "mapGet (om_Annotations wanted) GraphDataImageAnnotation = None"
  have "mapAssignAll (mapPut GraphDataImageAnnotation sha (mapAssignAll (orEmpty n) (om_Annotations wanted)))
          (om_Annotations wanted) =
        mapPut GraphDataImageAnnotation sha (mapAssignAll (orEmpty n) (om_Annotations wanted))" for n
    using new by (intro mapAssignAll_absorb) (auto simp: mapGet_mapAssignAll)
  then show ?thesis by (simp add: mergeTemplateMeta_def Let_def)
qed

lemma mergeDeploymentSpec_idem:
  assumes "mapGet (om_Annotations (pt_meta (ds_Template (dep_Spec (kr_deployment k)))))
             GraphDataImageAnnotation = None"
  shows "mergeDeploymentSpec k sha (mergeDeploymentSpec k sha spec) = mergeDeploymentSpec k sha spec"
  using mergeTemplateMeta_idem [OF assms]
  by (simp add: mergeDeploymentSpec_def mergePodSpec_def Let_def o_def)

lemma rendered_annotations:
  assumes "newKubeResources getenv i img ps ca cca = Inr k"
  shows "mapGet (om_Annotations (pt_meta (ds_Template (dep_Spec (kr_deployment k)))))
           GraphDataImageAnnotation = None"
  by (simp add: newKubeResources_fields(14) [OF assms] newDeployment_def Let_def
      GraphDataImageAnnotation_def GraphBuilderConfigHashAnnotation_def EnvConfigHashAnnotation_def)

lemma rendered_template:
  assumes "newKubeResources getenv i img ps ca cca = Inr k"
  shows "om_Labels (pt_meta (ds_Template (dep_Spec (kr_deployment k)))) \<noteq> None"
    and "om_Annotations (pt_meta (ds_Template (dep_Spec (kr_deployment k)))) \<noteq> None"
    and "pod_Containers (pt_Spec (ds_Template (dep_Spec (kr_deployment k)))) =
           [kr_graphBuilderContainer k, kr_policyEngineContainer k]"
    and "pod_InitContainers (pt_Spec (ds_Template (dep_Spec (kr_deployment k)))) =
           [kr_graphDataInitContainer k]"
  by (simp_all add: newKubeResources_fields(14) [OF assms] newDeployment_def mapLit_def Let_def)

lemma rendered_containers:
  assumes "newKubeResources getenv i img ps ca cca = Inr k"
  shows "syncContainer k (kr_graphBuilderContainer k) = kr_graphBuilderContainer k"
    and "syncContainer k (kr_policyEngineContainer k) = kr_policyEngineContainer k"
    and "syncInitContainer k (kr_graphDataInitContainer k) = kr_graphDataInitContainer k"
    and "c_Name (kr_graphDataInitContainer k) = ''graph-data''"
proof -
  note k = newKubeResources_fields [OF assms]
  have gb: "c_Name (kr_graphBuilderContainer k) = NameContainerGraphBuilder"
    "c_Limits (kr_graphBuilderContainer k) \<noteq> None" "c_Requests (kr_graphBuilderContainer k) \<noteq> None"
    by (simp_all add: k(11) newGraphBuilderContainer_def newContainer_def operandLimits_def
        operandRequests_def mapLit_def)
  then show "syncContainer k (kr_graphBuilderContainer k) = kr_graphBuilderContainer k"
    by (simp add: syncContainer_def mergeContainer_self)
  have pe: "c_Name (kr_policyEngineContainer k) = NameContainerPolicyEngine"
    "c_Limits (kr_policyEngineContainer k) \<noteq> None" "c_Requests (kr_policyEngineContainer k) \<noteq> None"
    by (simp_all add: k(13) newPolicyEngineContainer_def newContainer_def operandLimits_def
        operandRequests_def mapLit_def Let_def)
  then show "syncContainer k (kr_policyEngineContainer k) = kr_policyEngineContainer k"
    by (simp add: syncContainer_def mergeContainer_self NameContainerGraphBuilder_def
        NameContainerPolicyEngine_def)
  show "syncInitContainer k (kr_graphDataInitContainer k) = kr_graphDataInitContainer k"
    by (simp add: syncInitContainer_def Let_def)
  show "c_Name (kr_graphDataInitContainer k) = ''graph-data''"
    by (simp add: k(12) newGraphDataInitContainer_def newContainer_def NameInitContainerGraphData_def)
qed

lemma rendered_fixed_point:
  assumes "newKubeResources getenv i img ps ca cca = Inr k"
  shows "mergeDeploymentSpec k [] (dep_Spec (kr_deployment k)) = dep_Spec (kr_deployment k)"
proof -
  let ?t = "ds_Template (dep_Spec (kr_deployment k))"
  have "mergeTemplateMeta (pt_meta ?t) [] (pt_meta ?t) = pt_meta ?t"
    using rendered_template(1,2) [OF assms] by (simp add: mergeTemplateMeta_def Let_def)
  moreover have "mergePodSpec k (pt_Spec ?t) = pt_Spec ?t"
    using rendered_template(3,4) [OF assms] rendered_containers [OF assms]
    by (simp add: mergePodSpec_def)
  ultimately show ?thesis by (simp add: mergeDeploymentSpec_def Let_def)
qed

section \<open>Properties\<close>

text \<open>
  A container carries what is wanted of it; of a resource the amount counts, which the container may
  give in another text form.
\<close>

definition carriesAmounts :: "quantity gomap \<Rightarrow> quantity gomap \<Rightarrow> bool" where
  "carriesAmounts wanted found \<longleftrightarrow>
     (\<forall>x q. mapGet wanted x = Some q \<longrightarrow> (\<exists>v. mapGet found x = Some v \<and> quantityEqual q v))"

definition carries :: "container \<Rightarrow> container \<Rightarrow> bool" where
  "carries wanted c \<longleftrightarrow>
     c_Image c = c_Image wanted \<and> c_ImagePullPolicy c = c_ImagePullPolicy wanted \<and>
     c_Command c = c_Command wanted \<and> c_Args c = c_Args wanted \<and> c_Ports c = c_Ports wanted \<and>
     c_Env c = c_Env wanted \<and> c_VolumeMounts c = c_VolumeMounts wanted \<and>
     c_LivenessProbe c = c_LivenessProbe wanted \<and> c_ReadinessProbe c = c_ReadinessProbe wanted \<and>
     carriesAmounts (c_Limits wanted) (c_Limits c) \<and> carriesAmounts (c_Requests wanted) (c_Requests c)"

lemma mergeContainer_carries: "carries wanted (mergeContainer wanted c)"
  by (simp add: carries_def carriesAmounts_def mergeContainer_def mapGet_mergeQuantities
      split: option.split)

text \<open>
  C11: what an update of the Deployment does: replicas, selector, strategy and volumes become the
  wanted ones; wanted labels and annotations win and all others stay, and a digest, if there is
  one, goes into the graph-data annotation; the containers keep their number, order and names; the
  two operand containers carry every wanted field and the wanted amounts of resources; the
  graph-data init container gets the wanted image; and a container of another name is left as it
  is.
\<close>

theorem merge_deployment_effect:
  assumes "spec' = mergeDeploymentSpec k sha spec"
    and "wanted = dep_Spec (kr_deployment k)"
    and "pod = pt_Spec (ds_Template spec)" and "pod' = pt_Spec (ds_Template spec')"
    and "meta = pt_meta (ds_Template spec)" and "meta' = pt_meta (ds_Template spec')"
  shows "ds_Replicas spec' = ds_Replicas wanted \<and> ds_Selector spec' = ds_Selector wanted \<and>
    ds_Strategy spec' = ds_Strategy wanted \<and> ds_other spec' = ds_other spec \<and>
    pod_Volumes pod' = pod_Volumes (pt_Spec (ds_Template wanted)) \<and>
    (\<forall>x. mapGet (om_Labels meta') x =
       (case mapGet (om_Labels (pt_meta (ds_Template wanted))) x of
          Some v \<Rightarrow> Some v | None \<Rightarrow> mapGet (om_Labels meta) x)) \<and>
    (\<forall>x. mapGet (om_Annotations meta') x =
       (if x = GraphDataImageAnnotation \<and> sha \<noteq> [] then Some sha
        else case mapGet (om_Annotations (pt_meta (ds_Template wanted))) x of
          Some v \<Rightarrow> Some v | None \<Rightarrow> mapGet (om_Annotations meta) x)) \<and>
    map c_Name (pod_Containers pod') = map c_Name (pod_Containers pod) \<and>
    (\<forall>c \<in> set (pod_Containers pod).
       c_Name c \<notin> {NameContainerGraphBuilder, NameContainerPolicyEngine} \<longrightarrow> c \<in> set (pod_Containers pod')) \<and>
    (\<forall>c \<in> set (pod_Containers pod').
       (c_Name c = NameContainerGraphBuilder \<longrightarrow> carries (kr_graphBuilderContainer k) c) \<and>
       (c_Name c = NameContainerPolicyEngine \<longrightarrow> carries (kr_policyEngineContainer k) c)) \<and>
    (\<forall>c \<in> set (pod_InitContainers pod').
       c_Name c = ''graph-data'' \<longrightarrow> c_Image c = c_Image (kr_graphDataInitContainer k))"
proof -
  have cs: "pod_Containers pod' = map (syncContainer k) (pod_Containers pod)"
    and ics: "pod_InitContainers pod' = map (syncInitContainer k) (pod_InitContainers pod)"
    by (simp_all add: assms mergeDeploymentSpec_def mergePodSpec_def Let_def)
  have other: "\<forall>c \<in> set (pod_Containers pod).
       c_Name c \<notin> {NameContainerGraphBuilder, NameContainerPolicyEngine} \<longrightarrow> c \<in> set (pod_Containers pod')"
    unfolding cs by (force simp: syncContainer_def image_iff)
  have operands: "\<forall>c \<in> set (pod_Containers pod').
       (c_Name c = NameContainerGraphBuilder \<longrightarrow> carries (kr_graphBuilderContainer k) c) \<and>
       (c_Name c = NameContainerPolicyEngine \<longrightarrow> carries (kr_policyEngineContainer k) c)"
    unfolding cs by (auto simp: syncContainer_def mergeContainer_carries NameContainerGraphBuilder_def
        NameContainerPolicyEngine_def)
  have init: "\<forall>c \<in> set (pod_InitContainers pod').
       c_Name c = ''graph-data'' \<longrightarrow> c_Image c = c_Image (kr_graphDataInitContainer k)"
    unfolding ics by (auto simp: syncInitContainer_def Let_def)
  have meta: "meta' = mergeTemplateMeta (pt_meta (ds_Template wanted)) sha meta"
    by (simp add: assms mergeDeploymentSpec_def Let_def)
  have labels: "mapGet (om_Labels meta') x =
       (case mapGet (om_Labels (pt_meta (ds_Template wanted))) x of
          Some v \<Rightarrow> Some v | None \<Rightarrow> mapGet (om_Labels meta) x)" for x
    by (simp add: meta mergeTemplateMeta_def mapGet_mapAssignAll Let_def split: option.split)
  have annotations: "mapGet (om_Annotations meta') x =
       (if x = GraphDataImageAnnotation \<and> sha \<noteq> [] then Some sha
        else case mapGet (om_Annotations (pt_meta (ds_Template wanted))) x of
          Some v \<Rightarrow> Some v | None \<Rightarrow> mapGet (om_Annotations meta) x)" for x
    by (simp add: meta mergeTemplateMeta_def mapGet_mapAssignAll Let_def split: option.split)
  have rest: "ds_Replicas spec' = ds_Replicas wanted" "ds_Selector spec' = ds_Selector wanted"
    "ds_Strategy spec' = ds_Strategy wanted" "ds_other spec' = ds_other spec"
    "pod_Volumes pod' = pod_Volumes (pt_Spec (ds_Template wanted))"
    by (simp_all add: assms mergeDeploymentSpec_def mergePodSpec_def Let_def)
  have names: "map c_Name (pod_Containers pod') = map c_Name (pod_Containers pod)"
    by (simp add: cs)
  show ?thesis using rest names labels annotations other operands init by blast
qed

theorem merge_deployment_effect_witness:
  "\<exists>k. newKubeResources (\<lambda>_. []) exampleInstance ''img'' exampleSecret None None = Inr k \<and>
       ds_Replicas (mergeDeploymentSpec k ''sha'' ((dep_Spec (kr_deployment k))\<lparr>ds_Replicas := Some 7\<rparr>)) =
         Some 2"
proof -
  obtain k where k: "newKubeResources (\<lambda>_. []) exampleInstance ''img'' exampleSecret None None = Inr k"
    using example_renders by blast
  have "ds_Replicas (dep_Spec (kr_deployment k)) = Some 2"
    by (simp add: newKubeResources_fields(14) [OF k] newDeployment_def exampleInstance_def Let_def)
  then show ?thesis
    using k merge_deployment_effect [OF refl refl refl refl refl refl, of k "''sha''"
        "(dep_Spec (kr_deployment k))\<lparr>ds_Replicas := Some 7\<rparr>"] by simp
qed

text \<open>
  C12: the update is idempotent, so the operator does not fight with itself, and a Deployment that
  was created from the same resources is left exactly as it is.
\<close>

theorem merge_deployment_settles:
  assumes "newKubeResources getenv instance img ps ca cca = Inr k"
  shows "mergeDeploymentSpec k sha (mergeDeploymentSpec k sha spec) = mergeDeploymentSpec k sha spec \<and>
         mergeDeploymentSpec k [] (dep_Spec (kr_deployment k)) = dep_Spec (kr_deployment k)"
  using mergeDeploymentSpec_idem [OF rendered_annotations [OF assms]] rendered_fixed_point [OF assms]
  by blast

theorem merge_deployment_settles_witness:
  "\<exists>k. newKubeResources (\<lambda>_. []) exampleInstance ''img'' exampleSecret None None = Inr k \<and>
       mergeDeploymentSpec k [] (dep_Spec (kr_deployment k)) = dep_Spec (kr_deployment k)"
proof -
  obtain k where k: "newKubeResources (\<lambda>_. []) exampleInstance ''img'' exampleSecret None None = Inr k"
    using example_renders by blast
  then show ?thesis using merge_deployment_settles [OF k] by blast
qed

text \<open>
  No update removes an init container: the merged pod has the init containers it had, in the
  same order, an unexpected one unchanged, although the code means to remove those.
\<close>

theorem unexpected_init_containers_stay:
  "map c_Name (pod_InitContainers (pt_Spec (ds_Template (mergeDeploymentSpec k sha spec)))) =
     map c_Name (pod_InitContainers (pt_Spec (ds_Template spec))) \<and>
   filter (\<lambda>c. c_Name c \<noteq> ''graph-data'')
       (pod_InitContainers (pt_Spec (ds_Template (mergeDeploymentSpec k sha spec)))) =
     filter (\<lambda>c. c_Name c \<noteq> ''graph-data'') (pod_InitContainers (pt_Spec (ds_Template spec)))"
proof -
  have "filter (\<lambda>c. c_Name c \<noteq> ''graph-data'') (map (syncInitContainer k) cs) =
      filter (\<lambda>c. c_Name c \<noteq> ''graph-data'') cs" for cs
    by (induction cs) (auto simp: syncInitContainer_def Let_def)
  then show ?thesis by (simp add: mergeDeploymentSpec_def mergePodSpec_def Let_def o_def)
qed

end
