(* ===== verification/UpToDate.thy ===== *)
theory UpToDate
  imports ManagedObjects RouteSync Reconcile DeploymentProps
begin

text \<open>
  What a cluster looks like to which an UpdateService has been rolled out, as a predicate on the
  contents of the server: the abstract specification of the \<open>ensure\<close> functions. It also says, as
  functions of the contents, which resources a reconcile renders.
\<close>

type_synonym contents = "kind \<Rightarrow> namespaced_name \<Rightarrow> kobject option"

text \<open>\<open>agreeExcept K L L'\<close>: the contents agree except, perhaps, under the keys in \<open>K\<close>.\<close>

definition agreeExcept :: "(kind \<times> namespaced_name) set \<Rightarrow> contents \<Rightarrow> contents \<Rightarrow> bool" where
  "agreeExcept K L L' \<longleftrightarrow> (\<forall>k key. (k, key) \<notin> K \<longrightarrow> L' k key = L k key)"

section \<open>What is read\<close>

definition pullSecretIn :: "contents \<Rightarrow> secret option" where
  "pullSecretIn L =
     Option.bind (L SecretKind (namespacedName namePullSecret OpenshiftConfigNamespace)) asSecret"

text \<open>\<open>None\<close> for an error, \<open>Some None\<close> when no usable CA is configured.\<close>

definition trustedCAIn :: "contents \<Rightarrow> config_map option option" where
  "trustedCAIn L =
     (case L ImageKind (namespacedName ImageConfigName []) of
        None \<Rightarrow> Some None
      | Some ob \<Rightarrow>
          (case asImage ob of
             None \<Rightarrow> None
           | Some img \<Rightarrow>
               if img_AdditionalTrustedCA img = [] then Some None
               else (case Option.bind (L ConfigMapKind
                       (namespacedName (img_AdditionalTrustedCA img) OpenshiftConfigNamespace)) asConfigMap of
                   None \<Rightarrow> None
                 | Some cm \<Rightarrow>
                     Some (if mapGet (cm_Data cm) NameCertConfigMapKey = None then None else Some cm))))"

definition clusterCAIn :: "environ \<Rightarrow> update_service \<Rightarrow> contents \<Rightarrow> config_map option" where
  "clusterCAIn getenv instance L =
     (case L ConfigMapKind (namespacedName NameClusterTrustedCAVolume (instNamespace instance)) of
        None \<Rightarrow> newTrustedClusterCAConfig getenv instance None
      | Some ob \<Rightarrow>
          (case asConfigMap ob of
             None \<Rightarrow> None
           | Some cm \<Rightarrow> if mapGet (cm_Data cm) NameClusterCertConfigMapKey = None then None else Some cm))"

text \<open>The resources that a reconcile renders from the contents; \<open>None\<close> if it does not get there.\<close>

definition desiredResources :: "'w reconciler \<Rightarrow> update_service \<Rightarrow> contents \<Rightarrow> kube_resources option" where
  "desiredResources r instance L =
     (case (pullSecretIn L, trustedCAIn L) of
        (Some ps, Some ca) \<Rightarrow>
          (case newKubeResources (r_getenv r) instance (r_OperandImage r) ps ca
                  (clusterCAIn (r_getenv r) instance L) of
             Inl _ \<Rightarrow> None
           | Inr k \<Rightarrow> Some k)
      | _ \<Rightarrow> None)"

section \<open>The graph-data pod\<close>

abbreviation podKey :: "update_service \<Rightarrow> namespaced_name" where
  "podKey i \<equiv> namespacedName ''graph-data-tag-digest'' (instNamespace i)"

text \<open>The digest that is read off a pod: that of its first container, if it reports one.\<close>

definition podDigest :: "pod \<Rightarrow> string" where
  "podDigest p = (case p_ContainerStatuses p of [] \<Rightarrow> [] | cs # _ \<Rightarrow> cs_ImageID cs)"

text \<open>
  The life of the pod as the operator sees it: there is none, or one that reports a digest (empty
  at first), or one that has succeeded. One step of the operator gives the next state and the
  digest to use.
\<close>

datatype pod_state = NoPod | Reporting string | Finished

fun podStep :: "pod_state \<Rightarrow> pod_state \<times> string" where
  "podStep NoPod = (Reporting [], [])"
| "podStep (Reporting digest) = (Reporting digest, digest)"
| "podStep Finished = (NoPod, [])"

definition podStateOf :: "contents \<Rightarrow> update_service \<Rightarrow> pod_state" where
  "podStateOf L i =
     (case Option.bind (L PodKind (podKey i)) asPod of
        None \<Rightarrow> NoPod
      | Some p \<Rightarrow> if p_Phase p = ''Succeeded'' then Finished else Reporting (podDigest p))"

text \<open>The digest that a reconcile uses, the pod that it leaves, and whether it leaves it as it is.\<close>

definition digestIn :: "update_service \<Rightarrow> contents \<Rightarrow> string" where
  "digestIn i L =
     (if Contains (us_GraphDataImage (us_Spec i)) ''@sha256'' then [] else snd (podStep (podStateOf L i)))"

definition podAfter :: "update_service \<Rightarrow> contents \<Rightarrow> pod_state" where
  "podAfter i L =
     (if Contains (us_GraphDataImage (us_Spec i)) ''@sha256'' then podStateOf L i
      else fst (podStep (podStateOf L i)))"

definition podSettled :: "update_service \<Rightarrow> contents \<Rightarrow> bool" where
  "podSettled i L \<longleftrightarrow>
     Contains (us_GraphDataImage (us_Spec i)) ''@sha256'' \<or> (\<exists>digest. podStateOf L i = Reporting digest)"

section \<open>What is rolled out\<close>

definition configMapUpToDate :: "contents \<Rightarrow> config_map \<Rightarrow> bool" where
  "configMapUpToDate L cm \<longleftrightarrow>
     (\<exists>c. L ConfigMapKind (keyOf (cm_meta cm)) = Some (ConfigMapObj c) \<and> cm_Data c = cm_Data cm)"

definition secretUpToDate :: "contents \<Rightarrow> secret \<Rightarrow> bool" where
  "secretUpToDate L sec \<longleftrightarrow>
     (\<exists>s. L SecretKind (keyOf (sec_meta sec)) = Some (SecretObj s) \<and> sec_Data s = sec_Data sec)"

definition serviceUpToDate :: "contents \<Rightarrow> service \<Rightarrow> bool" where
  "serviceUpToDate L svc \<longleftrightarrow>
     (\<exists>s. L ServiceKind (keyOf (svc_meta svc)) = Some (ServiceObj s) \<and>
        svc_Spec s = (svc_Spec svc)\<lparr>ss_ClusterIP := ss_ClusterIP (svc_Spec s)\<rparr>)"

definition pdbUpToDate :: "contents \<Rightarrow> pdb \<Rightarrow> bool" where
  "pdbUpToDate L pdb \<longleftrightarrow>
     (\<exists>p. L PDBKind (keyOf (pdb_meta pdb)) = Some (PDBObj p) \<and> pdb_Spec p = pdb_Spec pdb)"

definition networkPolicyUpToDate :: "contents \<Rightarrow> network_policy \<Rightarrow> bool" where
  "networkPolicyUpToDate L np \<longleftrightarrow>
     (\<exists>p. L NetworkPolicyKind (keyOf (np_meta np)) = Some (NetworkPolicyObj p) \<and> np_Spec p = np_Spec np)"

text \<open>The Route in use is the one with the legacy name if there is one; its own TLS part is kept.\<close>

definition routeInUse :: "contents \<Rightarrow> kube_resources \<Rightarrow> route option" where
  "routeInUse L k =
     (case Option.bind (L RouteKind (keyOf (route_meta (kr_policyEngineOldRoute k)))) asRoute of
        Some rt \<Rightarrow> Some rt
      | None \<Rightarrow> Option.bind (L RouteKind (keyOf (route_meta (kr_policyEngineRoute k)))) asRoute)"

definition routeUpToDate :: "contents \<Rightarrow> kube_resources \<Rightarrow> bool" where
  "routeUpToDate L k \<longleftrightarrow>
     (\<exists>rt. routeInUse L k = Some rt \<and>
        (route_Spec rt)\<lparr>rs_TLS := rs_TLS (route_Spec (kr_policyEngineRoute k))\<rparr> =
          route_Spec (kr_policyEngineRoute k))"

text \<open>The Deployment, for a digest of the graph-data image that is empty if there is none to note.\<close>

definition deploymentUpToDate :: "string \<Rightarrow> contents \<Rightarrow> kube_resources \<Rightarrow> bool" where
  "deploymentUpToDate sha L k \<longleftrightarrow>
     (\<exists>d. L DeploymentKind (keyOf (dep_meta (kr_deployment k))) = Some (DeploymentObj d) \<and>
        (hasGraphDataInit d \<longrightarrow> mergeDeploymentSpec k sha (dep_Spec d) = dep_Spec d))"

definition trustedCAUpToDate :: "contents \<Rightarrow> kube_resources \<Rightarrow> bool" where
  "trustedCAUpToDate L k \<longleftrightarrow> pred_option (configMapUpToDate L) (kr_trustedCAConfig k)"

text \<open>The ConfigMap with the cluster's CA has to exist; its contents come from elsewhere.\<close>

definition clusterCAUpToDate :: "contents \<Rightarrow> kube_resources \<Rightarrow> bool" where
  "clusterCAUpToDate L k \<longleftrightarrow>
     pred_option (\<lambda>c. L ConfigMapKind (keyOf (cm_meta c)) \<noteq> None) (kr_trustedClusterCAConfig k)"

definition upToDate :: "string \<Rightarrow> contents \<Rightarrow> kube_resources \<Rightarrow> bool" where
  "upToDate sha L k \<longleftrightarrow>
     configMapUpToDate L (kr_graphBuilderConfig k) \<and>
     secretUpToDate L (kr_pullSecret k) \<and>
     configMapUpToDate L (kr_envConfig k) \<and>
     clusterCAUpToDate L k \<and>
     trustedCAUpToDate L k \<and>
     serviceUpToDate L (kr_graphBuilderService k) \<and>
     serviceUpToDate L (kr_policyEngineService k) \<and>
     pdbUpToDate L (kr_podDisruptionBudget k) \<and>
     routeUpToDate L k \<and>
     networkPolicyUpToDate L (kr_networkPolicy k) \<and>
     deploymentUpToDate sha L k"

end
