(* ===== verification/Safety.thy ===== *)
theory Safety
  imports Rendered ManagedObjects Reconcile
begin

text \<open>
  What a reconcile may ask of the server, whatever the server answers (as long as a \<open>Get\<close> answers
  with the object asked for): where it reads, which objects it writes, who controls what it
  creates, and which status it saves. One preservation lemma per function, over the invariant
  that every request made so far is allowed.
\<close>

section \<open>Allowed requests\<close>

text \<open>The objects that belong to an UpdateService.\<close>

definition ownedObjects :: "update_service \<Rightarrow> (kind \<times> namespaced_name) list" where
  "ownedObjects i =
     (let nn = (\<lambda>name. namespacedName name (instNamespace i)) in
      [(ConfigMapKind, nn (nameConfig i)),
       (ConfigMapKind, nn (nameEnvConfig i)),
       (ConfigMapKind, nn (nameAdditionalTrustedCA i)),
       (ConfigMapKind, nn NameClusterTrustedCAVolume),
       (SecretKind, nn (namePullSecretCopy i)),
       (ServiceKind, nn (nameGraphBuilderService i)),
       (ServiceKind, nn (namePolicyEngineService i)),
       (PDBKind, nn (namePodDisruptionBudget i)),
       (RouteKind, nn (namePolicyEngineRoute i)),
       (RouteKind, nn (oldPolicyEngineRouteName i)),
       (NetworkPolicyKind, nn (instName i)),
       (DeploymentKind, nn (nameDeployment i)),
       (PodKind, nn ''graph-data-tag-digest'')])"

definition owned :: "update_service \<Rightarrow> kobject \<Rightarrow> bool" where
  "owned i ob \<longleftrightarrow> (objKind ob, objKey ob) \<in> set (ownedObjects i)"

text \<open>A status that is saved claims success or reports the invalid route name.\<close>

definition finalStatus :: "us_status \<Rightarrow> bool" where
  "finalStatus st \<longleftrightarrow>
     statusOf st ConditionReconcileCompleted = Some ConditionTrue \<or>
     statusOf st ConditionReconcileError = Some ConditionTrue"

definition readable :: "update_service \<Rightarrow> namespaced_name \<Rightarrow> bool" where
  "readable i key \<longleftrightarrow> nn_Namespace key \<in> {instNamespace i, OpenshiftConfigNamespace, []}"

fun allowedCall :: "update_service \<Rightarrow> api_call \<Rightarrow> bool" where
  "allowedCall i (Get k key) = readable i key"
| "allowedCall i (ListUpdateServices ns) = False"
| "allowedCall i (Create ob) = (owned i ob \<and> controlledBy i (objMeta ob))"
| "allowedCall i (Update ob) = owned i ob"
| "allowedCall i (Delete ob) = (owned i ob \<and> objKind ob = PodKind)"
| "allowedCall i (UpdateStatus us) = (us = i\<lparr>us_Status := us_Status us\<rparr> \<and> finalStatus (us_Status us))"

abbreviation safe :: "update_service \<Rightarrow> ('w sess, 'a) state \<Rightarrow> bool" where
  "safe i m \<equiv> keeps (callsOK (allowedCall i)) m"

section \<open>Keys of the rendered resources\<close>

lemma namespacedName_simps [simp]:
  "nn_Name (namespacedName n ns) = n" "nn_Namespace (namespacedName n ns) = ns"
  by (simp_all add: namespacedName_def)

lemma keyOf_newMeta [simp]: "keyOf (newMeta n ns) = namespacedName n ns"
  by (simp add: keyOf_def newMeta_def namespacedName_def)

lemma keyOf_update [simp]:
  "keyOf (m\<lparr>om_Annotations := a\<rparr>) = keyOf m" "keyOf (m\<lparr>om_Labels := l\<rparr>) = keyOf m"
  "keyOf (m\<lparr>om_OwnerReferences := refs\<rparr>) = keyOf m"
  by (simp_all add: keyOf_def)

definition resourcesFor :: "update_service \<Rightarrow> kube_resources \<Rightarrow> bool" where
  "resourcesFor i k \<longleftrightarrow>
     (let nn = (\<lambda>name. namespacedName name (instNamespace i)) in
      keyOf (cm_meta (kr_graphBuilderConfig k)) = nn (nameConfig i) \<and>
      keyOf (cm_meta (kr_envConfig k)) = nn (nameEnvConfig i) \<and>
      (\<forall>c. kr_trustedCAConfig k = Some c \<longrightarrow> keyOf (cm_meta c) = nn (nameAdditionalTrustedCA i)) \<and>
      (\<forall>c. kr_trustedClusterCAConfig k = Some c \<longrightarrow>
         keyOf (cm_meta c) = nn NameClusterTrustedCAVolume) \<and>
      keyOf (sec_meta (kr_pullSecret k)) = nn (namePullSecretCopy i) \<and>
      keyOf (svc_meta (kr_graphBuilderService k)) = nn (nameGraphBuilderService i) \<and>
      keyOf (svc_meta (kr_policyEngineService k)) = nn (namePolicyEngineService i) \<and>
      keyOf (pdb_meta (kr_podDisruptionBudget k)) = nn (namePodDisruptionBudget i) \<and>
      keyOf (route_meta (kr_policyEngineRoute k)) = nn (namePolicyEngineRoute i) \<and>
      keyOf (route_meta (kr_policyEngineOldRoute k)) = nn (oldPolicyEngineRouteName i) \<and>
      keyOf (np_meta (kr_networkPolicy k)) = nn (instName i) \<and>
      keyOf (dep_meta (kr_deployment k)) = nn (nameDeployment i))"

lemma newTrustedClusterCAConfig_key:
  assumes "\<And>c. cca = Some c \<Longrightarrow>
      keyOf (cm_meta c) = namespacedName NameClusterTrustedCAVolume (instNamespace i)"
    and "newTrustedClusterCAConfig getenv i cca = Some c"
  shows "keyOf (cm_meta c) = namespacedName NameClusterTrustedCAVolume (instNamespace i)"
  using assms by (auto simp: newTrustedClusterCAConfig_def split: if_splits option.splits)

lemma newTrustedCAConfig_key:
  "newTrustedCAConfig i ca = Some c \<Longrightarrow>
     keyOf (cm_meta c) = namespacedName (nameAdditionalTrustedCA i) (instNamespace i)"
  by (auto simp: newTrustedCAConfig_def split: option.splits)

lemma rendered_resourcesFor:
  assumes "newKubeResources getenv i img ps ca cca = Inr k"
    and "\<And>c. cca = Some c \<Longrightarrow>
      keyOf (cm_meta c) = namespacedName NameClusterTrustedCAVolume (instNamespace i)"
  shows "resourcesFor i k"
proof -
  note k = newKubeResources_fields [OF assms(1)]
  have "keyOf (dep_meta (kr_deployment k)) = namespacedName (nameDeployment i) (instNamespace i)"
    by (simp add: k(14) nameDeployment_def)
  moreover have "keyOf (cm_meta (kr_graphBuilderConfig k)) =
      namespacedName (nameConfig i) (instNamespace i)"
    using newGraphBuilderConfig_meta [OF k(1)] by simp
  moreover have "\<forall>c. kr_trustedClusterCAConfig k = Some c \<longrightarrow>
      keyOf (cm_meta c) = namespacedName NameClusterTrustedCAVolume (instNamespace i)"
    using newTrustedClusterCAConfig_key [OF assms(2)] by (simp add: k(6))
  ultimately show ?thesis
    by (simp add: resourcesFor_def k(2,5,7,8,15-19) newEnvConfig_def newTrustedCAConfig_key
        newPullSecret_def newGraphBuilderService_def newPolicyEngineService_def
        newPodDisruptionBudget_def newPolicyEngineRoute_def oldPolicyEngineRoute_def
        policyEngineRouteNamed_def newNetworkPolicy_def Let_def)
qed

section \<open>Rules\<close>

lemma safe_withController:
  assumes "\<And>m'. controlledBy i m' \<Longrightarrow> keyOf m' = keyOf m \<Longrightarrow> safe i (f m')"
  shows "safe i (withController r i m f)"
  unfolding withController_def
  by (intro triple_intro assms)
    (auto dest: SetControllerReference_Inr(1) SetControllerReference_keeps(1))

lemma yields_getObj:
  assumes "honest r" and "P (Get k key)"
  shows "yields (callsOK P) (getObj r k as key)
           (\<lambda>res. \<forall>x. res = Inr x \<longrightarrow> (\<exists>ob. as ob = Some x \<and> objKind ob = k \<and> objKey ob = key))"
  using keeps_getObj [of P k key r as, OF assms(2)] assms(1)
  unfolding yields_def keeps_def triple_def honest_def
  by (fastforce simp: getObj_def invoke_def split: prod.splits api_result.splits option.splits)

lemma owned_simps:
  "(ConfigMapKind, key) \<in> set (ownedObjects i) \<longleftrightarrow>
     key \<in> {namespacedName (nameConfig i) (instNamespace i),
            namespacedName (nameEnvConfig i) (instNamespace i),
            namespacedName (nameAdditionalTrustedCA i) (instNamespace i),
            namespacedName NameClusterTrustedCAVolume (instNamespace i)}"
  "(SecretKind, key) \<in> set (ownedObjects i) \<longleftrightarrow>
     key = namespacedName (namePullSecretCopy i) (instNamespace i)"
  "(ServiceKind, key) \<in> set (ownedObjects i) \<longleftrightarrow>
     key \<in> {namespacedName (nameGraphBuilderService i) (instNamespace i),
            namespacedName (namePolicyEngineService i) (instNamespace i)}"
  "(PDBKind, key) \<in> set (ownedObjects i) \<longleftrightarrow>
     key = namespacedName (namePodDisruptionBudget i) (instNamespace i)"
  "(RouteKind, key) \<in> set (ownedObjects i) \<longleftrightarrow>
     key \<in> {namespacedName (namePolicyEngineRoute i) (instNamespace i),
            namespacedName (oldPolicyEngineRouteName i) (instNamespace i)}"
  "(NetworkPolicyKind, key) \<in> set (ownedObjects i) \<longleftrightarrow>
     key = namespacedName (instName i) (instNamespace i)"
  "(DeploymentKind, key) \<in> set (ownedObjects i) \<longleftrightarrow>
     key = namespacedName (nameDeployment i) (instNamespace i)"
  "(PodKind, key) \<in> set (ownedObjects i) \<longleftrightarrow>
     key = namespacedName ''graph-data-tag-digest'' (instNamespace i)"
  by (auto simp: ownedObjects_def Let_def)

lemma owned_readable: "(k, key) \<in> set (ownedObjects i) \<Longrightarrow> readable i key"
  by (auto simp: ownedObjects_def readable_def Let_def)

lemma safe_ensureConfigMap:
  assumes "honest r" and "(ConfigMapKind, keyOf (cm_meta c)) \<in> set (ownedObjects i)"
    and "controlledBy i (cm_meta c)"
  shows "safe i (ensureConfigMap r c)"
  using assms owned_readable [OF assms(2)]
  by (intro configMap.keeps_ensure) (auto simp: owned_def adjustConfigMap_def)

lemma safe_ensureSecret:
  assumes "honest r" and "(SecretKind, keyOf (sec_meta c)) \<in> set (ownedObjects i)"
    and "controlledBy i (sec_meta c)"
  shows "safe i (ensureSecret r c)"
  using assms owned_readable [OF assms(2)]
  by (intro secretObject.keeps_ensure) (auto simp: owned_def adjustSecret_def)

lemma safe_ensureService:
  assumes "honest r" and "(ServiceKind, keyOf (svc_meta c)) \<in> set (ownedObjects i)"
    and "controlledBy i (svc_meta c)"
  shows "safe i (ensureService r c)"
  using assms owned_readable [OF assms(2)]
  by (intro serviceObject.keeps_ensure) (auto simp: owned_def adjustService_def)

lemma safe_syncPodDisruptionBudget:
  assumes "honest r" and "(PDBKind, keyOf (pdb_meta c)) \<in> set (ownedObjects i)"
    and "controlledBy i (pdb_meta c)"
  shows "safe i (syncPodDisruptionBudget r c)"
  using assms owned_readable [OF assms(2)]
  by (intro pdbObject.keeps_ensure) (auto simp: owned_def adjustPDB_def)

lemma safe_syncNetworkPolicy:
  assumes "honest r" and "(NetworkPolicyKind, keyOf (np_meta c)) \<in> set (ownedObjects i)"
    and "controlledBy i (np_meta c)"
  shows "safe i (syncNetworkPolicy r c)"
  using assms owned_readable [OF assms(2)]
  by (intro networkPolicy.keeps_ensure) (auto simp: owned_def adjustNetworkPolicy_def)

lemmas safe_sync = safe_ensureConfigMap safe_ensureSecret safe_ensureService
  safe_syncPodDisruptionBudget safe_syncNetworkPolicy

section \<open>One lemma per function\<close>

lemma safe_handleErr [triple_intro]: "safe i (handleErr r reason e)"
  by (rule keeps_handleErr)

lemma safe_findPullSecret: "safe i (findPullSecret r)"
  unfolding findPullSecret_def by (intro triple_intro) (simp add: readable_def)

lemma safe_findTrustedCAConfig: "safe i (findTrustedCAConfig r)"
  unfolding findTrustedCAConfig_def by (intro triple_intro) (simp_all add: readable_def)

lemma yields_findTrustedClusterCAConfig:
  assumes "honest r"
  shows "yields (callsOK (allowedCall i)) (findTrustedClusterCAConfig r i)
    (\<lambda>res. \<forall>c. res = Inr (Some c) \<longrightarrow>
       keyOf (cm_meta c) = namespacedName NameClusterTrustedCAVolume (instNamespace i))"
  unfolding findTrustedClusterCAConfig_def
  by (rule yields_bind [OF yields_getObj [OF assms]],
      simp add: readable_def,
      intro yields_intro yields_bind_keeps keeps_handleCACertStatus, auto)

lemma safe_ensureConfig:
  assumes "honest r" and "resourcesFor i k"
  shows "safe i (ensureConfig r i k)"
  unfolding ensureConfig_def Let_def
  using assms by (intro safe_withController triple_intro keeps_reportErr safe_sync)
    (auto simp: resourcesFor_def owned_simps Let_def)

lemma safe_ensureEnvConfig:
  assumes "honest r" and "resourcesFor i k"
  shows "safe i (ensureEnvConfig r i k)"
  unfolding ensureEnvConfig_def Let_def
  using assms by (intro safe_withController triple_intro keeps_reportErr safe_sync)
    (auto simp: resourcesFor_def owned_simps Let_def)

lemma safe_ensurePullSecret:
  assumes "honest r" and "resourcesFor i k"
  shows "safe i (ensurePullSecret r i k)"
  unfolding ensurePullSecret_def Let_def
  using assms by (intro safe_withController triple_intro keeps_reportErr safe_sync)
    (auto simp: resourcesFor_def owned_simps Let_def)

lemma safe_ensureAdditionalTrustedCA:
  assumes "honest r" and "resourcesFor i k"
  shows "safe i (ensureAdditionalTrustedCA r i k)"
  unfolding ensureAdditionalTrustedCA_def
  using assms by (intro triple_intro keeps_SetStatusCondition safe_withController keeps_reportErr safe_sync)
    (auto simp: resourcesFor_def owned_simps Let_def)

lemma safe_ensureTrustedClusterCA:
  assumes "honest r" and "resourcesFor i k"
  shows "safe i (ensureTrustedClusterCA r i k)"
  unfolding ensureTrustedClusterCA_def
  using assms
  by (intro triple_intro safe_withController keeps_reportErr safe_sync
      yields_keeps [OF yields_findTrustedClusterCAConfig])
    (auto simp: resourcesFor_def owned_simps Let_def)

lemma safe_ensureServices:
  assumes "honest r" and "resourcesFor i k"
  shows "safe i (ensureGraphBuilderService r i k)" and "safe i (ensurePolicyEngineService r i k)"
  unfolding ensureGraphBuilderService_def ensurePolicyEngineService_def Let_def
  using assms by (intro safe_withController triple_intro keeps_reportErr safe_sync;
      auto simp: resourcesFor_def owned_simps Let_def)+

lemma safe_ensurePodDisruptionBudget:
  assumes "honest r" and "resourcesFor i k"
  shows "safe i (ensurePodDisruptionBudget r i k)"
  unfolding ensurePodDisruptionBudget_def Let_def
  using assms by (intro safe_withController safe_sync)
    (auto simp: resourcesFor_def owned_simps Let_def)

lemma safe_ensureNetworkPolicy:
  assumes "honest r" and "resourcesFor i k"
  shows "safe i (ensureNetworkPolicy r i k)"
  unfolding ensureNetworkPolicy_def Let_def
  using assms by (intro safe_withController safe_sync)
    (auto simp: resourcesFor_def owned_simps Let_def)

lemma resourcesFor_routes:
  assumes "resourcesFor i k"
  shows "(RouteKind, keyOf (route_meta (kr_policyEngineRoute k))) \<in> set (ownedObjects i)"
    and "(RouteKind, keyOf (route_meta (kr_policyEngineOldRoute k))) \<in> set (ownedObjects i)"
    and "readable i (keyOf (route_meta (kr_policyEngineRoute k)))"
    and "readable i (keyOf (route_meta (kr_policyEngineOldRoute k)))"
  using assms by (auto simp: resourcesFor_def owned_simps readable_def Let_def)

lemma yields_findExistingRoute:
  assumes "honest r" and "resourcesFor i k"
  shows "yields (callsOK (allowedCall i)) (findExistingRoute r k)
    (\<lambda>res. \<forall>f. res = Inr (Some f) \<longrightarrow> (RouteKind, keyOf (route_meta f)) \<in> set (ownedObjects i))"
  unfolding findExistingRoute_def
proof (rule yields_bind [OF yields_getObj [OF assms(1)]])
  show "allowedCall i (Get RouteKind (keyOf (route_meta (kr_policyEngineOldRoute k))))"
    using resourcesFor_routes(4) [OF assms(2)] by simp
next
  fix res :: "go_error + route"
  assume res: "\<forall>x. res = Inr x \<longrightarrow> (\<exists>ob. asRoute ob = Some x \<and> objKind ob = RouteKind \<and>
      objKey ob = keyOf (route_meta (kr_policyEngineOldRoute k)))"
  have new: "allowedCall i (Get RouteKind (keyOf (route_meta (kr_policyEngineRoute k))))"
    using resourcesFor_routes(3) [OF assms(2)] by simp
  show "yields (callsOK (allowedCall i))
      (case res of Inl err \<Rightarrow>
         if IsNotFound err then do {
            res' \<leftarrow> getObj r RouteKind asRoute (keyOf (route_meta (kr_policyEngineRoute k)));
            (case res' of
               Inr foundRoute \<Rightarrow> return (Inr (Some foundRoute))
             | Inl err' \<Rightarrow>
                 if IsNotFound err' then return (Inr None)
                 else do { handleErr r ''GetRouteFailed'' err'; return (Inl err') })
          }
          else do { handleErr r ''GetRouteFailed'' err; return (Inl err) }
       | Inr foundOldRoute \<Rightarrow> return (Inr (Some foundOldRoute)))
      (\<lambda>res. \<forall>f. res = Inr (Some f) \<longrightarrow> (RouteKind, keyOf (route_meta f)) \<in> set (ownedObjects i))"
    using res resourcesFor_routes(1,2) [OF assms(2)]
    by (intro yields_intro yields_bind_keeps keeps_handleErr
        yields_bind [OF yields_getObj [OF assms(1), of "allowedCall i", OF new]]) auto
qed

lemma safe_setPolicyEngineURI: "safe i (setPolicyEngineURI uri)"
  unfolding setPolicyEngineURI_def by (intro triple_intro)

lemma safe_ensurePolicyEngineRoute:
  assumes "honest r" and "resourcesFor i k"
  shows "safe i (ensurePolicyEngineRoute r i k)"
  unfolding ensurePolicyEngineRoute_def Let_def
  using resourcesFor_routes [OF assms(2)]
  by (intro keeps_bind_yields [OF yields_findExistingRoute [OF assms]] triple_intro
      safe_withController keeps_reportErr keeps_reportOnly keeps_createObj keeps_updateObj
      safe_setPolicyEngineURI)
    (auto simp: owned_def updatedRoute_def)

lemma safe_ensureGraphDataSHA: "safe i (ensureGraphDataSHA r i)"
proof -
  have key: "keyOf (p_meta (graphDataPod i now)) =
      namespacedName ''graph-data-tag-digest'' (instNamespace i)" for now
    by (simp add: graphDataPod_def)
  have "controlledBy i m \<and> keyOf m = namespacedName ''graph-data-tag-digest'' (instNamespace i)"
    if "SetControllerReference (r_Scheme r) i (p_meta (graphDataPod i now)) = Inr m" for m now
    using SetControllerReference_Inr(1) [OF that] SetControllerReference_keeps(1) [OF that]
    by (simp add: key)
  then show ?thesis
    unfolding ensureGraphDataSHA_def Let_def
    by (intro triple_intro keeps_timeNow keeps_reportErr keeps_createObj keeps_deleteObj keeps_getObj
        keeps_handleErr)
      (auto simp: owned_def owned_simps readable_def split: list.split intro!: triple_intro)
qed

lemma safe_ensureDeployment:
  assumes "honest r" and "resourcesFor i k"
  shows "safe i (ensureDeployment r i k sha)"
  unfolding ensureDeployment_def Let_def
proof (rule safe_withController)
  fix m
  assume m: "controlledBy i m" "keyOf m = keyOf (dep_meta (kr_deployment k))"
  have key: "keyOf m = namespacedName (nameDeployment i) (instNamespace i)"
    using m(2) assms(2) by (simp add: resourcesFor_def Let_def)
  show "safe i (do {
          res \<leftarrow> getObj r DeploymentKind asDeployment (keyOf (dep_meta ((kr_deployment k)\<lparr>dep_meta := m\<rparr>)));
          (case res of
             Inl err \<Rightarrow>
               if IsNotFound err
               then reportErr r ''CreateDeploymentFailed''
                 (createObj r (DeploymentObj ((kr_deployment k)\<lparr>dep_meta := m\<rparr>)))
               else do { handleErr r ''GetDeploymentFailed'' err; return (Some err) }
           | Inr found \<Rightarrow>
               if \<not> hasGraphDataInit found then do {
                 handleErr r ''UpdateDeploymentFailed''
                   (PlainError ''Graph data init container not found'');
                 return None
               }
               else
                 if dep_Spec (found\<lparr>dep_Spec := mergeDeploymentSpec k sha (dep_Spec found)\<rparr>) \<noteq> dep_Spec found
                 then reportErr r ''UpdateDeploymentFailed'' (updateObj r
                   (DeploymentObj (found\<lparr>dep_Spec := mergeDeploymentSpec k sha (dep_Spec found)\<rparr>)))
                 else return None)
        })"
    using m(1) key
    by (intro keeps_bind_yields [OF yields_getObj [OF assms(1)]] triple_intro keeps_reportErr
        keeps_createObj keeps_updateObj keeps_handleErr)
      (auto simp: owned_def owned_simps readable_def)
qed

lemma safe_ensureSteps:
  assumes "honest r" and "resourcesFor i k" and "f \<in> set (ensureSteps r i k)"
  shows "safe i f"
  using assms(3) unfolding ensureSteps_def
  by (auto intro: safe_ensureConfig safe_ensurePullSecret safe_ensureEnvConfig
      safe_ensureTrustedClusterCA safe_ensureAdditionalTrustedCA safe_ensureServices
      safe_ensurePodDisruptionBudget safe_ensurePolicyEngineRoute safe_ensureNetworkPolicy
      assms(1,2))

text \<open>Saving the status right after one of its conditions was set to true.\<close>

lemma saveStatus_run:
  "run_state (saveStatus r i) s = (a, s') \<Longrightarrow>
     se_calls s' = se_calls s @ [UpdateStatus (i\<lparr>us_Status := se_status s\<rparr>)] \<and>
     se_status s' = se_status s"
  by (auto simp: saveStatus_def getStatus_def updateStatus_def mutate_def invoke_def
      split: prod.splits)

lemma safe_setAndSave:
  assumes "ty = ConditionReconcileCompleted \<or> ty = ConditionReconcileError"
    and "\<And>a. safe i (f a)"
  shows "safe i (do {
           SetStatusCondition r (newCondition ty ConditionTrue reason message);
           a \<leftarrow> saveStatus r i;
           f a
         })"
proof (rule keepsI)
  let ?c = "newCondition ty ConditionTrue reason message"
  fix s b s'
  assume ok: "callsOK (allowedCall i) s"
    and run: "run_state (do { SetStatusCondition r ?c; a \<leftarrow> saveStatus r i; f a }) s = (b, s')"
  obtain s1 where s1: "run_state (SetStatusCondition r ?c) s = ((), s1)" "conditionSet ?c s s1"
    using SetStatusCondition_run by blast
  obtain a s2 where s2: "run_state (saveStatus r i) s1 = (a, s2)"
    by (cases "run_state (saveStatus r i) s1")
  have "statusOf (se_status s1) ty = Some ConditionTrue"
    using s1(2) by (auto simp: conditionSet_def statusOf_def)
  then have "finalStatus (se_status s1)" using assms(1) by (auto simp: finalStatus_def)
  then have "callsOK (allowedCall i) s2"
    using saveStatus_run [OF s2] s1(2) ok by (simp add: callsOK_def conditionSet_def)
  then show "callsOK (allowedCall i) s'"
    using run s1(1) s2 keepsD [OF assms(2)] by (auto split: prod.splits)
qed

lemma safe_ensureAll:
  assumes "honest r" and "resourcesFor i k"
  shows "safe i (ensureAll r i k)"
  unfolding ensureAll_def
  by (rule keeps_bind [OF keeps_SetStatusCondition],
      rule keeps_bind [OF keeps_runUntilError [OF safe_ensureSteps [OF assms]]], assumption,
      rule keeps_bind [OF safe_ensureGraphDataSHA],
      rule keeps_bind [OF safe_ensureDeployment [OF assms]],
      rule keeps_case_option, rule safe_setAndSave, simp, rule keeps_return, rule keeps_return)

lemma clusterCAFor_key:
  assumes "\<forall>c. found = Inr (Some c) \<longrightarrow>
      keyOf (cm_meta c) = namespacedName NameClusterTrustedCAVolume (instNamespace i)"
    and "clusterCAFor getenv i found = Some c"
  shows "keyOf (cm_meta c) = namespacedName NameClusterTrustedCAVolume (instNamespace i)"
  using assms newTrustedClusterCAConfig_key [of None i getenv c]
  by (auto simp: clusterCAFor_def split: sum.splits if_splits)

lemma safe_reconcileInstance:
  assumes "honest r"
  shows "safe i (reconcileInstance r req i)"
  unfolding reconcileInstance_def
  by (rule keeps_case_option,
      rule keeps_bind [OF safe_findPullSecret], rule keeps_case_sum, rule keeps_return,
      rule keeps_bind [OF safe_findTrustedCAConfig], rule keeps_case_sum, rule keeps_return,
      rule keeps_bind_yields [OF yields_findTrustedClusterCAConfig [OF assms]],
      rule keeps_case_sum, rule keeps_return,
      rule safe_ensureAll [OF assms], erule rendered_resourcesFor, erule (1) clusterCAFor_key,
      rule safe_setAndSave, simp, rule keeps_return)

end
