(* ===== verification/Quiet.thy ===== *)
theory Quiet
  imports UpToDate Safety
begin

text \<open>
  On an object store whose contents are up to date a reconcile only reads, and then saves the
  status: one lemma per function, over the invariant that the contents are still the same and that
  every request so far was a read or a status update.
\<close>

fun quietCall :: "api_call \<Rightarrow> bool" where
  "quietCall (Get k key) = True"
| "quietCall (UpdateStatus us) = True"
| "quietCall c = False"

text \<open>The contents are \<open>L\<close>, and the requests after the first ones, \<open>c0\<close>, are quiet.\<close>

definition quietSince :: "api_call list \<Rightarrow> 'w sess \<Rightarrow> bool" where
  "quietSince c0 s \<longleftrightarrow> (\<exists>cs. se_calls s = c0 @ cs \<and> list_all quietCall cs)"

definition still ::
    "('w \<Rightarrow> contents) \<Rightarrow> contents \<Rightarrow> api_call list \<Rightarrow> 'w sess \<Rightarrow> bool" where
  "still lookup L c0 s \<longleftrightarrow> lookup (se_world s) = L \<and> quietSince c0 s"

lemma still_simps [simp]:
  "still lookup L c0 (s\<lparr>se_status := st\<rparr>) = still lookup L c0 s"
  "still lookup L c0 (s\<lparr>se_world := w\<rparr>) \<longleftrightarrow> lookup w = L \<and> quietSince c0 s"
  by (simp_all add: still_def quietSince_def)

lemma still_snoc [simp]:
  "quietCall c \<Longrightarrow> still lookup L c0 s \<Longrightarrow> still lookup L c0 (s\<lparr>se_calls := se_calls s @ [c]\<rparr>)"
  by (auto simp: still_def quietSince_def)

lemma still_start: "still lookup (lookup (se_world s)) (se_calls s) s"
  by (simp add: still_def quietSince_def)

text \<open>
  An invariant that fixes the contents and admits further reads; the lemmas about functions that
  only read hold for every such invariant.
\<close>

definition readsOnly :: "('w \<Rightarrow> contents) \<Rightarrow> contents \<Rightarrow> ('w sess \<Rightarrow> bool) \<Rightarrow> bool" where
  "readsOnly lookup L I \<longleftrightarrow>
     (\<forall>s k key. I s \<longrightarrow>
        lookup (se_world s) = L \<and> I (s\<lparr>se_calls := se_calls s @ [Get k key]\<rparr>))"

lemma readsOnly_still: "readsOnly lookup L (still lookup L c0)"
  by (auto simp: readsOnly_def still_def quietSince_def)

section \<open>Rendered resources\<close>

text \<open>Nothing that is rendered has owners yet, and all of it is in the UpdateService's namespace.\<close>

definition fresh :: "update_service \<Rightarrow> object_meta \<Rightarrow> bool" where
  "fresh i m \<longleftrightarrow> om_Namespace m = instNamespace i \<and> om_OwnerReferences m = []"

definition freshResources :: "update_service \<Rightarrow> kube_resources \<Rightarrow> bool" where
  "freshResources i k \<longleftrightarrow>
     list_all (fresh i)
       [cm_meta (kr_graphBuilderConfig k), cm_meta (kr_envConfig k), sec_meta (kr_pullSecret k),
        svc_meta (kr_graphBuilderService k), svc_meta (kr_policyEngineService k),
        pdb_meta (kr_podDisruptionBudget k), route_meta (kr_policyEngineRoute k),
        np_meta (kr_networkPolicy k), dep_meta (kr_deployment k)] \<and>
     pred_option (\<lambda>c. fresh i (cm_meta c)) (kr_trustedCAConfig k)"

lemma fresh_newMeta [simp]:
  "fresh i (newMeta n (instNamespace i))"
  "fresh i (m\<lparr>om_Annotations := a\<rparr>) = fresh i m" "fresh i (m\<lparr>om_Labels := l\<rparr>) = fresh i m"
  by (simp_all add: fresh_def newMeta_def)

lemma rendered_fresh:
  assumes "newKubeResources getenv i img ps ca cca = Inr k"
  shows "freshResources i k"
proof -
  note k = newKubeResources_fields [OF assms]
  have "fresh i (cm_meta (kr_graphBuilderConfig k))"
    using newGraphBuilderConfig_meta [OF k(1)] by simp
  moreover have "fresh i (dep_meta (kr_deployment k))"
    by (simp add: k(14) newDeployment_def Let_def)
  moreover have "pred_option (\<lambda>c. fresh i (cm_meta c)) (kr_trustedCAConfig k)"
    by (simp add: k(5) newTrustedCAConfig_def split: option.split)
  ultimately show ?thesis
    by (simp add: freshResources_def k(2,7,8,15-19) newEnvConfig_def
        newPullSecret_def newGraphBuilderService_def newPolicyEngineService_def
        newPodDisruptionBudget_def newPolicyEngineRoute_def
        policyEngineRouteNamed_def newNetworkPolicy_def Let_def)
qed

lemma withController_fresh:
  assumes "r_Scheme r = [g]" and "fresh i m"
  shows "withController r i m f = f (m\<lparr>om_OwnerReferences := [controllerRef g i]\<rparr>)"
  using assms SetControllerReference_fresh [of m i g] by (simp add: withController_def fresh_def)

lemma graphDataPod_fresh: "fresh i (p_meta (graphDataPod i now))"
  by (simp add: graphDataPod_def)

lemma graphDataPod_key: "keyOf (p_meta (graphDataPod i now)) = podKey i"
  by (simp add: graphDataPod_def)

lemma podStateOf_Reporting:
  "podStateOf L i = Reporting digest \<longleftrightarrow>
     (\<exists>p. L PodKind (podKey i) = Some (PodObj p) \<and> p_Phase p \<noteq> ''Succeeded'' \<and> digest = podDigest p)"
  by (auto simp: podStateOf_def bind_eq_Some_conv split: option.splits if_splits)

lemma graphDataPod_controller:
  "r_Scheme r = [g] \<Longrightarrow> SetControllerReference (r_Scheme r) i (p_meta (graphDataPod i now)) =
     Inr ((p_meta (graphDataPod i now))\<lparr>om_OwnerReferences := [controllerRef g i]\<rparr>)"
  using graphDataPod_fresh [of i now] by (simp add: fresh_def SetControllerReference_fresh)

lemma triple_bind_value:
  "yields I m (\<lambda>a. a = v) \<Longrightarrow> triple I (f v) Q \<Longrightarrow> triple I (State_Monad.bind m f) Q"
  unfolding yields_def by (rule triple_bind, assumption) (auto intro: triple_pure)

section \<open>Reading\<close>

context object_store
begin

lemma still_timeNow [triple_intro]: "keeps (still lookup L c0) (timeNow r)"
  using clock by (auto simp: keeps_def triple_def timeNow_def still_def quietSince_def split: prod.splits)
    (metis snd_conv)

lemma still_status [triple_intro]:
  "keeps (still lookup L c0) getStatus" "keeps (still lookup L c0) (putStatus st)"
  by (auto simp: keeps_def triple_def getStatus_def putStatus_def)

lemma still_SetStatusCondition [triple_intro]: "keeps (still lookup L c0) (SetStatusCondition r c)"
  unfolding SetStatusCondition_def by (intro triple_intro)

lemma still_handle [triple_intro]:
  "keeps (still lookup L c0) (handleErr r reason e)"
  "keeps (still lookup L c0) (handleCACertStatus r reason m)"
  "keeps (still lookup L c0) (setPolicyEngineURI uri)"
  unfolding handleErr_def handleCACertStatus_def setPolicyEngineURI_def by (intro triple_intro)+

lemma reads_getObj:
  assumes "readsOnly lookup L I"
  shows "yields I (getObj r k as key)
     (\<lambda>res. case L k key of
        None \<Rightarrow> (\<exists>e. res = Inl e \<and> IsNotFound e)
      | Some ob \<Rightarrow> res = (case as ob of None \<Rightarrow> Inl wrongType | Some x \<Rightarrow> Inr x) \<and>
          objKind ob = k \<and> objKey ob = key)"
  unfolding yields_def
proof (rule tripleI)
  fix s a s'
  assume s: "I s" and run: "run_state (getObj r k as key) s = (a, s')"
  have "lookup (se_world s) = L" "I (s\<lparr>se_calls := se_calls s @ [Get k key]\<rparr>)"
    using assms s by (auto simp: readsOnly_def)
  then show "I s' \<and>
    (case L k key of None \<Rightarrow> (\<exists>e. a = Inl e \<and> IsNotFound e)
     | Some ob \<Rightarrow> a = (case as ob of None \<Rightarrow> Inl wrongType | Some x \<Rightarrow> Inr x) \<and>
         objKind ob = k \<and> objKey ob = key)"
    using run getObj_run [of k as key s] lookup_found [of "se_world s" k key]
    by (auto split: option.splits)
qed

lemmas still_getObj = reads_getObj [OF readsOnly_still]

lemma still_findPullSecret:
  "yields (still lookup L c0) (findPullSecret r)
     (\<lambda>res. \<forall>ps. pullSecretIn L = Some ps \<longrightarrow> res = Inr ps)"
  unfolding findPullSecret_def
  by (rule yields_bind [OF still_getObj], intro yields_intro yields_bind_keeps still_handle)
    (auto simp: pullSecretIn_def bind_eq_Some_conv split: option.splits)

lemma still_findTrustedClusterCAConfig:
  "yields (still lookup L c0) (findTrustedClusterCAConfig r i)
     (\<lambda>res. clusterCAFor getenv i res = clusterCAIn getenv i L \<and>
        (L ConfigMapKind (namespacedName NameClusterTrustedCAVolume (instNamespace i)) \<noteq> None \<longrightarrow>
           (\<exists>x. res = Inr x)) \<and>
        (L ConfigMapKind (namespacedName NameClusterTrustedCAVolume (instNamespace i)) = None \<longrightarrow>
           (\<exists>e. res = Inl e \<and> IsNotFound e)))"
  unfolding findTrustedClusterCAConfig_def
proof (rule yields_bind [OF still_getObj])
  let ?key = "namespacedName NameClusterTrustedCAVolume (instNamespace i)"
  fix res :: "go_error + config_map"
  assume a: "case L ConfigMapKind ?key of None \<Rightarrow> (\<exists>e. res = Inl e \<and> IsNotFound e)
      | Some ob \<Rightarrow> res = (case asConfigMap ob of None \<Rightarrow> Inl wrongType | Some x \<Rightarrow> Inr x) \<and>
          objKind ob = ConfigMapKind \<and> objKey ob = ?key"
  show "yields (still lookup L c0)
      (case res of Inl err \<Rightarrow> return (Inl err)
       | Inr sourceCM \<Rightarrow>
          if mapGet (cm_Data sourceCM) NameClusterCertConfigMapKey = None
          then do {
            handleCACertStatus r ''EnsureTrustedClusterCAFailed''
              (''Found cluster-wide CA but required key: '' @ [CHR 0x27] @
               NameClusterCertConfigMapKey @ [CHR 0x27] @ '' not found'');
            return (Inr None)
          }
          else return (Inr (Some sourceCM)))
      (\<lambda>res. clusterCAFor getenv i res = clusterCAIn getenv i L \<and>
         (L ConfigMapKind ?key \<noteq> None \<longrightarrow> (\<exists>x. res = Inr x)) \<and>
         (L ConfigMapKind ?key = None \<longrightarrow> (\<exists>e. res = Inl e \<and> IsNotFound e)))"
    using a
    by (intro yields_intro yields_bind_keeps still_handle)
      (auto simp: clusterCAFor_def clusterCAIn_def dest!: kind_range split: option.splits)
qed

lemma still_findTrustedCAConfig:
  "yields (still lookup L c0) (findTrustedCAConfig r)
     (\<lambda>res. \<forall>ca. trustedCAIn L = Some ca \<longrightarrow> res = Inr ca)"
  unfolding findTrustedCAConfig_def
proof (rule yields_bind [OF still_getObj], goal_cases)
  case (1 res)
  show ?case
  proof (cases res)
    case (Inl e)
    then show ?thesis using 1
      by (auto simp: trustedCAIn_def intro!: yields_intro yields_bind_keeps still_handle split: option.splits)
  next
    case (Inr img)
    then have img: "L ImageKind (namespacedName ImageConfigName []) = Some (ImageObj img)"
      using 1 by (auto split: option.splits)
    show ?thesis
    proof (cases "img_AdditionalTrustedCA img = []")
      case True
      then show ?thesis unfolding Inr
        by (auto simp: trustedCAIn_def img intro!: yields_intro yields_bind_keeps still_handle)
    next
      case False
      then show ?thesis unfolding Inr
        by (simp, intro yields_bind [OF still_getObj] yields_intro yields_bind_keeps still_handle)
          (auto simp: trustedCAIn_def img split: option.splits)
    qed
  qed
qed

lemma still_findExistingRoute:
  "yields (still lookup L c0) (findExistingRoute r k) (\<lambda>res. res = Inr (routeInUse L k))"
  unfolding findExistingRoute_def
  by (rule yields_bind [OF still_getObj],
      intro yields_intro yields_bind [OF still_getObj] yields_bind_keeps still_handle)
    (auto simp: routeInUse_def dest!: kind_range split: option.splits)

section \<open>Ensuring\<close>

lemma reads_run:
  assumes "readsOnly lookup L I"
    and "\<And>s. lookup (se_world s) = L \<Longrightarrow>
      run_state m s = (None, s\<lparr>se_calls := se_calls s @ [Get k key]\<rparr>)"
  shows "yields I m (\<lambda>e. e = None)"
  unfolding yields_def using assms by (intro tripleI) (auto simp: readsOnly_def)

lemma reads_ensureConfigMap:
  "readsOnly lookup L I \<Longrightarrow> configMapUpToDate L cm \<Longrightarrow> yields I (ensureConfigMap r cm) (\<lambda>e. e = None)"
  by (erule reads_run, rule configMaps.quiet)
    (auto simp: configMaps.settled_def configMapUpToDate_def adjust_iff)

lemma reads_ensureSecret:
  "readsOnly lookup L I \<Longrightarrow> secretUpToDate L sec \<Longrightarrow> yields I (ensureSecret r sec) (\<lambda>e. e = None)"
  by (erule reads_run, rule secrets.quiet)
    (auto simp: secrets.settled_def secretUpToDate_def adjust_iff)

lemma reads_ensureService:
  "readsOnly lookup L I \<Longrightarrow> serviceUpToDate L svc \<Longrightarrow> yields I (ensureService r svc) (\<lambda>e. e = None)"
  by (erule reads_run, rule services.quiet)
    (auto simp: services.settled_def serviceUpToDate_def adjust_iff)

lemma reads_syncPodDisruptionBudget:
  "readsOnly lookup L I \<Longrightarrow> pdbUpToDate L pdb \<Longrightarrow>
     yields I (syncPodDisruptionBudget r pdb) (\<lambda>e. e = None)"
  by (erule reads_run, rule pdbs.quiet) (auto simp: pdbs.settled_def pdbUpToDate_def adjust_iff)

lemma reads_syncNetworkPolicy:
  "readsOnly lookup L I \<Longrightarrow> networkPolicyUpToDate L np \<Longrightarrow>
     yields I (syncNetworkPolicy r np) (\<lambda>e. e = None)"
  by (erule reads_run, rule networkPolicies.quiet)
    (auto simp: networkPolicies.settled_def networkPolicyUpToDate_def adjust_iff)

lemma yields_reportErr:
  "yields I m (\<lambda>e. e = None) \<Longrightarrow> yields I (reportErr r reason m) (\<lambda>e. e = None)"
  unfolding reportErr_def by (erule yields_bind) (simp add: yields_return)

section \<open>The steps\<close>

lemma reads_managedSteps:
  assumes I: "readsOnly lookup L I" and "r_Scheme r = [g]" and "freshResources i k" and "upToDate sha L k"
  shows "yields I (ensureConfig r i k) (\<lambda>e. e = None)"
    and "yields I (ensureEnvConfig r i k) (\<lambda>e. e = None)"
    and "yields I (ensurePullSecret r i k) (\<lambda>e. e = None)"
    and "yields I (ensureGraphBuilderService r i k) (\<lambda>e. e = None)"
    and "yields I (ensurePolicyEngineService r i k) (\<lambda>e. e = None)"
    and "yields I (ensurePodDisruptionBudget r i k) (\<lambda>e. e = None)"
    and "yields I (ensureNetworkPolicy r i k) (\<lambda>e. e = None)"
  unfolding ensureConfig_def ensureEnvConfig_def ensurePullSecret_def ensureGraphBuilderService_def
    ensurePolicyEngineService_def ensurePodDisruptionBudget_def ensureNetworkPolicy_def Let_def
  using assms(3,4)
  by (simp_all add: withController_fresh [OF assms(2), of i] freshResources_def)
    (intro yields_reportErr reads_ensureConfigMap [OF I] reads_ensureSecret [OF I]
      reads_ensureService [OF I] reads_syncPodDisruptionBudget [OF I] reads_syncNetworkPolicy [OF I];
      simp add: upToDate_def configMapUpToDate_def secretUpToDate_def serviceUpToDate_def
        pdbUpToDate_def networkPolicyUpToDate_def)+

lemma still_ensureAdditionalTrustedCA:
  assumes "r_Scheme r = [g]" and "freshResources i k" and "upToDate sha L k"
  shows "yields (still lookup L c0) (ensureAdditionalTrustedCA r i k) (\<lambda>e. e = None)"
proof (cases "kr_trustedCAConfig k")
  case None
  then show ?thesis by (simp add: ensureAdditionalTrustedCA_def yields_return)
next
  case (Some c)
  then have "fresh i (cm_meta c)" "configMapUpToDate L c"
    using assms(2,3) by (simp_all add: freshResources_def upToDate_def trustedCAUpToDate_def)
  then show ?thesis
    using reads_ensureConfigMap [OF readsOnly_still, of L "c\<lparr>cm_meta := (cm_meta c)\<lparr>om_OwnerReferences := [controllerRef g i]\<rparr>\<rparr>"]
    by (auto simp: ensureAdditionalTrustedCA_def Some withController_fresh [OF assms(1)]
        configMapUpToDate_def intro!: yields_bind_keeps still_SetStatusCondition yields_reportErr)
qed

lemma still_ensureTrustedClusterCA:
  assumes "upToDate sha L k" and "resourcesFor i k"
  shows "yields (still lookup L c0) (ensureTrustedClusterCA r i k) (\<lambda>e. e = None)"
proof (cases "kr_trustedClusterCAConfig k")
  case None
  then show ?thesis by (simp add: ensureTrustedClusterCA_def yields_return)
next
  case (Some c)
  then have "L ConfigMapKind (namespacedName NameClusterTrustedCAVolume (instNamespace i)) \<noteq> None"
    using assms by (auto simp: upToDate_def clusterCAUpToDate_def resourcesFor_def Let_def)
  then show ?thesis
    by (simp add: ensureTrustedClusterCA_def Some)
      (rule yields_bind [OF still_findTrustedClusterCAConfig], auto intro: yields_return)
qed

lemma still_ensurePolicyEngineRoute:
  assumes "upToDate sha L k"
  shows "yields (still lookup L c0) (ensurePolicyEngineRoute r i k) (\<lambda>e. e = None)"
proof -
  obtain rt where rt: "routeInUse L k = Some rt"
    "(route_Spec rt)\<lparr>rs_TLS := rs_TLS (route_Spec (kr_policyEngineRoute k))\<rparr> =
       route_Spec (kr_policyEngineRoute k)"
    using assms by (auto simp: upToDate_def routeUpToDate_def)
  have "keeps (still lookup L c0) (case IngressURI rt [] of
      Inr uri \<Rightarrow> setPolicyEngineURI (URLString uri)
    | Inl err \<Rightarrow> handleErr r ''RouteIngressFailed'' (PlainError err))"
    by (intro keeps_case_sum still_handle)
  then show ?thesis
    unfolding ensurePolicyEngineRoute_def Let_def
    by (intro yields_bind [OF still_findExistingRoute])
      (simp add: rt yields_bind_keeps yields_return)
qed

lemma still_ensureDeployment:
  assumes "r_Scheme r = [g]" and "freshResources i k" and "upToDate sha L k"
  shows "yields (still lookup L c0) (ensureDeployment r i k sha) (\<lambda>e. e = None)"
proof -
  obtain d where d: "L DeploymentKind (keyOf (dep_meta (kr_deployment k))) = Some (DeploymentObj d)"
    "hasGraphDataInit d \<Longrightarrow> mergeDeploymentSpec k sha (dep_Spec d) = dep_Spec d"
    using assms(3) by (auto simp: upToDate_def deploymentUpToDate_def)
  have fr: "fresh i (dep_meta (kr_deployment k))" using assms(2) by (simp add: freshResources_def)
  show ?thesis
    unfolding ensureDeployment_def withController_fresh [OF assms(1) fr] Let_def
    by (intro yields_bind [OF still_getObj])
      (auto simp: d intro!: yields_return yields_bind_keeps still_handle)
qed

lemma still_ensureSteps:
  assumes "r_Scheme r = [g]" and "freshResources i k" and "resourcesFor i k" and "upToDate sha L k"
    and "f \<in> set (ensureSteps r i k)"
  shows "yields (still lookup L c0) f (\<lambda>e. e = None)"
  using assms(5) reads_managedSteps [OF readsOnly_still assms(1,2,4)] still_ensureAdditionalTrustedCA [OF assms(1,2,4)]
    still_ensureTrustedClusterCA [OF assms(4,3)] still_ensurePolicyEngineRoute [OF assms(4)]
  by (auto simp: ensureSteps_def)

lemma still_runUntilError:
  assumes "\<And>f. f \<in> set fs \<Longrightarrow> yields (still lookup L c0) f (\<lambda>e. e = None)"
  shows "yields (still lookup L c0) (runUntilError fs) (\<lambda>e. e = None)"
  using assms
proof (induction fs)
  case Nil
  then show ?case by (simp add: yields_return)
next
  case (Cons f fs)
  then have "yields (still lookup L c0) f (\<lambda>e. e = None)"
    "yields (still lookup L c0) (runUntilError fs) (\<lambda>e. e = None)"
    by simp_all
  then show ?case by (auto intro: yields_bind)
qed

lemma quiet_saveStatus:
  "quietSince c0 s \<Longrightarrow> run_state (saveStatus r i) s = (a, s') \<Longrightarrow> quietSince c0 s'"
  by (auto dest!: saveStatus_run simp: quietSince_def)

lemma still_ensureGraphDataSHA:
  assumes "r_Scheme r = [g]" and "podSettled i L"
  shows "yields (still lookup L c0) (ensureGraphDataSHA r i) (\<lambda>res. res = Inr (digestIn i L))"
proof (cases "Contains (us_GraphDataImage (us_Spec i)) ''@sha256''")
  case True
  then show ?thesis by (simp add: ensureGraphDataSHA_def digestIn_def yields_return)
next
  case False
  then obtain p where p: "L PodKind (podKey i) = Some (PodObj p)" "p_Phase p \<noteq> ''Succeeded''"
    "podStateOf L i = Reporting (podDigest p)"
    using assms(2) by (auto simp: podSettled_def podStateOf_Reporting)
  have sha: "digestIn i L = podDigest p" using False p(3) by (simp add: digestIn_def)
  show ?thesis
    unfolding ensureGraphDataSHA_def Let_def graphDataPod_controller [OF assms(1)]
    by (simp add: False, intro yields_bind_keeps [OF still_timeNow] yields_bind [OF still_getObj])
      (auto simp: p graphDataPod_key sha podDigest_def split: list.split
        intro!: yields_return yields_bind_keeps still_handle)
qed

lemma quiet_ensureAll:
  assumes "r_Scheme r = [g]" and "freshResources i k" and "resourcesFor i k" and "upToDate sha L k"
    and "podSettled i L" and "sha = digestIn i L"
    and "still lookup L c0 s" and "run_state (ensureAll r i k) s = (res, s')"
  shows "res = \<lparr>RequeueAfter = fiveMinutes, Err = None\<rparr> \<and> quietSince c0 s'"
proof -
  note sha = still_ensureGraphDataSHA [OF assms(1,5), folded assms(6)]
  have save: "triple (still lookup L c0)
      (do { SetStatusCondition r c; statusErr \<leftarrow> saveStatus r i; return (res :: reconcile_result) })
      (\<lambda>a s'. a = res \<and> quietSince c0 s')" for c res
    by (rule triple_bind [OF still_SetStatusCondition [unfolded keeps_def]], rule tripleI)
      (auto simp: still_def dest: quiet_saveStatus split: prod.splits)
  have "triple (still lookup L c0) (ensureAll r i k)
      (\<lambda>res s'. res = \<lparr>RequeueAfter = fiveMinutes, Err = None\<rparr> \<and> quietSince c0 s')"
    unfolding ensureAll_def
    by (rule triple_bind [OF still_SetStatusCondition [unfolded keeps_def]],
        rule triple_bind_value [OF still_runUntilError [OF still_ensureSteps [OF assms(1-4)]]],
        assumption, rule triple_bind_value [OF sha], unfold sum.case,
        rule triple_bind_value [OF still_ensureDeployment [OF assms(1,2,4)]], unfold option.case,
        rule save)
  then show ?thesis using assms(7,8) by (rule tripleD)
qed

text \<open>A reconcile whose reads succeed gets to the ensure steps, with the contents unchanged.\<close>

lemma reaches_ensureAll:
  assumes "validateRouteName i (nn_Name req) (nn_Namespace req) = None"
    and "desiredResources r i L = Some k" and "still lookup L c0 s"
  shows "\<exists>s1. still lookup L c0 s1 \<and>
    run_state (reconcileInstance r req i) s = run_state (ensureAll r i k) s1"
proof -
  obtain ps ca where reads: "pullSecretIn L = Some ps" "trustedCAIn L = Some ca"
    and k: "newKubeResources (r_getenv r) i (r_OperandImage r) ps ca (clusterCAIn (r_getenv r) i L) = Inr k"
    using assms(2) by (auto simp: desiredResources_def split: option.splits sum.splits)
  obtain a1 s1 where 1: "run_state (findPullSecret r) s = (a1, s1)" by fastforce
  note 1 = 1 yieldsD [OF still_findPullSecret assms(3) 1]
  obtain a2 s2 where 2: "run_state (findTrustedCAConfig r) s1 = (a2, s2)" by fastforce
  note 2 = 2 yieldsD [OF still_findTrustedCAConfig conjunct1 [OF 1(2)] 2]
  obtain a3 s3 where 3: "run_state (findTrustedClusterCAConfig r i) s2 = (a3, s3)" by fastforce
  note 3 = 3 yieldsD [OF still_findTrustedClusterCAConfig [where getenv = "r_getenv r"] conjunct1 [OF 2(2)] 3]
  have "run_state (reconcileInstance r req i) s = run_state (ensureAll r i k) s3"
    using 1 2 3 reads k assms(1) by (simp add: reconcileInstance_def)
  with 3(2) show ?thesis by blast
qed

end

end
