(* ===== verification/GraphDataPod.thy ===== *)
theory GraphDataPod
  imports Quiet
begin

text \<open>
  The graph-data pod, through which an UpdateService that names its graph-data image by tag learns
  the digest behind the tag: what \<open>ensureGraphDataSHA\<close> does in every state of the pod.
\<close>

section \<open>Lemmas\<close>

definition wantedPod :: "group_version_kind \<Rightarrow> update_service \<Rightarrow> int \<Rightarrow> pod" where
  "wantedPod g i now = (graphDataPod i now)\<lparr>p_meta :=
     (p_meta (graphDataPod i now))\<lparr>om_OwnerReferences := [controllerRef g i]\<rparr>\<rparr>"

lemma wantedPod_simps [simp]:
  "objKind (PodObj (wantedPod g i now)) = PodKind" "keyOf (p_meta (wantedPod g i now)) = podKey i"
  "p_Phase (wantedPod g i now) = []" "p_ContainerStatuses (wantedPod g i now) = []"
  by (simp_all add: wantedPod_def graphDataPod_key) (simp_all add: graphDataPod_def)

lemma sameObject_Pod:
  assumes "sameObject (PodObj a) ob"
  shows "\<exists>b. ob = PodObj b \<and> p_Phase b = p_Phase a \<and> p_ContainerStatuses b = p_ContainerStatuses a"
proof -
  obtain b where b: "ob = PodObj b" using assms by (cases ob) (auto simp: sameObject_def)
  with assms show ?thesis by (cases a; cases b) (auto simp: sameObject_def)
qed

text \<open>The requests of a step, after the read.\<close>

definition podRequests :: "group_version_kind \<Rightarrow> update_service \<Rightarrow> int \<Rightarrow> pod_state \<Rightarrow> api_call list" where
  "podRequests g i now st =
     (case st of
        NoPod \<Rightarrow> [Create (PodObj (wantedPod g i now))]
      | Reporting _ \<Rightarrow> []
      | Finished \<Rightarrow> [Delete (PodObj (wantedPod g i now))])"

context object_store
begin

text \<open>The first two steps: the time, and the pod that there is.\<close>

lemma ensureGraphDataSHA_start:
  fixes s :: "'w sess"
  assumes "r_Scheme r = [g]" and "\<not> Contains (us_GraphDataImage (us_Spec i)) ''@sha256''"
  shows "\<exists>now s1 e. lookup (se_world s1) = lookup (se_world s) \<and> IsNotFound e \<and>
    se_calls s1 = se_calls s @ [Get PodKind (podKey i)] \<and>
    run_state (ensureGraphDataSHA r i) s =
      run_state (case lookup (se_world s) PodKind (podKey i) of
         Some (PodObj found) \<Rightarrow>
           if p_Phase found = ''Succeeded'' then do {
             err' \<leftarrow> reportErr r ''DeleteGraphDataPodFailed'' (deleteObj r (PodObj (wantedPod g i now)));
             return (orDigest [] err')
           }
           else (case p_ContainerStatuses found of
               cs # _ \<Rightarrow> return (Inr (cs_ImageID cs))
             | [] \<Rightarrow> do {
                 handleErr r ''GraphDataPodStatusEmpty''
                   (PlainError ''Graph-Data pod returned empty container status'');
                 return (Inr [])
               })
       | _ \<Rightarrow> do {
           err' \<leftarrow> reportErr r ''CreateGraphDataPodFailed'' (createObj r (PodObj (wantedPod g i now)));
           return (orDigest [] err')
         }) s1"
proof -
  obtain now s0 where t: "run_state (timeNow r) s = (now, s0)" by (rule prod.exhaust)
  have s0: "lookup (se_world s0) = lookup (se_world s)" "se_calls s0 = se_calls s"
    using t clock by (auto simp: timeNow_def split: prod.splits) (metis snd_conv)
  define s1 where "s1 = s0\<lparr>se_calls := se_calls s0 @ [Get PodKind (podKey i)]\<rparr>"
  obtain e where e: "IsNotFound e" "run_state (getObj r PodKind asPod (podKey i)) s0 =
      (case lookup (se_world s0) PodKind (podKey i) of
         None \<Rightarrow> Inl e
       | Some ob \<Rightarrow> (case asPod ob of None \<Rightarrow> Inl wrongType | Some x \<Rightarrow> Inr x), s1)"
    using getObj_run [of PodKind asPod "podKey i" s0] by (auto simp: s1_def)
  have ref: "SetControllerReference [g] i (p_meta (graphDataPod i now)) =
      Inr ((p_meta (graphDataPod i now))\<lparr>om_OwnerReferences := [controllerRef g i]\<rparr>)"
    using graphDataPod_fresh [of i now] by (intro SetControllerReference_fresh) (auto simp: fresh_def)
  have pod: "\<exists>p. ob = PodObj p" if "lookup (se_world s) PodKind (podKey i) = Some ob" for ob
    using lookup_found [OF that] by (cases ob) auto
  show ?thesis
    using e pod s0
    by (intro exI [of _ now] exI [of _ s1] exI [of _ e])
      (auto simp: ensureGraphDataSHA_def assms t ref wantedPod_def [symmetric] s1_def Let_def
        split: option.split)
qed

lemma pod_at:
  "lookup w PodKind (podKey i) = None \<Longrightarrow> podStateOf (lookup w) i = NoPod"
  "lookup w PodKind (podKey i) = Some ob \<Longrightarrow> \<exists>p. ob = PodObj p \<and>
     podStateOf (lookup w) i = (if p_Phase p = ''Succeeded'' then Finished else Reporting (podDigest p))"
proof -
  show "lookup w PodKind (podKey i) = None \<Longrightarrow> podStateOf (lookup w) i = NoPod"
    by (simp add: podStateOf_def)
  assume a: "lookup w PodKind (podKey i) = Some ob"
  obtain p where p: "ob = PodObj p" using lookup_found [OF a] by (cases ob) auto
  then show "\<exists>p. ob = PodObj p \<and>
     podStateOf (lookup w) i = (if p_Phase p = ''Succeeded'' then Finished else Reporting (podDigest p))"
    using a by (intro exI [of _ p]) (simp add: podStateOf_def)
qed

lemma graph_data_step:
  fixes s :: "'w sess"
  assumes "r_Scheme r = [g]" and "\<not> Contains (us_GraphDataImage (us_Spec i)) ''@sha256''"
  shows "\<exists>s' now. run_state (ensureGraphDataSHA r i) s = (Inr (snd (podStep (podStateOf (lookup (se_world s)) i))), s') \<and>
    podStateOf (lookup (se_world s')) i = fst (podStep (podStateOf (lookup (se_world s)) i)) \<and>
    se_calls s' = se_calls s @ Get PodKind (podKey i) #
      podRequests g i now (podStateOf (lookup (se_world s)) i) \<and>
    agreeExcept {(PodKind, podKey i)} (lookup (se_world s)) (lookup (se_world s'))"
proof -
  obtain now s1 e where s1: "lookup (se_world s1) = lookup (se_world s)"
    "se_calls s1 = se_calls s @ [Get PodKind (podKey i)]"
    and run: "run_state (ensureGraphDataSHA r i) s =
      run_state (case lookup (se_world s) PodKind (podKey i) of
         Some (PodObj found) \<Rightarrow>
           if p_Phase found = ''Succeeded'' then do {
             err' \<leftarrow> reportErr r ''DeleteGraphDataPodFailed'' (deleteObj r (PodObj (wantedPod g i now)));
             return (orDigest [] err')
           }
           else (case p_ContainerStatuses found of
               cs # _ \<Rightarrow> return (Inr (cs_ImageID cs))
             | [] \<Rightarrow> do {
                 handleErr r ''GraphDataPodStatusEmpty''
                   (PlainError ''Graph-Data pod returned empty container status'');
                 return (Inr [])
               })
       | _ \<Rightarrow> do {
           err' \<leftarrow> reportErr r ''CreateGraphDataPodFailed'' (createObj r (PodObj (wantedPod g i now)));
           return (orDigest [] err')
         }) s1"
    using ensureGraphDataSHA_start [OF assms, of s] by blast
  let ?ob = "PodObj (wantedPod g i now)"
  show ?thesis
  proof (cases "lookup (se_world s) PodKind (podKey i)")
    case None
    then have "lookup (se_world s1) (objKind ?ob) (objKey ?ob) = None" by (simp add: s1)
    from createObj_run [OF this] obtain w' ob' where
      c: "run_state (createObj r ?ob) s1 = (None, s1\<lparr>se_world := w', se_calls := se_calls s1 @ [Create ?ob]\<rparr>)"
        "sameObject ?ob ob'" "lookup w' PodKind (podKey i) = Some ob'"
        "agreeExcept {(PodKind, podKey i)} (lookup (se_world s)) (lookup w')"
      by (auto simp: agreeExcept_def s1(1))
    obtain b where "ob' = PodObj b" "p_Phase b = []" "p_ContainerStatuses b = []"
      using sameObject_Pod [OF c(2)] by auto
    then have "podStateOf (lookup w') i = Reporting []" by (simp add: podStateOf_def c(3) podDigest_def)
    then show ?thesis
      using None c(1,4) s1(2) by (auto simp: run reportErr_def orDigest_def pod_at(1) podRequests_def)
  next
    case (Some ob)
    then obtain p where p: "ob = PodObj p"
      "podStateOf (lookup (se_world s)) i =
         (if p_Phase p = ''Succeeded'' then Finished else Reporting (podDigest p))"
      using pod_at(2) by blast
    show ?thesis
    proof (cases "p_Phase p = ''Succeeded''")
      case True
      have "lookup (se_world s1) (objKind ?ob) (objKey ?ob) \<noteq> None" using Some by (simp add: s1)
      from deleteObj_run [OF this] obtain w' where
        c: "run_state (deleteObj r ?ob) s1 = (None, s1\<lparr>se_world := w', se_calls := se_calls s1 @ [Delete ?ob]\<rparr>)"
          "lookup w' PodKind (podKey i) = None"
          "agreeExcept {(PodKind, podKey i)} (lookup (se_world s)) (lookup w')"
        by (auto simp: agreeExcept_def s1(1))
      then show ?thesis
        using Some p True s1(2) c(3) by (auto simp: run reportErr_def orDigest_def pod_at(1) podRequests_def)
    next
      case False
      obtain u s2 where h: "run_state (handleErr r ''GraphDataPodStatusEmpty''
          (PlainError ''Graph-Data pod returned empty container status'')) s1 = (u, s2)"
        by (rule prod.exhaust)
      have "lookup (se_world s2) = lookup (se_world s)"
        using keepsD [OF still_handle(1) still_start h] by (simp add: still_def s1)
      moreover have "se_calls s2 = se_calls s1"
        using h SetStatusCondition_effect [of r _ s1 s2] by (auto simp: handleErr_def conditionSet_def)
      ultimately show ?thesis
        using Some p False s1 h
        by (cases "p_ContainerStatuses p") (simp_all add: run podRequests_def podDigest_def agreeExcept_def)
    qed
  qed
qed

lemma ensureGraphDataSHA_effect:
  fixes s :: "'w sess"
  assumes "r_Scheme r = [g]"
  shows "\<exists>s'. run_state (ensureGraphDataSHA r i) s = (Inr (digestIn i (lookup (se_world s))), s') \<and>
    agreeExcept {(PodKind, podKey i)} (lookup (se_world s)) (lookup (se_world s')) \<and>
    podStateOf (lookup (se_world s')) i = podAfter i (lookup (se_world s))"
proof (cases "Contains (us_GraphDataImage (us_Spec i)) ''@sha256''")
  case True
  then show ?thesis by (simp add: ensureGraphDataSHA_def digestIn_def podAfter_def agreeExcept_def)
next
  case False
  then show ?thesis using graph_data_step [OF assms False, of s] by (auto simp: digestIn_def podAfter_def)
qed

end

end
