(* ===== verification/Converge.thy ===== *)
theory Converge
  imports GraphDataPod
begin

text \<open>
  On an object store a reconcile brings the contents up to date: every \<open>ensure\<close> function succeeds,
  establishes its part of \<open>upToDate\<close> and changes nothing but its own object, and no two of them
  share an object, so that what one has established the next ones keep.
\<close>

section \<open>Steps that establish a part\<close>

definition dependsOn :: "(kind \<times> namespaced_name) set \<Rightarrow> (contents \<Rightarrow> bool) \<Rightarrow> bool" where
  "dependsOn K G \<longleftrightarrow> (\<forall>L L'. (\<forall>(k, key) \<in> K. L' k key = L k key) \<longrightarrow> G L \<longrightarrow> G L')"

text \<open>
  From contents with \<open>Pre\<close> the step succeeds, establishes \<open>G\<close>, keeps \<open>Pre\<close> and stays within \<open>K\<close>.
\<close>

definition establishes ::
    "('w \<Rightarrow> contents) \<Rightarrow> (contents \<Rightarrow> bool) \<Rightarrow> (kind \<times> namespaced_name) set \<Rightarrow> (contents \<Rightarrow> bool) \<Rightarrow>
       ('w sess, go_error option) state \<Rightarrow> bool" where
  "establishes lookup Pre K G m \<longleftrightarrow>
     (\<forall>s. Pre (lookup (se_world s)) \<longrightarrow>
        (\<exists>s'. run_state m s = (None, s') \<and> G (lookup (se_world s')) \<and> Pre (lookup (se_world s')) \<and>
           agreeExcept K (lookup (se_world s)) (lookup (se_world s'))))"

lemma agreeExcept_trans:
  "agreeExcept K L L' \<Longrightarrow> agreeExcept K' L' L'' \<Longrightarrow> agreeExcept (K \<union> K') L L''"
  by (simp add: agreeExcept_def)

lemma dependsOn_agree:
  "dependsOn K G \<Longrightarrow> agreeExcept K' L L' \<Longrightarrow> K \<inter> K' = {} \<Longrightarrow> G L \<Longrightarrow> G L'"
  unfolding dependsOn_def agreeExcept_def by (erule allE [of _ L], erule allE [of _ L']) blast

lemma establishes_bind:
  fixes m n :: "('w sess, go_error option) state"
  assumes "establishes lookup Pre K1 G1 m" and "establishes lookup Pre K2 G2 n"
    and "dependsOn K1 G1" and "K1 \<inter> K2 = {}"
  shows "establishes lookup Pre (K1 \<union> K2) (\<lambda>L. G1 L \<and> G2 L)
    (do { err \<leftarrow> m; (case err of None \<Rightarrow> n | Some e \<Rightarrow> return (Some e)) })"
  unfolding establishes_def
proof (intro allI impI)
  fix s :: "'w sess"
  assume "Pre (lookup (se_world s))"
  then obtain s1 where 1: "run_state m s = (None, s1)" "G1 (lookup (se_world s1))"
    "Pre (lookup (se_world s1))" "agreeExcept K1 (lookup (se_world s)) (lookup (se_world s1))"
    using assms(1) unfolding establishes_def by blast
  then obtain s2 where 2: "run_state n s1 = (None, s2)" "G2 (lookup (se_world s2))"
    "Pre (lookup (se_world s2))" "agreeExcept K2 (lookup (se_world s1)) (lookup (se_world s2))"
    using assms(2) unfolding establishes_def by blast
  have "G1 (lookup (se_world s2))"
    using dependsOn_agree [OF assms(3) 2(4) assms(4)] 1(2) by blast
  then show "\<exists>s'. run_state (do { err \<leftarrow> m; (case err of None \<Rightarrow> n | Some e \<Rightarrow> return (Some e)) }) s =
        (None, s') \<and> (G1 (lookup (se_world s')) \<and> G2 (lookup (se_world s'))) \<and>
      Pre (lookup (se_world s')) \<and>
      agreeExcept (K1 \<union> K2) (lookup (se_world s)) (lookup (se_world s'))"
    using 1 2 agreeExcept_trans [OF 1(4) 2(4)] by auto
qed

text \<open>A list of steps, each with its keys and its part.\<close>

type_synonym 'w part =
  "('w sess, go_error option) state \<times> (kind \<times> namespaced_name) set \<times> (contents \<Rightarrow> bool)"

definition partOK :: "('w \<Rightarrow> contents) \<Rightarrow> (contents \<Rightarrow> bool) \<Rightarrow> 'w part \<Rightarrow> bool" where
  "partOK lookup Pre p \<longleftrightarrow>
     (case p of (m, K, G) \<Rightarrow> establishes lookup Pre K G m \<and> dependsOn K G)"

lemma establishes_runUntilError:
  assumes "list_all (partOK lookup Pre) ps"
    and "sorted_wrt (\<lambda>p q. fst (snd p) \<inter> fst (snd q) = {}) ps"
  shows "establishes lookup Pre (\<Union>p \<in> set ps. fst (snd p)) (\<lambda>L. \<forall>p \<in> set ps. snd (snd p) L)
    (runUntilError (map fst ps))"
  using assms
proof (induction ps)
  case Nil
  then show ?case by (auto simp: establishes_def agreeExcept_def)
next
  case (Cons p ps)
  obtain m K G where p: "p = (m, K, G)" by (cases p)
  have "K \<inter> (\<Union>p \<in> set ps. fst (snd p)) = {}"
    using Cons.prems(2) by (auto simp: p)
  from establishes_bind [OF _ _ _ this, of lookup Pre G m] Cons show ?case
    by (simp add: p partOK_def)
qed

lemma establishes_frame:
  assumes "establishes lookup (\<lambda>_. True) K G m" and "dependsOn Kp Pre" and "Kp \<inter> K = {}"
  shows "establishes lookup Pre K G m"
  using assms(1) dependsOn_agree [OF assms(2) _ assms(3)] unfolding establishes_def by blast

lemma establishesD:
  fixes s :: "'w sess"
  assumes "establishes lookup Pre K G m" and "Pre (lookup (se_world s))"
  shows "\<exists>s'. run_state m s = (None, s') \<and> G (lookup (se_world s')) \<and> Pre (lookup (se_world s')) \<and>
    agreeExcept K (lookup (se_world s)) (lookup (se_world s'))"
  using assms unfolding establishes_def by blast

lemma establishes_reportErr:
  "establishes lookup Pre K G m \<Longrightarrow> establishes lookup Pre K G (reportErr r reason m)"
  unfolding establishes_def reportErr_def by (fastforce split: prod.splits)

definition routeKeys :: "kube_resources \<Rightarrow> (kind \<times> namespaced_name) set" where
  "routeKeys k =
     {(RouteKind, keyOf (route_meta (kr_policyEngineOldRoute k))),
      (RouteKind, keyOf (route_meta (kr_policyEngineRoute k)))}"

lemma routeInUse_cong:
  assumes "L' RouteKind (keyOf (route_meta (kr_policyEngineOldRoute k))) =
           L RouteKind (keyOf (route_meta (kr_policyEngineOldRoute k)))"
    and "L' RouteKind (keyOf (route_meta (kr_policyEngineRoute k))) =
         L RouteKind (keyOf (route_meta (kr_policyEngineRoute k)))"
  shows "routeInUse L' k = routeInUse L k"
  unfolding routeInUse_def assms by (rule refl)

lemma depends_upToDate:
  "dependsOn {(ConfigMapKind, keyOf (cm_meta cm))} (\<lambda>L. configMapUpToDate L cm)"
  "dependsOn {(SecretKind, keyOf (sec_meta sec))} (\<lambda>L. secretUpToDate L sec)"
  "dependsOn {(ServiceKind, keyOf (svc_meta svc))} (\<lambda>L. serviceUpToDate L svc)"
  "dependsOn {(PDBKind, keyOf (pdb_meta pdb))} (\<lambda>L. pdbUpToDate L pdb)"
  "dependsOn {(NetworkPolicyKind, keyOf (np_meta np))} (\<lambda>L. networkPolicyUpToDate L np)"
  "dependsOn (routeKeys k) (\<lambda>L. routeUpToDate L k)"
  "dependsOn {(DeploymentKind, keyOf (dep_meta (kr_deployment k)))} (\<lambda>L. deploymentUpToDate sha L k)"
  by (auto simp: dependsOn_def configMapUpToDate_def secretUpToDate_def serviceUpToDate_def
      pdbUpToDate_def networkPolicyUpToDate_def routeUpToDate_def deploymentUpToDate_def
      routeKeys_def cong: routeInUse_cong)

text \<open>
  The ConfigMap for the cluster's CA is rendered without owners whenever there is none yet; a
  found one, which is used as it is, may have owners.
\<close>

definition caKey :: "update_service \<Rightarrow> (kind \<times> namespaced_name) set" where
  "caKey i = {(ConfigMapKind, namespacedName NameClusterTrustedCAVolume (instNamespace i))}"

definition caReady :: "update_service \<Rightarrow> kube_resources \<Rightarrow> contents \<Rightarrow> bool" where
  "caReady i k L \<longleftrightarrow>
     pred_option (\<lambda>c. L ConfigMapKind (namespacedName NameClusterTrustedCAVolume (instNamespace i)) = None
       \<longrightarrow> fresh i (cm_meta c)) (kr_trustedClusterCAConfig k)"

lemma depends_caReady: "dependsOn (caKey i) (caReady i k)"
  by (auto simp: dependsOn_def caKey_def caReady_def option.pred_set)

lemma desired_caReady:
  assumes "desiredResources r i L = Some k"
  shows "caReady i k L"
proof -
  obtain ps ca where
    k: "newKubeResources (r_getenv r) i (r_OperandImage r) ps ca (clusterCAIn (r_getenv r) i L) = Inr k"
    using assms by (auto simp: desiredResources_def split: option.splits sum.splits)
  show ?thesis
    by (auto simp: caReady_def newKubeResources_fields(6) [OF k] clusterCAIn_def
        newTrustedClusterCAConfig_def option.pred_set split: if_splits)
qed

section \<open>The list of parts\<close>

definition parts :: "'w reconciler \<Rightarrow> update_service \<Rightarrow> kube_resources \<Rightarrow> 'w part list" where
  "parts r i k =
     [(ensureConfig r i k, {(ConfigMapKind, keyOf (cm_meta (kr_graphBuilderConfig k)))},
        \<lambda>L. configMapUpToDate L (kr_graphBuilderConfig k)),
      (ensurePullSecret r i k, {(SecretKind, keyOf (sec_meta (kr_pullSecret k)))},
        \<lambda>L. secretUpToDate L (kr_pullSecret k)),
      (ensureEnvConfig r i k, {(ConfigMapKind, keyOf (cm_meta (kr_envConfig k)))},
        \<lambda>L. configMapUpToDate L (kr_envConfig k)),
      (ensureTrustedClusterCA r i k, caKey i, \<lambda>L. clusterCAUpToDate L k),
      (ensureAdditionalTrustedCA r i k,
        {(ConfigMapKind, namespacedName (nameAdditionalTrustedCA i) (instNamespace i))},
        \<lambda>L. trustedCAUpToDate L k),
      (ensureGraphBuilderService r i k, {(ServiceKind, keyOf (svc_meta (kr_graphBuilderService k)))},
        \<lambda>L. serviceUpToDate L (kr_graphBuilderService k)),
      (ensurePolicyEngineService r i k, {(ServiceKind, keyOf (svc_meta (kr_policyEngineService k)))},
        \<lambda>L. serviceUpToDate L (kr_policyEngineService k)),
      (ensurePodDisruptionBudget r i k, {(PDBKind, keyOf (pdb_meta (kr_podDisruptionBudget k)))},
        \<lambda>L. pdbUpToDate L (kr_podDisruptionBudget k)),
      (ensurePolicyEngineRoute r i k, routeKeys k, \<lambda>L. routeUpToDate L k),
      (ensureNetworkPolicy r i k, {(NetworkPolicyKind, keyOf (np_meta (kr_networkPolicy k)))},
        \<lambda>L. networkPolicyUpToDate L (kr_networkPolicy k))]"

lemma parts_steps: "map fst (parts r i k) = ensureSteps r i k"
  by (simp add: parts_def ensureSteps_def)

lemma parts_disjoint:
  assumes "resourcesFor i k" and "instName i \<noteq> ''cluster''"
  shows "sorted_wrt (\<lambda>p q. fst (snd p) \<inter> fst (snd q) = {}) (parts r i k)"
proof -
  note keys = assms(1) [unfolded resourcesFor_def Let_def]
  note distinct = configMapNames_distinct [of i, unfolded configMapNames_def, simplified]
  have "nameGraphBuilderService i \<noteq> namePolicyEngineService i" by (simp add: name_defs)
  then show ?thesis
    using keys distinct assms(2)
    by (auto simp: parts_def caKey_def routeKeys_def namespacedName_def)
qed

lemma parts_owned:
  assumes "resourcesFor i k" and "p \<in> set (parts r i k)" and "x \<in> fst (snd p)"
  shows "x \<in> set (ownedObjects i)"
  using assms by (auto simp: parts_def resourcesFor_def owned_simps caKey_def routeKeys_def Let_def)

text \<open>The steps touch neither the Deployment nor the graph-data pod.\<close>

definition stepKeys :: "update_service \<Rightarrow> (kind \<times> namespaced_name) set" where
  "stepKeys i = {x \<in> set (ownedObjects i). fst x \<noteq> DeploymentKind \<and> fst x \<noteq> PodKind}"

lemma parts_stepKeys:
  assumes "resourcesFor i k" and "p \<in> set (parts r i k)" and "x \<in> fst (snd p)"
  shows "x \<in> stepKeys i"
  using parts_owned [OF assms] assms(2,3) by (auto simp: stepKeys_def parts_def caKey_def routeKeys_def)

text \<open>The part of \<open>upToDate\<close> that the steps establish; the rest is the Deployment.\<close>

definition upToDateSteps :: "kube_resources \<Rightarrow> contents \<Rightarrow> bool" where
  "upToDateSteps k L \<longleftrightarrow>
     configMapUpToDate L (kr_graphBuilderConfig k) \<and> secretUpToDate L (kr_pullSecret k) \<and>
     configMapUpToDate L (kr_envConfig k) \<and> clusterCAUpToDate L k \<and> trustedCAUpToDate L k \<and>
     serviceUpToDate L (kr_graphBuilderService k) \<and> serviceUpToDate L (kr_policyEngineService k) \<and>
     pdbUpToDate L (kr_podDisruptionBudget k) \<and> routeUpToDate L k \<and>
     networkPolicyUpToDate L (kr_networkPolicy k)"

lemma upToDate_split: "upToDate sha L k \<longleftrightarrow> upToDateSteps k L \<and> deploymentUpToDate sha L k"
  by (auto simp: upToDate_def upToDateSteps_def)

lemma upToDate_cong:
  assumes "\<And>kd. kd \<in> {ConfigMapKind, SecretKind, ServiceKind, PDBKind, RouteKind, NetworkPolicyKind} \<Longrightarrow>
      L' kd = L kd"
  shows "upToDateSteps k L' \<longleftrightarrow> upToDateSteps k L"
proof -
  have "configMapUpToDate L' = configMapUpToDate L" "secretUpToDate L' = secretUpToDate L"
    "serviceUpToDate L' = serviceUpToDate L" "pdbUpToDate L' = pdbUpToDate L"
    "networkPolicyUpToDate L' = networkPolicyUpToDate L" "routeInUse L' k = routeInUse L k"
    "clusterCAUpToDate L' = clusterCAUpToDate L"
    by (auto simp: fun_eq_iff configMapUpToDate_def secretUpToDate_def serviceUpToDate_def
        pdbUpToDate_def networkPolicyUpToDate_def clusterCAUpToDate_def assms
        intro: routeInUse_cong)
  then show ?thesis by (simp add: upToDateSteps_def trustedCAUpToDate_def routeUpToDate_def)
qed

lemma upToDateSteps_frame:
  "upToDateSteps k L \<Longrightarrow> agreeExcept {(DeploymentKind, key)} L L' \<Longrightarrow> upToDateSteps k L'"
  "upToDateSteps k L \<Longrightarrow> agreeExcept {(PodKind, key)} L L' \<Longrightarrow> upToDateSteps k L'"
  by (subst upToDate_cong [of L' L]; auto simp: agreeExcept_def fun_eq_iff)+

lemma upToDate_status: "upToDate sha (L(UpdateServiceKind := f)) k \<longleftrightarrow> upToDate sha L k"
  unfolding upToDate_split by (subst upToDate_cong [of _ L]) (auto simp: deploymentUpToDate_def)

lemma establishes_weaken:
  assumes "establishes lookup Pre K G m" and "K \<subseteq> K'" and "\<And>L. G L \<Longrightarrow> G' L"
  shows "establishes lookup Pre K' G' m"
  using assms unfolding establishes_def agreeExcept_def by (meson subsetD)

section \<open>One lemma per function\<close>

context object_store
begin

lemma agreeExcept_iff:
  "(\<forall>k' key'. (k', key') \<noteq> (k, key) \<longrightarrow> L' k' key' = L k' key') \<longleftrightarrow> agreeExcept {(k, key)} L L'"
  by (auto simp: agreeExcept_def)

lemma establishes_ensureConfigMap:
  "establishes lookup (\<lambda>_. True) {(ConfigMapKind, keyOf (cm_meta cm))}
     (\<lambda>L. configMapUpToDate L cm) (ensureConfigMap r cm)"
  unfolding establishes_def
  using configMaps.converges [of cm, unfolded agreeExcept_iff]
  by (simp add: configMaps.settled_def configMapUpToDate_def adjust_iff) blast

lemma establishes_ensureSecret:
  "establishes lookup (\<lambda>_. True) {(SecretKind, keyOf (sec_meta sec))}
     (\<lambda>L. secretUpToDate L sec) (ensureSecret r sec)"
  unfolding establishes_def
  using secrets.converges [of sec, unfolded agreeExcept_iff]
  by (simp add: secrets.settled_def secretUpToDate_def adjust_iff) blast

lemma establishes_ensureService:
  "establishes lookup (\<lambda>_. True) {(ServiceKind, keyOf (svc_meta svc))}
     (\<lambda>L. serviceUpToDate L svc) (ensureService r svc)"
  unfolding establishes_def
  using services.converges [of svc, unfolded agreeExcept_iff]
  by (simp add: services.settled_def serviceUpToDate_def adjust_iff) blast

lemma establishes_syncPodDisruptionBudget:
  "establishes lookup (\<lambda>_. True) {(PDBKind, keyOf (pdb_meta pdb))}
     (\<lambda>L. pdbUpToDate L pdb) (syncPodDisruptionBudget r pdb)"
  unfolding establishes_def
  using pdbs.converges [of pdb, unfolded agreeExcept_iff]
  by (simp add: pdbs.settled_def pdbUpToDate_def adjust_iff) blast

lemma establishes_syncNetworkPolicy:
  "establishes lookup (\<lambda>_. True) {(NetworkPolicyKind, keyOf (np_meta np))}
     (\<lambda>L. networkPolicyUpToDate L np) (syncNetworkPolicy r np)"
  unfolding establishes_def
  using networkPolicies.converges [of np, unfolded agreeExcept_iff]
  by (simp add: networkPolicies.settled_def networkPolicyUpToDate_def adjust_iff) blast

section \<open>The Route\<close>

lemma sameObject_Route:
  assumes "sameObject (RouteObj a) ob"
  shows "\<exists>b. ob = RouteObj b \<and> route_Spec b = route_Spec a \<and>
    keyOf (route_meta b) = keyOf (route_meta a)"
proof -
  obtain b where b: "ob = RouteObj b" using assms kind_range(7) [of ob] by (auto simp: sameObject_def)
  with assms show ?thesis by (cases a; cases b) (auto simp: sameObject_def)
qed

lemma route_at:
  "Option.bind (lookup w RouteKind key) asRoute = None \<longleftrightarrow> lookup w RouteKind key = None"
  "Option.bind (lookup w RouteKind key) asRoute = Some rt \<longleftrightarrow> lookup w RouteKind key = Some (RouteObj rt)"
  "lookup w RouteKind key = Some (RouteObj rt) \<Longrightarrow> keyOf (route_meta rt) = key"
  using lookup_found [of w RouteKind key]
  by (cases "lookup w RouteKind key"; auto dest!: kind_range(7))+

lemma routeInUse_found:
  assumes "routeInUse (lookup w) k = Some rt"
  shows "lookup w RouteKind (keyOf (route_meta rt)) = Some (RouteObj rt)"
    and "keyOf (route_meta rt) = keyOf (route_meta (kr_policyEngineOldRoute k)) \<or>
      keyOf (route_meta rt) = keyOf (route_meta (kr_policyEngineRoute k)) \<and>
      lookup w RouteKind (keyOf (route_meta (kr_policyEngineOldRoute k))) = None"
  using assms route_at(3)
  by (auto simp: routeInUse_def route_at(1,2) split: option.splits)

lemma routeInUse_None:
  assumes "routeInUse (lookup w) k = None"
  shows "lookup w RouteKind (keyOf (route_meta (kr_policyEngineOldRoute k))) = None"
    and "lookup w RouteKind (keyOf (route_meta (kr_policyEngineRoute k))) = None"
  using assms by (auto simp: routeInUse_def route_at(1,2) split: option.splits)

text \<open>Storing a Route under the key of the Route in use makes it the Route in use.\<close>

lemma routeInUse_stored:
  assumes "L = lookup w" and "routeInUse L k = Some rt"
  shows "routeInUse (L(RouteKind := (L RouteKind)(keyOf (route_meta rt) := Some (RouteObj b)))) k = Some b"
  using routeInUse_found(2) [OF assms(2) [unfolded assms(1)]]
  by (auto simp: routeInUse_def assms(1))

lemma routeInUse_created:
  assumes "L = lookup w" and "routeInUse L k = None"
  shows "routeInUse (L(RouteKind := (L RouteKind)
      (keyOf (route_meta (kr_policyEngineRoute k)) := Some (RouteObj b)))) k = Some b"
  using routeInUse_None [OF assms(2) [unfolded assms(1)]] by (simp add: routeInUse_def assms(1))

lemma create_route:
  fixes s :: "'w sess"
  assumes "r_Scheme r = [g]" and "fresh i (route_meta (kr_policyEngineRoute k))"
    and find: "run_state (findExistingRoute r k) s = (Inr None, s1)"
    and L: "lookup (se_world s1) = lookup (se_world s)"
    and None: "routeInUse (lookup (se_world s)) k = None"
  shows "\<exists>s'. run_state (ensurePolicyEngineRoute r i k) s = (None, s') \<and>
    routeUpToDate (lookup (se_world s')) k \<and>
    agreeExcept (routeKeys k) (lookup (se_world s)) (lookup (se_world s'))"
proof -
  let ?L = "lookup (se_world s)" and ?rt = "kr_policyEngineRoute k"
  let ?ob = "RouteObj (?rt\<lparr>route_meta := (route_meta ?rt)\<lparr>om_OwnerReferences := [controllerRef g i]\<rparr>\<rparr>)"
  have "lookup (se_world s1) (objKind ?ob) (objKey ?ob) = None"
    using routeInUse_None(2) [OF None] by (simp add: L)
  from createObj_run [OF this] obtain w' ob' where
    c: "run_state (createObj r ?ob) s1 = (None, s1\<lparr>se_world := w', se_calls := se_calls s1 @ [Create ?ob]\<rparr>)"
      "sameObject ?ob ob'"
      "lookup w' = ?L(RouteKind := (?L RouteKind)(keyOf (route_meta ?rt) := Some ob'))"
    by (auto simp: L)
  obtain b where b: "ob' = RouteObj b" "route_Spec b = route_Spec ?rt"
    using sameObject_Route [OF c(2)] by auto
  have "routeUpToDate (lookup w') k"
    using routeInUse_created [OF refl None, of b] by (simp add: routeUpToDate_def c(3) b)
  moreover have "run_state (ensurePolicyEngineRoute r i k) s =
      (None, s1\<lparr>se_world := w', se_calls := se_calls s1 @ [Create ?ob]\<rparr>)"
    using find c(1)
    by (simp add: ensurePolicyEngineRoute_def Let_def withController_fresh [OF assms(1,2)] reportErr_def)
  ultimately show ?thesis by (auto simp: c(3) agreeExcept_def routeKeys_def)
qed

lemma update_route:
  fixes s :: "'w sess"
  assumes find: "run_state (findExistingRoute r k) s = (Inr (Some rt), s1)"
    and L: "lookup (se_world s1) = lookup (se_world s)"
    and Some: "routeInUse (lookup (se_world s)) k = Some rt"
  shows "\<exists>s'. run_state (ensurePolicyEngineRoute r i k) s = (None, s') \<and>
    routeUpToDate (lookup (se_world s')) k \<and>
    agreeExcept (routeKeys k) (lookup (se_world s)) (lookup (se_world s'))"
proof -
  let ?L = "lookup (se_world s)" and ?rt = "kr_policyEngineRoute k"
  let ?uri = "case IngressURI rt [] of
      Inr uri \<Rightarrow> setPolicyEngineURI (URLString uri)
    | Inl err \<Rightarrow> handleErr r ''RouteIngressFailed'' (PlainError err)"
  obtain u s2 where uri: "run_state ?uri s1 = (u, s2)" by (rule prod.exhaust)
  have "keeps (still lookup ?L (se_calls s1)) ?uri" by (intro keeps_case_sum still_handle)
  from keepsD [OF this _ uri] have s2: "lookup (se_world s2) = ?L"
    using still_start [where s = s1] by (simp add: L still_def)
  show ?thesis
  proof (cases "(route_Spec rt)\<lparr>rs_TLS := rs_TLS (route_Spec ?rt)\<rparr> = route_Spec ?rt")
    case True
    then have "run_state (ensurePolicyEngineRoute r i k) s = (None, s2)"
      using find uri by (simp add: ensurePolicyEngineRoute_def Let_def)
    then show ?thesis
      using True Some by (auto simp: s2 routeUpToDate_def agreeExcept_def)
  next
    case False
    let ?ob = "RouteObj (updatedRoute rt ?rt)"
    note found = routeInUse_found [OF Some]
    have "lookup (se_world s2) (objKind ?ob) (objKey ?ob) \<noteq> None"
      using found(1) by (simp add: s2 updatedRoute_def)
    from updateObj_run [OF this] obtain w' ob' where
      c: "run_state (updateObj r ?ob) s2 =
            (None, s2\<lparr>se_world := w', se_calls := se_calls s2 @ [Update ?ob]\<rparr>)"
        "sameObject ?ob ob'"
        "lookup w' = ?L(RouteKind := (?L RouteKind)(keyOf (route_meta rt) := Some ob'))"
      by (auto simp: s2 updatedRoute_def)
    obtain b where b: "ob' = RouteObj b" "route_Spec b = route_Spec (updatedRoute rt ?rt)"
      using sameObject_Route [OF c(2)] by auto
    have "routeUpToDate (lookup w') k"
      using routeInUse_stored [OF refl Some, of b] by (simp add: routeUpToDate_def c(3) b updatedRoute_def)
    moreover have "run_state (ensurePolicyEngineRoute r i k) s =
        (None, s2\<lparr>se_world := w', se_calls := se_calls s2 @ [Update ?ob]\<rparr>)"
      using find uri c(1) False
      by (simp add: ensurePolicyEngineRoute_def Let_def reportOnly_def)
    ultimately show ?thesis using found(2) by (auto simp: c(3) agreeExcept_def routeKeys_def)
  qed
qed

lemma establishes_ensurePolicyEngineRoute:
  assumes "r_Scheme r = [g]" and "fresh i (route_meta (kr_policyEngineRoute k))"
  shows "establishes lookup (\<lambda>_. True) (routeKeys k) (\<lambda>L. routeUpToDate L k)
    (ensurePolicyEngineRoute r i k)"
  unfolding establishes_def
proof (intro allI impI)
  fix s :: "'w sess"
  obtain a s1 where find: "run_state (findExistingRoute r k) s = (a, s1)" by (rule prod.exhaust)
  from yieldsD [OF still_findExistingRoute still_start find]
  have "lookup (se_world s1) = lookup (se_world s)" "a = Inr (routeInUse (lookup (se_world s)) k)"
    by (simp_all add: still_def)
  with create_route [OF assms, of s s1] update_route [of k s _ s1 i] find
  show "\<exists>s'. run_state (ensurePolicyEngineRoute r i k) s = (None, s') \<and>
      routeUpToDate (lookup (se_world s')) k \<and> True \<and>
      agreeExcept (routeKeys k) (lookup (se_world s)) (lookup (se_world s'))"
    by (cases "routeInUse (lookup (se_world s)) k") simp_all
qed

section \<open>The Deployment\<close>

lemma sameObject_Deployment:
  assumes "sameObject (DeploymentObj a) ob"
  shows "\<exists>b. ob = DeploymentObj b \<and> dep_Spec b = dep_Spec a"
  using assms kind_range(6) [of ob] stripMeta_inject(6) [of a] by (auto simp: sameObject_def)

lemma create_deployment:
  fixes s :: "'w sess"
  assumes "r_Scheme r = [g]" and "newKubeResources getenv i img ps ca cca = Inr k"
    and None: "lookup (se_world s) DeploymentKind (keyOf (dep_meta (kr_deployment k))) = None"
  shows "\<exists>s'. run_state (ensureDeployment r i k sha) s = (None, s') \<and>
    deploymentUpToDate [] (lookup (se_world s')) k \<and>
    agreeExcept {(DeploymentKind, keyOf (dep_meta (kr_deployment k)))}
      (lookup (se_world s)) (lookup (se_world s'))"
proof -
  let ?d = "kr_deployment k" let ?key = "keyOf (dep_meta ?d)"
  let ?ob = "DeploymentObj (?d\<lparr>dep_meta := (dep_meta ?d)\<lparr>om_OwnerReferences := [controllerRef g i]\<rparr>\<rparr>)"
  have fr: "fresh i (dep_meta ?d)"
    using rendered_fresh [OF assms(2)] by (simp add: freshResources_def)
  define s1 where "s1 = s\<lparr>se_calls := se_calls s @ [Get DeploymentKind ?key]\<rparr>"
  obtain e where e: "IsNotFound e" "run_state (getObj r DeploymentKind asDeployment ?key) s = (Inl e, s1)"
    using getObj_run [of DeploymentKind asDeployment ?key s] None by (auto simp: s1_def)
  have "lookup (se_world s1) (objKind ?ob) (objKey ?ob) = None" using None by (simp add: s1_def)
  from createObj_run [OF this] obtain w' ob' where
    c: "run_state (createObj r ?ob) s1 = (None, s1\<lparr>se_world := w', se_calls := se_calls s1 @ [Create ?ob]\<rparr>)"
      "sameObject ?ob ob'"
      "lookup w' = (lookup (se_world s))(DeploymentKind := (lookup (se_world s) DeploymentKind)(?key := Some ob'))"
    by (auto simp: s1_def)
  obtain b where b: "ob' = DeploymentObj b" "dep_Spec b = dep_Spec ?d"
    using sameObject_Deployment [OF c(2)] by auto
  have "deploymentUpToDate [] (lookup w') k"
    using rendered_fixed_point [OF assms(2)] by (auto simp: deploymentUpToDate_def c(3) b)
  moreover have "run_state (ensureDeployment r i k sha) s =
      (None, s1\<lparr>se_world := w', se_calls := se_calls s1 @ [Create ?ob]\<rparr>)"
    using e c(1)
    by (simp add: ensureDeployment_def Let_def withController_fresh [OF assms(1) fr] reportErr_def)
  ultimately show ?thesis by (auto simp: c(3) agreeExcept_def)
qed

lemma update_deployment:
  fixes s :: "'w sess"
  assumes "r_Scheme r = [g]" and "newKubeResources getenv i img ps ca cca = Inr k"
    and Some: "lookup (se_world s) DeploymentKind (keyOf (dep_meta (kr_deployment k))) = Some (DeploymentObj d)"
  shows "\<exists>s'. run_state (ensureDeployment r i k sha) s = (None, s') \<and>
    deploymentUpToDate sha (lookup (se_world s')) k \<and>
    agreeExcept {(DeploymentKind, keyOf (dep_meta (kr_deployment k)))}
      (lookup (se_world s)) (lookup (se_world s'))"
proof -
  let ?key = "keyOf (dep_meta (kr_deployment k))" and ?L = "lookup (se_world s)"
  let ?new = "mergeDeploymentSpec k sha (dep_Spec d)"
  have fr: "fresh i (dep_meta (kr_deployment k))"
    using rendered_fresh [OF assms(2)] by (simp add: freshResources_def)
  define s1 where "s1 = s\<lparr>se_calls := se_calls s @ [Get DeploymentKind ?key]\<rparr>"
  have get: "run_state (getObj r DeploymentKind asDeployment ?key) s = (Inr d, s1)"
    using getObj_run [of DeploymentKind asDeployment ?key s] Some by (auto simp: s1_def)
  note step = ensureDeployment_def Let_def withController_fresh [OF assms(1) fr] get
  show ?thesis
  proof (cases "hasGraphDataInit d \<and> ?new \<noteq> dep_Spec d")
    case True
    let ?ob = "DeploymentObj (d\<lparr>dep_Spec := ?new\<rparr>)"
    have key: "keyOf (dep_meta d) = ?key" using lookup_found [OF Some] by simp
    have "lookup (se_world s1) (objKind ?ob) (objKey ?ob) \<noteq> None"
      using Some by (simp add: s1_def key)
    from updateObj_run [OF this] obtain w' ob' where
      c: "run_state (updateObj r ?ob) s1 =
            (None, s1\<lparr>se_world := w', se_calls := se_calls s1 @ [Update ?ob]\<rparr>)"
        "sameObject ?ob ob'"
        "lookup w' = ?L(DeploymentKind := (?L DeploymentKind)(?key := Some ob'))"
      by (auto simp: s1_def key)
    obtain b where b: "ob' = DeploymentObj b" "dep_Spec b = ?new"
      using sameObject_Deployment [OF c(2)] by auto
    have "deploymentUpToDate sha (lookup w') k"
      using mergeDeploymentSpec_idem [OF rendered_annotations [OF assms(2)]]
      by (auto simp: deploymentUpToDate_def c(3) b)
    moreover have "run_state (ensureDeployment r i k sha) s =
        (None, s1\<lparr>se_world := w', se_calls := se_calls s1 @ [Update ?ob]\<rparr>)"
      using c(1) True by (simp add: step reportErr_def)
    ultimately show ?thesis by (auto simp: c(3) agreeExcept_def)
  next
    case False
    obtain u s2 where h: "run_state (handleErr r ''UpdateDeploymentFailed''
        (PlainError ''Graph data init container not found'')) s1 = (u, s2)" by (rule prod.exhaust)
    have "lookup (se_world s2) = ?L"
      using keepsD [OF still_handle(1) still_start h] by (simp add: still_def s1_def)
    moreover have "deploymentUpToDate sha ?L k"
      using False Some by (auto simp: deploymentUpToDate_def)
    moreover have "run_state (ensureDeployment r i k sha) s =
        (None, if hasGraphDataInit d then s1 else s2)"
      using False h by (simp add: step)
    ultimately show ?thesis by (auto simp: s1_def agreeExcept_def)
  qed
qed

lemma ensureDeployment_effect:
  fixes s :: "'w sess"
  assumes "r_Scheme r = [g]" and "newKubeResources getenv i img ps ca cca = Inr k"
  shows "\<exists>s'. run_state (ensureDeployment r i k sha) s = (None, s') \<and>
    deploymentUpToDate
      (if lookup (se_world s) DeploymentKind (keyOf (dep_meta (kr_deployment k))) = None then [] else sha)
      (lookup (se_world s')) k \<and>
    agreeExcept {(DeploymentKind, keyOf (dep_meta (kr_deployment k)))}
      (lookup (se_world s)) (lookup (se_world s'))"
proof (cases "lookup (se_world s) DeploymentKind (keyOf (dep_meta (kr_deployment k)))")
  case None
  then show ?thesis using create_deployment [OF assms] by simp
next
  case (Some ob)
  then obtain d where "ob = DeploymentObj d"
    using lookup_found [OF Some] kind_range(6) [of ob] by blast
  then show ?thesis using update_deployment [OF assms, of s d sha] Some by simp
qed

section \<open>The cluster's CA\<close>

lemma establishes_ensureTrustedClusterCA:
  assumes "r_Scheme r = [g]" and "resourcesFor i k"
  shows "establishes lookup (caReady i k) (caKey i) (\<lambda>L. clusterCAUpToDate L k)
    (ensureTrustedClusterCA r i k)"
proof (cases "kr_trustedClusterCAConfig k")
  case None
  then show ?thesis
    by (auto simp: establishes_def ensureTrustedClusterCA_def clusterCAUpToDate_def agreeExcept_def)
next
  case (Some c)
  let ?cm = "c\<lparr>cm_meta := (cm_meta c)\<lparr>om_OwnerReferences := [controllerRef g i]\<rparr>\<rparr>"
  have key: "keyOf (cm_meta c) = namespacedName NameClusterTrustedCAVolume (instNamespace i)"
    using assms(2) Some by (simp add: resourcesFor_def Let_def)
  show ?thesis unfolding establishes_def
  proof (intro allI impI)
    fix s :: "'w sess"
    let ?L = "lookup (se_world s)"
    let ?good = "\<lambda>s' :: 'w sess. run_state (ensureTrustedClusterCA r i k) s = (None, s') \<and>
        clusterCAUpToDate (lookup (se_world s')) k \<and> caReady i k (lookup (se_world s')) \<and>
        agreeExcept (caKey i) ?L (lookup (se_world s'))"
    assume ready: "caReady i k ?L"
    obtain res s1 where find: "run_state (findTrustedClusterCAConfig r i) s = (res, s1)"
      by (rule prod.exhaust)
    note found = yieldsD [OF still_findTrustedClusterCAConfig [where getenv = "r_getenv r"] still_start find]
    have s1: "lookup (se_world s1) = ?L" using found by (simp add: still_def)
    show "\<exists>s'. ?good s'"
    proof (cases "?L ConfigMapKind (keyOf (cm_meta c))")
      case None
      then have "fresh i (cm_meta c)" and "\<exists>e. res = Inl e \<and> IsNotFound e"
        using ready found by (simp_all add: caReady_def Some key)
      then have run: "run_state (ensureTrustedClusterCA r i k) s =
          run_state (reportErr r ''EnsureConfigMapFailedForClusterCA'' (ensureConfigMap r ?cm)) s1"
        using find by (auto simp: ensureTrustedClusterCA_def Some withController_fresh [OF assms(1)])
      obtain s2 where "run_state (reportErr r ''EnsureConfigMapFailedForClusterCA'' (ensureConfigMap r ?cm)) s1 =
          (None, s2)" "configMapUpToDate (lookup (se_world s2)) ?cm"
        "agreeExcept {(ConfigMapKind, keyOf (cm_meta c))} (lookup (se_world s1)) (lookup (se_world s2))"
        using establishesD [OF establishes_reportErr [OF establishes_ensureConfigMap [of ?cm]], of r
            "''EnsureConfigMapFailedForClusterCA''" s1] by auto
      then show ?thesis unfolding run
        by (auto simp: s1 clusterCAUpToDate_def caReady_def Some key caKey_def configMapUpToDate_def)
    next
      case (Some ob)
      then have "run_state (ensureTrustedClusterCA r i k) s = (None, s1)"
        using find found by (auto simp: ensureTrustedClusterCA_def key \<open>kr_trustedClusterCAConfig k = Some c\<close>)
      then show ?thesis
        using Some ready
        by (auto simp: s1 clusterCAUpToDate_def \<open>kr_trustedClusterCAConfig k = Some c\<close> agreeExcept_def)
    qed
  qed
qed

section \<open>All steps\<close>

lemma establishes_managed:
  assumes "r_Scheme r = [g]" and "freshResources i k"
  shows "establishes lookup (\<lambda>_. True) {(ConfigMapKind, keyOf (cm_meta (kr_graphBuilderConfig k)))}
           (\<lambda>L. configMapUpToDate L (kr_graphBuilderConfig k)) (ensureConfig r i k)"
    and "establishes lookup (\<lambda>_. True) {(SecretKind, keyOf (sec_meta (kr_pullSecret k)))}
           (\<lambda>L. secretUpToDate L (kr_pullSecret k)) (ensurePullSecret r i k)"
    and "establishes lookup (\<lambda>_. True) {(ConfigMapKind, keyOf (cm_meta (kr_envConfig k)))}
           (\<lambda>L. configMapUpToDate L (kr_envConfig k)) (ensureEnvConfig r i k)"
    and "establishes lookup (\<lambda>_. True) {(ServiceKind, keyOf (svc_meta (kr_graphBuilderService k)))}
           (\<lambda>L. serviceUpToDate L (kr_graphBuilderService k)) (ensureGraphBuilderService r i k)"
    and "establishes lookup (\<lambda>_. True) {(ServiceKind, keyOf (svc_meta (kr_policyEngineService k)))}
           (\<lambda>L. serviceUpToDate L (kr_policyEngineService k)) (ensurePolicyEngineService r i k)"
    and "establishes lookup (\<lambda>_. True) {(PDBKind, keyOf (pdb_meta (kr_podDisruptionBudget k)))}
           (\<lambda>L. pdbUpToDate L (kr_podDisruptionBudget k)) (ensurePodDisruptionBudget r i k)"
    and "establishes lookup (\<lambda>_. True) {(NetworkPolicyKind, keyOf (np_meta (kr_networkPolicy k)))}
           (\<lambda>L. networkPolicyUpToDate L (kr_networkPolicy k)) (ensureNetworkPolicy r i k)"
proof -
  note defs = ensureConfig_def ensurePullSecret_def ensureEnvConfig_def ensureGraphBuilderService_def
    ensurePolicyEngineService_def ensurePodDisruptionBudget_def ensureNetworkPolicy_def Let_def
    withController_fresh [OF assms(1), of i] configMapUpToDate_def secretUpToDate_def
    serviceUpToDate_def pdbUpToDate_def networkPolicyUpToDate_def
  note fr = assms(2) [unfolded freshResources_def, simplified]
  note cm = establishes_reportErr [OF establishes_ensureConfigMap
      [of "c\<lparr>cm_meta := (cm_meta c)\<lparr>om_OwnerReferences := [controllerRef g i]\<rparr>\<rparr>" for c]]
  note sec = establishes_reportErr [OF establishes_ensureSecret
      [of "c\<lparr>sec_meta := (sec_meta c)\<lparr>om_OwnerReferences := [controllerRef g i]\<rparr>\<rparr>" for c]]
  note svc = establishes_reportErr [OF establishes_ensureService
      [of "c\<lparr>svc_meta := (svc_meta c)\<lparr>om_OwnerReferences := [controllerRef g i]\<rparr>\<rparr>" for c]]
  show "establishes lookup (\<lambda>_. True) {(ConfigMapKind, keyOf (cm_meta (kr_graphBuilderConfig k)))}
           (\<lambda>L. configMapUpToDate L (kr_graphBuilderConfig k)) (ensureConfig r i k)"
    using cm [of "kr_graphBuilderConfig k"] fr by (simp add: defs)
  show "establishes lookup (\<lambda>_. True) {(SecretKind, keyOf (sec_meta (kr_pullSecret k)))}
           (\<lambda>L. secretUpToDate L (kr_pullSecret k)) (ensurePullSecret r i k)"
    using sec [of "kr_pullSecret k"] fr by (simp add: defs)
  show "establishes lookup (\<lambda>_. True) {(ConfigMapKind, keyOf (cm_meta (kr_envConfig k)))}
           (\<lambda>L. configMapUpToDate L (kr_envConfig k)) (ensureEnvConfig r i k)"
    using cm [of "kr_envConfig k"] fr by (simp add: defs)
  show "establishes lookup (\<lambda>_. True) {(ServiceKind, keyOf (svc_meta (kr_graphBuilderService k)))}
           (\<lambda>L. serviceUpToDate L (kr_graphBuilderService k)) (ensureGraphBuilderService r i k)"
    using svc [of "kr_graphBuilderService k"] fr by (simp add: defs)
  show "establishes lookup (\<lambda>_. True) {(ServiceKind, keyOf (svc_meta (kr_policyEngineService k)))}
           (\<lambda>L. serviceUpToDate L (kr_policyEngineService k)) (ensurePolicyEngineService r i k)"
    using svc [of "kr_policyEngineService k"] fr by (simp add: defs)
  show "establishes lookup (\<lambda>_. True) {(PDBKind, keyOf (pdb_meta (kr_podDisruptionBudget k)))}
           (\<lambda>L. pdbUpToDate L (kr_podDisruptionBudget k)) (ensurePodDisruptionBudget r i k)"
    using establishes_syncPodDisruptionBudget [of "c\<lparr>pdb_meta :=
        (pdb_meta c)\<lparr>om_OwnerReferences := [controllerRef g i]\<rparr>\<rparr>" for c, of "kr_podDisruptionBudget k"] fr
    by (simp add: defs)
  show "establishes lookup (\<lambda>_. True) {(NetworkPolicyKind, keyOf (np_meta (kr_networkPolicy k)))}
           (\<lambda>L. networkPolicyUpToDate L (kr_networkPolicy k)) (ensureNetworkPolicy r i k)"
    using establishes_syncNetworkPolicy [of "c\<lparr>np_meta :=
        (np_meta c)\<lparr>om_OwnerReferences := [controllerRef g i]\<rparr>\<rparr>" for c, of "kr_networkPolicy k"] fr
    by (simp add: defs)
qed

lemma establishes_after:
  assumes "\<And>L c0. keeps (still lookup L c0) m" and "establishes lookup Pre K G n"
  shows "establishes lookup Pre K G (do { x \<leftarrow> m; n })"
  unfolding establishes_def
proof (intro allI impI)
  fix s :: "'w sess"
  assume pre: "Pre (lookup (se_world s))"
  obtain x s1 where m: "run_state m s = (x, s1)" by (rule prod.exhaust)
  have "lookup (se_world s1) = lookup (se_world s)"
    using keepsD [OF assms(1) still_start m] by (simp add: still_def)
  with establishesD [OF assms(2), of s1] pre m
  show "\<exists>s'. run_state (do { x \<leftarrow> m; n }) s = (None, s') \<and> G (lookup (se_world s')) \<and>
      Pre (lookup (se_world s')) \<and> agreeExcept K (lookup (se_world s)) (lookup (se_world s'))"
    by simp
qed

lemma establishes_ensureAdditionalTrustedCA:
  assumes "r_Scheme r = [g]" and "freshResources i k" and "resourcesFor i k"
  shows "establishes lookup (\<lambda>_. True)
    {(ConfigMapKind, namespacedName (nameAdditionalTrustedCA i) (instNamespace i))}
    (\<lambda>L. trustedCAUpToDate L k) (ensureAdditionalTrustedCA r i k)"
proof (cases "kr_trustedCAConfig k")
  case None
  then show ?thesis
    by (auto simp: establishes_def ensureAdditionalTrustedCA_def trustedCAUpToDate_def agreeExcept_def)
next
  case (Some c)
  let ?cm = "c\<lparr>cm_meta := (cm_meta c)\<lparr>om_OwnerReferences := [controllerRef g i]\<rparr>\<rparr>"
  have "fresh i (cm_meta c)" "keyOf (cm_meta c) = namespacedName (nameAdditionalTrustedCA i) (instNamespace i)"
    using assms(2,3) Some by (simp_all add: freshResources_def resourcesFor_def Let_def)
  then show ?thesis
    using establishes_after [OF still_SetStatusCondition
        establishes_reportErr [OF establishes_ensureConfigMap [of ?cm]]]
    by (simp add: ensureAdditionalTrustedCA_def Some withController_fresh [OF assms(1)]
        trustedCAUpToDate_def configMapUpToDate_def)
qed

lemma saveStatus_stores:
  assumes "lookup (se_world s) UpdateServiceKind (keyOf (us_meta i)) = Some (UpdateServiceObj old)"
  shows "\<exists>a s' new. run_state (saveStatus r i) s = (a, s') \<and>
    keyOf (us_meta new) = keyOf (us_meta old) \<and> us_Spec new = us_Spec old \<and>
    lookup (se_world s') = (lookup (se_world s))(UpdateServiceKind :=
      (lookup (se_world s) UpdateServiceKind)(keyOf (us_meta i) := Some (UpdateServiceObj new)))"
  using status [of "se_world s" "i\<lparr>us_Status := se_status s\<rparr>" old] assms
  by (auto simp: saveStatus_def getStatus_def updateStatus_def mutate_def invoke_def)

lemma parts_ok:
  assumes "r_Scheme r = [g]" and "freshResources i k" and "resourcesFor i k"
    and "instName i \<noteq> ''cluster''"
  shows "list_all (partOK lookup (caReady i k)) (parts r i k)"
proof -
  note keys = assms(3) [unfolded resourcesFor_def Let_def]
  note distinct = configMapNames_distinct [of i, unfolded configMapNames_def, simplified]
  have away: "caKey i \<inter> {(ConfigMapKind, keyOf (cm_meta (kr_graphBuilderConfig k)))} = {}"
    "caKey i \<inter> {(ConfigMapKind, keyOf (cm_meta (kr_envConfig k)))} = {}"
    "caKey i \<inter> {(ConfigMapKind, namespacedName (nameAdditionalTrustedCA i) (instNamespace i))} = {}"
    "caKey i \<inter> routeKeys k = {}"
    using keys distinct assms(4) by (auto simp: caKey_def routeKeys_def namespacedName_def)
  have other: "kd \<noteq> ConfigMapKind \<Longrightarrow> caKey i \<inter> {(kd, key)} = {}" for kd key
    by (simp add: caKey_def)
  note frame = establishes_frame [OF _ depends_caReady]
  note managed = establishes_managed [OF assms(1,2), THEN frame]
  have fr: "fresh i (route_meta (kr_policyEngineRoute k))"
    using assms(2) by (simp add: freshResources_def)
  have "dependsOn {(ConfigMapKind, namespacedName (nameAdditionalTrustedCA i) (instNamespace i))}
      (\<lambda>L. trustedCAUpToDate L k)"
    using keys by (auto simp: dependsOn_def trustedCAUpToDate_def option.pred_set configMapUpToDate_def)
  moreover have "dependsOn (caKey i) (\<lambda>L. clusterCAUpToDate L k)"
    using keys by (auto simp: dependsOn_def clusterCAUpToDate_def option.pred_set caKey_def)
  ultimately show ?thesis
    unfolding parts_def list.pred_inject partOK_def prod.case
    by (intro conjI TrueI managed away other depends_upToDate
        establishes_ensureTrustedClusterCA [OF assms(1,3)]
        frame [OF establishes_ensureAdditionalTrustedCA [OF assms(1-3)]]
        frame [OF establishes_ensurePolicyEngineRoute [OF assms(1) fr]]) simp_all
qed

lemma ensureAll_converges:
  fixes s :: "'w sess"
  assumes "r_Scheme r = [g]" and render: "newKubeResources getenv i img ps ca cca = Inr k"
    and "resourcesFor i k" and "instName i \<noteq> ''cluster''"
    and "caReady i k (lookup (se_world s))"
    and found: "lookup (se_world s) UpdateServiceKind (keyOf (us_meta i)) = Some (UpdateServiceObj old)"
  shows "\<exists>s' new. run_state (ensureAll r i k) s = (\<lparr>RequeueAfter = fiveMinutes, Err = None\<rparr>, s') \<and>
    upToDate (if lookup (se_world s) DeploymentKind (keyOf (dep_meta (kr_deployment k))) = None then []
              else digestIn i (lookup (se_world s))) (lookup (se_world s')) k \<and>
    podStateOf (lookup (se_world s')) i = podAfter i (lookup (se_world s)) \<and>
    agreeExcept (insert (UpdateServiceKind, keyOf (us_meta i)) (set (ownedObjects i)))
      (lookup (se_world s)) (lookup (se_world s')) \<and>
    lookup (se_world s') UpdateServiceKind (keyOf (us_meta i)) = Some (UpdateServiceObj new) \<and>
    keyOf (us_meta new) = keyOf (us_meta old) \<and> us_Spec new = us_Spec old"
proof -
  let ?dep = "keyOf (dep_meta (kr_deployment k))" and ?L = "lookup (se_world s)"
  note fr = rendered_fresh [OF render]
  have steps: "establishes lookup (caReady i k) (stepKeys i) (upToDateSteps k)
      (runUntilError (ensureSteps r i k))"
    using establishes_runUntilError [OF parts_ok [OF assms(1) fr assms(3,4)] parts_disjoint [OF assms(3,4)]]
    unfolding parts_steps
    by (rule establishes_weaken) (auto simp: upToDateSteps_def parts_def intro: parts_stepKeys [OF assms(3)])
  obtain u s1 where 1: "run_state (SetStatusCondition r
      (newCondition ConditionReconcileCompleted ConditionFalse ''Reconcile started'' [])) s = (u, s1)"
    by (rule prod.exhaust)
  have L1: "lookup (se_world s1) = ?L"
    using keepsD [OF still_SetStatusCondition still_start 1] by (simp add: still_def)
  obtain s2 where 2: "run_state (runUntilError (ensureSteps r i k)) s1 = (None, s2)"
    "upToDateSteps k (lookup (se_world s2))" "agreeExcept (stepKeys i) ?L (lookup (se_world s2))"
    using establishesD [OF steps, of s1] assms(5) L1 by auto
  then have untouched: "lookup (se_world s2) PodKind key = ?L PodKind key"
    "lookup (se_world s2) DeploymentKind key = ?L DeploymentKind key" for key
    by (auto simp: agreeExcept_def stepKeys_def)
  then have pod: "podAfter i (lookup (se_world s2)) = podAfter i ?L" "digestIn i (lookup (se_world s2)) = digestIn i ?L"
    by (simp_all add: podStateOf_def podAfter_def digestIn_def)
  obtain s3 where 3: "run_state (ensureGraphDataSHA r i) s2 = (Inr (digestIn i ?L), s3)"
    "agreeExcept {(PodKind, podKey i)} (lookup (se_world s2)) (lookup (se_world s3))"
    "podStateOf (lookup (se_world s3)) i = podAfter i ?L"
    using ensureGraphDataSHA_effect [OF assms(1), of i s2] pod by auto
  have dep: "lookup (se_world s3) DeploymentKind ?dep = ?L DeploymentKind ?dep"
    using 3(2) untouched(2) by (simp add: agreeExcept_def)
  obtain s4 where 4: "run_state (ensureDeployment r i k (digestIn i ?L)) s3 = (None, s4)"
    "deploymentUpToDate (if ?L DeploymentKind ?dep = None then [] else digestIn i ?L) (lookup (se_world s4)) k"
    "agreeExcept {(DeploymentKind, ?dep)} (lookup (se_world s3)) (lookup (se_world s4))"
    using ensureDeployment_effect [OF assms(1) render, of "digestIn i ?L" s3] dep by auto
  obtain v s5 where 5: "run_state (SetStatusCondition r
      (newCondition ConditionReconcileCompleted ConditionTrue ''Success'' [])) s4 = (v, s5)"
    by (rule prod.exhaust)
  have L5: "lookup (se_world s5) = lookup (se_world s4)"
    using keepsD [OF still_SetStatusCondition still_start 5] by (simp add: still_def)
  have "stepKeys i \<subseteq> set (ownedObjects i)" "(DeploymentKind, ?dep) \<in> set (ownedObjects i)"
    "(PodKind, podKey i) \<in> set (ownedObjects i)"
    using assms(3) by (auto simp: stepKeys_def resourcesFor_def owned_simps Let_def)
  then have L: "agreeExcept (set (ownedObjects i)) ?L (lookup (se_world s5))"
    using agreeExcept_trans [OF agreeExcept_trans [OF 2(3) 3(2)] 4(3)]
    unfolding agreeExcept_def L5 by blast
  then have us: "lookup (se_world s5) UpdateServiceKind (keyOf (us_meta i)) = Some (UpdateServiceObj old)"
    using found by (auto simp: agreeExcept_def ownedObjects_def Let_def)
  obtain a s6 new where 6: "run_state (saveStatus r i) s5 = (a, s6)"
    "keyOf (us_meta new) = keyOf (us_meta old)" "us_Spec new = us_Spec old"
    "lookup (se_world s6) = (lookup (se_world s5))(UpdateServiceKind :=
       (lookup (se_world s5) UpdateServiceKind)(keyOf (us_meta i) := Some (UpdateServiceObj new)))"
    using saveStatus_stores [OF us] by blast
  have "upToDate (if ?L DeploymentKind ?dep = None then [] else digestIn i ?L) (lookup (se_world s5)) k"
    using upToDateSteps_frame(1) [OF upToDateSteps_frame(2) [OF 2(2) 3(2)] 4(3)] 4(2) L5
    by (simp only: upToDate_split)
  then have "upToDate (if ?L DeploymentKind ?dep = None then [] else digestIn i ?L) (lookup (se_world s6)) k"
    by (simp only: 6(4) upToDate_status)
  moreover have "podStateOf (lookup (se_world s6)) i = podStateOf (lookup (se_world s3)) i"
    using 4(3) by (simp add: podStateOf_def 6(4) L5 agreeExcept_def)
  moreover have "run_state (ensureAll r i k) s = (\<lparr>RequeueAfter = fiveMinutes, Err = None\<rparr>, s6)"
    using 1 2(1) 3(1) 4(1) 5 6(1) by (simp add: ensureAll_def)
  ultimately show ?thesis
    using 3(3) L 6 by (auto simp: agreeExcept_def)
qed

end

end
