(* ===== verification/Mapper.thy ===== *)
theory Mapper
  imports OwnerRefs Names Ensure
begin

text \<open>
  Which events lead to which reconcile requests: \<open>controllers/mapper.go\<close>, the watches of
  \<open>SetupWithManager\<close> (\<open>controllers/updateservice_controller.go\<close>) and, for the objects it owns, the
  vendored handler \<open>EnqueueRequestForOwner\<close>.
\<close>

section \<open>Definitions\<close>

record 'w mapper =
  m_client :: "'w reconciler"
  m_namespace :: string

definition requeueUpdateServices :: "'w mapper \<Rightarrow> ('w sess, namespaced_name list) state" where
  "requeueUpdateServices m = do {
     res \<leftarrow> listUpdateServices (m_client m) (m_namespace m);
     return (case res of
         Inl _ \<Rightarrow> []
       | Inr items \<Rightarrow> map (\<lambda>us. namespacedName (instName us) (instNamespace us)) items)
   }"

definition Map :: "'w mapper \<Rightarrow> kobject \<Rightarrow> ('w sess, namespaced_name list) state" where
  "Map m ob =
     (case ob of
        ConfigMapObj cm \<Rightarrow>
          if om_Namespace (cm_meta cm) \<noteq> OpenshiftConfigNamespace then return []
          else do {
            res \<leftarrow> getObj (m_client m) ImageKind asImage (namespacedName ImageConfigName []);
            (case res of
               Inl _ \<Rightarrow> return []
             | Inr img \<Rightarrow>
                 if img_AdditionalTrustedCA img = om_Name (cm_meta cm)
                 then requeueUpdateServices m else return [])
          }
      | ImageObj img \<Rightarrow>
          if om_Name (img_meta img) = ImageConfigName \<and> om_Namespace (img_meta img) = []
          then requeueUpdateServices m else return []
      | _ \<Rightarrow> return [])"

section \<open>Watches\<close>

text \<open>A source of events with its handler: the object itself, its controller, or the mapper.\<close>

datatype watch = For kind | Owns kind | Watches kind

definition controllerWatches :: "watch list" where
  "controllerWatches =
     [For UpdateServiceKind,
      Owns DeploymentKind,
      Owns ConfigMapKind,
      Owns ServiceKind,
      Owns PDBKind,
      Owns RouteKind,
      Owns NetworkPolicyKind,
      Owns PodKind,
      Watches ImageKind,
      Watches ConfigMapKind]"

text \<open>
  \<open>getOwnerReconcileRequest\<close> with \<open>OnlyControllerOwner\<close>, for UpdateServices as the owners; they are
  namespaced, so the request has the namespace of the object.
\<close>

definition ownerRequests :: "group_version_kind \<Rightarrow> object_meta \<Rightarrow> namespaced_name list" where
  "ownerRequests ownerType m =
     (case GetControllerOf (om_OwnerReferences m) of
        None \<Rightarrow> []
      | Some ref \<Rightarrow>
          (case ParseGroupVersion (or_APIVersion ref) of
             None \<Rightarrow> []
           | Some (grp, ver) \<Rightarrow>
               if or_Kind ref = gvk_Kind ownerType \<and> grp = gvk_Group ownerType
               then [namespacedName (or_Name ref) (om_Namespace m)] else []))"

definition handleWatch ::
    "'w mapper \<Rightarrow> group_version_kind \<Rightarrow> kobject \<Rightarrow> watch \<Rightarrow> ('w sess, namespaced_name list) state" where
  "handleWatch m ownerType ob w =
     (case w of
        For k \<Rightarrow> return (if objKind ob = k then [objKey ob] else [])
      | Owns k \<Rightarrow> return (if objKind ob = k then ownerRequests ownerType (objMeta ob) else [])
      | Watches k \<Rightarrow> if objKind ob = k then Map m ob else return [])"

text \<open>The requests that an event for an object puts into the queue.\<close>

fun handleEvent ::
    "'w mapper \<Rightarrow> group_version_kind \<Rightarrow> kobject \<Rightarrow> watch list \<Rightarrow>
       ('w sess, namespaced_name list) state" where
  "handleEvent m ownerType ob [] = return []"
| "handleEvent m ownerType ob (w # ws) = do {
     reqs \<leftarrow> handleWatch m ownerType ob w;
     rest \<leftarrow> handleEvent m ownerType ob ws;
     return (reqs @ rest)
   }"

end
