(* ===== verification/Scheme.thy ===== *)
theory Scheme
  imports ObjectStore
begin

text \<open>
  The scheme: which Go types the process knows as which Kubernetes kinds. \<open>api/v1\<close> registers its two
  types with a builder of controller-runtime, and \<open>main.go\<close> adds them to the scheme after those of
  three other modules, which are parameters. A panic is \<open>None\<close>. Conversions and defaulting functions,
  which the operator does not use, are not modelled.
\<close>

section \<open>Definitions\<close>

record go_type =
  gt_PkgPath :: string
  gt_Name :: string

record group_version =
  gv_Group :: string
  gv_Version :: string

definition WithKind :: "group_version \<Rightarrow> string \<Rightarrow> group_version_kind" where
  "WithKind gv kind = \<lparr>gvk_Group = gv_Group gv, gvk_Version = gv_Version gv, gvk_Kind = kind\<rparr>"

record scheme =
  gvkToType :: "group_version_kind \<rightharpoonup> go_type"
  typeToGVK :: "go_type \<Rightarrow> group_version_kind list"
  unversionedKinds :: "string \<rightharpoonup> go_type"

definition newScheme :: scheme where
  "newScheme = \<lparr>gvkToType = Map.empty, typeToGVK = (\<lambda>_. []), unversionedKinds = Map.empty\<rparr>"

definition AddKnownTypeWithName :: "group_version_kind \<Rightarrow> go_type \<Rightarrow> scheme \<Rightarrow> scheme option" where
  "AddKnownTypeWithName gvk t s =
     (if gvk_Version gvk = [] then None
      else if gvkToType s gvk \<noteq> None \<and> gvkToType s gvk \<noteq> Some t then None
      else (let s' = s\<lparr>gvkToType := (gvkToType s)(gvk \<mapsto> t)\<rparr> in
        if gvk \<in> set (typeToGVK s t) then Some s'
        else Some (s'\<lparr>typeToGVK := (typeToGVK s)(t := typeToGVK s t @ [gvk])\<rparr>)))"

fun AddKnownTypes :: "group_version \<Rightarrow> go_type list \<Rightarrow> scheme \<Rightarrow> scheme option" where
  "AddKnownTypes gv [] s = Some s"
| "AddKnownTypes gv (t # types) s =
     Option.bind (AddKnownTypeWithName (WithKind gv (gt_Name t)) t s) (AddKnownTypes gv types)"

fun addUnversionedKinds :: "go_type list \<Rightarrow> scheme \<Rightarrow> scheme option" where
  "addUnversionedKinds [] s = Some s"
| "addUnversionedKinds (t # types) s =
     (if unversionedKinds s (gt_Name t) \<noteq> None \<and> unversionedKinds s (gt_Name t) \<noteq> Some t then None
      else addUnversionedKinds types (s\<lparr>unversionedKinds := (unversionedKinds s)(gt_Name t \<mapsto> t)\<rparr>))"

definition AddUnversionedTypes :: "group_version \<Rightarrow> go_type list \<Rightarrow> scheme \<Rightarrow> scheme option" where
  "AddUnversionedTypes gv types s = Option.bind (AddKnownTypes gv types s) (addUnversionedKinds types)"

subsection \<open>The types of every group version\<close>

definition metaType :: "string \<Rightarrow> go_type" where
  "metaType name = \<lparr>gt_PkgPath = ''k8s.io/apimachinery/pkg/apis/meta/v1'', gt_Name = name\<rparr>"

definition optionsTypes :: "go_type list" where
  "optionsTypes = map metaType [''ListOptions'', ''GetOptions'', ''DeleteOptions'', ''CreateOptions'',
     ''UpdateOptions'', ''PatchOptions'']"

definition unversionedTypes :: "go_type list" where
  "unversionedTypes = map metaType [''Status'', ''APIVersions'', ''APIGroupList'', ''APIGroup'',
     ''APIResourceList'']"

definition Unversioned :: group_version where
  "Unversioned = \<lparr>gv_Group = [], gv_Version = ''v1''\<rparr>"

definition internalVersion :: "group_version \<Rightarrow> group_version" where
  "internalVersion gv = \<lparr>gv_Group = gv_Group gv, gv_Version = ''__internal''\<rparr>"

definition AddToGroupVersion :: "group_version \<Rightarrow> scheme \<Rightarrow> scheme option" where
  "AddToGroupVersion gv s =
     Option.bind (AddKnownTypeWithName (WithKind gv ''WatchEvent'') (metaType ''WatchEvent'') s) (\<lambda>s.
     Option.bind (AddKnownTypeWithName (WithKind (internalVersion gv) ''WatchEvent'')
       (metaType ''InternalEvent'') s) (\<lambda>s.
     Option.bind (AddKnownTypes gv optionsTypes s) (AddUnversionedTypes Unversioned unversionedTypes)))"

subsection \<open>The builder\<close>

text \<open>A registered function: it may panic, and it returns an error or none.\<close>

type_synonym registrar = "scheme \<Rightarrow> (go_error option \<times> scheme) option"

record builder =
  bld_GroupVersion :: group_version
  bld_Funcs :: "registrar list"

definition Register :: "go_type list \<Rightarrow> builder \<Rightarrow> builder" where
  "Register objects bld =
     bld\<lparr>bld_Funcs := bld_Funcs bld @
       [\<lambda>s. map_option (Pair None) (Option.bind (AddKnownTypes (bld_GroupVersion bld) objects s)
          (AddToGroupVersion (bld_GroupVersion bld)))]\<rparr>"

fun runFuncs :: "registrar list \<Rightarrow> registrar" where
  "runFuncs [] s = Some (None, s)"
| "runFuncs (f # fs) s =
     (case f s of
        None \<Rightarrow> None
      | Some (Some err, s') \<Rightarrow> Some (Some err, s')
      | Some (None, s') \<Rightarrow> runFuncs fs s')"

subsection \<open>\<open>api/v1\<close>\<close>

definition GroupVersion :: group_version where
  "GroupVersion = \<lparr>gv_Group = ''updateservice.operator.openshift.io'', gv_Version = ''v1''\<rparr>"

definition UpdateServiceType :: go_type where
  "UpdateServiceType =
     \<lparr>gt_PkgPath = ''github.com/openshift/cincinnati-operator/api/v1'', gt_Name = ''UpdateService''\<rparr>"

definition UpdateServiceListType :: go_type where
  "UpdateServiceListType =
     \<lparr>gt_PkgPath = ''github.com/openshift/cincinnati-operator/api/v1'', gt_Name = ''UpdateServiceList''\<rparr>"

definition SchemeBuilder :: builder where
  "SchemeBuilder = \<lparr>bld_GroupVersion = GroupVersion, bld_Funcs = []\<rparr>"

text \<open>The builder after the package's \<open>init\<close>, which runs before \<open>main\<close>'s.\<close>

definition v1_init :: builder where
  "v1_init = Register [UpdateServiceType, UpdateServiceListType] SchemeBuilder"

definition AddToScheme :: registrar where
  "AddToScheme = runFuncs (bld_Funcs v1_init)"

subsection \<open>\<open>main.go\<close>\<close>

definition Must :: "(go_error option \<times> scheme) option \<Rightarrow> scheme option" where
  "Must result =
     (case result of
        Some (None, s) \<Rightarrow> Some s
      | _ \<Rightarrow> None)"

definition main_init :: "registrar \<Rightarrow> registrar \<Rightarrow> registrar \<Rightarrow> scheme option" where
  "main_init configv1 clientgo routev1 =
     Option.bind (Must (configv1 newScheme)) (\<lambda>s.
     Option.bind (Must (clientgo s)) (\<lambda>s.
     Option.bind (Must (routev1 s)) (\<lambda>s.
     Must (AddToScheme s))))"

section \<open>Registering a list of types\<close>

text \<open>All of the above come down to registering a list of pairs.\<close>

fun registerAll :: "(group_version_kind \<times> go_type) list \<Rightarrow> scheme \<Rightarrow> scheme option" where
  "registerAll [] s = Some s"
| "registerAll ((gvk, t) # ps) s = Option.bind (AddKnownTypeWithName gvk t s) (registerAll ps)"

lemma registerAll_append: "registerAll (ps @ qs) s = Option.bind (registerAll ps s) (registerAll qs)"
  by (induction ps arbitrary: s) (auto split: bind_splits)

definition kindsOf :: "group_version \<Rightarrow> go_type list \<Rightarrow> (group_version_kind \<times> go_type) list" where
  "kindsOf gv types = map (\<lambda>t. (WithKind gv (gt_Name t), t)) types"

lemma AddKnownTypes_registerAll: "AddKnownTypes gv types = registerAll (kindsOf gv types)"
proof (rule ext)
  show "AddKnownTypes gv types s = registerAll (kindsOf gv types) s" for s
    by (induction types arbitrary: s) (simp_all add: kindsOf_def split: bind_splits)
qed

definition appendNew :: "'a \<Rightarrow> 'a list \<Rightarrow> 'a list" where
  "appendNew x xs = (if x \<in> set xs then xs else xs @ [x])"

lemma AddKnownTypeWithName_ok:
  assumes "gvk_Version gvk \<noteq> []" and "gvkToType s gvk \<in> {None, Some t}"
  shows "AddKnownTypeWithName gvk t s = Some (s\<lparr>gvkToType := (gvkToType s)(gvk \<mapsto> t),
    typeToGVK := (typeToGVK s)(t := appendNew gvk (typeToGVK s t))\<rparr>)"
  using assms by (auto simp: AddKnownTypeWithName_def appendNew_def Let_def)

text \<open>A list can be registered if it gives one type to each kind, the one that is already known if any.\<close>

definition fits :: "scheme \<Rightarrow> (group_version_kind \<times> go_type) list \<Rightarrow> bool" where
  "fits s ps \<longleftrightarrow> distinct (map fst ps) \<and>
     (\<forall>gvk t. (gvk, t) \<in> set ps \<longrightarrow> gvk_Version gvk \<noteq> [] \<and> gvkToType s gvk \<in> {None, Some t})"

lemma registerAll_ok:
  assumes "fits s ps"
  shows "\<exists>s'. registerAll ps s = Some s' \<and> gvkToType s' = gvkToType s ++ map_of ps \<and>
    (\<forall>t. typeToGVK s' t = fold appendNew (map fst (filter (\<lambda>p. snd p = t) ps)) (typeToGVK s t)) \<and>
    unversionedKinds s' = unversionedKinds s"
  using assms
proof (induction ps arbitrary: s)
  case (Cons p ps)
  obtain gvk t where p: "p = (gvk, t)" by (rule prod.exhaust)
  let ?s = "s\<lparr>gvkToType := (gvkToType s)(gvk \<mapsto> t),
    typeToGVK := (typeToGVK s)(t := appendNew gvk (typeToGVK s t))\<rparr>"
  have "AddKnownTypeWithName gvk t s = Some ?s"
    using Cons.prems by (intro AddKnownTypeWithName_ok) (auto simp: fits_def p)
  moreover have "fits ?s ps" using Cons.prems by (fastforce simp: fits_def p image_iff)
  from Cons.IH [OF this] obtain s' where "registerAll ps ?s = Some s'"
    "gvkToType s' = gvkToType ?s ++ map_of ps"
    "\<forall>t. typeToGVK s' t = fold appendNew (map fst (filter (\<lambda>p. snd p = t) ps)) (typeToGVK ?s t)"
    "unversionedKinds s' = unversionedKinds ?s"
    by blast
  moreover have "gvkToType s ++ map_of (p # ps) = gvkToType ?s ++ map_of ps"
    using Cons.prems by (simp add: fits_def p map_add_upd_left dom_map_of_conv_image_fst)
  ultimately show ?case by (simp add: p del: map_of.simps)
qed simp

definition named :: "go_type list \<Rightarrow> (string \<times> go_type) list" where
  "named types = map (\<lambda>t. (gt_Name t, t)) types"

lemma addUnversionedKinds_ok:
  assumes "distinct (map gt_Name types)" and "\<forall>t \<in> set types. unversionedKinds s (gt_Name t) \<in> {None, Some t}"
  shows "addUnversionedKinds types s = Some (s\<lparr>unversionedKinds := unversionedKinds s ++ map_of (named types)\<rparr>)"
  using assms
proof (induction types arbitrary: s)
  case (Cons t types)
  let ?s = "s\<lparr>unversionedKinds := (unversionedKinds s)(gt_Name t \<mapsto> t)\<rparr>"
  have "\<forall>t \<in> set types. unversionedKinds ?s (gt_Name t) \<in> {None, Some t}"
    using Cons.prems by (auto simp: image_iff)
  moreover have "unversionedKinds s ++ map_of (named (t # types)) = unversionedKinds ?s ++ map_of (named types)"
    using Cons.prems by (simp add: named_def map_add_upd_left dom_map_of_conv_image_fst image_image)
  ultimately show ?case using Cons.IH [of ?s] Cons.prems by (auto simp: fun_upd_def)
qed (simp add: named_def)

section \<open>Registering the types of a package\<close>

text \<open>
  Everything that a package's builder registers, in order: its own types, and those that
  \<open>AddToGroupVersion\<close> adds to every group version.
\<close>

definition metaKinds :: "group_version \<Rightarrow> (group_version_kind \<times> go_type) list" where
  "metaKinds gv =
     (WithKind gv ''WatchEvent'', metaType ''WatchEvent'') #
     (WithKind (internalVersion gv) ''WatchEvent'', metaType ''InternalEvent'') #
     kindsOf gv optionsTypes @ kindsOf Unversioned unversionedTypes"

definition packageKinds :: "group_version \<Rightarrow> go_type list \<Rightarrow> (group_version_kind \<times> go_type) list" where
  "packageKinds gv types = kindsOf gv types @ metaKinds gv"

definition packageBuilder :: "group_version \<Rightarrow> go_type list \<Rightarrow> builder" where
  "packageBuilder gv types = Register types \<lparr>bld_GroupVersion = gv, bld_Funcs = []\<rparr>"

lemmas meta_simps = metaKinds_def kindsOf_def WithKind_def optionsTypes_def unversionedTypes_def
  metaType_def Unversioned_def internalVersion_def

lemma package_registerAll:
  "runFuncs (bld_Funcs (packageBuilder gv types)) s =
     map_option (Pair None) (Option.bind (registerAll (packageKinds gv types) s) (addUnversionedKinds unversionedTypes))"
proof -
  have "AddToGroupVersion gv s = Option.bind (registerAll (metaKinds gv) s) (addUnversionedKinds unversionedTypes)" for s
    by (simp add: AddToGroupVersion_def metaKinds_def AddUnversionedTypes_def AddKnownTypes_registerAll
        registerAll_append split: bind_splits)
  then show ?thesis
    by (simp add: packageBuilder_def packageKinds_def Register_def AddKnownTypes_registerAll registerAll_append
        split: bind_splits option.split)
qed

lemma names_distinct: "distinct (map gt_Name unversionedTypes)"
  by (simp add: unversionedTypes_def metaType_def)

text \<open>The types that all packages share are not taken by others.\<close>

definition sharesMeta :: "scheme \<Rightarrow> bool" where
  "sharesMeta s \<longleftrightarrow>
     (\<forall>t \<in> set unversionedTypes. gvkToType s (WithKind Unversioned (gt_Name t)) \<in> {None, Some t} \<and>
        unversionedKinds s (gt_Name t) \<in> {None, Some t})"

lemma package_ok:
  assumes "fits s (packageKinds gv types)" and "sharesMeta s"
  shows "\<exists>s'. runFuncs (bld_Funcs (packageBuilder gv types)) s = Some (None, s') \<and>
    gvkToType s' = gvkToType s ++ map_of (packageKinds gv types) \<and>
    (\<forall>t. typeToGVK s' t =
       fold appendNew (map fst (filter (\<lambda>p. snd p = t) (packageKinds gv types))) (typeToGVK s t)) \<and>
    unversionedKinds s' = unversionedKinds s ++ map_of (named unversionedTypes)"
proof -
  obtain s1 where 1: "registerAll (packageKinds gv types) s = Some s1"
    "gvkToType s1 = gvkToType s ++ map_of (packageKinds gv types)"
    "\<forall>t. typeToGVK s1 t =
       fold appendNew (map fst (filter (\<lambda>p. snd p = t) (packageKinds gv types))) (typeToGVK s t)"
    "unversionedKinds s1 = unversionedKinds s"
    using registerAll_ok [OF assms(1)] by blast
  have "\<forall>t \<in> set unversionedTypes. unversionedKinds s1 (gt_Name t) \<in> {None, Some t}"
    using assms(2) 1(4) by (simp add: sharesMeta_def)
  then show ?thesis using addUnversionedKinds_ok [OF names_distinct] 1 by (simp add: package_registerAll)
qed

section \<open>The operator's own types\<close>

abbreviation registered :: "(group_version_kind \<times> go_type) list" where
  "registered \<equiv> packageKinds GroupVersion [UpdateServiceType, UpdateServiceListType]"

lemmas v1_simps = GroupVersion_def UpdateServiceType_def UpdateServiceListType_def

lemma AddToScheme_package:
  "AddToScheme = runFuncs (bld_Funcs (packageBuilder GroupVersion [UpdateServiceType, UpdateServiceListType]))"
  by (simp add: AddToScheme_def v1_init_def SchemeBuilder_def packageBuilder_def)

text \<open>
  What the operator's types are registered on top of: a scheme that knows nothing of its group and
  its types, and has no other types in place of those that all packages share.
\<close>

definition foreignScheme :: "scheme \<Rightarrow> bool" where
  "foreignScheme s \<longleftrightarrow>
     (\<forall>gvk. gvk_Group gvk = gv_Group GroupVersion \<longrightarrow> gvkToType s gvk = None) \<and>
     typeToGVK s UpdateServiceType = [] \<and> typeToGVK s UpdateServiceListType = [] \<and> sharesMeta s"

lemma WithKind_eq: "WithKind gv a = WithKind gv' b \<longleftrightarrow> gv = gv' \<and> a = b"
  by (cases gv; cases gv') (auto simp: WithKind_def)

lemma groups_differ:
  "GroupVersion \<noteq> Unversioned" "Unversioned \<noteq> GroupVersion"
  "GroupVersion \<noteq> internalVersion GroupVersion" "internalVersion GroupVersion \<noteq> GroupVersion"
  "internalVersion GroupVersion \<noteq> Unversioned" "Unversioned \<noteq> internalVersion GroupVersion"
  by (simp_all add: GroupVersion_def Unversioned_def internalVersion_def)

lemma registered_fits:
  assumes "foreignScheme s"
  shows "fits s registered"
proof -
  have "distinct (map fst registered)"
    by (simp add: packageKinds_def metaKinds_def kindsOf_def optionsTypes_def unversionedTypes_def
        WithKind_eq groups_differ) (simp add: metaType_def UpdateServiceType_def UpdateServiceListType_def)
  moreover have "gvk_Version gvk \<noteq> []" if "(gvk, t) \<in> set registered" for gvk t
    using that by (auto simp: packageKinds_def metaKinds_def kindsOf_def WithKind_def GroupVersion_def
        internalVersion_def Unversioned_def)
  moreover have "gvkToType s gvk \<in> {None, Some t}" if "(gvk, t) \<in> set registered" for gvk t
  proof (cases "gvk_Group gvk = gv_Group GroupVersion")
    case True
    then show ?thesis using assms by (simp add: foreignScheme_def)
  next
    case False
    then have "(gvk, t) \<in> set (kindsOf Unversioned unversionedTypes)"
      using that by (auto simp: packageKinds_def metaKinds_def kindsOf_def WithKind_def internalVersion_def)
    then show ?thesis using assms by (auto simp: foreignScheme_def sharesMeta_def kindsOf_def)
  qed
  ultimately show ?thesis by (simp add: fits_def)
qed

lemma group_in_package: "gvk \<in> fst ` set (packageKinds gv types) \<Longrightarrow> gvk_Group gvk \<in> {gv_Group gv, []}"
  by (auto simp: packageKinds_def metaKinds_def kindsOf_def WithKind_def internalVersion_def Unversioned_def)

text \<open>Another package keeps the scheme foreign to the operator's.\<close>

lemma package_foreign:
  assumes "foreignScheme s" and "fits s (packageKinds gv types)"
    and "gv_Group gv \<notin> {gv_Group GroupVersion, []}"
    and "UpdateServiceType \<notin> set types" and "UpdateServiceListType \<notin> set types"
  shows "\<exists>s'. runFuncs (bld_Funcs (packageBuilder gv types)) s = Some (None, s') \<and> foreignScheme s'"
proof -
  have shares: "sharesMeta s" using assms(1) by (simp add: foreignScheme_def)
  obtain s' where s': "runFuncs (bld_Funcs (packageBuilder gv types)) s = Some (None, s')"
    "gvkToType s' = gvkToType s ++ map_of (packageKinds gv types)"
    "\<And>t. typeToGVK s' t =
       fold appendNew (map fst (filter (\<lambda>p. snd p = t) (packageKinds gv types))) (typeToGVK s t)"
    "unversionedKinds s' = unversionedKinds s ++ map_of (named unversionedTypes)"
    using package_ok [OF assms(2) shares] by blast
  have own: "filter (\<lambda>p. snd p = t) (packageKinds gv types) = []"
    if "t = UpdateServiceType \<or> t = UpdateServiceListType" for t
  proof -
    have "snd ` set (metaKinds gv) \<subseteq> range metaType"
      by (auto simp: metaKinds_def kindsOf_def optionsTypes_def unversionedTypes_def)
    moreover have "t \<notin> range metaType" using that by (auto simp: metaType_def v1_simps)
    ultimately show ?thesis
      using assms(4,5) that by (fastforce simp: filter_empty_conv packageKinds_def kindsOf_def)
  qed
  have group: "gvkToType s' gvk = None" if "gvk_Group gvk = gv_Group GroupVersion" for gvk
  proof -
    have "gvk \<notin> fst ` set (packageKinds gv types)"
      by (rule notI, drule group_in_package) (use assms(3) that in \<open>auto simp: GroupVersion_def\<close>)
    then show ?thesis
      using assms(1) that by (simp add: s'(2) map_add_None map_of_eq_None_iff foreignScheme_def)
  qed
  have "gvkToType s' (WithKind Unversioned (gt_Name t)) \<in> {None, Some t} \<and>
      unversionedKinds s' (gt_Name t) \<in> {None, Some t}" if t: "t \<in> set unversionedTypes" for t
  proof -
    have "distinct (map fst (packageKinds gv types))" using assms(2) by (simp add: fits_def)
    moreover have "(WithKind Unversioned (gt_Name t), t) \<in> set (packageKinds gv types)"
      using t by (auto simp: packageKinds_def metaKinds_def kindsOf_def)
    ultimately have "map_of (packageKinds gv types) (WithKind Unversioned (gt_Name t)) = Some t"
      by (rule map_of_is_SomeI)
    moreover have "map_of (named unversionedTypes) (gt_Name t) = Some t"
      unfolding named_def using t names_distinct
      by (intro map_of_is_SomeI) (simp_all add: comp_def)
    ultimately show ?thesis by (simp add: s'(2,4) map_add_Some_iff)
  qed
  then show ?thesis
    using assms(1) s'(1) own group by (simp add: foreignScheme_def sharesMeta_def s'(3))
qed

lemma AddToScheme_ok:
  assumes "foreignScheme s"
  shows "\<exists>s'. AddToScheme s = Some (None, s') \<and> gvkToType s' = gvkToType s ++ map_of registered \<and>
    (\<forall>t. typeToGVK s' t = fold appendNew (map fst (filter (\<lambda>p. snd p = t) registered)) (typeToGVK s t))"
  using package_ok [OF registered_fits [OF assms]] assms by (auto simp: AddToScheme_package foreignScheme_def)

end
