(* ===== verification/MainProgram.thy ===== *)
theory MainProgram
  imports Mapper Scheme
begin

text \<open>
  \<open>main.go\<close> and \<open>controllers/controller.go\<close>: how the process starts. The manager comes from
  controller-runtime and is a parameter: its constructor, what it gives access to, the builder's
  \<open>Complete\<close> and \<open>Start\<close>. Flag parsing and log output, other than that of \<open>printVersion\<close>, are not modelled; the values of the two flags
  are an argument.
\<close>

section \<open>Definitions\<close>

record flags =
  metricsAddr :: string
  enableLeaderElection :: bool

text \<open>The options that \<open>main\<close> sets; the cache is restricted to the listed namespaces.\<close>

record options =
  opt_Scheme :: scheme
  BindAddress :: string
  LeaderElection :: bool
  LeaderElectionID :: string
  DefaultNamespaces :: "string list"

text \<open>
  The manager. A missing cluster configuration (\<open>GetConfigOrDie\<close>) ends the process with code 1, just
  like a manager that cannot be made, and counts as an error of \<open>NewManager\<close>. \<open>GetClient\<close> gives a reconciler of which only the client, the clock and the
  environment matter; \<open>Complete\<close> gets the mapper, the reconciler and the watches.
\<close>

record ('m, 'w) runtime =
  NewManager :: "options \<Rightarrow> go_error + 'm"
  GetScheme :: "'m \<Rightarrow> scheme"
  GetClient :: "'m \<Rightarrow> 'w reconciler"
  Complete :: "'m \<Rightarrow> 'w mapper \<Rightarrow> 'w reconciler \<Rightarrow> watch list \<Rightarrow> go_error option"
  Start :: "'m \<Rightarrow> go_error option"

text \<open>
  The version, a variable that the linker may set to another value, and the lines that \<open>printVersion\<close>
  logs with it and with the version and platform of the Go runtime.
\<close>

definition Operator :: string where
  "Operator = ''was not built correctly''"

definition printVersion :: "string \<Rightarrow> string \<Rightarrow> string \<Rightarrow> string \<Rightarrow> string list" where
  "printVersion operatorVersion goVersion GOOS GOARCH =
     [''Operator Version: '' @ operatorVersion,
      ''Go Version: '' @ goVersion,
      ''Go OS/Arch: '' @ GOOS @ ''/'' @ GOARCH]"

definition getEnvVar :: "(string \<Rightarrow> string option) \<Rightarrow> string \<Rightarrow> go_error + string" where
  "getEnvVar lookupEnv name =
     (case lookupEnv name of
        None \<Rightarrow> Inl (PlainError (name @ '' not found''))
      | Some val \<Rightarrow> Inr val)"

text \<open>How the process ends: \<open>os.Exit\<close> with a code, or \<open>main\<close> returns.\<close>

datatype outcome = Exited int | Returned

text \<open>The two values that \<open>main\<close> hands to the reconciler.\<close>

record operator_config =
  cfg_OperandImage :: string
  cfg_OperatorNamespace :: string

text \<open>The first part of \<open>main\<close>: the configuration and the manager's options.\<close>

definition configure ::
    "scheme \<Rightarrow> (string \<Rightarrow> string option) \<Rightarrow> flags \<Rightarrow> go_error + operator_config \<times> options" where
  "configure scheme lookupEnv fl =
     (case getEnvVar lookupEnv ''RELATED_IMAGE_OPERAND'' of
        Inl err \<Rightarrow> Inl err
      | Inr operandImage \<Rightarrow>
          (case getEnvVar lookupEnv ''POD_NAMESPACE'' of
             Inl err \<Rightarrow> Inl err
           | Inr podNamespace \<Rightarrow>
               Inr (\<lparr>cfg_OperandImage = operandImage, cfg_OperatorNamespace = podNamespace\<rparr>,
                    \<lparr>opt_Scheme = scheme,
                     BindAddress = metricsAddr fl,
                     LeaderElection = enableLeaderElection fl,
                     LeaderElectionID = ''48ad1930.openshift.io'',
                     DefaultNamespaces = [podNamespace, OpenshiftConfigNamespace]\<rparr>)))"

text \<open>The reconciler for a configuration; of the scheme it needs the kinds of an UpdateService.\<close>

definition newReconciler :: "operator_config \<Rightarrow> scheme \<Rightarrow> 'w reconciler \<Rightarrow> 'w reconciler" where
  "newReconciler cfg scheme r =
     r\<lparr>r_Scheme := typeToGVK scheme UpdateServiceType, r_OperandImage := cfg_OperandImage cfg,
       r_OperatorNamespace := cfg_OperatorNamespace cfg\<rparr>"

definition SetupWithManager ::
    "('m, 'w) runtime \<Rightarrow> 'w reconciler \<Rightarrow> 'm \<Rightarrow> string \<Rightarrow> go_error option" where
  "SetupWithManager rt r mgr namespace =
     Complete rt mgr \<lparr>m_client = GetClient rt mgr, m_namespace = namespace\<rparr> r controllerWatches"

definition mainProgram ::
    "('m, 'w) runtime \<Rightarrow> scheme \<Rightarrow> (string \<Rightarrow> string option) \<Rightarrow> flags \<Rightarrow> outcome" where
  "mainProgram rt scheme lookupEnv fl =
     (case configure scheme lookupEnv fl of
        Inl err \<Rightarrow> Exited 1
      | Inr (cfg, opts) \<Rightarrow>
          (case NewManager rt opts of
             Inl err \<Rightarrow> Exited 1
           | Inr mgr \<Rightarrow>
               (case SetupWithManager rt (newReconciler cfg (GetScheme rt mgr) (GetClient rt mgr)) mgr
                       (cfg_OperatorNamespace cfg) of
                  Some err \<Rightarrow> Exited 1
                | None \<Rightarrow>
                    (case Start rt mgr of
                       Some err \<Rightarrow> Exited 1
                     | None \<Rightarrow> Returned))))"

text \<open>The process: the package's \<open>init\<close>, whose panic ends it with code 2, and \<open>main\<close>.\<close>

definition operatorProcess ::
    "registrar \<Rightarrow> registrar \<Rightarrow> registrar \<Rightarrow> ('m, 'w) runtime \<Rightarrow> (string \<Rightarrow> string option) \<Rightarrow> flags \<Rightarrow> outcome" where
  "operatorProcess configv1 clientgo routev1 rt lookupEnv fl =
     (case main_init configv1 clientgo routev1 of
        None \<Rightarrow> Exited 2
      | Some scheme \<Rightarrow> mainProgram rt scheme lookupEnv fl)"

text \<open>\<open>AddToManager\<close> runs the registered functions until one fails.\<close>

definition AddToManager :: "('s, go_error option) state list \<Rightarrow> ('s, go_error option) state" where
  "AddToManager addToManagerFuncs = runUntilError addToManagerFuncs"

end
