(* ===== verification/ReconcileProps.thy ===== *)
theory ReconcileProps
  imports Safety MainProgram
begin

text \<open>
  Properties of a whole \<open>Reconcile\<close>: the early exits, the requests it may make, the status it
  saves and the result it returns.
\<close>

section \<open>Runs\<close>

definition startSession :: "'w \<Rightarrow> 'w sess" where
  "startSession w = \<lparr>se_world = w, se_status = emptyStatus, se_calls = []\<rparr>"

lemma runReconcile_eq:
  "runReconcile r req w =
     (case run_state (Reconcile r req) (startSession w) of (res, s) \<Rightarrow> (res, se_world s, se_calls s))"
  by (simp add: runReconcile_def startSession_def)

text \<open>The first request of a reconcile, and what follows when it finds the UpdateService.\<close>

lemma Reconcile_found:
  assumes "nn_Namespace req = r_OperatorNamespace r"
    and "r_api r (Get UpdateServiceKind req) w = (Found (UpdateServiceObj i), w1)"
  shows "run_state (Reconcile r req) (startSession w) =
    run_state (reconcileInstance r req (i\<lparr>us_Status := emptyStatus\<rparr>))
      \<lparr>se_world = w1, se_status = emptyStatus, se_calls = [Get UpdateServiceKind req]\<rparr>"
  using assms by (simp add: Reconcile_def startSession_def getObj_def invoke_def putStatus_def)

lemma Reconcile_not_found:
  assumes "nn_Namespace req = r_OperatorNamespace r"
    and "r_api r (Get UpdateServiceKind req) w = (ans, w1)"
    and "\<And>i. ans \<noteq> Found (UpdateServiceObj i)"
  shows "\<exists>res. run_state (Reconcile r req) (startSession w) =
    (res, (startSession w)\<lparr>se_world := w1, se_calls := [Get UpdateServiceKind req]\<rparr>)"
proof (cases ans)
  case (Found ob)
  then show ?thesis
    using assms
    by (cases ob) (auto simp: Reconcile_def startSession_def getObj_def invoke_def)
qed (use assms in \<open>auto simp: Reconcile_def startSession_def getObj_def invoke_def\<close>)

section \<open>Concrete servers\<close>

definition exampleKey :: namespaced_name where
  "exampleKey = namespacedName ''app'' ''ns''"

definition memWorld :: "kobject list \<Rightarrow> mem" where
  "memWorld obs = \<lparr>mem_objects = obs, mem_time = 1000\<rparr>"

lemma honest_mem: "honest (memReconciler getenv)"
  by (rule mem.honest)

text \<open>An UpdateService whose name cannot be part of a route name.\<close>

definition badName :: update_service where
  "badName = exampleInstance\<lparr>us_meta := newMeta ''a.b'' ''ns''\<rparr>"

section \<open>Runs of interest\<close>

lemma reconcile_own_namespace:
  "runReconcile r req w = (res, w', calls) \<Longrightarrow> calls \<noteq> [] \<Longrightarrow> nn_Namespace req = r_OperatorNamespace r"
  by (auto simp: runReconcile_def Reconcile_def split: if_splits)

lemma invalid_route_name_run:
  assumes "nn_Namespace req = r_OperatorNamespace r"
    and "r_api r (Get UpdateServiceKind req) w = (Found (UpdateServiceObj i), w1)"
    and "validateRouteName i (nn_Name req) (nn_Namespace req) = Some err"
  shows "\<exists>w' st c. runReconcile r req w =
      (emptyResult, w', [Get UpdateServiceKind req, UpdateStatus (i\<lparr>us_Status := st\<rparr>)]) \<and>
    us_Conditions st = [c] \<and> cond_Type c = ConditionReconcileError \<and>
    cond_Status c = ConditionTrue \<and> cond_Message c = err_Text err"
proof -
  let ?s0 = "\<lparr>se_world = w1, se_status = emptyStatus, se_calls = [Get UpdateServiceKind req]\<rparr>"
  let ?c = "newCondition ConditionReconcileError ConditionTrue
      ''Unable to create UpdateService route'' (err_Text err)"
  have v: "validateRouteName (i\<lparr>us_Status := emptyStatus\<rparr>) (nn_Name req) (nn_Namespace req) = Some err"
    using assms(3) by (simp add: validateRouteName_def namePolicyEngineRoute_def)
  obtain s1 where s1: "run_state (SetStatusCondition r ?c) ?s0 = ((), s1)" "conditionSet ?c ?s0 s1"
    using SetStatusCondition_run by blast
  obtain a s2 where s2: "run_state (saveStatus r (i\<lparr>us_Status := emptyStatus\<rparr>)) s1 = (a, s2)"
    by (cases "run_state (saveStatus r (i\<lparr>us_Status := emptyStatus\<rparr>)) s1")
  have "run_state (Reconcile r req) (startSession w) = (emptyResult, s2)"
    using s1(1) s2 v Reconcile_found [OF assms(1,2)] by (simp add: reconcileInstance_def)
  moreover have "se_calls s2 = [Get UpdateServiceKind req, UpdateStatus (i\<lparr>us_Status := se_status s1\<rparr>)]"
    using saveStatus_run [OF s2] s1(2) by (simp add: conditionSet_def)
  moreover obtain c where "FindStatusCondition (us_Conditions (se_status s1)) ConditionReconcileError = Some c"
      "cond_Status c = ConditionTrue" "cond_Message c = err_Text err"
    using s1(2) by (auto simp: conditionSet_def)
  moreover have "map cond_Type (us_Conditions (se_status s1)) = [ConditionReconcileError]"
    using s1(2) by (simp add: conditionSet_def emptyStatus_def)
  ultimately show ?thesis
    by (auto simp: runReconcile_eq FindStatusCondition_def split: if_splits)
qed

lemma badName_invalid:
  "keyOf (us_meta badName) = namespacedName ''a.b'' ''ns''"
  "\<exists>err. validateRouteName badName ''a.b'' ''ns'' = Some err"
proof -
  show "keyOf (us_meta badName) = namespacedName ''a.b'' ''ns''" by (simp add: badName_def)
  have "instName badName = ''a.b''" by (simp add: badName_def newMeta_def)
  moreover have "\<not> list_all labelChar ''a.b''" by code_simp
  ultimately have "validateRouteName badName ''a.b'' ''ns'' \<noteq> None"
    using fullMatch_label [of "''a.b-route-ns''"]
    by (simp add: validateRouteName_def namePolicyEngineRoute_def dnsLabel_def Let_def)
  then show "\<exists>err. validateRouteName badName ''a.b'' ''ns'' = Some err" by blast
qed

lemma bad_name_run:
  "\<exists>w' st. runReconcile (memReconciler (\<lambda>_. [])) (namespacedName ''a.b'' ''ns'')
       (memWorld [UpdateServiceObj badName]) =
     (emptyResult, w', [Get UpdateServiceKind (namespacedName ''a.b'' ''ns''),
        UpdateStatus (badName\<lparr>us_Status := st\<rparr>)])"
proof -
  obtain err where "validateRouteName badName ''a.b'' ''ns'' = Some err"
    using badName_invalid(2) by blast
  then show ?thesis
    using invalid_route_name_run [of "namespacedName ''a.b'' ''ns''" "memReconciler (\<lambda>_. [])"
        "memWorld [UpdateServiceObj badName]" badName "memWorld [UpdateServiceObj badName]" err]
    by (auto simp: memLookup_def memWorld_def badName_invalid(1))
qed

lemma allowed_requests:
  assumes "honest r" and "runReconcile r req w = (res, w', calls)"
  shows "calls = [] \<or> calls = [Get UpdateServiceKind req] \<or>
    (\<exists>i w1. r_api r (Get UpdateServiceKind req) w = (Found (UpdateServiceObj i), w1) \<and>
       keyOf (us_meta i) = req \<and> instNamespace i = r_OperatorNamespace r \<and>
       list_all (allowedCall (i\<lparr>us_Status := emptyStatus\<rparr>)) calls)"
proof (cases "nn_Namespace req = r_OperatorNamespace r")
  case False
  then show ?thesis using assms(2) by (auto simp: runReconcile_def Reconcile_def)
next
  case True
  obtain ans w1 where get: "r_api r (Get UpdateServiceKind req) w = (ans, w1)"
    by (cases "r_api r (Get UpdateServiceKind req) w")
  show ?thesis
  proof (cases "\<exists>i. ans = Found (UpdateServiceObj i)")
    case False
    then show ?thesis
      using Reconcile_not_found [OF True get] assms(2) by (auto simp: runReconcile_eq)
  next
    case found: True
    then obtain i where i: "ans = Found (UpdateServiceObj i)" by blast
    let ?i = "i\<lparr>us_Status := emptyStatus\<rparr>"
    let ?s0 = "\<lparr>se_world = w1, se_status = emptyStatus, se_calls = []\<rparr>"
    have key: "keyOf (us_meta i) = req"
      using assms(1) get i unfolding honest_def by fastforce
    then have ns: "instNamespace i = r_OperatorNamespace r"
      using True by (auto simp: keyOf_def)
    obtain s' where run: "run_state (reconcileInstance r req ?i)
        \<lparr>se_world = w1, se_status = emptyStatus, se_calls = [Get UpdateServiceKind req]\<rparr> = (res, s')"
      and calls: "se_calls s' = calls"
      using assms(2) Reconcile_found [OF True get [unfolded i]]
      by (auto simp: runReconcile_eq split: prod.splits)
    have "allowedCall ?i (Get UpdateServiceKind req)"
      using True ns by (simp add: readable_def)
    then have "callsOK (allowedCall ?i) s'"
      by (intro keepsD [OF safe_reconcileInstance [OF assms(1)] _ run]) (simp add: callsOK_def)
    then show ?thesis
      using get i key ns calls by (auto simp: callsOK_def)
  qed
qed

section \<open>Properties\<close>

text \<open>
  A request for another namespace than the operator's is ignored: no request to the server,
  nothing changed, no error and no requeue. A request whose UpdateService is gone makes one read
  and ends without an error; any other failure of that read is returned, to be retried.
\<close>

theorem reconcile_early_exits:
  "(nn_Namespace req \<noteq> r_OperatorNamespace r \<longrightarrow> runReconcile r req w = (emptyResult, w, [])) \<and>
   (nn_Namespace req = r_OperatorNamespace r \<longrightarrow>
      r_api r (Get UpdateServiceKind req) w = (Failed e, w1) \<longrightarrow>
      runReconcile r req w =
        (if IsNotFound e then emptyResult else failedResult e, w1, [Get UpdateServiceKind req]))"
  by (auto simp: runReconcile_def Reconcile_def getObj_def invoke_def)

theorem reconcile_early_exits_witness:
  "runReconcile (memReconciler (\<lambda>_. [])) (namespacedName ''app'' ''other'') (memWorld []) =
     (emptyResult, memWorld [], []) \<and>
   runReconcile (memReconciler (\<lambda>_. [])) exampleKey (memWorld []) =
     (emptyResult, memWorld [], [Get UpdateServiceKind exampleKey])"
  using reconcile_early_exits [of "namespacedName ''app'' ''other''" "memReconciler (\<lambda>_. [])" "memWorld []"]
    reconcile_early_exits [of exampleKey "memReconciler (\<lambda>_. [])" "memWorld []" notFoundError "memWorld []"]
  by (simp add: exampleKey_def memLookup_def memWorld_def notFoundError_def)

text \<open>
  C29: an UpdateService whose name does not give a valid route name is only reported: the operator
  reads it, saves a status with the one condition ReconcileError that carries the message of the
  check, and does nothing else, whatever else the cluster holds.
\<close>

theorem reconcile_invalid_route_name:
  assumes "nn_Namespace req = r_OperatorNamespace r"
    and "r_api r (Get UpdateServiceKind req) w = (Found (UpdateServiceObj i), w1)"
    and "validateRouteName i (nn_Name req) (nn_Namespace req) = Some err"
  shows "\<exists>w' st c. runReconcile r req w =
      (emptyResult, w', [Get UpdateServiceKind req, UpdateStatus (i\<lparr>us_Status := st\<rparr>)]) \<and>
    us_Conditions st = [c] \<and> cond_Type c = ConditionReconcileError \<and>
    cond_Status c = ConditionTrue \<and> cond_Message c = err_Text err"
  by (rule invalid_route_name_run [OF assms])

theorem reconcile_invalid_route_name_witness:
  "\<exists>w' st. runReconcile (memReconciler (\<lambda>_. [])) (namespacedName ''a.b'' ''ns'')
       (memWorld [UpdateServiceObj badName]) =
     (emptyResult, w', [Get UpdateServiceKind (namespacedName ''a.b'' ''ns''),
        UpdateStatus (badName\<lparr>us_Status := st\<rparr>)])"
proof -
  obtain err where "validateRouteName badName ''a.b'' ''ns'' = Some err"
    using badName_invalid(2) by blast
  then show ?thesis
    using reconcile_invalid_route_name [of "namespacedName ''a.b'' ''ns''" "memReconciler (\<lambda>_. [])"
        "memWorld [UpdateServiceObj badName]" badName "memWorld [UpdateServiceObj badName]" err]
    by (auto simp: memLookup_def memWorld_def badName_invalid(1))
qed

text \<open>
  C5: every request of a reconcile is allowed, whatever the server answers as long as its answers
  are about the objects asked for: all requests belong to the UpdateService that the first read
  finds. Reads stay in its namespace, in \<open>openshift-config\<close> or at cluster scope; what is created
  is one of its objects, in its namespace and controlled by it; what is updated is one of its
  objects; only its graph-data pod is deleted; and a status update changes nothing but the
  status, and saves only a status that claims success or reports the invalid route name.
\<close>

theorem reconcile_requests_allowed:
  assumes "honest r" and "runReconcile r req w = (res, w', calls)"
  shows "calls = [] \<or> calls = [Get UpdateServiceKind req] \<or>
    (\<exists>i w1. r_api r (Get UpdateServiceKind req) w = (Found (UpdateServiceObj i), w1) \<and>
       keyOf (us_meta i) = req \<and> instNamespace i = r_OperatorNamespace r \<and>
       list_all (allowedCall (i\<lparr>us_Status := emptyStatus\<rparr>)) calls)"
  by (rule allowed_requests [OF assms])

theorem reconcile_requests_allowed_witness:
  "\<exists>res w' calls. runReconcile (memReconciler (\<lambda>_. [])) exampleKey (memWorld [UpdateServiceObj exampleInstance]) =
       (res, w', calls) \<and>
     list_all (\<lambda>c. c = Get UpdateServiceKind exampleKey \<or> allowedCall exampleInstance c) calls"
proof -
  let ?w = "memWorld [UpdateServiceObj exampleInstance]"
  obtain res w' calls where run: "runReconcile (memReconciler (\<lambda>_. [])) exampleKey ?w = (res, w', calls)"
    using prod_cases3 by blast
  have same: "exampleInstance\<lparr>us_Status := emptyStatus\<rparr> = exampleInstance"
    by (simp add: exampleInstance_def)
  have get: "r_api (memReconciler (\<lambda>_. [])) (Get UpdateServiceKind exampleKey) ?w =
      (Found (UpdateServiceObj exampleInstance), ?w)"
    by (simp add: memLookup_def memWorld_def exampleKey_def example_defs keyOf_def namespacedName_def)
  have "list_all (\<lambda>c. c = Get UpdateServiceKind exampleKey \<or> allowedCall exampleInstance c) calls"
    using reconcile_requests_allowed [OF honest_mem run]
  proof (elim disjE exE conjE)
    fix i w1
    assume "r_api (memReconciler (\<lambda>_. [])) (Get UpdateServiceKind exampleKey) ?w =
        (Found (UpdateServiceObj i), w1)"
    from trans [OF sym [OF this] get] have "i = exampleInstance" by simp
    moreover assume "list_all (allowedCall (i\<lparr>us_Status := emptyStatus\<rparr>)) calls"
    ultimately show ?thesis by (simp add: same list_all_iff)
  qed simp_all
  with run show ?thesis by blast
qed

text \<open>
  C33: everything the operator asks for is in its cache: with the configuration that \<open>main\<close> takes
  from the environment, a reconcile reads only in the namespaces that \<open>main\<close> puts into the cache
  options, or at cluster scope.
\<close>

theorem reads_are_cached:
  assumes "configure scheme lookupEnv fl = Inr (cfg, opts)"
    and "honest r" and "r_OperatorNamespace r = cfg_OperatorNamespace cfg"
    and "runReconcile r req w = (res, w', calls)"
    and "Get k key \<in> set calls"
  shows "nn_Namespace key \<in> set (DefaultNamespaces opts) \<union> {[]}"
proof -
  have ns: "set (DefaultNamespaces opts) = {r_OperatorNamespace r, OpenshiftConfigNamespace}"
    using assms(1,3) by (auto simp: configure_def split: sum.splits)
  have own: "calls \<noteq> [] \<Longrightarrow> nn_Namespace req = r_OperatorNamespace r"
    using reconcile_own_namespace [OF assms(4)] by blast
  have "nn_Namespace key \<in> {r_OperatorNamespace r, OpenshiftConfigNamespace, []}"
    using allowed_requests [OF assms(2,4)]
  proof (elim disjE exE conjE)
    assume "calls = [Get UpdateServiceKind req]"
    then show ?thesis using assms(5) own by simp
  next
    fix i w1
    assume "instNamespace i = r_OperatorNamespace r"
      and "list_all (allowedCall (i\<lparr>us_Status := emptyStatus\<rparr>)) calls"
    then show ?thesis using assms(5) by (fastforce simp: list_all_iff readable_def)
  qed (use assms(5) in simp)
  then show ?thesis using ns by blast
qed

theorem reads_are_cached_witness:
  "\<exists>cfg opts. configure newScheme (\<lambda>v. Some (if v = ''POD_NAMESPACE'' then ''ns'' else ''img''))
       \<lparr>metricsAddr = '':8080'', enableLeaderElection = False\<rparr> = Inr (cfg, opts) \<and>
     nn_Namespace exampleKey \<in> set (DefaultNamespaces opts) \<union> {[]}"
proof -
  let ?env = "\<lambda>v. Some (if v = ''POD_NAMESPACE'' then ''ns'' else ''img'')"
  let ?fl = "\<lparr>metricsAddr = '':8080'', enableLeaderElection = False\<rparr>"
  obtain cfg opts where c: "configure newScheme ?env ?fl = Inr (cfg, opts)" "cfg_OperatorNamespace cfg = ''ns''"
    by (simp add: configure_def getEnvVar_def)
  have "runReconcile (memReconciler (\<lambda>_. [])) exampleKey (memWorld []) =
      (emptyResult, memWorld [], [Get UpdateServiceKind exampleKey])"
    by (simp add: runReconcile_def Reconcile_def getObj_def invoke_def exampleKey_def memLookup_def
        memWorld_def notFoundError_def)
  from reads_are_cached [OF c(1) honest_mem _ this] c show ?thesis by auto
qed



end
