(* ===== verification/ConvergeProps.thy ===== *)
theory ConvergeProps
  imports Converge ReconcileProps
begin

text \<open>
  Convergence of a whole \<open>Reconcile\<close>: after one run the cluster is as it should be, and further
  runs only read and refresh the status.
\<close>

section \<open>What rendering depends on\<close>

definition sameService :: "update_service \<Rightarrow> update_service \<Rightarrow> bool" where
  "sameService i i' \<longleftrightarrow> us_Spec i' = us_Spec i \<and> keyOf (us_meta i') = keyOf (us_meta i)"

lemma sameService_names:
  assumes "sameService i i'"
  shows "us_Spec i' = us_Spec i" "instName i' = instName i" "instNamespace i' = instNamespace i"
  using assms by (auto simp: sameService_def keyOf_def)

lemma sameService_keys:
  assumes "sameService i i'"
  shows "nameDeployment i' = nameDeployment i"
    "namePodDisruptionBudget i' = namePodDisruptionBudget i"
    "nameEnvConfig i' = nameEnvConfig i" "nameConfig i' = nameConfig i"
    "namePolicyEngineService i' = namePolicyEngineService i"
    "nameGraphBuilderService i' = nameGraphBuilderService i"
    "namePolicyEngineRoute i' = namePolicyEngineRoute i"
    "oldPolicyEngineRouteName i' = oldPolicyEngineRouteName i"
    "nameAdditionalTrustedCA i' = nameAdditionalTrustedCA i"
    "namePullSecretCopy i' = namePullSecretCopy i"
    "getMinAvailablePBD i' = getMinAvailablePBD i"
  by (simp_all add: name_defs getMinAvailablePBD_def sameService_names [OF assms])

lemma render_parts_same:
  assumes "sameService i i'"
  shows "newEnvConfig i' = newEnvConfig i" "newGraphBuilderConfig i' = newGraphBuilderConfig i"
    "newPullSecret i' = newPullSecret i" "newTrustedCAConfig i' = newTrustedCAConfig i"
    "newTrustedClusterCAConfig getenv i' = newTrustedClusterCAConfig getenv i"
    "newPodDisruptionBudget i' = newPodDisruptionBudget i"
    "newGraphBuilderService i' = newGraphBuilderService i"
    "newPolicyEngineService i' = newPolicyEngineService i"
    "newPolicyEngineRoute i' = newPolicyEngineRoute i"
    "oldPolicyEngineRoute i' = oldPolicyEngineRoute i"
    "newNetworkPolicy getenv i' = newNetworkPolicy getenv i"
    "newVolumes i' = newVolumes i" "newDeployment i' = newDeployment i"
    "newGraphBuilderContainer getenv i' = newGraphBuilderContainer getenv i"
    "newPolicyEngineContainer i' = newPolicyEngineContainer i"
    "newGraphDataInitContainer i' = newGraphDataInitContainer i"
  unfolding fun_eq_iff newEnvConfig_def newGraphBuilderConfig_def newPullSecret_def
    newTrustedCAConfig_def newTrustedClusterCAConfig_def newPodDisruptionBudget_def
    newGraphBuilderService_def newPolicyEngineService_def newPolicyEngineRoute_def
    oldPolicyEngineRoute_def policyEngineRouteNamed_def newNetworkPolicy_def registryEgress_def
    newVolumes_def newGraphBuilderContainer_def newPolicyEngineContainer_def
    newGraphDataInitContainer_def newDeployment_def sameService_names [OF assms]
    sameService_keys [OF assms]
  by simp_all

lemma render_same:
  assumes "sameService i i'"
  shows "newKubeResources getenv i' = newKubeResources getenv i"
  unfolding newKubeResources_def fun_eq_iff render_parts_same [OF assms] by simp

lemma desired_same:
  assumes "sameService i i'"
  shows "desiredResources r i' L = desiredResources r i L" and "resourcesFor i' k = resourcesFor i k"
    and "ownedObjects i' = ownedObjects i" and "validateRouteName i' n ns = validateRouteName i n ns"
    and "digestIn i' L = digestIn i L" and "podSettled i' L = podSettled i L"
    and "podStateOf L i' = podStateOf L i" and "podAfter i' L = podAfter i L"
  unfolding desiredResources_def clusterCAIn_def resourcesFor_def ownedObjects_def validateRouteName_def
    digestIn_def podAfter_def podSettled_def podStateOf_def render_same [OF assms] render_parts_same [OF assms] sameService_names [OF assms]
    sameService_keys [OF assms] by (rule refl)+

text \<open>
  The request is about an UpdateService of the operator, with a valid name, for which the operator
  can read what it needs and renders the resources \<open>k\<close>.
\<close>

definition renderable ::
    "'w reconciler \<Rightarrow> namespaced_name \<Rightarrow> contents \<Rightarrow> update_service \<Rightarrow> kube_resources \<Rightarrow> bool" where
  "renderable r req L i k \<longleftrightarrow>
     nn_Namespace req = r_OperatorNamespace r \<and> nn_Namespace req \<noteq> OpenshiftConfigNamespace \<and>
     L UpdateServiceKind req = Some (UpdateServiceObj i) \<and> instName i \<noteq> ''cluster'' \<and>
     validateRouteName i (nn_Name req) (nn_Namespace req) = None \<and>
     desiredResources r i L = Some k"

lemma renderableD:
  assumes "renderable r req L i k"
  shows "nn_Namespace req = r_OperatorNamespace r" "nn_Namespace req \<noteq> OpenshiftConfigNamespace"
    "L UpdateServiceKind req = Some (UpdateServiceObj i)" "instName i \<noteq> ''cluster''"
    "validateRouteName i (nn_Name req) (nn_Namespace req) = None" "desiredResources r i L = Some k"
  using assms unfolding renderable_def by blast+

text \<open>The request is about an UpdateService of the operator to which the cluster has been rolled out.\<close>

definition rolledOut ::
    "'w reconciler \<Rightarrow> namespaced_name \<Rightarrow> contents \<Rightarrow> update_service \<Rightarrow> kube_resources \<Rightarrow> bool" where
  "rolledOut r req L i k \<longleftrightarrow>
     nn_Namespace req = r_OperatorNamespace r \<and>
     L UpdateServiceKind req = Some (UpdateServiceObj i) \<and>
     validateRouteName i (nn_Name req) (nn_Namespace req) = None \<and>
     desiredResources r i L = Some k \<and> podSettled i L \<and> upToDate (digestIn i L) L k"

text \<open>The contents of the cluster's CA only go into its own ConfigMap.\<close>

lemma render_cluster_ca:
  assumes "newKubeResources getenv i img ps ca cca = Inr k"
  shows "newKubeResources getenv i img ps ca cca' =
    Inr (k\<lparr>kr_trustedClusterCAConfig := newTrustedClusterCAConfig getenv i cca'\<rparr>)"
proof -
  have *: "newTrustedClusterCAConfig getenv i cca' = None \<longleftrightarrow> newTrustedClusterCAConfig getenv i cca = None"
    by (simp add: newTrustedClusterCAConfig_def split: option.split)
  have "newVolumes i t (newTrustedClusterCAConfig getenv i cca') =
      newVolumes i t (newTrustedClusterCAConfig getenv i cca)"
    "newGraphBuilderVolumeMounts t (newTrustedClusterCAConfig getenv i cca') =
      newGraphBuilderVolumeMounts t (newTrustedClusterCAConfig getenv i cca)" for t
    by (simp_all only: newVolumes_def newGraphBuilderVolumeMounts_def *)
  then show ?thesis using assms by (auto simp: newKubeResources_def Let_def split: sum.splits)
qed

section \<open>The second run\<close>

lemma routeInUse_same:
  assumes "kr_policyEngineOldRoute k' = kr_policyEngineOldRoute k"
    and "kr_policyEngineRoute k' = kr_policyEngineRoute k"
  shows "routeInUse L k' = routeInUse L k"
  unfolding routeInUse_def assms by (rule refl)

lemma upToDate_cluster_ca:
  assumes "upToDate sha L k" and "resourcesFor i k" and "resourcesFor i (k\<lparr>kr_trustedClusterCAConfig := x\<rparr>)"
    and "x = None \<longleftrightarrow> kr_trustedClusterCAConfig k = None"
  shows "upToDate sha L (k\<lparr>kr_trustedClusterCAConfig := x\<rparr>)"
proof -
  have sync: "syncContainer (k\<lparr>kr_trustedClusterCAConfig := x\<rparr>) = syncContainer k"
    "syncInitContainer (k\<lparr>kr_trustedClusterCAConfig := x\<rparr>) = syncInitContainer k"
    by (simp_all add: fun_eq_iff syncContainer_def syncInitContainer_def)
  have "mergeDeploymentSpec (k\<lparr>kr_trustedClusterCAConfig := x\<rparr>) = mergeDeploymentSpec k"
    by (intro ext) (simp add: mergeDeploymentSpec_def mergePodSpec_def sync)
  moreover have "clusterCAUpToDate L (k\<lparr>kr_trustedClusterCAConfig := x\<rparr>)"
    using assms by (cases x; cases "kr_trustedClusterCAConfig k")
      (auto simp: upToDate_def clusterCAUpToDate_def resourcesFor_def Let_def)
  moreover have "routeInUse L (k\<lparr>kr_trustedClusterCAConfig := x\<rparr>) = routeInUse L k"
    by (rule routeInUse_same) simp_all
  ultimately show ?thesis
    using assms(1)
    by (simp add: upToDate_def trustedCAUpToDate_def routeUpToDate_def deploymentUpToDate_def)
qed

lemma ownedObjects_outside:
  "(kd, key) \<in> set (ownedObjects i) \<Longrightarrow>
     nn_Namespace key = instNamespace i \<and> kd \<noteq> ImageKind \<and> kd \<noteq> UpdateServiceKind"
  by (auto simp: ownedObjects_def Let_def)

lemma reads_agree:
  assumes "agreeExcept (insert (UpdateServiceKind, key) (set (ownedObjects i))) L L'"
    and "instNamespace i \<noteq> OpenshiftConfigNamespace"
  shows "pullSecretIn L' = pullSecretIn L" and "trustedCAIn L' = trustedCAIn L"
proof -
  have eq: "L' kd k = L kd k"
    if "(kd, k) \<notin> set (ownedObjects i)" and "kd \<noteq> UpdateServiceKind" for kd k
    using assms(1) that unfolding agreeExcept_def by blast
  have "(SecretKind, namespacedName n OpenshiftConfigNamespace) \<notin> set (ownedObjects i)"
    "(ConfigMapKind, namespacedName n OpenshiftConfigNamespace) \<notin> set (ownedObjects i)"
    "(ImageKind, k) \<notin> set (ownedObjects i)" for n k
    using ownedObjects_outside [of _ _ i] assms(2) by fastforce+
  note eqs = this [THEN eq, simplified]
  show "pullSecretIn L' = pullSecretIn L" and "trustedCAIn L' = trustedCAIn L"
    unfolding pullSecretIn_def trustedCAIn_def eqs by (rule refl)+
qed

lemma desired_again:
  assumes "agreeExcept (insert (UpdateServiceKind, key) (set (ownedObjects i))) L L'"
    and "instNamespace i \<noteq> OpenshiftConfigNamespace" and "sameService i i'"
    and "desiredResources r i L = Some k"
  shows "desiredResources r i' L' = Some (k\<lparr>kr_trustedClusterCAConfig :=
    newTrustedClusterCAConfig (r_getenv r) i (clusterCAIn (r_getenv r) i' L')\<rparr>)"
proof -
  obtain ps ca where reads: "pullSecretIn L = Some ps" "trustedCAIn L = Some ca"
    and k: "newKubeResources (r_getenv r) i (r_OperandImage r) ps ca (clusterCAIn (r_getenv r) i L) = Inr k"
    using assms(4) by (auto simp: desiredResources_def split: option.splits sum.splits)
  show ?thesis
    unfolding desiredResources_def reads_agree [OF assms(1,2)] reads render_same [OF assms(3)]
    by (simp add: render_cluster_ca [OF k])
qed

context object_store
begin

lemma desired_resourcesFor:
  assumes "desiredResources r i (lookup w) = Some k"
  shows "resourcesFor i k"
proof -
  obtain ps ca where
    k: "newKubeResources (r_getenv r) i (r_OperandImage r) ps ca (clusterCAIn (r_getenv r) i (lookup w)) = Inr k"
    using assms by (auto simp: desiredResources_def split: option.splits sum.splits)
  have "keyOf (cm_meta c) = namespacedName NameClusterTrustedCAVolume (instNamespace i)"
    if "clusterCAIn (r_getenv r) i (lookup w) = Some c" for c
    using that lookup_found [of w ConfigMapKind] newTrustedClusterCAConfig_key [of None i "r_getenv r" c]
    by (fastforce simp: clusterCAIn_def split: option.splits if_splits)
  then show ?thesis by (rule rendered_resourcesFor [OF k])
qed

lemma runReconcile_found:
  assumes "nn_Namespace req = r_OperatorNamespace r"
    and "lookup w UpdateServiceKind req = Some (UpdateServiceObj i)"
  shows "\<exists>s :: 'w sess. lookup (se_world s) = lookup w \<and> quietSince [] s \<and> se_status s = emptyStatus \<and>
    runReconcile r req w =
      (case run_state (reconcileInstance r req (i\<lparr>us_Status := emptyStatus\<rparr>)) s of
         (res, s') \<Rightarrow> (res, se_world s', se_calls s'))"
proof -
  have "r_api r (Get UpdateServiceKind req) w = (Found (UpdateServiceObj i), w)"
    using get [of UpdateServiceKind req w] assms(2) by auto
  from Reconcile_found [OF assms(1) this] show ?thesis
    by (intro exI [of _ "\<lparr>se_world = w, se_status = emptyStatus, se_calls = [Get UpdateServiceKind req]\<rparr>"])
      (simp add: runReconcile_eq quietSince_def)
qed

lemma reconcile_run:
  assumes "r_Scheme r = [g]" and "nn_Namespace req = r_OperatorNamespace r"
    and found: "lookup w UpdateServiceKind req = Some (UpdateServiceObj i)"
    and "instName i \<noteq> ''cluster''"
    and "validateRouteName i (nn_Name req) (nn_Namespace req) = None"
    and "desiredResources r i (lookup w) = Some k"
    and run: "runReconcile r req w = (res, w1, calls)"
  shows "res = \<lparr>RequeueAfter = fiveMinutes, Err = None\<rparr> \<and>
    upToDate (if lookup w DeploymentKind (keyOf (dep_meta (kr_deployment k))) = None then []
              else digestIn i (lookup w)) (lookup w1) k \<and>
    podStateOf (lookup w1) i = podAfter i (lookup w) \<and>
    agreeExcept (insert (UpdateServiceKind, req) (set (ownedObjects i))) (lookup w) (lookup w1) \<and>
    (\<exists>new. lookup w1 UpdateServiceKind req = Some (UpdateServiceObj new) \<and> sameService i new)"
proof -
  let ?i = "i\<lparr>us_Status := emptyStatus\<rparr>"
  have same: "sameService ?i i" "sameService i ?i" by (simp_all add: sameService_def)
  have key: "keyOf (us_meta i) = req" using lookup_found [OF found] by simp
  have desired: "desiredResources r ?i (lookup w) = Some k"
    using assms(6) by (simp add: desired_same(1) [OF same(2)])
  have valid: "validateRouteName ?i (nn_Name req) (nn_Namespace req) = None"
    using assms(5) by (simp add: desired_same(4) [OF same(2)])
  obtain s :: "'w sess" where s: "lookup (se_world s) = lookup w"
    "runReconcile r req w = (case run_state (reconcileInstance r req ?i) s of
       (res, s') \<Rightarrow> (res, se_world s', se_calls s'))"
    using runReconcile_found [OF assms(2) found] by blast
  obtain s1 where s1: "lookup (se_world s1) = lookup w"
    "run_state (reconcileInstance r req ?i) s = run_state (ensureAll r ?i k) s1"
    using reaches_ensureAll [OF valid desired, of "se_calls s" s] still_start [of lookup s]
    by (auto simp: s(1) still_def)
  obtain ps ca cca where k: "newKubeResources (r_getenv r) ?i (r_OperandImage r) ps ca cca = Inr k"
    using desired by (auto simp: desiredResources_def split: option.splits sum.splits)
  have own: "ownedObjects ?i = ownedObjects i"
    by (rule desired_same(3) [OF same(2)])
  have us_simps: "us_meta ?i = us_meta i" "us_Spec ?i = us_Spec i" by simp_all
  have prem: "instName ?i \<noteq> ''cluster''" "caReady ?i k (lookup (se_world s1))"
    "lookup (se_world s1) UpdateServiceKind (keyOf (us_meta ?i)) = Some (UpdateServiceObj i)"
    using assms(4) found desired_caReady [OF desired] by (simp_all add: s1(1) key)
  note conv = ensureAll_converges [OF assms(1) k desired_resourcesFor [OF desired] prem]
  have "\<exists>s' new. run_state (ensureAll r ?i k) s1 = (\<lparr>RequeueAfter = fiveMinutes, Err = None\<rparr>, s') \<and>
      upToDate (if lookup w DeploymentKind (keyOf (dep_meta (kr_deployment k))) = None then []
                else digestIn i (lookup w)) (lookup (se_world s')) k \<and>
      podStateOf (lookup (se_world s')) i = podAfter i (lookup w) \<and>
      agreeExcept (insert (UpdateServiceKind, req) (set (ownedObjects i))) (lookup w) (lookup (se_world s')) \<and>
      lookup (se_world s') UpdateServiceKind req = Some (UpdateServiceObj new) \<and>
      keyOf (us_meta new) = keyOf (us_meta i) \<and> us_Spec new = us_Spec i"
    using conv by (simp only: s1(1) key own desired_same(5,7,8) [OF same(2)] us_simps)
  then show ?thesis using run s(2) s1(2) by (auto simp: sameService_def)
qed

text \<open>What was rendered is rendered again, and is up to date, after the run that established it.\<close>

lemma ready_again:
  assumes "instNamespace i \<noteq> OpenshiftConfigNamespace" and same: "sameService i i'"
    and desired: "desiredResources r i (lookup w) = Some k"
    and agree: "agreeExcept (insert (UpdateServiceKind, req) (set (ownedObjects i))) (lookup w) (lookup w1)"
    and up: "upToDate sha (lookup w1) k"
  shows "\<exists>k'. desiredResources r i' (lookup w1) = Some k' \<and> upToDate sha (lookup w1) k'"
proof -
  let ?x = "newTrustedClusterCAConfig (r_getenv r) i (clusterCAIn (r_getenv r) i' (lookup w1))"
  let ?k = "k\<lparr>kr_trustedClusterCAConfig := ?x\<rparr>"
  have desired': "desiredResources r i' (lookup w1) = Some ?k"
    by (rule desired_again [OF agree assms(1) same desired])
  obtain ps ca cca where k: "newKubeResources (r_getenv r) i (r_OperandImage r) ps ca cca = Inr k"
    using desired by (auto simp: desiredResources_def split: option.splits sum.splits)
  have none: "?x = None \<longleftrightarrow> kr_trustedClusterCAConfig k = None"
    by (simp add: newKubeResources_fields(6) [OF k] newTrustedClusterCAConfig_def split: option.split)
  have "resourcesFor i k" "resourcesFor i ?k"
    using desired_resourcesFor [OF desired]
      desired_resourcesFor [OF desired', unfolded desired_same(2) [OF same]] .
  from desired' upToDate_cluster_ca [OF up this none] show ?thesis by blast
qed

text \<open>One reconcile of several.\<close>

lemma reconcile_next:
  assumes g: "r_Scheme r = [g]" and start: "renderable r req (lookup w) i k"
    and run: "runReconcile r req w = (res, w1, calls)"
  shows "\<exists>new k'. renderable r req (lookup w1) new k' \<and> sameService i new \<and>
    res = \<lparr>RequeueAfter = fiveMinutes, Err = None\<rparr> \<and>
    agreeExcept (insert (UpdateServiceKind, req) (set (ownedObjects i))) (lookup w) (lookup w1) \<and>
    upToDate (if lookup w DeploymentKind (namespacedName (nameDeployment i) (instNamespace i)) = None then []
              else digestIn i (lookup w)) (lookup w1) k' \<and>
    lookup w1 DeploymentKind (namespacedName (nameDeployment i) (instNamespace i)) \<noteq> None \<and>
    podStateOf (lookup w1) i = podAfter i (lookup w)"
proof -
  note s = renderableD [OF start]
  note desired = s(6)
  have dep: "keyOf (dep_meta (kr_deployment k)) = namespacedName (nameDeployment i) (instNamespace i)"
    using desired_resourcesFor [OF desired] by (simp add: resourcesFor_def Let_def)
  note first = reconcile_run [OF g s(1,3,4,5) desired run, unfolded dep]
  obtain new where new: "lookup w1 UpdateServiceKind req = Some (UpdateServiceObj new)" "sameService i new"
    using first by blast
  have "keyOf (us_meta i) = req" using lookup_found [OF s(3)] by simp
  then have ns: "instNamespace i \<noteq> OpenshiftConfigNamespace" using s(2) by (auto simp: keyOf_def)
  have agree: "agreeExcept (insert (UpdateServiceKind, req) (set (ownedObjects i))) (lookup w) (lookup w1)"
    and up: "upToDate (if lookup w DeploymentKind (namespacedName (nameDeployment i) (instNamespace i)) = None
       then [] else digestIn i (lookup w)) (lookup w1) k"
    using first by blast+
  obtain k' where k': "desiredResources r new (lookup w1) = Some k'"
    "upToDate (if lookup w DeploymentKind (namespacedName (nameDeployment i) (instNamespace i)) = None
       then [] else digestIn i (lookup w)) (lookup w1) k'"
    using ready_again [OF ns new(2) desired agree up] by blast
  have "renderable r req (lookup w1) new k'"
    unfolding renderable_def desired_same(4) [OF new(2)] sameService_names [OF new(2)]
    using s new(1) k'(1) by blast
  moreover have "lookup w1 DeploymentKind (namespacedName (nameDeployment i) (instNamespace i)) \<noteq> None"
    using up by (auto simp: upToDate_def deploymentUpToDate_def dep)
  ultimately show ?thesis using first s new(2) k'(2) agree by blast
qed

lemma renderable_rolledOut:
  "renderable r req L i k \<Longrightarrow> podSettled i L \<Longrightarrow> upToDate (digestIn i L) L k \<Longrightarrow> rolledOut r req L i k"
  unfolding renderable_def rolledOut_def by blast

text \<open>With an image given by digest one reconcile is enough, in all cases two are.\<close>

lemma reconcile_rolls_out:
  assumes "r_Scheme r = [g]" and "renderable r req (lookup w) i k"
    and "Contains (us_GraphDataImage (us_Spec i)) ''@sha256''"
    and "runReconcile r req w = (res, w1, calls)"
  shows "\<exists>new k'. rolledOut r req (lookup w1) new k' \<and> sameService i new"
proof -
  obtain new k' where new: "renderable r req (lookup w1) new k'" "sameService i new"
    and up: "upToDate (if lookup w DeploymentKind (namespacedName (nameDeployment i) (instNamespace i)) = None
      then [] else digestIn i (lookup w)) (lookup w1) k'"
    using reconcile_next [OF assms(1,2,4)] by blast
  have "digestIn i L = []" "digestIn new L = []" "podSettled new L" for L
    using assms(3) sameService_names [OF new(2)] by (simp_all add: digestIn_def podSettled_def)
  then have "rolledOut r req (lookup w1) new k'"
    using renderable_rolledOut [OF new(1)] up by (simp split: if_splits)
  with new(2) show ?thesis by blast
qed

lemma reconcile_rolls_out_twice:
  assumes "r_Scheme r = [g]" and "renderable r req (lookup w) i k"
    and run1: "runReconcile r req w = (res, w1, calls)" and run2: "runReconcile r req w1 = (res', w2, calls')"
  shows "res = \<lparr>RequeueAfter = fiveMinutes, Err = None\<rparr> \<and> res' = res \<and>
    agreeExcept (insert (UpdateServiceKind, req) (set (ownedObjects i))) (lookup w) (lookup w2) \<and>
    (\<exists>new k'. rolledOut r req (lookup w2) new k' \<and> sameService i new)"
proof -
  let ?dep = "namespacedName (nameDeployment i) (instNamespace i)"
  obtain i1 k1 where 1: "renderable r req (lookup w1) i1 k1" "sameService i i1"
    "res = \<lparr>RequeueAfter = fiveMinutes, Err = None\<rparr>" "lookup w1 DeploymentKind ?dep \<noteq> None"
    "agreeExcept (insert (UpdateServiceKind, req) (set (ownedObjects i))) (lookup w) (lookup w1)"
    "podStateOf (lookup w1) i = podAfter i (lookup w)"
    using reconcile_next [OF assms(1,2) run1] by blast
  note same1 = desired_same [OF 1(2)] sameService_names [OF 1(2)] sameService_keys [OF 1(2)]
  obtain i2 k2 where 2: "renderable r req (lookup w2) i2 k2" "sameService i1 i2"
    "res' = \<lparr>RequeueAfter = fiveMinutes, Err = None\<rparr>"
    "agreeExcept (insert (UpdateServiceKind, req) (set (ownedObjects i))) (lookup w1) (lookup w2)"
    "upToDate (digestIn i (lookup w1)) (lookup w2) k2"
    "podStateOf (lookup w2) i = podAfter i (lookup w1)"
    using reconcile_next [OF assms(1) 1(1) run2] 1(4) by (auto simp: same1)
  have same: "sameService i i2" using 1(2) 2(2) by (simp add: sameService_def)
  have "digestIn i (lookup w2) = digestIn i (lookup w1) \<and> podSettled i (lookup w2)"
    using 1(6) 2(6) by (cases "podStateOf (lookup w) i") (auto simp: digestIn_def podAfter_def podSettled_def)
  then have "rolledOut r req (lookup w2) i2 k2"
    using renderable_rolledOut [OF 2(1)] 2(5) by (simp add: desired_same(5,6) [OF same])
  then show ?thesis
    using 1(3) 2(3) same agreeExcept_trans [OF 1(5) 2(4)] by auto
qed

lemma reconcile_quiet:
  assumes "r_Scheme r = [g]" and "rolledOut r req (lookup w) i k"
    and run: "runReconcile r req w = (res, w', calls)"
  shows "res = \<lparr>RequeueAfter = fiveMinutes, Err = None\<rparr> \<and> list_all quietCall calls"
proof -
  let ?i = "i\<lparr>us_Status := emptyStatus\<rparr>"
  have same: "sameService i ?i" by (simp add: sameService_def)
  have ns: "nn_Namespace req = r_OperatorNamespace r"
    and found: "lookup w UpdateServiceKind req = Some (UpdateServiceObj i)"
    and desired: "desiredResources r ?i (lookup w) = Some k"
    and up: "upToDate (digestIn ?i (lookup w)) (lookup w) k"
    and valid: "validateRouteName ?i (nn_Name req) (nn_Namespace req) = None"
    and pod: "podSettled ?i (lookup w)"
    using assms(2) unfolding rolledOut_def desired_same [OF same] by auto
  obtain ps ca cca where k: "newKubeResources (r_getenv r) ?i (r_OperandImage r) ps ca cca = Inr k"
    using desired by (auto simp: desiredResources_def split: option.splits sum.splits)
  obtain s :: "'w sess" where s: "lookup (se_world s) = lookup w" "quietSince [] s"
    "runReconcile r req w = (case run_state (reconcileInstance r req ?i) s of
       (res, s') \<Rightarrow> (res, se_world s', se_calls s'))"
    using runReconcile_found [OF ns found] by blast
  have "still lookup (lookup w) [] s" using s(1,2) by (simp add: still_def)
  then obtain s1 where s1: "still lookup (lookup w) [] s1"
    "run_state (reconcileInstance r req ?i) s = run_state (ensureAll r ?i k) s1"
    using reaches_ensureAll [OF valid desired] by blast
  obtain s' where s': "run_state (ensureAll r ?i k) s1 = (res, s')" "se_calls s' = calls"
    using run s(3) s1(2) by (auto split: prod.splits)
  from quiet_ensureAll [OF assms(1) rendered_fresh [OF k] desired_resourcesFor [OF desired] up pod refl
      s1(1) s'(1)]
  show ?thesis using s'(2) by (auto simp: quietSince_def)
qed

end

section \<open>Properties\<close>


definition digestInstance :: update_service where
  "digestInstance = exampleInstance\<lparr>us_Spec := (us_Spec exampleInstance)
     \<lparr>us_GraphDataImage := ''quay.io/graph-data@sha256:1''\<rparr>\<rparr>"

lemma digestInstance_valid: "validateRouteName digestInstance ''app'' ''ns'' = None"
proof -
  have "dnsLabel ''app-route-ns''" by code_simp
  then show ?thesis
    by (simp add: validateRouteName_def namePolicyEngineRoute_def fullMatch_label digestInstance_def
        example_defs DNS1123LabelMaxLength_def)
qed

lemma digestInstance_desired:
  "\<exists>k. desiredResources (memReconciler (\<lambda>_. [])) digestInstance
     (memLookup (memWorld [UpdateServiceObj digestInstance, SecretObj exampleSecret])) = Some k"
proof -
  let ?L = "memLookup (memWorld [UpdateServiceObj digestInstance, SecretObj exampleSecret])"
  have "pullSecretIn ?L = Some exampleSecret"
    by (simp add: pullSecretIn_def memLookup_def memWorld_def exampleSecret_def newMeta_def keyOf_def
        namespacedName_def namePullSecret_def OpenshiftConfigNamespace_def)
  moreover have "trustedCAIn ?L = Some None"
    by (simp add: trustedCAIn_def memLookup_def memWorld_def)
  moreover have "CHR ''/'' \<in> set (us_Releases (us_Spec digestInstance))"
    by (simp add: digestInstance_def exampleInstance_def)
  then obtain k where "newKubeResources (\<lambda>_. []) digestInstance ''operand'' exampleSecret None
      (clusterCAIn (\<lambda>_. []) digestInstance ?L) = Inr k"
    using newKubeResources_Inr_iff by blast
  ultimately show ?thesis by (simp add: desiredResources_def)
qed

lemma digestInstance_renderable:
  "\<exists>k. renderable (memReconciler (\<lambda>_. [])) exampleKey
     (memLookup (memWorld [UpdateServiceObj digestInstance, SecretObj exampleSecret])) digestInstance k"
proof -
  let ?w = "memWorld [UpdateServiceObj digestInstance, SecretObj exampleSecret]"
  have "memLookup ?w UpdateServiceKind exampleKey = Some (UpdateServiceObj digestInstance)"
    by (simp add: memLookup_def memWorld_def exampleKey_def digestInstance_def example_defs keyOf_def
        namespacedName_def)
  moreover have "instName digestInstance \<noteq> ''cluster''" by (simp add: digestInstance_def example_defs)
  ultimately show ?thesis
    using digestInstance_valid digestInstance_desired
    by (simp add: renderable_def exampleKey_def OpenshiftConfigNamespace_def)
qed

lemma digestInstance_digest: "Contains (us_GraphDataImage (us_Spec digestInstance)) ''@sha256''"
  by (simp add: digestInstance_def)


end
