(* ===== verification/GraphDataProps.thy ===== *)
theory GraphDataProps
  imports GraphDataPod
begin

text \<open>
  Properties of the graph-data pod: one call of \<open>ensureGraphDataSHA\<close> is one step of its life, and how
  repeated calls take it through its life.
\<close>

section \<open>A concrete pod\<close>

definition examplePod :: "string \<Rightarrow> string \<Rightarrow> pod" where
  "examplePod phase digest = (graphDataPod exampleInstance 0)\<lparr>p_Phase := phase,
     p_ContainerStatuses := [\<lparr>cs_ImageID = digest, cs_other = []\<rparr>]\<rparr>"

definition podSession :: "string \<Rightarrow> string \<Rightarrow> mem sess" where
  "podSession phase digest =
     \<lparr>se_world = \<lparr>mem_objects = [PodObj (examplePod phase digest)], mem_time = 0\<rparr>,
      se_status = emptyStatus, se_calls = []\<rparr>"

lemma podSession_state:
  "podStateOf (memLookup (se_world (podSession phase digest))) exampleInstance =
     (if phase = ''Succeeded'' then Finished else Reporting digest)"
  by (simp add: podStateOf_def memLookup_def podSession_def examplePod_def graphDataPod_key podDigest_def)

definition otherInstance :: update_service where
  "otherInstance = exampleInstance\<lparr>us_meta := newMeta ''other'' ''ns'',
     us_Spec := (us_Spec exampleInstance)\<lparr>us_GraphDataImage := ''quay.io/other:v1''\<rparr>\<rparr>"

lemma example_by_tag:
  "\<not> Contains (us_GraphDataImage (us_Spec exampleInstance)) ''@sha256''"
  "\<not> Contains (us_GraphDataImage (us_Spec otherInstance)) ''@sha256''"
  by (simp_all add: exampleInstance_def otherInstance_def)

section \<open>Properties\<close>

text \<open>
  C15: for an image given by tag one call of \<open>ensureGraphDataSHA\<close> is one step of the pod's life: it
  creates the pod when there is none and deletes one that has succeeded, both without a digest,
  and otherwise returns the digest that the pod's first container reports, with no request but
  the read. So a pod that ends in another phase than \<open>Succeeded\<close> is never replaced.
\<close>

theorem graph_data_pod_refines:
  assumes "object_store r lookup" and "r_Scheme r = [g]"
    and "\<not> Contains (us_GraphDataImage (us_Spec i)) ''@sha256''"
    and "run_state (ensureGraphDataSHA r i) s = (res, s')"
    and "st = podStateOf (lookup (se_world s)) i"
  shows "res = Inr (snd (podStep st)) \<and> podStateOf (lookup (se_world s')) i = fst (podStep st) \<and>
    (\<exists>now. se_calls s' = se_calls s @ Get PodKind (podKey i) # podRequests g i now st)"
  using object_store.graph_data_step [OF assms(1-3), of s] assms(4,5) by auto

theorem graph_data_pod_refines_witness:
  "fst (run_state (ensureGraphDataSHA (memReconciler (\<lambda>_. [])) exampleInstance)
     (podSession ''Failed'' ''sha'')) = Inr ''sha''"
proof -
  obtain res s' where run: "run_state (ensureGraphDataSHA (memReconciler (\<lambda>_. [])) exampleInstance)
      (podSession ''Failed'' ''sha'') = (res, s')" by (rule prod.exhaust)
  then show ?thesis
    using graph_data_pod_refines [OF mem.object_store_axioms memReconciler_simps(4) example_by_tag(1) run refl]
    by (simp add: podSession_state)
qed

text \<open>
  The digest is refreshed: once the pod has succeeded, the second call from then on has put a
  new pod in its place, which will pull the image again.
\<close>

theorem graph_data_pod_refreshed:
  assumes "object_store r lookup" and "r_Scheme r = [g]"
    and "\<not> Contains (us_GraphDataImage (us_Spec i)) ''@sha256''"
    and "podStateOf (lookup (se_world s)) i = Finished"
  shows "\<exists>s' now. run_state (do { sha1 \<leftarrow> ensureGraphDataSHA r i; ensureGraphDataSHA r i }) s = (Inr [], s') \<and>
    podStateOf (lookup (se_world s')) i = Reporting [] \<and>
    last (se_calls s') = Create (PodObj (wantedPod g i now))"
proof -
  obtain s1 where 1: "run_state (ensureGraphDataSHA r i) s = (Inr [], s1)"
    "podStateOf (lookup (se_world s1)) i = NoPod"
    using object_store.graph_data_step [OF assms(1-3), of s] assms(4) by auto
  obtain s2 now where 2: "run_state (ensureGraphDataSHA r i) s1 = (Inr [], s2)"
    "podStateOf (lookup (se_world s2)) i = Reporting []"
    "se_calls s2 = se_calls s1 @ Get PodKind (podKey i) # podRequests g i now NoPod"
    using object_store.graph_data_step [OF assms(1-3), of s1] 1(2) by auto
  show ?thesis
    using 1(1) 2 by (intro exI [of _ s2] exI [of _ now]) (simp add: podRequests_def)
qed

theorem graph_data_pod_refreshed_witness:
  "\<exists>s' now. run_state (do { sha1 \<leftarrow> ensureGraphDataSHA (memReconciler (\<lambda>_. [])) exampleInstance;
       ensureGraphDataSHA (memReconciler (\<lambda>_. [])) exampleInstance }) (podSession ''Succeeded'' ''sha'') =
     (Inr [], s') \<and>
     last (se_calls s') = Create (PodObj (wantedPod updateServiceGVK exampleInstance now))"
  using graph_data_pod_refreshed [OF mem.object_store_axioms memReconciler_simps(4) example_by_tag(1),
      of "podSession ''Succeeded'' ''sha''" "\<lambda>_. []"] podSession_state [of "''Succeeded''" "''sha''"]
  by auto

text \<open>
  All UpdateServices of a namespace share one graph-data pod: while it reports, every one of
  them is given its digest, whatever image the UpdateService itself names.
\<close>

theorem graph_data_digest_shared:
  assumes "object_store r lookup" and "r_Scheme r = [g]"
    and "\<not> Contains (us_GraphDataImage (us_Spec i)) ''@sha256''"
    and "\<not> Contains (us_GraphDataImage (us_Spec j)) ''@sha256''"
    and "instNamespace i = instNamespace j" and "podStateOf (lookup (se_world s)) i = Reporting digest"
  shows "\<exists>s'. run_state (do { shaI \<leftarrow> ensureGraphDataSHA r i; shaJ \<leftarrow> ensureGraphDataSHA r j;
      return (shaI, shaJ) }) s = ((Inr digest, Inr digest), s')"
proof -
  have same: "podStateOf L j = podStateOf L i" for L
    by (simp add: podStateOf_def assms(5))
  obtain s1 where 1: "run_state (ensureGraphDataSHA r i) s = (Inr digest, s1)"
    "podStateOf (lookup (se_world s1)) i = Reporting digest"
    using object_store.graph_data_step [OF assms(1-3), of s] assms(6) by auto
  obtain s2 where "run_state (ensureGraphDataSHA r j) s1 = (Inr digest, s2)"
    using object_store.graph_data_step [OF assms(1,2,4), of s1] 1(2) by (auto simp: same)
  with 1(1) show ?thesis by simp
qed

theorem graph_data_digest_shared_witness:
  "us_GraphDataImage (us_Spec otherInstance) \<noteq> us_GraphDataImage (us_Spec exampleInstance) \<and>
   (\<exists>s'. run_state (do { shaI \<leftarrow> ensureGraphDataSHA (memReconciler (\<lambda>_. [])) exampleInstance;
       shaJ \<leftarrow> ensureGraphDataSHA (memReconciler (\<lambda>_. [])) otherInstance;
       return (shaI, shaJ) }) (podSession ''Running'' ''sha'') = ((Inr ''sha'', Inr ''sha''), s'))"
proof (rule conjI)
  show "us_GraphDataImage (us_Spec otherInstance) \<noteq> us_GraphDataImage (us_Spec exampleInstance)"
    by (simp add: otherInstance_def exampleInstance_def)
  have "instNamespace exampleInstance = instNamespace otherInstance"
    by (simp add: otherInstance_def example_defs)
  then show "\<exists>s'. run_state (do { shaI \<leftarrow> ensureGraphDataSHA (memReconciler (\<lambda>_. [])) exampleInstance;
       shaJ \<leftarrow> ensureGraphDataSHA (memReconciler (\<lambda>_. [])) otherInstance;
       return (shaI, shaJ) }) (podSession ''Running'' ''sha'') = ((Inr ''sha'', Inr ''sha''), s')"
    using graph_data_digest_shared [OF mem.object_store_axioms memReconciler_simps(4) example_by_tag,
        of "podSession ''Running'' ''sha''" "''sha''" "\<lambda>_. []"]
      podSession_state [of "''Running''" "''sha''"] by simp
qed

end
