(* ===== verification/Invariants.thy ===== *)
theory Invariants
  imports Reconcile
begin

text \<open>
  Invariants of a session over a whole \<open>Reconcile\<close>. The locale \<open>session_invariant\<close> asks of an
  invariant that the primitive steps of the operator keep it (setting a condition of one of its
  types, noting the URI, reading the clock, a request, saving and emptying the status); in return
  every function of the operator keeps it. It is interpreted on the shape of the saved status
  (\<open>StatusProps\<close>) and on the objects outside of the operator's reach (\<open>Isolation\<close>).
\<close>

definition operatorTypes :: "string set" where
  "operatorTypes = {ConditionReconcileCompleted, ConditionRegistryCACertFound, ConditionReconcileError}"

fun isStatusUpdate :: "api_call \<Rightarrow> bool" where
  "isStatusUpdate (UpdateStatus us) = True"
| "isStatusUpdate c = False"

locale session_invariant =
  fixes r :: "'w reconciler" and I :: "'w sess \<Rightarrow> bool"
  assumes keeps_condition: "cond_Type c \<in> operatorTypes \<Longrightarrow> keeps I (SetStatusCondition r c)"
    and keeps_uri: "keeps I (setPolicyEngineURI uri)"
    and keeps_clock: "keeps I (timeNow r)"
    and keeps_request: "\<not> isStatusUpdate call \<Longrightarrow> keeps I (invoke r call)"
    and keeps_save: "keeps I (saveStatus r i)"
    and keeps_empty: "keeps I (putStatus emptyStatus)"
begin

lemma keeps_handle:
  "keeps I (handleErr r reason e)" "keeps I (handleCACertStatus r reason m)"
  unfolding handleErr_def handleCACertStatus_def
  by (rule keeps_condition, simp add: operatorTypes_def)+

lemma keeps_requests:
  "keeps I (getObj r k as key)" "keeps I (createObj r ob)"
  "keeps I (updateObj r ob)" "keeps I (deleteObj r ob)"
  unfolding getObj_def createObj_def updateObj_def deleteObj_def mutate_def
  by (intro triple_intro keeps_request; simp)+

lemma keeps_report:
  "keeps I m \<Longrightarrow> keeps I (reportErr r reason m)" "keeps I m \<Longrightarrow> keeps I (reportOnly r reason m)"
  unfolding reportErr_def reportOnly_def by (intro triple_intro keeps_handle; simp)+

lemma keeps_withController:
  "(\<And>m'. keeps I (f m')) \<Longrightarrow> keeps I (withController r i m f)"
  unfolding withController_def by (intro triple_intro)

lemmas keeps_steps = keeps_bind keeps_return keeps_if keeps_case_option keeps_case_sum keeps_let
  keeps_handle keeps_requests keeps_report keeps_withController keeps_uri keeps_clock

lemma keeps_find:
  "keeps I (findPullSecret r)" "keeps I (findTrustedCAConfig r)"
  "keeps I (findTrustedClusterCAConfig r i)" "keeps I (findExistingRoute r k)"
  unfolding findPullSecret_def findTrustedCAConfig_def findTrustedClusterCAConfig_def
    findExistingRoute_def
  by (intro keeps_steps)+

lemma keeps_sync:
  "keeps I (ensureConfigMap r cm)" "keeps I (ensureSecret r sec)" "keeps I (ensureService r svc)"
  "keeps I (syncPodDisruptionBudget r pdb)" "keeps I (syncNetworkPolicy r np)"
  unfolding ensureConfigMap_def ensureSecret_def ensureService_def syncPodDisruptionBudget_def
    syncNetworkPolicy_def
  by (intro keeps_steps)+

lemma keeps_ensureSteps:
  assumes "f \<in> set (ensureSteps r i k)"
  shows "keeps I f"
proof -
  have "keeps I (ensureConfig r i k)" "keeps I (ensurePullSecret r i k)"
    "keeps I (ensureEnvConfig r i k)" "keeps I (ensureTrustedClusterCA r i k)"
    "keeps I (ensureGraphBuilderService r i k)" "keeps I (ensurePolicyEngineService r i k)"
    "keeps I (ensurePodDisruptionBudget r i k)" "keeps I (ensurePolicyEngineRoute r i k)"
    "keeps I (ensureNetworkPolicy r i k)"
    unfolding ensureConfig_def ensurePullSecret_def ensureEnvConfig_def ensureTrustedClusterCA_def
      ensureGraphBuilderService_def ensurePolicyEngineService_def ensurePodDisruptionBudget_def
      ensurePolicyEngineRoute_def ensureNetworkPolicy_def
    by (intro keeps_steps keeps_find keeps_sync)+
  moreover have "keeps I (ensureAdditionalTrustedCA r i k)"
    unfolding ensureAdditionalTrustedCA_def
    by (intro keeps_steps keeps_sync keeps_condition) (simp add: operatorTypes_def)
  ultimately show ?thesis using assms by (auto simp: ensureSteps_def)
qed

lemma keeps_ensureGraphDataSHA: "keeps I (ensureGraphDataSHA r i)"
  unfolding ensureGraphDataSHA_def
  by (intro keeps_steps) (auto split: list.split intro!: keeps_steps)

lemma keeps_ensureDeployment: "keeps I (ensureDeployment r i k sha)"
  unfolding ensureDeployment_def by (intro keeps_steps)

lemma keeps_reconcileInstance: "keeps I (reconcileInstance r req i)"
  unfolding reconcileInstance_def ensureAll_def
  by (intro keeps_steps keeps_find keeps_runUntilError keeps_ensureGraphDataSHA
      keeps_ensureDeployment keeps_save keeps_condition)
    (auto simp: operatorTypes_def intro: keeps_ensureSteps)

lemma keeps_Reconcile: "keeps I (Reconcile r req)"
  unfolding Reconcile_def by (intro keeps_steps keeps_reconcileInstance keeps_empty)

text \<open>So it holds at the end of every run that starts with it.\<close>

lemma runReconcile_invariant:
  assumes "runReconcile r req w = (res, w', calls)"
    and "I \<lparr>se_world = w, se_status = emptyStatus, se_calls = []\<rparr>"
  shows "\<exists>s'. I s' \<and> se_world s' = w' \<and> se_calls s' = calls"
proof -
  obtain s' where "run_state (Reconcile r req) \<lparr>se_world = w, se_status = emptyStatus, se_calls = []\<rparr> = (res, s')"
    "se_world s' = w'" "se_calls s' = calls"
    using assms(1) by (auto simp: runReconcile_def split: prod.splits)
  with keepsD [OF keeps_Reconcile assms(2)] show ?thesis by blast
qed

end

end
