(* ===== verification/Isolation.thy ===== *)
theory Isolation
  imports Invariants ReconcileProps ConvergeProps
begin

text \<open>
  The operator together with the rest of the cluster, as a step relation: reconciles of any request
  and steps of the environment, in any order. What no reconcile touches is changed by the
  environment only, and the operator never changes what users have written into an UpdateService.
\<close>

section \<open>Servers on which a request changes its own object only\<close>

fun touched :: "api_call \<Rightarrow> (kind \<times> namespaced_name) set" where
  "touched (Get k key) = {}"
| "touched (ListUpdateServices ns) = {}"
| "touched (Create ob) = {(objKind ob, objKey ob)}"
| "touched (Update ob) = {(objKind ob, objKey ob)}"
| "touched (Delete ob) = {(objKind ob, objKey ob)}"
| "touched (UpdateStatus us) = {(UpdateServiceKind, keyOf (us_meta us))}"

definition touchedBy :: "api_call list \<Rightarrow> (kind \<times> namespaced_name) set" where
  "touchedBy calls = (\<Union>c \<in> set calls. touched c)"

text \<open>The contents changed at most where the requests made so far allow it.\<close>

definition framed :: "('w \<Rightarrow> contents) \<Rightarrow> contents \<Rightarrow> 'w sess \<Rightarrow> bool" where
  "framed lookup L s \<longleftrightarrow> agreeExcept (touchedBy (se_calls s)) L (lookup (se_world s))"

text \<open>An UpdateService keeps what its users wrote.\<close>

definition sameSpec :: "kobject option \<Rightarrow> kobject option \<Rightarrow> bool" where
  "sameSpec a b \<longleftrightarrow>
     (case a of
        Some (UpdateServiceObj u) \<Rightarrow>
          (case b of Some (UpdateServiceObj u') \<Rightarrow> us_Spec u' = us_Spec u \<and> keyOf (us_meta u') = keyOf (us_meta u) | _ \<Rightarrow> False)
      | _ \<Rightarrow> True)"

lemma sameSpec_refl [simp]: "sameSpec a a"
  by (simp add: sameSpec_def split: option.split kobject.split)

lemma sameSpec_trans: "sameSpec a b \<Longrightarrow> sameSpec b c \<Longrightarrow> sameSpec a c"
  by (auto simp: sameSpec_def split: option.splits kobject.splits)

text \<open>As long as no request creates, updates or deletes an UpdateService.\<close>

fun sparesUpdateServices :: "api_call \<Rightarrow> bool" where
  "sparesUpdateServices (Create ob) = (objKind ob \<noteq> UpdateServiceKind)"
| "sparesUpdateServices (Update ob) = (objKind ob \<noteq> UpdateServiceKind)"
| "sparesUpdateServices (Delete ob) = (objKind ob \<noteq> UpdateServiceKind)"
| "sparesUpdateServices c = True"

definition specKept :: "('w \<Rightarrow> contents) \<Rightarrow> contents \<Rightarrow> namespaced_name \<Rightarrow> 'w sess \<Rightarrow> bool" where
  "specKept lookup L key s \<longleftrightarrow>
     (list_all sparesUpdateServices (se_calls s) \<longrightarrow>
        sameSpec (L UpdateServiceKind key) (lookup (se_world s) UpdateServiceKind key))"

locale framed_server = honest_server r for r :: "'w reconciler" +
  fixes lookup :: "'w \<Rightarrow> contents"
  assumes frame: "r_api r c w = (res, w') \<Longrightarrow> agreeExcept (touched c) (lookup w) (lookup w')"
    and status_only: "r_api r (UpdateStatus us) w = (res, w') \<Longrightarrow>
      sameSpec (lookup w UpdateServiceKind key) (lookup w' UpdateServiceKind key)"
    and time_only: "lookup (snd (r_now r w)) = lookup w"
begin

lemma keeps_framed_request: "keeps (framed lookup L) (invoke r c)"
proof (rule keepsI)
  fix s :: "'w sess" and a s'
  assume "framed lookup L s" and "run_state (invoke r c) s = (a, s')"
  moreover obtain w' where "r_api r c (se_world s) = (a, w')"
    using calculation(2) by (auto simp: invoke_def split: prod.splits)
  ultimately show "framed lookup L s'"
    using frame [of c "se_world s" a w']
    by (auto simp: framed_def invoke_def touchedBy_def agreeExcept_def)
qed

lemma request_spec:
  assumes "r_api r c w = (a, w')" and "sparesUpdateServices c"
  shows "sameSpec (lookup w UpdateServiceKind key) (lookup w' UpdateServiceKind key)"
proof (cases "isStatusUpdate c")
  case True
  then show ?thesis using assms(1) status_only by (cases c) auto
next
  case False
  then have "(UpdateServiceKind, key) \<notin> touched c" using assms(2) by (cases c) auto
  then show ?thesis using frame [OF assms(1)] by (simp add: agreeExcept_def)
qed

lemma keeps_spec_request: "keeps (specKept lookup L key) (invoke r c)"
proof (rule keepsI)
  fix s :: "'w sess" and a s'
  assume "specKept lookup L key s" and "run_state (invoke r c) s = (a, s')"
  moreover obtain w' where "r_api r c (se_world s) = (a, w')"
    using calculation(2) by (auto simp: invoke_def split: prod.splits)
  ultimately show "specKept lookup L key s'"
    using request_spec [of c "se_world s" a w' key]
    by (auto simp: specKept_def invoke_def intro: sameSpec_trans)
qed

lemma framed_time:
  "keeps (framed lookup L) (timeNow r)" "keeps (specKept lookup L key) (timeNow r)"
proof -
  have *: "lookup w' = lookup w" if "r_now r w = (t, w')" for w t w'
    using time_only [of w] that by simp
  show "keeps (framed lookup L) (timeNow r)" "keeps (specKept lookup L key) (timeNow r)"
    by (auto intro!: keepsI simp: timeNow_def framed_def specKept_def * split: prod.splits)
qed

lemma framed_status:
  "keeps (framed lookup L) getStatus" "keeps (framed lookup L) (putStatus st)"
  "keeps (specKept lookup L key) getStatus" "keeps (specKept lookup L key) (putStatus st)"
  by (auto intro!: keepsI simp: getStatus_def putStatus_def framed_def specKept_def)

lemmas framed_steps = keeps_bind keeps_return keeps_if keeps_case_option framed_status framed_time
  keeps_framed_request keeps_spec_request

end

sublocale framed_server < framed: session_invariant r "framed lookup L" for L
proof unfold_locales
  show "keeps (framed lookup L) (SetStatusCondition r c)" for c
    unfolding SetStatusCondition_def by (intro framed_steps)
  show "keeps (framed lookup L) (setPolicyEngineURI uri)" for uri
    unfolding setPolicyEngineURI_def by (intro framed_steps)
  show "keeps (framed lookup L) (saveStatus r i)" for i
    unfolding saveStatus_def updateStatus_def mutate_def by (intro framed_steps)
qed (intro framed_steps)+

sublocale framed_server < specs: session_invariant r "specKept lookup L key" for L key
proof unfold_locales
  show "keeps (specKept lookup L key) (SetStatusCondition r c)" for c
    unfolding SetStatusCondition_def by (intro framed_steps)
  show "keeps (specKept lookup L key) (setPolicyEngineURI uri)" for uri
    unfolding setPolicyEngineURI_def by (intro framed_steps)
  show "keeps (specKept lookup L key) (saveStatus r i)" for i
    unfolding saveStatus_def updateStatus_def mutate_def by (intro framed_steps)
qed (intro framed_steps)+

text \<open>The in-memory server is such a server.\<close>

interpretation memFramed: framed_server "memReconciler getenv" memLookup
proof unfold_locales
  show "agreeExcept (touched c) (memLookup w) (memLookup w')"
    if "r_api (memReconciler getenv) c w = (res, w')" for c w res w'
    using that by (cases c)
      (auto simp: agreeExcept_def memLookup_store memLookup_remove split: if_splits option.splits
        kobject.splits dest: memLookup_key)
  show "sameSpec (memLookup w UpdateServiceKind key) (memLookup w' UpdateServiceKind key)"
    if "r_api (memReconciler getenv) (UpdateStatus us) w = (res, w')" for us w res w' key
  proof (cases "\<exists>old. memLookup w UpdateServiceKind (keyOf (us_meta us)) = Some (UpdateServiceObj old)")
    case True
    then obtain old where old: "memLookup w UpdateServiceKind (keyOf (us_meta us)) = Some (UpdateServiceObj old)"
      by blast
    have "keyOf (us_meta old) = keyOf (us_meta us)" using memLookup_key [OF old] by simp
    then have "memLookup w' UpdateServiceKind key = (if key = keyOf (us_meta us)
        then Some (UpdateServiceObj (old\<lparr>us_Status := us_Status us\<rparr>)) else memLookup w UpdateServiceKind key)"
      using that old by (auto simp: memLookup_store)
    then show ?thesis
      using old by (cases "key = keyOf (us_meta us)") (simp_all add: sameSpec_def)
  next
    case False
    then have "w' = w" using that by (auto split: option.splits kobject.splits)
    then show ?thesis by simp
  qed
  show "memLookup (snd (r_now (memReconciler getenv) w)) = memLookup w" for w
    by (intro ext) (simp add: memNow_def memLookup_def)
qed

section \<open>One reconcile\<close>

context framed_server
begin

lemma calls_within:
  assumes "runReconcile r req w = (res, w', calls)"
  shows "\<forall>(kd, key) \<in> touchedBy calls. nn_Namespace key = r_OperatorNamespace r"
    and "list_all sparesUpdateServices calls"
proof -
  have meta: "us_meta us = us_meta i" if "us = i\<lparr>us_Status := st\<rparr>" for us i st
    using arg_cong [OF that, of us_meta] by simp
  have "nn_Namespace key = instNamespace i"
    if "allowedCall (i\<lparr>us_Status := st\<rparr>) c" "(kd, key) \<in> touched c" for c kd key i st
    using that ownedObjects_outside [of kd key "i\<lparr>us_Status := st\<rparr>"]
    by (cases c) (auto simp: owned_def keyOf_def dest: meta)
  moreover have "sparesUpdateServices c" if "allowedCall i c" for c i
    using that ownedObjects_outside [of UpdateServiceKind _ i] by (cases c) (auto simp: owned_def)
  ultimately show "\<forall>(kd, key) \<in> touchedBy calls. nn_Namespace key = r_OperatorNamespace r"
    and "list_all sparesUpdateServices calls"
    using allowed_requests [OF honest assms] by (fastforce simp: touchedBy_def list_all_iff)+
qed

lemma reconcile_foreign:
  assumes "runReconcile r req w = (res, w', calls)" and "nn_Namespace key \<noteq> r_OperatorNamespace r"
  shows "lookup w' kd key = lookup w kd key"
proof -
  have "framed lookup (lookup w) \<lparr>se_world = w, se_status = emptyStatus, se_calls = []\<rparr>"
    by (simp add: framed_def agreeExcept_def)
  from framed.runReconcile_invariant [OF assms(1) this]
  have "agreeExcept (touchedBy calls) (lookup w) (lookup w')" by (auto simp: framed_def)
  moreover have "(kd, key) \<notin> touchedBy calls" using calls_within(1) [OF assms(1)] assms(2) by auto
  ultimately show ?thesis by (simp add: agreeExcept_def)
qed

lemma reconcile_spec:
  assumes "runReconcile r req w = (res, w', calls)"
  shows "sameSpec (lookup w UpdateServiceKind key) (lookup w' UpdateServiceKind key)"
proof -
  have "specKept lookup (lookup w) key \<lparr>se_world = w, se_status = emptyStatus, se_calls = []\<rparr>"
    by (simp add: specKept_def)
  from specs.runReconcile_invariant [OF assms(1) this] show ?thesis
    using calls_within(2) [OF assms(1)] by (auto simp: specKept_def)
qed

end

section \<open>The operator in its environment\<close>

text \<open>
  \<open>systemRun r env w w'\<close>: from the world \<open>w\<close> the system can get to \<open>w'\<close> by reconciles, of any
  requests, and steps of everybody else, which \<open>env\<close> describes.
\<close>

inductive systemRun :: "'w reconciler \<Rightarrow> ('w \<Rightarrow> 'w \<Rightarrow> bool) \<Rightarrow> 'w \<Rightarrow> 'w \<Rightarrow> bool"
  for r :: "'w reconciler" and env :: "'w \<Rightarrow> 'w \<Rightarrow> bool" and w :: 'w
where
  start: "systemRun r env w w"
| reconcile: "systemRun r env w w1 \<Longrightarrow> runReconcile r req w1 = (res, w2, calls) \<Longrightarrow> systemRun r env w w2"
| environment: "systemRun r env w w1 \<Longrightarrow> env w1 w2 \<Longrightarrow> systemRun r env w w2"

section \<open>Properties\<close>

text \<open>
  C7: the operator keeps to its namespace: in every run of the system, with any number of
  reconciles for any requests in any order with the steps of everybody else, an object outside of
  the operator's namespace that nobody else changes does not change.
\<close>

theorem foreign_objects_untouched:
  assumes "framed_server r lookup" and "systemRun r env w w'"
    and "\<And>w1 w2. env w1 w2 \<Longrightarrow> lookup w2 kd key = lookup w1 kd key"
    and "nn_Namespace key \<noteq> r_OperatorNamespace r"
  shows "lookup w' kd key = lookup w kd key"
  using assms(2)
proof induction
  case start
  show ?case by (rule refl)
next
  case (reconcile w1 req res w2 calls)
  then show ?case using framed_server.reconcile_foreign [OF assms(1) _ assms(4)] by metis
next
  case (environment w1 w2)
  then show ?case using assms(3) by metis
qed

text \<open>The world in which time passes between the reconciles, and nothing else happens.\<close>

definition timePasses :: "mem \<Rightarrow> mem \<Rightarrow> bool" where
  "timePasses w1 w2 \<longleftrightarrow> mem_objects w2 = mem_objects w1 \<and> mem_time w1 \<le> mem_time w2"

definition exampleWorld :: mem where
  "exampleWorld = memWorld [UpdateServiceObj digestInstance, SecretObj exampleSecret]"

lemma example_run:
  "\<exists>w' res calls. runReconcile (memReconciler (\<lambda>_. [])) exampleKey
     (exampleWorld\<lparr>mem_time := 2000\<rparr>) = (res, w', calls) \<and>
   systemRun (memReconciler (\<lambda>_. [])) timePasses exampleWorld w'"
proof -
  obtain res w' calls where run: "runReconcile (memReconciler (\<lambda>_. [])) exampleKey
      (exampleWorld\<lparr>mem_time := 2000\<rparr>) = (res, w', calls)" by (rule prod_cases3)
  have "timePasses exampleWorld (exampleWorld\<lparr>mem_time := 2000\<rparr>)"
    by (simp add: timePasses_def exampleWorld_def memWorld_def)
  with systemRun.start have "systemRun (memReconciler (\<lambda>_. [])) timePasses exampleWorld
      (exampleWorld\<lparr>mem_time := 2000\<rparr>)"
    by (rule systemRun.environment)
  from systemRun.reconcile [OF this run] run show ?thesis by blast
qed

theorem foreign_objects_untouched_witness:
  "\<exists>w'. systemRun (memReconciler (\<lambda>_. [])) timePasses exampleWorld w' \<and>
     memLookup w' SecretKind (namespacedName ''pull-secret'' ''openshift-config'') =
     memLookup exampleWorld SecretKind (namespacedName ''pull-secret'' ''openshift-config'')"
proof -
  obtain w' where run: "systemRun (memReconciler (\<lambda>_. [])) timePasses exampleWorld w'"
    using example_run by blast
  have "memLookup w2 kd key = memLookup w1 kd key" if "timePasses w1 w2" for w1 w2 kd key
    using that by (simp add: timePasses_def memLookup_def)
  from foreign_objects_untouched [OF memFramed.framed_server_axioms run this,
      of "namespacedName ''pull-secret'' ''openshift-config''" SecretKind] run
  show ?thesis by auto
qed

text \<open>
  C21: what users write into an UpdateService is theirs: in every run of the system the operator
  neither deletes an UpdateService nor changes its name or spec, as long as nobody else does.
\<close>

theorem user_spec_untouched:
  assumes "framed_server r lookup" and "systemRun r env w w'"
    and "\<And>w1 w2. env w1 w2 \<Longrightarrow> sameSpec (lookup w1 UpdateServiceKind key) (lookup w2 UpdateServiceKind key)"
    and "lookup w UpdateServiceKind key = Some (UpdateServiceObj u)"
  shows "\<exists>u'. lookup w' UpdateServiceKind key = Some (UpdateServiceObj u') \<and>
    us_Spec u' = us_Spec u \<and> keyOf (us_meta u') = keyOf (us_meta u)"
proof -
  have "sameSpec (lookup w UpdateServiceKind key) (lookup w' UpdateServiceKind key)"
    using assms(2)
  proof induction
    case start
    show ?case by simp
  next
    case (reconcile w1 req res w2 calls)
    then show ?case using framed_server.reconcile_spec [OF assms(1)] sameSpec_trans by blast
  next
    case (environment w1 w2)
    then show ?case using assms(3) sameSpec_trans by blast
  qed
  then show ?thesis
    by (auto simp: sameSpec_def assms(4) split: option.splits kobject.splits)
qed

theorem user_spec_untouched_witness:
  "\<exists>w' u'. systemRun (memReconciler (\<lambda>_. [])) timePasses exampleWorld w' \<and>
     memLookup w' UpdateServiceKind exampleKey = Some (UpdateServiceObj u') \<and>
     us_Spec u' = us_Spec digestInstance"
proof -
  obtain w' where run: "systemRun (memReconciler (\<lambda>_. [])) timePasses exampleWorld w'"
    using example_run by blast
  have env: "sameSpec (memLookup w1 UpdateServiceKind key) (memLookup w2 UpdateServiceKind key)"
    if "timePasses w1 w2" for w1 w2 key
    using that by (simp add: timePasses_def memLookup_def)
  have "memLookup exampleWorld UpdateServiceKind exampleKey = Some (UpdateServiceObj digestInstance)"
    by (simp add: exampleWorld_def memLookup_def memWorld_def exampleKey_def digestInstance_def
        example_defs keyOf_def namespacedName_def)
  from user_spec_untouched [OF memFramed.framed_server_axioms run env this] run show ?thesis by blast
qed

end
