(* ===== verification/OutcomeProps.thy ===== *)
theory OutcomeProps
  imports ReconcileProps Quiet
begin

text \<open>
  What a reconcile reports when something goes wrong on the way: which failures reach the caller
  and the saved status, and which do not.
\<close>

section \<open>Servers with fixed answers\<close>

definition answers :: "'w reconciler \<Rightarrow> (api_call \<Rightarrow> api_result) \<Rightarrow> bool" where
  "answers r answer \<longleftrightarrow> (\<forall>c w. r_api r c w = (answer c, w))"

text \<open>\<open>runsTo m s v cs s'\<close>: the run returns \<open>v\<close> and adds the requests \<open>cs\<close>.\<close>

definition runsTo :: "('w sess, 'a) state \<Rightarrow> 'w sess \<Rightarrow> 'a \<Rightarrow> api_call list \<Rightarrow> 'w sess \<Rightarrow> bool" where
  "runsTo m s v cs s' \<longleftrightarrow> run_state m s = (v, s') \<and> se_calls s' = se_calls s @ cs"

lemma runsTo_SetStatusCondition: "\<exists>s'. runsTo (SetStatusCondition r c) s () [] s' \<and> conditionSet c s s'"
  using SetStatusCondition_run [of r c s] by (auto simp: runsTo_def conditionSet_def)

lemma runsTo_handleErr: "\<exists>s'. runsTo (handleErr r reason e) s () [] s'"
  unfolding handleErr_def using runsTo_SetStatusCondition by blast

lemma runsTo_handleCACertStatus: "\<exists>s'. runsTo (handleCACertStatus r reason m) s () [] s'"
  unfolding handleCACertStatus_def using runsTo_SetStatusCondition by blast

lemma getObj_answers:
  assumes "answers r answer"
  shows "run_state (getObj r k as key) s =
    (case answer (Get k key) of
       Failed e \<Rightarrow> Inl e
     | Found ob \<Rightarrow> (case as ob of None \<Rightarrow> Inl wrongType | Some x \<Rightarrow> Inr x)
     | _ \<Rightarrow> Inl wrongType, s\<lparr>se_calls := se_calls s @ [Get k key]\<rparr>)"
  using assms by (auto simp: answers_def getObj_def invoke_def)

lemma runsTo_createObj:
  assumes "answers r answer" and "answer (Create ob) = Done"
  shows "\<exists>s'. runsTo (createObj r ob) s None [Create ob] s'"
  using assms by (auto simp: runsTo_def answers_def createObj_def mutate_def invoke_def)

lemma runsTo_saveStatus:
  "\<exists>a s'. runsTo (saveStatus r i) s a [UpdateStatus (i\<lparr>us_Status := se_status s\<rparr>)] s'"
  using saveStatus_run unfolding runsTo_def by (metis prod.collapse)

section \<open>A server that refuses one read\<close>

lemma runsTo_findPullSecret:
  assumes "answers r answer"
    and "answer (Get SecretKind (namespacedName namePullSecret OpenshiftConfigNamespace)) = Found (SecretObj ps)"
  shows "\<exists>s'. runsTo (findPullSecret r) s (Inr ps)
    [Get SecretKind (namespacedName namePullSecret OpenshiftConfigNamespace)] s'"
  using assms(2) by (auto simp: runsTo_def findPullSecret_def getObj_answers [OF assms(1)])

lemma runsTo_findTrustedCAConfig:
  assumes "answers r answer"
    and "answer (Get ImageKind (namespacedName ImageConfigName [])) = Failed e" and "IsNotFound e"
  shows "\<exists>s'. runsTo (findTrustedCAConfig r) s (Inr None)
    [Get ImageKind (namespacedName ImageConfigName [])] s'"
proof -
  obtain s2 where "runsTo (handleCACertStatus r ''FindAdditionalTrustedCAFailed''
      (''image.config.openshift.io not found for name '' @ ImageConfigName))
      (s\<lparr>se_calls := se_calls s @ [Get ImageKind (namespacedName ImageConfigName [])]\<rparr>) () [] s2"
    using runsTo_handleCACertStatus by blast
  then show ?thesis
    using assms(2,3) by (auto simp: runsTo_def findTrustedCAConfig_def getObj_answers [OF assms(1)])
qed

lemma runsTo_findTrustedClusterCAConfig:
  assumes "answers r answer"
    and "answer (Get ConfigMapKind (namespacedName NameClusterTrustedCAVolume (instNamespace i))) = Failed e"
  shows "\<exists>s'. runsTo (findTrustedClusterCAConfig r i) s (Inl e)
    [Get ConfigMapKind (namespacedName NameClusterTrustedCAVolume (instNamespace i))] s'"
  using assms(2) by (auto simp: runsTo_def findTrustedClusterCAConfig_def getObj_answers [OF assms(1)])

text \<open>The first step fails, so none of the others is run.\<close>

lemma runsTo_failingSteps:
  assumes "answers r answer" and "r_Scheme r = [g]" and "freshResources i k" and "resourcesFor i k"
    and "answer (Get ConfigMapKind (namespacedName (nameConfig i) (instNamespace i))) = Failed e"
    and "\<not> IsNotFound e"
  shows "\<exists>s'. runsTo (runUntilError (ensureSteps r i k)) s (Some e)
    [Get ConfigMapKind (namespacedName (nameConfig i) (instNamespace i))] s'"
proof -
  let ?s1 = "s\<lparr>se_calls := se_calls s @ [Get ConfigMapKind (namespacedName (nameConfig i) (instNamespace i))]\<rparr>"
  have fr: "fresh i (cm_meta (kr_graphBuilderConfig k))" using assms(3) by (simp add: freshResources_def)
  obtain s2 where "runsTo (handleErr r ''EnsureConfigMapFailed'' e) ?s1 () [] s2"
    using runsTo_handleErr by blast
  then have "run_state (ensureConfig r i k) s = (Some e, s2)" "se_calls s2 = se_calls ?s1"
    using assms(4-6)
    by (auto simp: runsTo_def ensureConfig_def withController_fresh [OF assms(2) fr] reportErr_def
        ensureConfigMap_def getObj_answers [OF assms(1)] resourcesFor_def Let_def)
  then show ?thesis by (auto simp: runsTo_def ensureSteps_def)
qed

lemma runsTo_createDeployment:
  assumes "answers r answer" and "r_Scheme r = [g]" and "freshResources i k" and "resourcesFor i k"
    and "answer (Get DeploymentKind (namespacedName (nameDeployment i) (instNamespace i))) = Failed e"
    and "IsNotFound e" and "\<And>d. answer (Create (DeploymentObj d)) = Done"
  shows "\<exists>s' d. runsTo (ensureDeployment r i k sha) s None
    [Get DeploymentKind (namespacedName (nameDeployment i) (instNamespace i)), Create (DeploymentObj d)] s'"
proof -
  let ?d = "(kr_deployment k)\<lparr>dep_meta := (dep_meta (kr_deployment k))
    \<lparr>om_OwnerReferences := [controllerRef g i]\<rparr>\<rparr>"
  let ?s1 = "s\<lparr>se_calls := se_calls s @ [Get DeploymentKind (namespacedName (nameDeployment i) (instNamespace i))]\<rparr>"
  have fr: "fresh i (dep_meta (kr_deployment k))" using assms(3) by (simp add: freshResources_def)
  obtain s2 where s2: "runsTo (createObj r (DeploymentObj ?d)) ?s1 None [Create (DeploymentObj ?d)] s2"
    using runsTo_createObj [OF assms(1,7)] by blast
  have key: "keyOf (dep_meta (kr_deployment k)) = namespacedName (nameDeployment i) (instNamespace i)"
    using assms(4) by (simp add: resourcesFor_def Let_def)
  show ?thesis
    using s2 assms(5,6)
    by (intro exI [of _ s2] exI [of _ ?d]) (simp add: runsTo_def ensureDeployment_def key Let_def
        withController_fresh [OF assms(2) fr] reportErr_def getObj_answers [OF assms(1)])
qed

lemma runsTo_ensureAll:
  assumes "answers r answer" and "r_Scheme r = [g]" and "freshResources i k" and "resourcesFor i k"
    and "Contains (us_GraphDataImage (us_Spec i)) ''@sha256''"
    and "answer (Get ConfigMapKind (namespacedName (nameConfig i) (instNamespace i))) = Failed e"
    and "\<not> IsNotFound e"
    and "answer (Get DeploymentKind (namespacedName (nameDeployment i) (instNamespace i))) = Failed e'"
    and "IsNotFound e'" and "\<And>d. answer (Create (DeploymentObj d)) = Done"
  shows "\<exists>s' d st. runsTo (ensureAll r i k) s \<lparr>RequeueAfter = fiveMinutes, Err = None\<rparr>
      [Get ConfigMapKind (namespacedName (nameConfig i) (instNamespace i)),
       Get DeploymentKind (namespacedName (nameDeployment i) (instNamespace i)),
       Create (DeploymentObj d), UpdateStatus (i\<lparr>us_Status := st\<rparr>)] s' \<and>
    statusOf st ConditionReconcileCompleted = Some ConditionTrue"
proof -
  obtain s1 where s1: "runsTo (SetStatusCondition r
      (newCondition ConditionReconcileCompleted ConditionFalse ''Reconcile started'' [])) s () [] s1"
    using runsTo_SetStatusCondition by blast
  obtain s2 where s2: "runsTo (runUntilError (ensureSteps r i k)) s1 (Some e)
      [Get ConfigMapKind (namespacedName (nameConfig i) (instNamespace i))] s2"
    using runsTo_failingSteps [OF assms(1-4,6,7)] by blast
  obtain s3 d where s3: "runsTo (ensureDeployment r i k []) s2 None
      [Get DeploymentKind (namespacedName (nameDeployment i) (instNamespace i)), Create (DeploymentObj d)] s3"
    using runsTo_createDeployment [OF assms(1-4,8-10)] by blast
  let ?done = "newCondition ConditionReconcileCompleted ConditionTrue ''Success'' []"
  obtain s4 where s4: "runsTo (SetStatusCondition r ?done) s3 () [] s4" "conditionSet ?done s3 s4"
    using runsTo_SetStatusCondition by blast
  obtain a s5 where s5: "runsTo (saveStatus r i) s4 a [UpdateStatus (i\<lparr>us_Status := se_status s4\<rparr>)] s5"
    using runsTo_saveStatus by blast
  have "statusOf (se_status s4) ConditionReconcileCompleted = Some ConditionTrue"
    using s4(2) by (auto simp: conditionSet_def statusOf_def)
  then show ?thesis
    using s1 s2 s3 s4(1) s5
    by (intro exI [of _ s5] exI [of _ d] exI [of _ "se_status s4"])
      (simp add: runsTo_def ensureAll_def ensureGraphDataSHA_def assms(5))
qed

text \<open>
  What the server answers in the scenario: the reads of the early part succeed, the ConfigMap
  cannot be read, there is no Deployment yet, and creating one works.
\<close>

definition refusesConfig ::
    "(api_call \<Rightarrow> api_result) \<Rightarrow> update_service \<Rightarrow> go_error \<Rightarrow> bool" where
  "refusesConfig answer i e \<longleftrightarrow>
     (\<exists>ps. answer (Get SecretKind (namespacedName namePullSecret OpenshiftConfigNamespace)) =
        Found (SecretObj ps)) \<and>
     (\<exists>e0. answer (Get ImageKind (namespacedName ImageConfigName [])) = Failed e0 \<and> IsNotFound e0) \<and>
     (\<exists>e1. answer (Get ConfigMapKind
        (namespacedName NameClusterTrustedCAVolume (instNamespace i))) = Failed e1) \<and>
     answer (Get ConfigMapKind (namespacedName (nameConfig i) (instNamespace i))) = Failed e \<and>
     \<not> IsNotFound e \<and>
     (\<exists>e2. answer (Get DeploymentKind (namespacedName (nameDeployment i) (instNamespace i))) =
        Failed e2 \<and> IsNotFound e2) \<and>
     (\<forall>d. answer (Create (DeploymentObj d)) = Done)"

lemma refused_run:
  assumes "answers r answer" and "r_Scheme r = [g]"
    and "validateRouteName i (nn_Name req) (nn_Namespace req) = None"
    and "CHR ''/'' \<in> set (us_Releases (us_Spec i))"
    and "Contains (us_GraphDataImage (us_Spec i)) ''@sha256''" and "refusesConfig answer i e"
  shows "\<exists>s' d st. runsTo (reconcileInstance r req i) s \<lparr>RequeueAfter = fiveMinutes, Err = None\<rparr>
      [Get SecretKind (namespacedName namePullSecret OpenshiftConfigNamespace),
       Get ImageKind (namespacedName ImageConfigName []),
       Get ConfigMapKind (namespacedName NameClusterTrustedCAVolume (instNamespace i)),
       Get ConfigMapKind (namespacedName (nameConfig i) (instNamespace i)),
       Get DeploymentKind (namespacedName (nameDeployment i) (instNamespace i)),
       Create (DeploymentObj d), UpdateStatus (i\<lparr>us_Status := st\<rparr>)] s' \<and>
    statusOf st ConditionReconcileCompleted = Some ConditionTrue"
proof -
  obtain ps e0 e1 e2 where a:
    "answer (Get SecretKind (namespacedName namePullSecret OpenshiftConfigNamespace)) = Found (SecretObj ps)"
    "answer (Get ImageKind (namespacedName ImageConfigName [])) = Failed e0" "IsNotFound e0"
    "answer (Get ConfigMapKind (namespacedName NameClusterTrustedCAVolume (instNamespace i))) = Failed e1"
    "answer (Get ConfigMapKind (namespacedName (nameConfig i) (instNamespace i))) = Failed e" "\<not> IsNotFound e"
    "answer (Get DeploymentKind (namespacedName (nameDeployment i) (instNamespace i))) = Failed e2" "IsNotFound e2"
    "\<And>d. answer (Create (DeploymentObj d)) = Done"
    using assms(6) unfolding refusesConfig_def by auto
  obtain k where k: "newKubeResources (r_getenv r) i (r_OperandImage r) ps None
      (clusterCAFor (r_getenv r) i (Inl e1)) = Inr k"
    using newKubeResources_Inr_iff assms(4) by blast
  have for_k: "resourcesFor i k"
    by (rule rendered_resourcesFor [OF k], rule clusterCAFor_key [of "Inl e1"]) simp_all
  obtain s1 where 1: "runsTo (findPullSecret r) s (Inr ps)
      [Get SecretKind (namespacedName namePullSecret OpenshiftConfigNamespace)] s1"
    using runsTo_findPullSecret [OF assms(1) a(1)] by blast
  obtain s2 where 2: "runsTo (findTrustedCAConfig r) s1 (Inr None)
      [Get ImageKind (namespacedName ImageConfigName [])] s2"
    using runsTo_findTrustedCAConfig [OF assms(1) a(2,3)] by blast
  obtain s3 where 3: "runsTo (findTrustedClusterCAConfig r i) s2 (Inl e1)
      [Get ConfigMapKind (namespacedName NameClusterTrustedCAVolume (instNamespace i))] s3"
    using runsTo_findTrustedClusterCAConfig [OF assms(1) a(4)] by blast
  obtain s4 d st where "runsTo (ensureAll r i k) s3 \<lparr>RequeueAfter = fiveMinutes, Err = None\<rparr>
      [Get ConfigMapKind (namespacedName (nameConfig i) (instNamespace i)),
       Get DeploymentKind (namespacedName (nameDeployment i) (instNamespace i)),
       Create (DeploymentObj d), UpdateStatus (i\<lparr>us_Status := st\<rparr>)] s4"
    "statusOf st ConditionReconcileCompleted = Some ConditionTrue"
    using runsTo_ensureAll [OF assms(1,2) rendered_fresh [OF k] for_k assms(5) a(5-9)] by blast
  with 1 2 3 k show ?thesis
    by (intro exI [of _ s4] exI [of _ d] exI [of _ st])
      (simp add: runsTo_def reconcileInstance_def assms(3))
qed

section \<open>Properties\<close>

text \<open>
  C8: the failure of an \<open>ensure\<close> step is lost: when the very first step cannot read its ConfigMap,
  none of the other nine steps is run, but the Deployment is created all the same, the reconcile
  returns no error, and the status it saves claims that the reconcile has completed.
\<close>

theorem step_failure_is_masked:
  assumes "answers r answer" and "r_Scheme r = [g]" and "nn_Namespace req = r_OperatorNamespace r"
    and "answer (Get UpdateServiceKind req) = Found (UpdateServiceObj i)"
    and "validateRouteName i (nn_Name req) (nn_Namespace req) = None"
    and "CHR ''/'' \<in> set (us_Releases (us_Spec i))"
    and "Contains (us_GraphDataImage (us_Spec i)) ''@sha256''" and "refusesConfig answer i e"
  shows "\<exists>w' d st. runReconcile r req w = (\<lparr>RequeueAfter = fiveMinutes, Err = None\<rparr>, w',
      [Get UpdateServiceKind req,
       Get SecretKind (namespacedName namePullSecret OpenshiftConfigNamespace),
       Get ImageKind (namespacedName ImageConfigName []),
       Get ConfigMapKind (namespacedName NameClusterTrustedCAVolume (instNamespace i)),
       Get ConfigMapKind (namespacedName (nameConfig i) (instNamespace i)),
       Get DeploymentKind (namespacedName (nameDeployment i) (instNamespace i)),
       Create (DeploymentObj d), UpdateStatus (i\<lparr>us_Status := st\<rparr>)]) \<and>
    statusOf st ConditionReconcileCompleted = Some ConditionTrue"
proof -
  let ?i = "i\<lparr>us_Status := emptyStatus\<rparr>"
  let ?s0 = "\<lparr>se_world = w, se_status = emptyStatus, se_calls = [Get UpdateServiceKind req]\<rparr>"
  have name: "nameConfig ?i = nameConfig i" "nameDeployment ?i = nameDeployment i"
    by (simp_all add: name_defs)
  have found: "r_api r (Get UpdateServiceKind req) w = (Found (UpdateServiceObj i), w)"
    using assms(1,4) by (simp add: answers_def)
  have valid: "validateRouteName ?i (nn_Name req) (nn_Namespace req) = None"
    using assms(5) by (simp add: validateRouteName_def namePolicyEngineRoute_def)
  have "refusesConfig answer ?i e" using assms(8) by (simp add: refusesConfig_def name)
  from refused_run [OF assms(1,2) valid _ _ this, of ?s0] assms(6,7) show ?thesis
    by (auto simp: runReconcile_eq Reconcile_found [OF assms(3) found] runsTo_def name)
qed

definition refusingServer :: "api_call \<Rightarrow> api_result" where
  "refusingServer c =
     (case c of
        Get UpdateServiceKind key \<Rightarrow> Found (UpdateServiceObj (exampleInstance
          \<lparr>us_Spec := (us_Spec exampleInstance)\<lparr>us_GraphDataImage := ''quay.io/graph-data@sha256:1''\<rparr>\<rparr>))
      | Get SecretKind key \<Rightarrow> Found (SecretObj exampleSecret)
      | Get ConfigMapKind key \<Rightarrow> Failed (StatusError ''Forbidden'' 403 ''no'')
      | Get k key \<Rightarrow> Failed notFoundError
      | _ \<Rightarrow> Done)"

theorem step_failure_is_masked_witness:
  "\<exists>w' calls d st. runReconcile ((memReconciler (\<lambda>_. []))\<lparr>r_api := \<lambda>c w. (refusingServer c, w)\<rparr>) exampleKey (memWorld []) =
     (\<lparr>RequeueAfter = fiveMinutes, Err = None\<rparr>, w',
      calls @ [Create (DeploymentObj d), UpdateStatus st]) \<and>
     statusOf (us_Status st) ConditionReconcileCompleted = Some ConditionTrue"
proof -
  let ?r = "(memReconciler (\<lambda>_. []))\<lparr>r_api := \<lambda>c w. (refusingServer c, w)\<rparr>"
  let ?i = "exampleInstance\<lparr>us_Spec := (us_Spec exampleInstance)
    \<lparr>us_GraphDataImage := ''quay.io/graph-data@sha256:1''\<rparr>\<rparr>"
  have "answers ?r refusingServer" by (simp add: answers_def)
  moreover have "refusesConfig refusingServer ?i (StatusError ''Forbidden'' 403 ''no'')"
    by (simp add: refusesConfig_def refusingServer_def notFoundError_def knownReasons_def)
  moreover have "dnsLabel ''app-route-ns''" by code_simp
  then have "validateRouteName ?i (nn_Name exampleKey) (nn_Namespace exampleKey) = None"
    by (simp add: validateRouteName_def namePolicyEngineRoute_def fullMatch_label exampleKey_def
        example_defs DNS1123LabelMaxLength_def)
  ultimately show ?thesis
    using step_failure_is_masked [of ?r refusingServer updateServiceGVK exampleKey ?i
        "StatusError ''Forbidden'' 403 ''no''" "memWorld []"]
    by (fastforce simp: refusingServer_def exampleKey_def example_defs)
qed

text \<open>The status after an error was reported.\<close>

definition reported :: "string \<Rightarrow> go_error \<Rightarrow> us_status \<Rightarrow> bool" where
  "reported reason e st \<longleftrightarrow>
     (\<exists>c. FindStatusCondition (us_Conditions st) ConditionReconcileCompleted = Some c \<and>
        cond_Status c = ConditionFalse \<and> cond_Reason c = reason \<and> cond_Message c = err_Text e)"

lemma handleErr_reported:
  "\<exists>s'. run_state (handleErr r reason e) s = ((), s') \<and> reported reason e (se_status s') \<and>
     se_calls s' = se_calls s"
  using SetStatusCondition_run [of r "newCondition ConditionReconcileCompleted ConditionFalse reason (err_Text e)" s]
  by (auto simp: handleErr_def conditionSet_def reported_def)

text \<open>
  C39: when the update of a disruption budget or of a network policy that has drifted fails, the
  step notes the failure in the status but returns success, so the reconcile goes on to the next
  step.
\<close>

theorem update_failures_are_not_returned:
  "(r_api r (Get PDBKind (keyOf (pdb_meta pdb))) (se_world s) = (Found (PDBObj p), w1) \<longrightarrow>
     pdb_Spec p \<noteq> pdb_Spec pdb \<longrightarrow>
     r_api r (Update (PDBObj (p\<lparr>pdb_Spec := pdb_Spec pdb\<rparr>))) w1 = (Failed e, w2) \<longrightarrow>
     (\<exists>s'. run_state (syncPodDisruptionBudget r pdb) s = (None, s') \<and>
        reported ''UpdatePDBFailed'' e (se_status s'))) \<and>
   (r_api r (Get NetworkPolicyKind (keyOf (np_meta np))) (se_world s) = (Found (NetworkPolicyObj q), w1) \<longrightarrow>
     np_Spec q \<noteq> np_Spec np \<longrightarrow>
     r_api r (Update (NetworkPolicyObj (q\<lparr>np_Spec := np_Spec np\<rparr>))) w1 = (Failed e, w2) \<longrightarrow>
     (\<exists>s'. run_state (syncNetworkPolicy r np) s = (None, s') \<and>
        reported ''UpdateNetworkPolicyFailed'' e (se_status s')))"
proof (intro conjI impI)
  let ?s1 = "\<lambda>c1 c2. s\<lparr>se_world := w2, se_calls := se_calls s @ [c1, c2]\<rparr>"
  assume "r_api r (Get PDBKind (keyOf (pdb_meta pdb))) (se_world s) = (Found (PDBObj p), w1)"
    "pdb_Spec p \<noteq> pdb_Spec pdb"
    "r_api r (Update (PDBObj (p\<lparr>pdb_Spec := pdb_Spec pdb\<rparr>))) w1 = (Failed e, w2)"
  then show "\<exists>s'. run_state (syncPodDisruptionBudget r pdb) s = (None, s') \<and>
      reported ''UpdatePDBFailed'' e (se_status s')"
    using handleErr_reported [of r "''UpdatePDBFailed''" e
        "?s1 (Get PDBKind (keyOf (pdb_meta pdb))) (Update (PDBObj (p\<lparr>pdb_Spec := pdb_Spec pdb\<rparr>)))"]
    by (auto simp: syncPodDisruptionBudget_def getObj_def invoke_def reportOnly_def updateObj_def mutate_def)
next
  let ?s1 = "\<lambda>c1 c2. s\<lparr>se_world := w2, se_calls := se_calls s @ [c1, c2]\<rparr>"
  assume "r_api r (Get NetworkPolicyKind (keyOf (np_meta np))) (se_world s) = (Found (NetworkPolicyObj q), w1)"
    "np_Spec q \<noteq> np_Spec np"
    "r_api r (Update (NetworkPolicyObj (q\<lparr>np_Spec := np_Spec np\<rparr>))) w1 = (Failed e, w2)"
  then show "\<exists>s'. run_state (syncNetworkPolicy r np) s = (None, s') \<and>
      reported ''UpdateNetworkPolicyFailed'' e (se_status s')"
    using handleErr_reported [of r "''UpdateNetworkPolicyFailed''" e
        "?s1 (Get NetworkPolicyKind (keyOf (np_meta np))) (Update (NetworkPolicyObj (q\<lparr>np_Spec := np_Spec np\<rparr>)))"]
    by (auto simp: syncNetworkPolicy_def getObj_def invoke_def reportOnly_def updateObj_def mutate_def)
qed

definition driftedPDB :: pdb where
  "driftedPDB = (newPodDisruptionBudget exampleInstance)\<lparr>pdb_Spec :=
     (pdb_Spec (newPodDisruptionBudget exampleInstance))\<lparr>ps_MinAvailable := None\<rparr>\<rparr>"

theorem update_failures_are_not_returned_witness:
  "\<exists>s'. run_state (syncPodDisruptionBudget ((memReconciler (\<lambda>_. []))
       \<lparr>r_api := \<lambda>c w. (case c of Get k key \<Rightarrow> Found (PDBObj driftedPDB) | _ \<Rightarrow> Failed existsError, w)\<rparr>)
       (newPodDisruptionBudget exampleInstance)) (startSession (memWorld [])) = (None, s') \<and>
     reported ''UpdatePDBFailed'' existsError (se_status s')"
proof -
  let ?r = "(memReconciler (\<lambda>_. []))
       \<lparr>r_api := \<lambda>c w. (case c of Get k key \<Rightarrow> Found (PDBObj driftedPDB) | _ \<Rightarrow> Failed existsError, w)\<rparr>"
  have "pdb_Spec driftedPDB \<noteq> pdb_Spec (newPodDisruptionBudget exampleInstance)"
    by (simp add: driftedPDB_def newPodDisruptionBudget_def)
  then show ?thesis
    using update_failures_are_not_returned [of ?r "newPodDisruptionBudget exampleInstance"
        "startSession (memWorld [])" driftedPDB "memWorld []" existsError "memWorld []"] by (simp add: startSession_def)
qed

text \<open>
  A Deployment whose pod template has lost its graph-data init container is never repaired:
  the step notes an error in the status, makes no request but the read, and returns success.
\<close>

theorem missing_init_container_is_not_repaired:
  assumes "SetControllerReference (r_Scheme r) i (dep_meta (kr_deployment k)) = Inr m"
    and "r_api r (Get DeploymentKind (keyOf m)) (se_world s) = (Found (DeploymentObj d), w1)"
    and "\<not> hasGraphDataInit d"
  shows "\<exists>s'. run_state (ensureDeployment r i k sha) s = (None, s') \<and>
    se_calls s' = se_calls s @ [Get DeploymentKind (keyOf m)] \<and>
    reported ''UpdateDeploymentFailed'' (PlainError ''Graph data init container not found'') (se_status s')"
  using assms handleErr_reported [of r "''UpdateDeploymentFailed''"
      "PlainError ''Graph data init container not found''"
      "s\<lparr>se_world := w1, se_calls := se_calls s @ [Get DeploymentKind (keyOf m)]\<rparr>"]
  by (auto simp: ensureDeployment_def withController_def getObj_def invoke_def Let_def)

theorem missing_init_container_is_not_repaired_witness:
  "\<exists>k d s'. \<not> hasGraphDataInit d \<and>
     run_state (ensureDeployment ((memReconciler (\<lambda>_. []))\<lparr>r_api := \<lambda>c w. (Found (DeploymentObj d), w)\<rparr>)
       exampleInstance k []) (startSession (memWorld [])) = (None, s') \<and> length (se_calls s') = 1"
proof -
  obtain k where k: "newKubeResources (\<lambda>_. []) exampleInstance ''img'' exampleSecret None None = Inr k"
    using example_renders by blast
  let ?spec = "dep_Spec (kr_deployment k)"
  let ?d = "(kr_deployment k)\<lparr>dep_Spec := ?spec\<lparr>ds_Template := (ds_Template ?spec)
    \<lparr>pt_Spec := (pt_Spec (ds_Template ?spec))\<lparr>pod_InitContainers := []\<rparr>\<rparr>\<rparr>\<rparr>"
  let ?r = "(memReconciler (\<lambda>_. []))\<lparr>r_api := \<lambda>c w. (Found (DeploymentObj ?d), w)\<rparr>"
  have "fresh exampleInstance (dep_meta (kr_deployment k))"
    using rendered_fresh [OF k] by (simp add: freshResources_def)
  then have "SetControllerReference (r_Scheme ?r) exampleInstance (dep_meta (kr_deployment k)) =
      Inr ((dep_meta (kr_deployment k))\<lparr>om_OwnerReferences := [controllerRef updateServiceGVK exampleInstance]\<rparr>)"
    by (simp add: SetControllerReference_fresh fresh_def)
  moreover have "\<not> hasGraphDataInit ?d" by (simp add: hasGraphDataInit_def)
  ultimately show ?thesis
    using missing_init_container_is_not_repaired [of ?r exampleInstance k _ "startSession (memWorld [])" ?d
        "memWorld []" "[]"]
    by (fastforce simp: startSession_def)
qed

end
