(* ===== verification/OwnerProps.thy ===== *)
theory OwnerProps
  imports MainProgram Safety DeploymentSync
begin

text \<open>
  Owner references and events: what \<open>SetControllerReference\<close> guarantees, that an event on an object
  the operator created leads back to a reconcile of its UpdateService, and which other events lead
  to a reconcile.
\<close>

section \<open>Owner references\<close>

text \<open>A group and version without slashes, so that the reference can be parsed again.\<close>

definition properGVK :: "group_version_kind \<Rightarrow> bool" where
  "properGVK g \<longleftrightarrow> gvk_Group g \<noteq> [] \<and> CHR ''/'' \<notin> set (gvk_Group g) \<and> CHR ''/'' \<notin> set (gvk_Version g)"

lemma ParseGroupVersion_proper:
  assumes "properGVK g"
  shows "ParseGroupVersion (groupVersionString g) = Some (gvk_Group g, gvk_Version g)"
proof -
  have "Cut (CHR ''/'') (gvk_Group g @ ''/'' @ gvk_Version g) = Some (gvk_Group g, gvk_Version g)"
    using assms by (simp add: properGVK_def Cut_Some_iff)
  then show ?thesis
    using assms by (auto simp: properGVK_def ParseGroupVersion_def groupVersionString_def append_eq_Cons_conv)
qed

lemma controllerRef_refl: "properGVK g \<Longrightarrow> referSameObject (controllerRef g i) (controllerRef g i)"
  by (simp add: referSameObject_def controllerRef_def ParseGroupVersion_proper)

lemma upsert_keeps: "x \<in> set refs \<Longrightarrow> \<not> referSameObject x ref \<Longrightarrow> x \<in> set (upsertOwnerRef ref refs)"
  by (induction refs) auto

lemma upsert_idem:
  "referSameObject ref ref \<Longrightarrow> upsertOwnerRef ref (upsertOwnerRef ref refs) = upsertOwnerRef ref refs"
  by (induction refs) auto

lemma upsert_controller:
  assumes "or_Controller ref = Some True" and "referSameObject ref ref"
    and "\<And>e. GetControllerOf refs = Some e \<Longrightarrow> referSameObject e ref"
  shows "GetControllerOf (upsertOwnerRef ref refs) = Some ref"
  using assms(3) by (induction refs) (auto simp: GetControllerOf_def assms(1) split: if_splits)

lemma SetControllerReference_iff:
  "SetControllerReference [g] i m = Inr m' \<longleftrightarrow>
     validateOwner (us_meta i) m = None \<and>
     pred_option (\<lambda>e. referSameObject e (controllerRef g i)) (GetControllerOf (om_OwnerReferences m)) \<and>
     m' = m\<lparr>om_OwnerReferences := upsertOwnerRef (controllerRef g i) (om_OwnerReferences m)\<rparr>"
  by (auto simp: SetControllerReference_def GVKForObject_def Let_def split: option.splits)

section \<open>Events\<close>

lemma created_object_request:
  assumes "SetControllerReference [g] i m = Inr m'" and "properGVK g"
  shows "ownerRequests g m' = [namespacedName (instName i) (om_Namespace m)]"
proof -
  have "GetControllerOf (om_OwnerReferences m') = Some (controllerRef g i)"
    using assms upsert_controller [of "controllerRef g i" "om_OwnerReferences m"] controllerRef_refl [OF assms(2)]
    by (auto simp: SetControllerReference_iff controllerRef_def option.pred_set)
  then show ?thesis
    using assms ParseGroupVersion_proper [OF assms(2)]
    by (auto simp: ownerRequests_def controllerRef_def SetControllerReference_iff)
qed

lemma run_returns [simp]: "run_state (handleEvent m g ob []) s = ([], s)"
  by simp

text \<open>The kinds of object whose events are mapped to their controller.\<close>

definition ownedKinds :: "kind set" where
  "ownedKinds = {DeploymentKind, ConfigMapKind, ServiceKind, PDBKind, RouteKind, NetworkPolicyKind, PodKind}"

lemma handleEvent_owned:
  assumes "run_state (handleEvent m g ob controllerWatches) s = (reqs, s')" and "objKind ob \<in> ownedKinds"
  shows "set (ownerRequests g (objMeta ob)) \<subseteq> set reqs"
  using assms
  by (cases ob) (auto simp: controllerWatches_def handleWatch_def ownedKinds_def split: prod.splits)

lemma updateServiceGVK_proper: "properGVK updateServiceGVK"
  by (simp add: properGVK_def updateServiceGVK_def)

section \<open>Properties\<close>

text \<open>
  \<open>SetControllerReference\<close> succeeds exactly when the object is in the namespace of the owner (or
  the owner has none) and is not controlled by somebody else; then the UpdateService is the
  controller that is found on the object, a second call changes nothing, and the references to
  other owners stay.
\<close>

theorem set_controller_reference:
  assumes "properGVK g"
  shows "((\<exists>m'. SetControllerReference [g] i m = Inr m') \<longleftrightarrow>
      instNamespace i \<in> {[], om_Namespace m} \<and>
      pred_option (\<lambda>e. referSameObject e (controllerRef g i)) (GetControllerOf (om_OwnerReferences m))) \<and>
    (\<forall>m'. SetControllerReference [g] i m = Inr m' \<longrightarrow>
      GetControllerOf (om_OwnerReferences m') = Some (controllerRef g i) \<and>
      SetControllerReference [g] i m' = Inr m' \<and>
      (\<forall>x \<in> set (om_OwnerReferences m). \<not> referSameObject x (controllerRef g i) \<longrightarrow>
         x \<in> set (om_OwnerReferences m')))"
proof (intro conjI allI impI)
  show "(\<exists>m'. SetControllerReference [g] i m = Inr m') \<longleftrightarrow>
      instNamespace i \<in> {[], om_Namespace m} \<and>
      pred_option (\<lambda>e. referSameObject e (controllerRef g i)) (GetControllerOf (om_OwnerReferences m))"
    unfolding SetControllerReference_iff by (auto simp: validateOwner_def Let_def)
next
  fix m'
  assume "SetControllerReference [g] i m = Inr m'"
  then have v: "validateOwner (us_meta i) m = None"
    and c: "\<And>e. GetControllerOf (om_OwnerReferences m) = Some e \<Longrightarrow> referSameObject e (controllerRef g i)"
    and m': "m' = m\<lparr>om_OwnerReferences := upsertOwnerRef (controllerRef g i) (om_OwnerReferences m)\<rparr>"
    by (auto simp: SetControllerReference_iff option.pred_set)
  note self = controllerRef_refl [OF assms]
  show found: "GetControllerOf (om_OwnerReferences m') = Some (controllerRef g i)"
    using upsert_controller [OF _ self c] by (simp add: m' controllerRef_def)
  show "SetControllerReference [g] i m' = Inr m'"
    unfolding SetControllerReference_iff using found v self
    by (simp add: m' upsert_idem validateOwner_def)
  show "\<forall>x \<in> set (om_OwnerReferences m). \<not> referSameObject x (controllerRef g i) \<longrightarrow>
      x \<in> set (om_OwnerReferences m')"
    using upsert_keeps by (auto simp: m')
qed

theorem set_controller_reference_witness:
  "GetControllerOf (om_OwnerReferences (exampleMeta\<lparr>om_OwnerReferences :=
     [controllerRef updateServiceGVK exampleInstance]\<rparr>)) =
   Some (controllerRef updateServiceGVK exampleInstance)"
proof -
  have "SetControllerReference [updateServiceGVK] exampleInstance exampleMeta =
      Inr (exampleMeta\<lparr>om_OwnerReferences := [controllerRef updateServiceGVK exampleInstance]\<rparr>)"
    by (rule SetControllerReference_fresh) (simp_all add: example_defs)
  then show ?thesis
    using set_controller_reference [OF updateServiceGVK_proper, of exampleInstance exampleMeta] by blast
qed

text \<open>
  C31: the loop is closed: whatever happens to an object on which an UpdateService was set as the
  controller, a request to reconcile this UpdateService is put into the queue, for every kind of
  object that the operator creates except Secrets. Those are not watched: an event on a Secret,
  on the copied pull secret or on its source, leads to no request at all.
\<close>

theorem events_lead_to_owner:
  assumes "run_state (handleEvent m g ob controllerWatches) s = (reqs, s')"
    and "SetControllerReference [g] i old = Inr (objMeta ob)" and "properGVK g"
  shows "(objKind ob \<in> ownedKinds \<longrightarrow>
      namespacedName (instName i) (om_Namespace (objMeta ob)) \<in> set reqs) \<and>
    (objKind ob = SecretKind \<longrightarrow> reqs = [])"
proof (intro conjI impI)
  have "om_Namespace (objMeta ob) = om_Namespace old"
    using assms(2) by (auto simp: SetControllerReference_iff)
  then show "namespacedName (instName i) (om_Namespace (objMeta ob)) \<in> set reqs" if "objKind ob \<in> ownedKinds"
    using handleEvent_owned [OF assms(1) that] created_object_request [OF assms(2,3)] by simp
  show "reqs = []" if "objKind ob = SecretKind"
    using assms(1) that by (simp add: controllerWatches_def handleWatch_def)
qed

theorem events_lead_to_owner_witness:
  "\<exists>reqs s'. run_state (handleEvent \<lparr>m_client = memReconciler (\<lambda>_. []), m_namespace = ''ns''\<rparr>
       updateServiceGVK (PodObj ((graphDataPod exampleInstance 0)\<lparr>p_meta :=
         (p_meta (graphDataPod exampleInstance 0))
           \<lparr>om_OwnerReferences := [controllerRef updateServiceGVK exampleInstance]\<rparr>\<rparr>)) controllerWatches)
       \<lparr>se_world = \<lparr>mem_objects = [], mem_time = 0\<rparr>, se_status = emptyStatus, se_calls = []\<rparr> =
     (reqs, s') \<and> namespacedName ''app'' ''ns'' \<in> set reqs"
proof -
  let ?m = "\<lparr>m_client = memReconciler (\<lambda>_. []), m_namespace = ''ns''\<rparr>"
  let ?meta = "(p_meta (graphDataPod exampleInstance 0))
    \<lparr>om_OwnerReferences := [controllerRef updateServiceGVK exampleInstance]\<rparr>"
  let ?ob = "PodObj ((graphDataPod exampleInstance 0)\<lparr>p_meta := ?meta\<rparr>)"
  obtain reqs s' where run: "run_state (handleEvent ?m updateServiceGVK ?ob controllerWatches)
      \<lparr>se_world = \<lparr>mem_objects = [], mem_time = 0\<rparr>, se_status = emptyStatus, se_calls = []\<rparr> = (reqs, s')"
    by (rule prod.exhaust)
  have "SetControllerReference [updateServiceGVK] exampleInstance (p_meta (graphDataPod exampleInstance 0)) =
      Inr (objMeta ?ob)"
    unfolding objMeta.simps pod.simps
    by (simp add: SetControllerReference_fresh graphDataPod_def newMeta_def)
  from events_lead_to_owner [OF run this updateServiceGVK_proper]
  have "namespacedName ''app'' ''ns'' \<in> set reqs"
    by (simp add: ownedKinds_def graphDataPod_def newMeta_def example_defs)
  with run show ?thesis by blast
qed

text \<open>
  An event on a ConfigMap puts all UpdateServices of the operator's namespace into the queue
  exactly when it is the ConfigMap in \<open>openshift-config\<close> that the cluster's Image configuration
  names as the additional trusted CA, and an event on an Image configuration exactly when it is
  the cluster's own.
\<close>

theorem mapper_requests:
  assumes "r_api (m_client m) (Get ImageKind (namespacedName ImageConfigName [])) (se_world s) =
      (Found (ImageObj img), se_world s)"
    and "r_api (m_client m) (ListUpdateServices (m_namespace m)) (se_world s) = (Listed items, w)"
  shows "fst (run_state (Map m (ConfigMapObj cm)) s) =
      (if keyOf (cm_meta cm) = namespacedName (img_AdditionalTrustedCA img) OpenshiftConfigNamespace
       then map (\<lambda>us. keyOf (us_meta us)) items else []) \<and>
    fst (run_state (Map m (ImageObj changed)) s) =
      (if keyOf (img_meta changed) = namespacedName ImageConfigName []
       then map (\<lambda>us. keyOf (us_meta us)) items else [])"
  using assms
  by (auto simp: Map_def getObj_def invoke_def requeueUpdateServices_def listUpdateServices_def
      keyOf_def namespacedName_def)

theorem mapper_requests_witness:
  "fst (run_state (Map \<lparr>m_client = memReconciler (\<lambda>_. []), m_namespace = ''ns''\<rparr> (ConfigMapObj (exampleCA ''pem'')))
     \<lparr>se_world = \<lparr>mem_objects = [UpdateServiceObj exampleInstance, ImageObj
         \<lparr>img_meta = newMeta ''cluster'' [], img_AdditionalTrustedCA = ''registry-ca'', img_other = []\<rparr>],
       mem_time = 0\<rparr>, se_status = emptyStatus, se_calls = []\<rparr>) = [namespacedName ''app'' ''ns'']"
proof -
  let ?img = "\<lparr>img_meta = newMeta ''cluster'' [], img_AdditionalTrustedCA = ''registry-ca'', img_other = []\<rparr>"
  let ?w = "\<lparr>mem_objects = [UpdateServiceObj exampleInstance, ImageObj ?img], mem_time = 0\<rparr>"
  let ?m = "\<lparr>m_client = memReconciler (\<lambda>_. []), m_namespace = ''ns''\<rparr>"
  let ?s = "\<lparr>se_world = ?w, se_status = emptyStatus, se_calls = []\<rparr>"
  have "r_api (m_client ?m) (Get ImageKind (namespacedName ImageConfigName [])) (se_world ?s) =
      (Found (ImageObj ?img), se_world ?s)"
    by (simp add: memLookup_def ImageConfigName_def)
  moreover have "r_api (m_client ?m) (ListUpdateServices (m_namespace ?m)) (se_world ?s) =
      (Listed [exampleInstance], ?w)"
    by (simp add: List.map_filter_def example_defs)
  moreover have "keyOf (us_meta exampleInstance) = namespacedName ''app'' ''ns''"
    by (simp add: example_defs keyOf_def namespacedName_def)
  ultimately show ?thesis
    using mapper_requests [of ?m ?s ?img "[exampleInstance]" ?w "exampleCA ''pem''"]
    by (simp add: exampleCA_def OpenshiftConfigNamespace_def)
qed

end
