(* ===== verification/StatusProps.thy ===== *)
theory StatusProps
  imports ReconcileProps Invariants
begin

text \<open>
  The status of the UpdateService as a data structure: what setting a condition does to the list
  of conditions, and the invariant that every status the operator saves satisfies: at most one
  condition of each type, and no types but the operator's three.
\<close>

section \<open>The invariant\<close>

definition wellFormedStatus :: "us_status \<Rightarrow> bool" where
  "wellFormedStatus st \<longleftrightarrow>
     conditionTypesDistinct st \<and> cond_Type ` set (us_Conditions st) \<subseteq> operatorTypes"

fun savesWellFormed :: "api_call \<Rightarrow> bool" where
  "savesWellFormed (UpdateStatus us) = wellFormedStatus (us_Status us)"
| "savesWellFormed c = True"

definition wellFormed :: "'w sess \<Rightarrow> bool" where
  "wellFormed s \<longleftrightarrow> wellFormedStatus (se_status s) \<and> callsOK savesWellFormed s"

section \<open>The primitive steps keep it\<close>

lemma conditionSet_types:
  assumes "conditionSet new s s'" and "conditionTypesDistinct (se_status s)"
  shows "conditionTypesDistinct (se_status s')"
    and "cond_Type ` set (us_Conditions (se_status s')) =
           insert (cond_Type new) (cond_Type ` set (us_Conditions (se_status s)))"
proof -
  have *: "map cond_Type (us_Conditions (se_status s')) =
      (let tys = map cond_Type (us_Conditions (se_status s))
       in if cond_Type new \<in> set tys then tys else tys @ [cond_Type new])"
    using assms(1) by (simp add: conditionSet_def)
  then show "conditionTypesDistinct (se_status s')"
    using assms(2) by (auto simp: conditionTypesDistinct_def Let_def)
  have "cond_Type ` set (us_Conditions (se_status s')) = set (map cond_Type (us_Conditions (se_status s')))"
    by simp
  then show "cond_Type ` set (us_Conditions (se_status s')) =
      insert (cond_Type new) (cond_Type ` set (us_Conditions (se_status s)))"
    unfolding * by (auto simp: Let_def)
qed

lemma wf_SetStatusCondition:
  "cond_Type c \<in> operatorTypes \<Longrightarrow> keeps wellFormed (SetStatusCondition r c)"
proof (rule keepsI)
  fix s :: "'a sess" and a s'
  assume ty: "cond_Type c \<in> operatorTypes" and s: "wellFormed s"
    and run: "run_state (SetStatusCondition r c) s = (a, s')"
  have set: "conditionSet c s s'" using SetStatusCondition_effect run by (metis old.unit.exhaust)
  then show "wellFormed s'"
    using s ty conditionSet_types [OF set]
    by (auto simp: wellFormed_def wellFormedStatus_def callsOK_def conditionSet_def)
qed

interpretation wf: session_invariant r wellFormed
proof unfold_locales
  show "keeps wellFormed (setPolicyEngineURI uri)" for uri
    by (rule keepsI) (auto simp: setPolicyEngineURI_def getStatus_def putStatus_def wellFormed_def
        wellFormedStatus_def conditionTypesDistinct_def callsOK_def)
  show "keeps wellFormed (timeNow r)"
    by (rule keepsI) (auto simp: timeNow_def wellFormed_def callsOK_def split: prod.splits)
  show "keeps wellFormed (invoke r c)" if "\<not> isStatusUpdate c" for c
    using that by (cases c; intro keepsI; auto simp: invoke_def wellFormed_def callsOK_def split: prod.splits)
  show "keeps wellFormed (saveStatus r i)" for i
    by (rule keepsI) (auto dest!: saveStatus_run simp: wellFormed_def callsOK_def)
  show "keeps wellFormed (putStatus emptyStatus)"
    by (rule keepsI) (auto simp: putStatus_def wellFormed_def wellFormedStatus_def callsOK_def
        conditionTypesDistinct_def emptyStatus_def)
qed (rule wf_SetStatusCondition)

section \<open>Properties\<close>

text \<open>
  Setting a condition keeps at most one condition per type and touches no other type: the
  condition of the new one's type then carries its status, reason and message, and the time of
  its last transition changes only when its status does.
\<close>

theorem set_status_condition:
  assumes "run_state (SetStatusCondition r new) s = ((), s')"
    and "conditionTypesDistinct (se_status s)"
  shows "conditionTypesDistinct (se_status s') \<and>
    (\<exists>c. FindStatusCondition (us_Conditions (se_status s')) (cond_Type new) = Some c \<and>
       cond_Status c = cond_Status new \<and> cond_Reason c = cond_Reason new \<and>
       cond_Message c = cond_Message new \<and>
       (case FindStatusCondition (us_Conditions (se_status s)) (cond_Type new) of
          None \<Rightarrow> True
        | Some old \<Rightarrow> cond_Status old = cond_Status new \<longrightarrow>
            cond_LastTransitionTime c = cond_LastTransitionTime old)) \<and>
    (\<forall>ty. ty \<noteq> cond_Type new \<longrightarrow>
       FindStatusCondition (us_Conditions (se_status s')) ty =
       FindStatusCondition (us_Conditions (se_status s)) ty)"
proof -
  have set: "conditionSet new s s'" by (rule SetStatusCondition_effect [OF assms(1)])
  then show ?thesis
    using conditionSet_types(1) [OF set assms(2)]
    by (auto simp: conditionSet_def split: option.split)
qed

definition agedStatus :: us_status where
  "agedStatus = emptyStatus\<lparr>us_Conditions :=
     [(newCondition ConditionReconcileCompleted ConditionTrue ''Success'' [])\<lparr>cond_LastTransitionTime := 7\<rparr>]\<rparr>"

theorem set_status_condition_witness:
  "\<exists>s' c. run_state (SetStatusCondition (memReconciler (\<lambda>_. []))
       (newCondition ConditionReconcileCompleted ConditionTrue ''Success'' []))
       \<lparr>se_world = memWorld [], se_status = agedStatus, se_calls = []\<rparr> = ((), s') \<and>
     FindStatusCondition (us_Conditions (se_status s')) ConditionReconcileCompleted = Some c \<and>
     cond_LastTransitionTime c = 7"
proof -
  let ?c = "newCondition ConditionReconcileCompleted ConditionTrue ''Success'' []"
  let ?s = "\<lparr>se_world = memWorld [], se_status = agedStatus, se_calls = []\<rparr>"
  obtain s' where run: "run_state (SetStatusCondition (memReconciler (\<lambda>_. [])) ?c) ?s = ((), s')"
    using SetStatusCondition_run by blast
  have "conditionTypesDistinct (se_status ?s)"
    by (simp add: conditionTypesDistinct_def agedStatus_def emptyStatus_def)
  from set_status_condition [OF run this] run show ?thesis
    by (auto simp: FindStatusCondition_def agedStatus_def emptyStatus_def)
qed

text \<open>
  C14: every status that a reconcile saves has at most one condition of each type, and only
  conditions of the operator's three types, whatever the server answers and whatever the status of
  the resource was before.
\<close>

theorem saved_status_well_formed:
  assumes "runReconcile r req w = (res, w', calls)" and "UpdateStatus us \<in> set calls"
  shows "distinct (map cond_Type (us_Conditions (us_Status us))) \<and>
    cond_Type ` set (us_Conditions (us_Status us)) \<subseteq>
      {ConditionReconcileCompleted, ConditionRegistryCACertFound, ConditionReconcileError}"
proof -
  have "wellFormed \<lparr>se_world = w, se_status = emptyStatus, se_calls = []\<rparr>"
    by (simp add: wellFormed_def wellFormedStatus_def conditionTypesDistinct_def emptyStatus_def)
  then obtain s' :: "'a sess" where "wellFormed s'" "se_calls s' = calls"
    using wf.runReconcile_invariant [OF assms(1)] by blast
  then have "savesWellFormed (UpdateStatus us)"
    using assms(2) by (auto simp: wellFormed_def callsOK_def list_all_iff)
  then show ?thesis by (simp add: wellFormedStatus_def conditionTypesDistinct_def operatorTypes_def)
qed

theorem saved_status_well_formed_witness:
  "\<exists>res w' us. runReconcile (memReconciler (\<lambda>_. [])) (namespacedName ''a.b'' ''ns'')
       (memWorld [UpdateServiceObj badName]) =
     (res, w', [Get UpdateServiceKind (namespacedName ''a.b'' ''ns''), UpdateStatus us]) \<and>
     distinct (map cond_Type (us_Conditions (us_Status us)))"
proof -
  obtain w' st where run: "runReconcile (memReconciler (\<lambda>_. [])) (namespacedName ''a.b'' ''ns'')
       (memWorld [UpdateServiceObj badName]) =
     (emptyResult, w', [Get UpdateServiceKind (namespacedName ''a.b'' ''ns''),
        UpdateStatus (badName\<lparr>us_Status := st\<rparr>)])"
    using bad_name_run by blast
  have "UpdateStatus (badName\<lparr>us_Status := st\<rparr>) \<in> set [Get UpdateServiceKind (namespacedName ''a.b'' ''ns''),
        UpdateStatus (badName\<lparr>us_Status := st\<rparr>)]" by simp
  from saved_status_well_formed [OF run this] run show ?thesis by blast
qed

end
