(* ===== verification/StatusContract.thy ===== *)
theory StatusContract
  imports ConvergeProps StatusProps
begin

text \<open>
  What the status of an UpdateService says once the cluster is up to date: \<open>expectedStatus\<close> is a
  function of the contents of the cluster, and a reconcile saves exactly this status, with the times
  of its conditions filled in.
\<close>

section \<open>Statuses without their times\<close>

definition untimedCondition :: "condition \<Rightarrow> condition" where
  "untimedCondition c = c\<lparr>cond_LastHeartbeatTime := 0, cond_LastTransitionTime := 0\<rparr>"

definition untimed :: "us_status \<Rightarrow> us_status" where
  "untimed st = st\<lparr>us_Conditions := map untimedCondition (us_Conditions st)\<rparr>"

text \<open>Setting a condition, on a list of conditions without times.\<close>

definition putCondition :: "condition \<Rightarrow> condition list \<Rightarrow> condition list" where
  "putCondition new cs =
     (if cond_Type new \<in> cond_Type ` set cs then replaceFound (cond_Type new) new cs else cs @ [new])"

section \<open>The status that the contents call for\<close>

abbreviation caCondition :: "string \<Rightarrow> string \<Rightarrow> string \<Rightarrow> condition" where
  "caCondition \<equiv> newCondition ConditionRegistryCACertFound"

text \<open>What is wrong with the registry's CA, if anything.\<close>

definition registryCAReport :: "contents \<Rightarrow> condition option" where
  "registryCAReport L =
     (case Option.bind (L ImageKind (namespacedName ImageConfigName [])) asImage of
        None \<Rightarrow> Some (caCondition ConditionFalse ''FindAdditionalTrustedCAFailed''
          (''image.config.openshift.io not found for name '' @ ImageConfigName))
      | Some img \<Rightarrow>
          (let name = img_AdditionalTrustedCA img in
           if name = [] then Some (caCondition ConditionFalse ''NotConfigured''
             (''image.config.openshift.io.Spec.AdditionalTrustedCA.Name not set for image name '' @
              ImageConfigName))
           else (case Option.bind (L ConfigMapKind (namespacedName name OpenshiftConfigNamespace)) asConfigMap of
               None \<Rightarrow> Some (caCondition ConditionFalse ''FindAdditionalTrustedCAFailed''
                 (''Found image.config.openshift.io.Spec.AdditionalTrustedCA.Name but did not find expected ConfigMap (Name: '' @
                  name @ '', Namespace: '' @ OpenshiftConfigNamespace @ '')''))
             | Some cm \<Rightarrow>
                 if mapGet (cm_Data cm) NameCertConfigMapKey = None
                 then Some (caCondition ConditionFalse ''EnsureAdditionalTrustedCAFailed''
                   (''Found ConfigMap referenced by ImageConfig.Spec.AdditionalTrustedCA.Name but did not find key '' @
                    [CHR 0x27] @ ''updateservice-registry'' @ [CHR 0x27] @
                    '' for registry CA cert in ConfigMap (Name: '' @ name @
                    '', Namespace: '' @ OpenshiftConfigNamespace @ '')''))
                 else None)))"

text \<open>What is wrong with the ConfigMap for the cluster-wide CA, if there is one.\<close>

definition clusterCAReport :: "update_service \<Rightarrow> contents \<Rightarrow> condition option" where
  "clusterCAReport i L =
     (case Option.bind (L ConfigMapKind (namespacedName NameClusterTrustedCAVolume (instNamespace i)))
             asConfigMap of
        None \<Rightarrow> None
      | Some cm \<Rightarrow>
          if mapGet (cm_Data cm) NameClusterCertConfigMapKey = None
          then Some (caCondition ConditionFalse ''EnsureTrustedClusterCAFailed''
            (''Found cluster-wide CA but required key: '' @ [CHR 0x27] @
             NameClusterCertConfigMapKey @ [CHR 0x27] @ '' not found''))
          else None)"

text \<open>
  The condition on the CAs: a usable registry CA hides a problem with the cluster-wide one, which in
  turn hides a problem with the registry's.
\<close>

definition expectedCA :: "update_service \<Rightarrow> contents \<Rightarrow> condition" where
  "expectedCA i L =
     (case registryCAReport L of
        None \<Rightarrow> caCondition ConditionTrue ''CACertFound'' []
      | Some problem \<Rightarrow> (case clusterCAReport i L of None \<Rightarrow> problem | Some c \<Rightarrow> c))"

definition completedCondition :: condition where
  "completedCondition = newCondition ConditionReconcileCompleted ConditionTrue ''Success'' []"

definition expectedURI :: "contents \<Rightarrow> kube_resources \<Rightarrow> string" where
  "expectedURI L k =
     (case routeInUse L k of
        None \<Rightarrow> []
      | Some rt \<Rightarrow> (case IngressURI rt [] of Inl _ \<Rightarrow> [] | Inr uri \<Rightarrow> URLString uri))"

definition expectedStatus :: "update_service \<Rightarrow> contents \<Rightarrow> kube_resources \<Rightarrow> us_status" where
  "expectedStatus i L k =
     \<lparr>us_Conditions =
        (if registryCAReport L = None \<and> clusterCAReport i L = None
         then [completedCondition, expectedCA i L] else [expectedCA i L, completedCondition]),
      us_PolicyEngineURI = expectedURI L k\<rparr>"

section \<open>Setting a condition refines putting it\<close>

lemma untimedCondition_simps [simp]:
  "cond_Type (untimedCondition c) = cond_Type c"
  "untimedCondition (newCondition ty st re me) = newCondition ty st re me"
  by (simp_all add: untimedCondition_def newCondition_def)

lemma map_replaceFound:
  "cond_Type c = ty \<Longrightarrow>
     map untimedCondition (replaceFound ty c cs) = replaceFound ty (untimedCondition c) (map untimedCondition cs)"
  by (induction cs) auto

lemma FindStatusCondition_None_iff: "FindStatusCondition cs ty = None \<longleftrightarrow> ty \<notin> cond_Type ` set cs"
  by (auto simp: FindStatusCondition_def find_None_iff)

lemma untimed_uri [simp]: "us_PolicyEngineURI (untimed st) = us_PolicyEngineURI st"
  by (simp add: untimed_def)

lemma SetStatusCondition_untimed:
  assumes "run_state (SetStatusCondition r (newCondition ty st re me)) s = (u, s')"
  shows "map untimedCondition (us_Conditions (se_status s')) =
      putCondition (newCondition ty st re me) (map untimedCondition (us_Conditions (se_status s))) \<and>
    us_PolicyEngineURI (se_status s') = us_PolicyEngineURI (se_status s)"
proof (cases "FindStatusCondition (us_Conditions (se_status s)) ty")
  case None
  then show ?thesis
    using assms FindStatusCondition_None_iff [of "us_Conditions (se_status s)" ty]
    by (auto simp: SetStatusCondition_def getStatus_def timeNow_def putStatus_def
        putCondition_def untimedCondition_def newCondition_def image_image split: prod.splits)
next
  case (Some old)
  have ty: "cond_Type old = ty" by (rule FindStatusCondition_type [OF Some])
  have "ty \<in> cond_Type ` set (us_Conditions (se_status s))"
    using Some FindStatusCondition_None_iff [of "us_Conditions (se_status s)" ty] by auto
  then show ?thesis
    using assms Some ty
    by (cases old) (auto simp: SetStatusCondition_def getStatus_def timeNow_def putStatus_def
        putCondition_def image_image map_replaceFound untimedCondition_def newCondition_def
        split: prod.splits if_splits)
qed

section \<open>Following the status through a program\<close>

text \<open>The contents and the quiet requests as in \<open>still\<close>, and the status apart from its times.\<close>

definition tracks ::
    "('w \<Rightarrow> contents) \<Rightarrow> contents \<Rightarrow> api_call list \<Rightarrow> condition list \<Rightarrow> string \<Rightarrow> 'w sess \<Rightarrow> bool" where
  "tracks lookup L c0 cs uri s \<longleftrightarrow>
     still lookup L c0 s \<and> map untimedCondition (us_Conditions (se_status s)) = cs \<and>
     us_PolicyEngineURI (se_status s) = uri"

lemma readsOnly_tracks: "readsOnly lookup L (tracks lookup L c0 cs uri)"
  by (auto simp: readsOnly_def tracks_def still_def quietSince_def)

text \<open>\<open>moves P m R Q\<close>: from \<open>P\<close> the program returns a value in \<open>R\<close> and ends in \<open>Q\<close>.\<close>

definition moves ::
    "('s \<Rightarrow> bool) \<Rightarrow> ('s, 'a) state \<Rightarrow> ('a \<Rightarrow> bool) \<Rightarrow> ('s \<Rightarrow> bool) \<Rightarrow> bool" where
  "moves P m R Q \<longleftrightarrow> triple P m (\<lambda>a s. Q s \<and> R a)"

lemma movesD: "moves P m R Q \<Longrightarrow> P s \<Longrightarrow> run_state m s = (a, s') \<Longrightarrow> Q s' \<and> R a"
  by (auto simp: moves_def triple_def)

lemma moves_bind:
  "moves P m R' P' \<Longrightarrow> (\<And>a. R' a \<Longrightarrow> moves P' (f a) R Q) \<Longrightarrow> moves P (State_Monad.bind m f) R Q"
  unfolding moves_def by (rule triple_bind, assumption, rule triple_pure)

lemma moves_return: "R a \<Longrightarrow> moves P (return a) R P"
  by (simp add: moves_def triple_return)

lemma yields_moves: "yields P m R \<Longrightarrow> moves P m R P"
  by (simp add: moves_def yields_def)

lemma moves_yields: "moves P m R P \<Longrightarrow> yields P m R"
  by (simp add: moves_def yields_def)

lemma moves_bind_unit:
  "moves P m (\<lambda>_. True) P' \<Longrightarrow> (\<And>a. moves P' (f a) R Q) \<Longrightarrow> moves P (State_Monad.bind m f) R Q"
  by (rule moves_bind)

lemma moves_bind_keeps:
  "keeps P m \<Longrightarrow> (\<And>a. moves P (f a) R Q) \<Longrightarrow> moves P (State_Monad.bind m f) R Q"
  by (rule moves_bind_unit) (simp_all add: moves_def keeps_def)

context object_store
begin

lemma tracks_set:
  "moves (tracks lookup L c0 cs uri) (SetStatusCondition r (newCondition ty st re me)) (\<lambda>_. True)
     (tracks lookup L c0 (putCondition (newCondition ty st re me) cs) uri)"
  unfolding moves_def
proof (rule tripleI, intro conjI TrueI)
  fix s a s'
  assume s: "tracks lookup L c0 cs uri s"
    and run: "run_state (SetStatusCondition r (newCondition ty st re me)) s = (a, s')"
  have "still lookup L c0 s'"
    using keepsD [OF still_SetStatusCondition _ run] s by (simp add: tracks_def)
  then show "tracks lookup L c0 (putCondition (newCondition ty st re me) cs) uri s'"
    using SetStatusCondition_untimed [OF run] s by (simp add: tracks_def)
qed

lemma tracks_uri:
  "moves (tracks lookup L c0 cs uri) (setPolicyEngineURI uri') (\<lambda>_. True) (tracks lookup L c0 cs uri')"
  unfolding moves_def
  by (rule tripleI) (auto simp: setPolicyEngineURI_def getStatus_def putStatus_def tracks_def)

lemma tracks_handleErr:
  "moves (tracks lookup L c0 cs uri) (handleErr r reason e) (\<lambda>_. True)
     (tracks lookup L c0 (putCondition
        (newCondition ConditionReconcileCompleted ConditionFalse reason (err_Text e)) cs) uri)"
  unfolding handleErr_def by (rule tracks_set)

lemma tracks_handleCACertStatus:
  "moves (tracks lookup L c0 cs uri) (handleCACertStatus r reason m) (\<lambda>_. True)
     (tracks lookup L c0 (putCondition (caCondition ConditionFalse reason m) cs) uri)"
  unfolding handleCACertStatus_def by (rule tracks_set)

lemmas tracks_getObj = yields_moves [OF reads_getObj [OF readsOnly_tracks]]

lemma tracks_findPullSecret:
  assumes "pullSecretIn L = Some ps"
  shows "moves (tracks lookup L c0 cs uri) (findPullSecret r) (\<lambda>res. res = Inr ps) (tracks lookup L c0 cs uri)"
  unfolding findPullSecret_def
  using assms by (intro moves_bind [OF tracks_getObj])
    (auto simp: pullSecretIn_def bind_eq_Some_conv intro!: moves_return split: option.splits)

lemma tracks_findTrustedClusterCAConfig:
  "moves (tracks lookup L c0 cs uri) (findTrustedClusterCAConfig r i)
     (\<lambda>res. clusterCAFor getenv i res = clusterCAIn getenv i L \<and>
        (L ConfigMapKind (namespacedName NameClusterTrustedCAVolume (instNamespace i)) \<noteq> None \<longrightarrow>
           (\<exists>x. res = Inr x)))
     (tracks lookup L c0 (case clusterCAReport i L of None \<Rightarrow> cs | Some c \<Rightarrow> putCondition c cs) uri)"
  unfolding findTrustedClusterCAConfig_def
proof (rule moves_bind [OF tracks_getObj], goal_cases)
  case (1 res)
  let ?key = "namespacedName NameClusterTrustedCAVolume (instNamespace i)"
  show ?case
  proof (cases res)
    case (Inl e)
    then have "clusterCAReport i L = None" and "L ConfigMapKind ?key = None \<and> IsNotFound e"
      using 1 by (auto simp: clusterCAReport_def dest!: kind_range split: option.splits)
    then show ?thesis
      by (auto simp: Inl clusterCAFor_def clusterCAIn_def intro!: moves_return)
  next
    case (Inr cm)
    then have L: "L ConfigMapKind ?key = Some (ConfigMapObj cm)" using 1 by (auto split: option.splits)
    show ?thesis
    proof (cases "mapGet (cm_Data cm) NameClusterCertConfigMapKey")
      case None
      then show ?thesis
        by (simp add: Inr clusterCAReport_def L)
          (rule moves_bind_unit [OF tracks_handleCACertStatus],
            auto simp: clusterCAFor_def clusterCAIn_def L intro!: moves_return)
    next
      case (Some v)
      then show ?thesis
        by (auto simp: Inr clusterCAReport_def L clusterCAFor_def clusterCAIn_def intro!: moves_return)
    qed
  qed
qed

end

lemma moves_step:
  "moves P f (\<lambda>e. e = None) P' \<Longrightarrow> moves P' (runUntilError fs) (\<lambda>e. e = None) Q \<Longrightarrow>
     moves P (runUntilError (f # fs)) (\<lambda>e. e = None) Q"
  by (auto intro: moves_bind)

lemma moves_quiet_step:
  "yields P f (\<lambda>e. e = None) \<Longrightarrow> moves P (runUntilError fs) (\<lambda>e. e = None) Q \<Longrightarrow>
     moves P (runUntilError (f # fs)) (\<lambda>e. e = None) Q"
  by (rule moves_step [OF yields_moves])

text \<open>What the steps that report something make of the conditions.\<close>

definition afterReport :: "condition option \<Rightarrow> condition list \<Rightarrow> condition list" where
  "afterReport report cs = (case report of None \<Rightarrow> cs | Some c \<Rightarrow> putCondition c cs)"

lemma afterReport_simps [simp]:
  "afterReport None cs = cs" "afterReport (Some c) cs = putCondition c cs"
  by (simp_all add: afterReport_def)

definition routeReport :: "contents \<Rightarrow> kube_resources \<Rightarrow> condition option" where
  "routeReport L k =
     (case routeInUse L k of
        None \<Rightarrow> None
      | Some rt \<Rightarrow>
          (case IngressURI rt [] of
             Inl err \<Rightarrow> Some (newCondition ConditionReconcileCompleted ConditionFalse ''RouteIngressFailed'' err)
           | Inr _ \<Rightarrow> None))"

definition podReport :: "update_service \<Rightarrow> contents \<Rightarrow> condition option" where
  "podReport i L =
     (if (\<exists>p. L PodKind (podKey i) = Some (PodObj p) \<and> p_ContainerStatuses p = []) \<and>
         \<not> Contains (us_GraphDataImage (us_Spec i)) ''@sha256''
      then Some (newCondition ConditionReconcileCompleted ConditionFalse ''GraphDataPodStatusEmpty''
        ''Graph-Data pod returned empty container status'')
      else None)"

definition deploymentReport :: "contents \<Rightarrow> kube_resources \<Rightarrow> condition option" where
  "deploymentReport L k =
     (case Option.bind (L DeploymentKind (keyOf (dep_meta (kr_deployment k)))) asDeployment of
        None \<Rightarrow> None
      | Some d \<Rightarrow>
          if hasGraphDataInit d then None
          else Some (newCondition ConditionReconcileCompleted ConditionFalse ''UpdateDeploymentFailed''
            ''Graph data init container not found''))"

context object_store
begin

lemma tracks_findTrustedCAConfig:
  assumes "trustedCAIn L = Some ca"
  shows "moves (tracks lookup L c0 cs uri) (findTrustedCAConfig r) (\<lambda>res. res = Inr ca)
     (tracks lookup L c0 (afterReport (registryCAReport L) cs) uri)"
  unfolding findTrustedCAConfig_def
proof (rule moves_bind [OF tracks_getObj], goal_cases)
  case (1 res)
  show ?case
  proof (cases res)
    case (Inl e)
    then have "L ImageKind (namespacedName ImageConfigName []) = None \<and> IsNotFound e"
      using 1 assms by (auto simp: trustedCAIn_def split: option.splits)
    then show ?thesis
      using assms by (simp add: Inl trustedCAIn_def registryCAReport_def)
        (rule moves_bind_unit [OF tracks_handleCACertStatus], rule moves_return, simp)
  next
    case (Inr img)
    then have img: "L ImageKind (namespacedName ImageConfigName []) = Some (ImageObj img)"
      using 1 by (auto split: option.splits)
    show ?thesis
    proof (cases "img_AdditionalTrustedCA img = []")
      case True
      then show ?thesis
        using assms by (simp add: Inr trustedCAIn_def registryCAReport_def img)
          (rule moves_bind_unit [OF tracks_handleCACertStatus], rule moves_return, simp)
    next
      case False
      let ?key = "namespacedName (img_AdditionalTrustedCA img) OpenshiftConfigNamespace"
      obtain cm where cm: "L ConfigMapKind ?key = Some (ConfigMapObj cm)"
        "ca = (if mapGet (cm_Data cm) NameCertConfigMapKey = None then None else Some cm)"
        using assms False by (auto simp: trustedCAIn_def img bind_eq_Some_conv split: option.splits)
      show ?thesis
      proof (cases "mapGet (cm_Data cm) NameCertConfigMapKey")
        case None
        with False show ?thesis
          by (simp add: Inr, intro moves_bind [OF tracks_getObj], simp add: registryCAReport_def img cm)
            (rule moves_bind_unit [OF tracks_handleCACertStatus], rule moves_return, simp)
      next
        case (Some v)
        with False show ?thesis
          by (simp add: Inr, intro moves_bind [OF tracks_getObj])
            (simp add: registryCAReport_def img cm moves_return)
      qed
    qed
  qed
qed

lemma tracks_ensureTrustedClusterCA:
  assumes "upToDate sha L k" and "resourcesFor i k"
  shows "moves (tracks lookup L c0 cs uri) (ensureTrustedClusterCA r i k) (\<lambda>e. e = None)
     (tracks lookup L c0 (if kr_trustedClusterCAConfig k = None then cs
        else afterReport (clusterCAReport i L) cs) uri)"
proof (cases "kr_trustedClusterCAConfig k")
  case None
  then show ?thesis by (simp add: ensureTrustedClusterCA_def moves_return)
next
  case (Some c)
  then have "L ConfigMapKind (namespacedName NameClusterTrustedCAVolume (instNamespace i)) \<noteq> None"
    using assms by (auto simp: upToDate_def clusterCAUpToDate_def resourcesFor_def Let_def)
  then show ?thesis
    by (simp add: ensureTrustedClusterCA_def Some afterReport_def)
      (rule moves_bind [OF tracks_findTrustedClusterCAConfig], auto intro: moves_return)
qed

lemma tracks_ensureAdditionalTrustedCA:
  assumes "r_Scheme r = [g]" and "freshResources i k" and "upToDate sha L k"
  shows "moves (tracks lookup L c0 cs uri) (ensureAdditionalTrustedCA r i k) (\<lambda>e. e = None)
     (tracks lookup L c0 (if kr_trustedCAConfig k = None then cs
        else putCondition (caCondition ConditionTrue ''CACertFound'' []) cs) uri)"
proof (cases "kr_trustedCAConfig k")
  case None
  then show ?thesis by (simp add: ensureAdditionalTrustedCA_def moves_return)
next
  case (Some c)
  let ?c = "c\<lparr>cm_meta := (cm_meta c)\<lparr>om_OwnerReferences := [controllerRef g i]\<rparr>\<rparr>"
  have c: "fresh i (cm_meta c)" "configMapUpToDate L ?c"
    using Some assms(2,3)
    by (auto simp: freshResources_def upToDate_def trustedCAUpToDate_def configMapUpToDate_def)
  show ?thesis
    using c by (simp add: ensureAdditionalTrustedCA_def Some withController_fresh [OF assms(1)])
      (intro moves_bind_unit [OF tracks_set] yields_moves yields_reportErr
        reads_ensureConfigMap [OF readsOnly_tracks])
qed

end

context object_store
begin

lemma tracks_findExistingRoute:
  "moves (tracks lookup L c0 cs uri) (findExistingRoute r k) (\<lambda>res. res = Inr (routeInUse L k))
     (tracks lookup L c0 cs uri)"
  unfolding findExistingRoute_def
proof (rule moves_bind [OF tracks_getObj], goal_cases)
  case (1 res)
  show ?case
  proof (cases res)
    case (Inr rt)
    then show ?thesis using 1
      by (auto simp: routeInUse_def intro!: moves_return split: option.splits)
  next
    case (Inl e)
    then have none: "L RouteKind (keyOf (route_meta (kr_policyEngineOldRoute k))) = None" "IsNotFound e"
      using 1 by (auto dest!: kind_range split: option.splits)
    show ?thesis
      by (simp add: Inl none, rule moves_bind [OF tracks_getObj])
        (auto simp: routeInUse_def none dest!: kind_range intro!: moves_return split: option.splits)
  qed
qed

lemma tracks_ensurePolicyEngineRoute:
  assumes "upToDate sha L k"
  shows "moves (tracks lookup L c0 cs []) (ensurePolicyEngineRoute r i k) (\<lambda>e. e = None)
     (tracks lookup L c0 (afterReport (routeReport L k) cs) (expectedURI L k))"
proof -
  obtain rt where rt: "routeInUse L k = Some rt"
    "(route_Spec rt)\<lparr>rs_TLS := rs_TLS (route_Spec (kr_policyEngineRoute k))\<rparr> =
       route_Spec (kr_policyEngineRoute k)"
    using assms by (auto simp: upToDate_def routeUpToDate_def)
  have "moves (tracks lookup L c0 cs [])
      (case IngressURI rt [] of
         Inr uri \<Rightarrow> setPolicyEngineURI (URLString uri)
       | Inl err \<Rightarrow> handleErr r ''RouteIngressFailed'' (PlainError err)) (\<lambda>_. True)
      (tracks lookup L c0 (afterReport (routeReport L k) cs) (expectedURI L k))"
    using tracks_uri [of L c0 cs "[]"]
      tracks_handleErr [of L c0 cs "[]" "''RouteIngressFailed''" "PlainError err" for err]
    by (simp add: routeReport_def expectedURI_def rt(1) split: sum.split)
  then show ?thesis
    unfolding ensurePolicyEngineRoute_def Let_def
    by (intro moves_bind [OF tracks_findExistingRoute]) (simp add: rt moves_bind_unit moves_return)
qed

lemma tracks_ensureDeployment:
  assumes "r_Scheme r = [g]" and "freshResources i k" and "upToDate sha L k"
  shows "moves (tracks lookup L c0 cs uri) (ensureDeployment r i k sha) (\<lambda>e. e = None)
     (tracks lookup L c0 (afterReport (deploymentReport L k) cs) uri)"
proof -
  obtain d where d: "L DeploymentKind (keyOf (dep_meta (kr_deployment k))) = Some (DeploymentObj d)"
    "hasGraphDataInit d \<Longrightarrow> mergeDeploymentSpec k sha (dep_Spec d) = dep_Spec d"
    using assms(3) by (auto simp: upToDate_def deploymentUpToDate_def)
  have fr: "fresh i (dep_meta (kr_deployment k))" using assms(2) by (simp add: freshResources_def)
  show ?thesis
  proof (cases "hasGraphDataInit d")
    case True
    then show ?thesis
      unfolding ensureDeployment_def withController_fresh [OF assms(1) fr] Let_def
      by (intro moves_bind [OF tracks_getObj]) (simp add: d deploymentReport_def moves_return)
  next
    case False
    then show ?thesis
      unfolding ensureDeployment_def withController_fresh [OF assms(1) fr] Let_def
      using tracks_handleErr [of L c0 cs uri "''UpdateDeploymentFailed''"
          "PlainError ''Graph data init container not found''"]
      by (intro moves_bind [OF tracks_getObj])
        (simp add: d deploymentReport_def moves_bind_unit moves_return)
  qed
qed

lemma tracks_timeNow: "keeps (tracks lookup L c0 cs uri) (timeNow r)"
proof (rule keepsI)
  fix s a s'
  assume s: "tracks lookup L c0 cs uri s" and run: "run_state (timeNow r) s = (a, s')"
  have "still lookup L c0 s'" using keepsD [OF still_timeNow _ run] s by (simp add: tracks_def)
  moreover have "se_status s' = se_status s" using run by (auto simp: timeNow_def split: prod.splits)
  ultimately show "tracks lookup L c0 cs uri s'" using s by (simp add: tracks_def)
qed

lemma tracks_ensureGraphDataSHA:
  assumes "r_Scheme r = [g]" and "podSettled i L"
  shows "moves (tracks lookup L c0 cs uri) (ensureGraphDataSHA r i) (\<lambda>res. res = Inr (digestIn i L))
     (tracks lookup L c0 (afterReport (podReport i L) cs) uri)"
proof (cases "Contains (us_GraphDataImage (us_Spec i)) ''@sha256''")
  case True
  then show ?thesis by (simp add: ensureGraphDataSHA_def digestIn_def podReport_def moves_return)
next
  case False
  then obtain p where p: "L PodKind (podKey i) = Some (PodObj p)" "p_Phase p \<noteq> ''Succeeded''"
    "podStateOf L i = Reporting (podDigest p)"
    using assms(2) by (auto simp: podSettled_def podStateOf_Reporting)
  have sha: "digestIn i L = podDigest p" using False p(3) by (simp add: digestIn_def)
  show ?thesis
    unfolding ensureGraphDataSHA_def Let_def graphDataPod_controller [OF assms(1)]
    by (simp add: False, intro moves_bind_keeps [OF tracks_timeNow] moves_bind [OF tracks_getObj])
      (auto simp: p graphDataPod_key sha podDigest_def podReport_def False split: list.split
        intro!: moves_return moves_bind_unit [OF tracks_handleErr])
qed

lemma tracks_ensureSteps:
  assumes "r_Scheme r = [g]" and "freshResources i k" and "resourcesFor i k" and "upToDate sha L k"
  shows "moves (tracks lookup L c0 cs []) (runUntilError (ensureSteps r i k)) (\<lambda>e. e = None)
     (tracks lookup L c0
        (afterReport (routeReport L k)
          (let cs' = (if kr_trustedClusterCAConfig k = None then cs else afterReport (clusterCAReport i L) cs)
           in if kr_trustedCAConfig k = None then cs'
              else putCondition (caCondition ConditionTrue ''CACertFound'' []) cs'))
        (expectedURI L k))"
proof -
  note quiet = reads_managedSteps [OF readsOnly_tracks assms(1,2,4)]
  show ?thesis
    unfolding ensureSteps_def list.map Let_def
    by (intro moves_quiet_step [OF quiet(1)] moves_quiet_step [OF quiet(2)] moves_quiet_step [OF quiet(3)]
          moves_quiet_step [OF quiet(4)] moves_quiet_step [OF quiet(5)] moves_quiet_step [OF quiet(6)]
          moves_quiet_step [OF quiet(7)] moves_step [OF tracks_ensureTrustedClusterCA [OF assms(4,3)]]
          moves_step [OF tracks_ensureAdditionalTrustedCA [OF assms(1,2,4)]]
          moves_step [OF tracks_ensurePolicyEngineRoute [OF assms(4)]])
      (simp add: moves_return)
qed

end

section \<open>The whole reconcile\<close>

lemma report_types:
  "registryCAReport L = Some c \<Longrightarrow> cond_Type c = ConditionRegistryCACertFound"
  "clusterCAReport i L = Some c \<Longrightarrow> cond_Type c = ConditionRegistryCACertFound"
  "routeReport L k = Some c \<Longrightarrow> cond_Type c = ConditionReconcileCompleted"
  "deploymentReport L k = Some c \<Longrightarrow> cond_Type c = ConditionReconcileCompleted"
  "podReport i L = Some c \<Longrightarrow> cond_Type c = ConditionReconcileCompleted"
  by (auto simp: podReport_def registryCAReport_def clusterCAReport_def routeReport_def deploymentReport_def Let_def
      split: option.splits if_splits sum.splits)

lemma put_report:
  assumes "\<And>c. report = Some c \<Longrightarrow> cond_Type c = cond_Type new"
  shows "putCondition new (afterReport report cs) = putCondition new cs"
proof (cases report)
  case (Some c)
  have replace: "replaceFound ty new (replaceFound ty c cs) = replaceFound ty new cs"
    if "cond_Type c = ty" for ty c cs
    using that by (induction cs) auto
  have snoc: "replaceFound ty new (cs @ [c]) = cs @ [new]"
    if "cond_Type c = ty" "ty \<notin> cond_Type ` set cs" for ty c cs
    using that by (induction cs) auto
  have types: "cond_Type ` set (replaceFound ty c cs) = cond_Type ` set cs" if "cond_Type c = ty" for ty cs
    using types_replaceFound [OF that] by (metis set_map)
  have "cond_Type c = cond_Type new" using assms Some by simp
  then show ?thesis by (simp add: Some putCondition_def replace snoc types)
qed simp

lemma expected_conditions:
  assumes "kr_trustedCAConfig k = None \<longleftrightarrow> registryCAReport L \<noteq> None"
  shows "putCondition completedCondition (afterReport (deploymentReport L k) (afterReport (podReport i L) (afterReport (routeReport L k)
     (let cs = putCondition (newCondition ConditionReconcileCompleted ConditionFalse ''Reconcile started'' [])
            (afterReport (clusterCAReport i L) (afterReport (registryCAReport L) []));
          cs' = (if kr_trustedClusterCAConfig k = None then cs else afterReport (clusterCAReport i L) cs)
      in if kr_trustedCAConfig k = None then cs'
         else putCondition (caCondition ConditionTrue ''CACertFound'' []) cs')))) =
   us_Conditions (expectedStatus i L k)"
proof -
  have finish: "putCondition completedCondition (afterReport (deploymentReport L k)
      (afterReport (podReport i L) (afterReport (routeReport L k) cs))) = putCondition completedCondition cs" for cs
    using put_report [of "deploymentReport L k" completedCondition] put_report [of "podReport i L" completedCondition]
      put_report [of "routeReport L k" completedCondition] report_types(3,4) [of L k] report_types(5) [of i L]
    by (simp add: completedCondition_def)
  have distinct: "ConditionReconcileCompleted \<noteq> ConditionRegistryCACertFound"
    "ConditionRegistryCACertFound \<noteq> ConditionReconcileCompleted"
    by (simp_all add: condition_consts)
  note put = Let_def putCondition_def distinct expectedStatus_def expectedCA_def assms
    completedCondition_def newCondition_simps
  show ?thesis
  proof (cases "registryCAReport L")
    case None
    note a = None
    show ?thesis
    proof (cases "clusterCAReport i L")
      case None
      then show ?thesis by (subst finish) (simp add: put a)
    next
      case (Some c)
      then show ?thesis using report_types(2) [OF Some] by (subst finish) (simp add: put a)
    qed
  next
    case (Some p)
    note a = Some report_types(1) [OF Some]
    show ?thesis
    proof (cases "clusterCAReport i L")
      case None
      then show ?thesis by (subst finish) (simp add: put a)
    next
      case (Some c)
      then show ?thesis using report_types(2) [OF Some] by (subst finish) (simp add: put a)
    qed
  qed
qed

lemma desired_registryCA:
  assumes "desiredResources r i L = Some k"
  shows "kr_trustedCAConfig k = None \<longleftrightarrow> registryCAReport L \<noteq> None"
proof -
  obtain ps ca where ca: "trustedCAIn L = Some ca"
    and k: "newKubeResources (r_getenv r) i (r_OperandImage r) ps ca (clusterCAIn (r_getenv r) i L) = Inr k"
    using assms by (auto simp: desiredResources_def split: option.splits sum.splits)
  have "ca = None \<longleftrightarrow> registryCAReport L \<noteq> None"
    using ca by (auto simp: trustedCAIn_def registryCAReport_def Let_def bind_eq_Some_conv
        split: option.splits if_splits)
  then show ?thesis by (cases ca) (simp_all add: newKubeResources_fields(5) [OF k] newTrustedCAConfig_def)
qed

context object_store
begin

lemma tracks_ensureAll:
  assumes "r_Scheme r = [g]" and "freshResources i k" and "resourcesFor i k" and "upToDate sha L k"
    and pod: "podSettled i L" "sha = digestIn i L"
    and ca: "kr_trustedCAConfig k = None \<longleftrightarrow> registryCAReport L \<noteq> None"
    and s: "tracks lookup L c0 (afterReport (clusterCAReport i L) (afterReport (registryCAReport L) [])) [] s"
  shows "\<exists>s1. tracks lookup L c0 (us_Conditions (expectedStatus i L k)) (expectedURI L k) s1 \<and>
    snd (run_state (ensureAll r i k) s) = snd (run_state (saveStatus r i) s1)"
proof -
  let ?started = "newCondition ConditionReconcileCompleted ConditionFalse ''Reconcile started'' []"
  obtain u s1 where 1: "run_state (SetStatusCondition r ?started) s = (u, s1)" by (rule prod.exhaust)
  note t1 = conjunct1 [OF movesD [OF tracks_set s 1]]
  obtain e2 s2 where 2: "run_state (runUntilError (ensureSteps r i k)) s1 = (e2, s2)" by fastforce
  note t2 = movesD [OF tracks_ensureSteps [OF assms(1-4)] t1 2]
  obtain e3 s3 where 3: "run_state (ensureGraphDataSHA r i) s2 = (e3, s3)" by fastforce
  note t3 = movesD [OF tracks_ensureGraphDataSHA [OF assms(1) pod(1), folded pod(2)] conjunct1 [OF t2] 3]
  obtain e4 s4 where 4: "run_state (ensureDeployment r i k sha) s3 = (e4, s4)" by fastforce
  note t4 = movesD [OF tracks_ensureDeployment [OF assms(1,2,4)] conjunct1 [OF t3] 4]
  obtain v s5 where 5: "run_state (SetStatusCondition r completedCondition) s4 = (v, s5)" by (rule prod.exhaust)
  note t5 = conjunct1 [OF movesD [OF tracks_set conjunct1 [OF t4] 5 [unfolded completedCondition_def]]]
  have "snd (run_state (ensureAll r i k) s) = snd (run_state (saveStatus r i) s5)"
    using 1 2 3 4 5 t2 t3 t4 unfolding ensureAll_def
    by (simp add: completedCondition_def split: prod.splits)
  then show ?thesis
    using t5 expected_conditions [OF ca, of i] by (metis completedCondition_def)
qed

lemma tracks_reconcileInstance:
  assumes "r_Scheme r = [g]"
    and pod: "podSettled i (lookup w)"
    and valid: "validateRouteName i (nn_Name req) (nn_Namespace req) = None"
    and desired: "desiredResources r i (lookup w) = Some k" and up: "upToDate (digestIn i (lookup w)) (lookup w) k"
    and s: "tracks lookup (lookup w) c0 [] [] s"
  shows "\<exists>s1. tracks lookup (lookup w) c0 (us_Conditions (expectedStatus i (lookup w) k)) (expectedURI (lookup w) k) s1 \<and>
    snd (run_state (reconcileInstance r req i) s) = snd (run_state (saveStatus r i) s1)"
proof -
  let ?L = "lookup w"
  obtain ps ca where reads: "pullSecretIn ?L = Some ps" "trustedCAIn ?L = Some ca"
    and k: "newKubeResources (r_getenv r) i (r_OperandImage r) ps ca (clusterCAIn (r_getenv r) i ?L) = Inr k"
    using desired by (auto simp: desiredResources_def split: option.splits sum.splits)
  obtain a1 s1 where 1: "run_state (findPullSecret r) s = (a1, s1)" by fastforce
  note t1 = movesD [OF tracks_findPullSecret [OF reads(1)] s 1]
  obtain a2 s2 where 2: "run_state (findTrustedCAConfig r) s1 = (a2, s2)" by fastforce
  note t2 = movesD [OF tracks_findTrustedCAConfig [OF reads(2)] conjunct1 [OF t1] 2]
  obtain a3 s3 where 3: "run_state (findTrustedClusterCAConfig r i) s2 = (a3, s3)" by fastforce
  note t3 = movesD [OF tracks_findTrustedClusterCAConfig [where getenv = "r_getenv r"] conjunct1 [OF t2] 3]
  have run: "run_state (reconcileInstance r req i) s = run_state (ensureAll r i k) s3"
    using 1 2 3 t1 t2 t3 k valid by (simp add: reconcileInstance_def)
  have "tracks lookup ?L c0 (afterReport (clusterCAReport i ?L) (afterReport (registryCAReport ?L) [])) [] s3"
    using conjunct1 [OF t3] unfolding afterReport_def [of "clusterCAReport i ?L"] .
  from tracks_ensureAll [OF assms(1) rendered_fresh [OF k] desired_resourcesFor [OF desired] up pod refl
      desired_registryCA [OF desired] this] run
  show ?thesis by simp
qed

text \<open>What a reconcile of an up-to-date cluster does: it saves the expected status.\<close>

lemma reconcile_saves:
  assumes "r_Scheme r = [g]" and ro: "rolledOut r req (lookup w) i k"
    and run: "runReconcile r req w = (res, w', calls)"
  shows "\<exists>st w1. untimed st = expectedStatus i (lookup w) k \<and>
    UpdateStatus (i\<lparr>us_Status := st\<rparr>) \<in> set calls \<and> lookup w1 = lookup w \<and>
    w' = snd (r_api r (UpdateStatus (i\<lparr>us_Status := st\<rparr>)) w1)"
proof -
  let ?i = "i\<lparr>us_Status := emptyStatus\<rparr>"
  have same: "sameService i ?i" by (simp add: sameService_def)
  have "nn_Namespace req = r_OperatorNamespace r" "lookup w UpdateServiceKind req = Some (UpdateServiceObj i)"
    using ro by (simp_all add: rolledOut_def)
  note found = runReconcile_found [OF this]
  obtain s :: "'w sess" where s: "lookup (se_world s) = lookup w" "quietSince [] s" "se_status s = emptyStatus"
    "runReconcile r req w = (case run_state (reconcileInstance r req ?i) s of
       (res, s') \<Rightarrow> (res, se_world s', se_calls s'))"
    using found by blast
  have "tracks lookup (lookup w) [] [] [] s"
    using s by (simp add: tracks_def still_def emptyStatus_def)
  then obtain s1 where s1: "tracks lookup (lookup w) [] (us_Conditions (expectedStatus ?i (lookup w) k)) (expectedURI (lookup w) k) s1"
    "snd (run_state (reconcileInstance r req ?i) s) = snd (run_state (saveStatus r ?i) s1)"
    using tracks_reconcileInstance [OF assms(1), of ?i w req k "[]" s] ro
    by (auto simp: desired_same [OF same] rolledOut_def)
  have report: "clusterCAReport ?i L = clusterCAReport i L" for L
    by (simp add: clusterCAReport_def)
  have "expectedStatus ?i (lookup w) k = expectedStatus i (lookup w) k"
    unfolding expectedStatus_def expectedCA_def report ..
  moreover have "untimed st = us" if "map untimedCondition (us_Conditions st) = us_Conditions us"
    "us_PolicyEngineURI st = us_PolicyEngineURI us" for st us
    using that by (simp add: untimed_def)
  ultimately have "untimed (se_status s1) = expectedStatus i (lookup w) k"
    using s1(1) by (simp add: tracks_def expectedStatus_def)
  moreover have "UpdateStatus (i\<lparr>us_Status := se_status s1\<rparr>) \<in> set calls \<and>
      w' = snd (r_api r (UpdateStatus (i\<lparr>us_Status := se_status s1\<rparr>)) (se_world s1))"
    using run s(4) s1(2)
    by (auto simp: saveStatus_def updateStatus_def mutate_def invoke_def getStatus_def split: prod.splits)
  ultimately show ?thesis using s1(1) by (auto simp: tracks_def still_def)
qed

end

end
