(* ===== verification/SelfTrigger.thy ===== *)
theory SelfTrigger
  imports StatusContract OwnerProps
begin

text \<open>
  The operator's own status updates as events. The conditions of a saved status carry times, every
  reconcile builds them anew, and the watch on UpdateServices has no filter: a reconcile that saves
  a status with new times triggers the next one. The locale \<open>timed_server\<close> says that time does not
  run backwards; with it the times of a saved status lie within the reconcile that saved it.
\<close>

section \<open>Times\<close>

definition timesWithin :: "time \<Rightarrow> time \<Rightarrow> us_status \<Rightarrow> bool" where
  "timesWithin t t' st \<longleftrightarrow>
     list_all (\<lambda>c. t \<le> cond_LastHeartbeatTime c \<and> cond_LastHeartbeatTime c \<le> t' \<and>
       t \<le> cond_LastTransitionTime c \<and> cond_LastTransitionTime c \<le> t') (us_Conditions st)"

lemma timesWithin_mono: "timesWithin t t1 st \<Longrightarrow> t1 \<le> t2 \<Longrightarrow> timesWithin t t2 st"
  by (auto simp: timesWithin_def list_all_iff)

fun savedWithin :: "time \<Rightarrow> time \<Rightarrow> api_call \<Rightarrow> bool" where
  "savedWithin t t' (UpdateStatus us) = timesWithin t t' (us_Status us)"
| "savedWithin t t' c = True"

lemma savedWithin_mono: "savedWithin t t1 c \<Longrightarrow> t1 \<le> t2 \<Longrightarrow> savedWithin t t2 c"
  by (cases c) (auto intro: timesWithin_mono)

text \<open>The invariant: the times of the status and of all saved ones are since \<open>t\<close> and not in the future.\<close>

definition timely :: "('w \<Rightarrow> time) \<Rightarrow> time \<Rightarrow> 'w sess \<Rightarrow> bool" where
  "timely clock t s \<longleftrightarrow>
     t \<le> clock (se_world s) \<and> timesWithin t (clock (se_world s)) (se_status s) \<and>
     callsOK (savedWithin t (clock (se_world s))) s"

lemma timely_later:
  assumes "timely clock t s" and "clock (se_world s) \<le> clock w"
  shows "timely clock t (s\<lparr>se_world := w\<rparr>)"
  using assms
  by (auto simp: timely_def callsOK_def list_all_iff intro: timesWithin_mono savedWithin_mono)

lemma timesWithin_replaceFound:
  assumes "list_all P cs" and "P c"
  shows "list_all P (replaceFound ty c cs)"
  using assms by (induction cs) auto

locale timed_server =
  fixes r :: "'w reconciler" and clock :: "'w \<Rightarrow> time"
  assumes now: "r_now r w = (t, w') \<Longrightarrow> clock w \<le> t \<and> t \<le> clock w'"
    and request: "clock w \<le> clock (snd (r_api r c w))"
begin

lemma timely_timeNow:
  assumes "timely clock t s" and "run_state (timeNow r) s = (u, s')"
  shows "timely clock t s' \<and> clock (se_world s) \<le> u \<and> u \<le> clock (se_world s') \<and> se_status s' = se_status s"
proof -
  obtain w where w: "r_now r (se_world s) = (u, w)" "s' = s\<lparr>se_world := w\<rparr>"
    using assms(2) by (auto simp: timeNow_def split: prod.splits)
  then show ?thesis using now [OF w(1)] timely_later [OF assms(1), of w] by auto
qed

lemma timely_putStatus:
  "timely clock t s \<Longrightarrow> timesWithin t (clock (se_world s)) st \<Longrightarrow> timely clock t (s\<lparr>se_status := st\<rparr>)"
  by (auto simp: timely_def callsOK_def)

lemma timely_SetStatusCondition: "keeps (timely clock t) (SetStatusCondition r c)"
proof (rule keepsI)
  fix s a s'
  assume s: "timely clock t s" and run: "run_state (SetStatusCondition r c) s = (a, s')"
  have start: "t \<le> clock (se_world s)" using s by (simp add: timely_def)
  obtain t1 s1 where 1: "run_state (timeNow r) s = (t1, s1)" by (rule prod.exhaust)
  note a1 = timely_timeNow [OF s 1]
  obtain t2 s2 where 2: "run_state (timeNow r) s1 = (t2, s2)" by (rule prod.exhaust)
  note a2 = timely_timeNow [OF conjunct1 [OF a1] 2]
  let ?cs = "us_Conditions (se_status s)"
  have old: "timesWithin t (clock (se_world s1)) (se_status s)" "timesWithin t (clock (se_world s2)) (se_status s)"
    using a1 a2 by (auto simp: timely_def)
  show "timely clock t s'"
  proof (cases "FindStatusCondition ?cs (cond_Type c)")
    case None
    have "s' = s2\<lparr>se_status := (se_status s)\<lparr>us_Conditions := ?cs @
        [c\<lparr>cond_LastTransitionTime := t1, cond_LastHeartbeatTime := t2\<rparr>]\<rparr>\<rparr>"
      using run None 1 2 by (simp add: SetStatusCondition_def getStatus_def putStatus_def)
    then show ?thesis
      using a1 a2 old start by (auto simp: timesWithin_def intro!: timely_putStatus)
  next
    case (Some c0)
    have c0: "c0 \<in> set ?cs" using Some by (auto simp: FindStatusCondition_def find_Some_iff)
    show ?thesis
    proof (cases "cond_Status c0 = cond_Status c")
      case True
      have "s' = s1\<lparr>se_status := (se_status s)\<lparr>us_Conditions := replaceFound (cond_Type c)
          (c0\<lparr>cond_Reason := cond_Reason c, cond_Message := cond_Message c,
              cond_LastHeartbeatTime := t1\<rparr>) ?cs\<rparr>\<rparr>"
        using run Some True 1 by (simp add: SetStatusCondition_def getStatus_def putStatus_def)
      moreover have "t \<le> cond_LastTransitionTime c0" "cond_LastTransitionTime c0 \<le> clock (se_world s1)"
        using old(1) c0 by (auto simp: timesWithin_def list_all_iff)
      ultimately show ?thesis
        using a1 old(1) start
        by (auto simp: timesWithin_def intro!: timely_putStatus timesWithin_replaceFound)
    next
      case False
      have "s' = s2\<lparr>se_status := (se_status s)\<lparr>us_Conditions := replaceFound (cond_Type c)
          (c0\<lparr>cond_Status := cond_Status c, cond_LastTransitionTime := t1, cond_Reason := cond_Reason c,
              cond_Message := cond_Message c, cond_LastHeartbeatTime := t2\<rparr>) ?cs\<rparr>\<rparr>"
        using run Some False 1 2 by (simp add: SetStatusCondition_def getStatus_def putStatus_def)
      then show ?thesis
        using a1 a2 old(2) start
        by (auto simp: timesWithin_def intro!: timely_putStatus timesWithin_replaceFound)
    qed
  qed
qed

end

sublocale timed_server < timely: session_invariant r "timely clock t" for t
proof unfold_locales
  show "keeps (timely clock t) (SetStatusCondition r c)" for c by (rule timely_SetStatusCondition)
  show "keeps (timely clock t) (setPolicyEngineURI uri)" for uri
    by (rule keepsI) (auto simp: setPolicyEngineURI_def getStatus_def putStatus_def timely_def
        timesWithin_def callsOK_def)
  show "keeps (timely clock t) (timeNow r)" by (rule keepsI) (blast dest: timely_timeNow)
  show "keeps (timely clock t) (invoke r c)" if "\<not> isStatusUpdate c" for c
  proof (rule keepsI)
    fix s a s'
    assume "timely clock t s" and "run_state (invoke r c) s = (a, s')"
    then show "timely clock t s'"
      using that request [of "se_world s" c] timely_later [of clock t s "snd (r_api r c (se_world s))"]
      by (cases c) (auto simp: invoke_def timely_def callsOK_def split: prod.splits)
  qed
  show "keeps (timely clock t) (saveStatus r i)" for i
  proof (rule keepsI)
    fix s a s'
    assume s: "timely clock t s" and run: "run_state (saveStatus r i) s = (a, s')"
    let ?c = "UpdateStatus (i\<lparr>us_Status := se_status s\<rparr>)"
    have s': "s' = s\<lparr>se_world := snd (r_api r ?c (se_world s)), se_calls := se_calls s @ [?c]\<rparr>"
      using run by (auto simp: saveStatus_def updateStatus_def mutate_def invoke_def getStatus_def
          split: prod.splits)
    have "timely clock t (s\<lparr>se_world := snd (r_api r ?c (se_world s))\<rparr>)"
      by (rule timely_later [OF s request])
    then show "timely clock t s'"
      unfolding s' by (auto simp: timely_def callsOK_def)
  qed
  show "keeps (timely clock t) (putStatus emptyStatus)"
    by (rule keepsI) (auto simp: putStatus_def timely_def timesWithin_def callsOK_def emptyStatus_def)
qed

interpretation memTimed: timed_server "memReconciler getenv" mem_time
proof unfold_locales
  show "mem_time w \<le> t \<and> t \<le> mem_time w'" if "r_now (memReconciler getenv) w = (t, w')" for w t w'
    using that by (auto simp: memNow_def)
  show "mem_time w \<le> mem_time (snd (r_api (memReconciler getenv) c w))" for w c
    by (cases c) (auto simp: memStore_def split: option.split kobject.split)
qed

context timed_server
begin

lemma reconcile_timely:
  assumes "runReconcile r req w = (res, w', calls)"
  shows "clock w \<le> clock w' \<and> list_all (savedWithin (clock w) (clock w')) calls"
proof -
  have "timely clock (clock w) \<lparr>se_world = w, se_status = emptyStatus, se_calls = []\<rparr>"
    by (simp add: timely_def timesWithin_def emptyStatus_def)
  from timely.runReconcile_invariant [OF assms this] show ?thesis
    by (auto simp: timely_def callsOK_def)
qed

end

section \<open>Rolled out, and staying so\<close>

lemma rolledOut_frame:
  assumes "\<And>k. k \<noteq> UpdateServiceKind \<Longrightarrow> L' k = L k" and "sameService i i'"
    and "L' UpdateServiceKind req = Some (UpdateServiceObj i')" and "rolledOut r req L i k"
  shows "rolledOut r req L' i' k" and "expectedStatus i' L' k = expectedStatus i L k"
proof -
  have kinds: "L' ConfigMapKind = L ConfigMapKind" "L' SecretKind = L SecretKind"
    "L' ServiceKind = L ServiceKind" "L' PDBKind = L PDBKind" "L' RouteKind = L RouteKind"
    "L' NetworkPolicyKind = L NetworkPolicyKind" "L' DeploymentKind = L DeploymentKind"
    "L' ImageKind = L ImageKind" "L' PodKind = L PodKind"
    by (simp_all add: assms(1))
  have "upToDate sha L' k = upToDate sha L k" for sha
    unfolding upToDate_def configMapUpToDate_def secretUpToDate_def clusterCAUpToDate_def
      trustedCAUpToDate_def serviceUpToDate_def pdbUpToDate_def routeUpToDate_def routeInUse_def
      networkPolicyUpToDate_def deploymentUpToDate_def kinds ..
  moreover have "desiredResources r i L' = desiredResources r i L"
    unfolding desiredResources_def pullSecretIn_def trustedCAIn_def clusterCAIn_def kinds ..
  moreover have "podSettled i L' = podSettled i L" "digestIn i L' = digestIn i L"
    unfolding podSettled_def digestIn_def podStateOf_def kinds by (rule refl)+
  ultimately show "rolledOut r req L' i' k"
    using assms(3,4)
    by (auto simp: rolledOut_def desired_same [OF assms(2)] sameService_names [OF assms(2)])
  show "expectedStatus i' L' k = expectedStatus i L k"
    unfolding expectedStatus_def expectedCA_def expectedURI_def registryCAReport_def clusterCAReport_def
      routeInUse_def kinds sameService_names [OF assms(2)] ..
qed

context object_store
begin

lemma reconcile_steady:
  assumes "r_Scheme r = [g]" and ro: "rolledOut r req (lookup w) i k"
    and run: "runReconcile r req w = (res, w', calls)"
  shows "\<exists>new w1. untimed (us_Status new) = expectedStatus i (lookup w) k \<and> sameService i new \<and>
    UpdateStatus (i\<lparr>us_Status := us_Status new\<rparr>) \<in> set calls \<and>
    lookup w1 = lookup w \<and> w' = snd (r_api r (UpdateStatus (i\<lparr>us_Status := us_Status new\<rparr>)) w1) \<and>
    lookup w' = (lookup w)(UpdateServiceKind :=
      (lookup w UpdateServiceKind)(req := Some (UpdateServiceObj new))) \<and>
    rolledOut r req (lookup w') new k"
proof -
  obtain st w1 where st: "untimed st = expectedStatus i (lookup w) k" "lookup w1 = lookup w"
    "UpdateStatus (i\<lparr>us_Status := st\<rparr>) \<in> set calls"
    "w' = snd (r_api r (UpdateStatus (i\<lparr>us_Status := st\<rparr>)) w1)"
    using reconcile_saves [OF assms] by blast
  have i: "lookup w UpdateServiceKind req = Some (UpdateServiceObj i)" using ro by (simp add: rolledOut_def)
  then have key: "keyOf (us_meta i) = req" using lookup_found by force
  obtain new where new: "keyOf (us_meta new) = req" "us_Spec new = us_Spec i" "us_Status new = st"
    "lookup w' = (lookup w)(UpdateServiceKind := (lookup w UpdateServiceKind)(req := Some (UpdateServiceObj new)))"
    using status [of w1 "i\<lparr>us_Status := st\<rparr>" i] st(2,4) i key by auto
  have same: "sameService i new" using new key by (simp add: sameService_def)
  have "rolledOut r req (lookup w') new k"
    by (rule rolledOut_frame(1) [OF _ same _ ro]) (simp_all add: new(4))
  then show ?thesis using st new same by (intro exI [of _ new] exI [of _ w1]) simp
qed

end

section \<open>Events of the operator's own writes\<close>

definition changedObject :: "contents \<Rightarrow> contents \<Rightarrow> kobject \<Rightarrow> bool" where
  "changedObject L L' ob \<longleftrightarrow>
     L' (objKind ob) (objKey ob) = Some ob \<and> L (objKind ob) (objKey ob) \<noteq> Some ob"

text \<open>
  A reconcile of the request from world \<open>w\<close> changes an object whose event, handled after the
  reconcile, puts the same request into the queue again.
\<close>

definition triggersItself ::
    "'w reconciler \<Rightarrow> ('w \<Rightarrow> contents) \<Rightarrow> string \<Rightarrow> group_version_kind \<Rightarrow> namespaced_name \<Rightarrow> 'w \<Rightarrow> bool" where
  "triggersItself r lookup ns g req w \<longleftrightarrow>
     (case runReconcile r req w of (res, w', calls) \<Rightarrow>
        \<exists>ob. changedObject (lookup w) (lookup w') ob \<and>
          req \<in> set (fst (run_state (handleEvent \<lparr>m_client = r, m_namespace = ns\<rparr> g ob controllerWatches)
            \<lparr>se_world = w', se_status = emptyStatus, se_calls = []\<rparr>)))"

lemma handleEvent_UpdateService:
  "run_state (handleEvent m g (UpdateServiceObj us) controllerWatches) s = ([keyOf (us_meta us)], s)"
  by (simp add: controllerWatches_def handleWatch_def)

lemma triggers_by_status:
  assumes "object_store r lookup" and "runReconcile r req w = (res, w', calls)"
    and "lookup w' = (lookup w)(UpdateServiceKind := (lookup w UpdateServiceKind)(req := Some (UpdateServiceObj new)))"
  shows "triggersItself r lookup ns g req w \<longleftrightarrow> lookup w UpdateServiceKind req \<noteq> Some (UpdateServiceObj new)"
proof -
  have "lookup w' UpdateServiceKind req = Some (UpdateServiceObj new)" using assms(3) by simp
  then have key: "keyOf (us_meta new) = req"
    using object_store.lookup_found [OF assms(1)] by force
  have "changedObject (lookup w) (lookup w') ob \<longleftrightarrow>
      ob = UpdateServiceObj new \<and> lookup w UpdateServiceKind req \<noteq> Some (UpdateServiceObj new)" for ob
    by (auto simp: changedObject_def assms(3) key split: if_splits)
  then show ?thesis
    by (auto simp: triggersItself_def assms(2) handleEvent_UpdateService key)
qed

section \<open>Properties\<close>


text \<open>The example cluster after one reconcile.\<close>

definition rolledOutExample :: mem where
  "rolledOutExample = fst (snd (runReconcile (memReconciler (\<lambda>_. [])) exampleKey
     (memWorld [UpdateServiceObj digestInstance, SecretObj exampleSecret])))"

lemma rolledOutExample_ok:
  "\<exists>i k. rolledOut (memReconciler (\<lambda>_. [])) exampleKey (memLookup rolledOutExample) i k"
proof -
  let ?r = "memReconciler (\<lambda>_. [])" and ?w = "memWorld [UpdateServiceObj digestInstance, SecretObj exampleSecret]"
  obtain k where k: "renderable ?r exampleKey (memLookup ?w) digestInstance k"
    using digestInstance_renderable by blast
  obtain res w1 calls where 1: "runReconcile ?r exampleKey ?w = (res, w1, calls)" by (rule prod_cases3)
  then show ?thesis
    using mem.reconcile_rolls_out [OF memReconciler_simps(4) k digestInstance_digest 1]
    by (auto simp: rolledOutExample_def)
qed


text \<open>
  C17: whatever the server answers, as long as time does not run backwards, both times of every
  condition in a saved status lie within the reconcile that saved it. So the time of the last
  transition is always that of the last reconcile, however long the condition has had its value.
\<close>

theorem saved_times_recent:
  assumes "timed_server r clock" and "runReconcile r req w = (res, w', calls)"
    and "UpdateStatus us \<in> set calls" and "c \<in> set (us_Conditions (us_Status us))"
  shows "clock w \<le> cond_LastTransitionTime c \<and> cond_LastTransitionTime c \<le> clock w' \<and>
    clock w \<le> cond_LastHeartbeatTime c \<and> cond_LastHeartbeatTime c \<le> clock w'"
proof -
  have "savedWithin (clock w) (clock w') (UpdateStatus us)"
    using timed_server.reconcile_timely [OF assms(1,2)] assms(3) by (auto simp: list_all_iff)
  then show ?thesis using assms(4) by (auto simp: timesWithin_def list_all_iff)
qed

theorem saved_times_recent_witness:
  "\<exists>res w' calls us c. runReconcile (memReconciler (\<lambda>_. [])) exampleKey rolledOutExample = (res, w', calls) \<and>
     UpdateStatus us \<in> set calls \<and> c \<in> set (us_Conditions (us_Status us)) \<and>
     mem_time rolledOutExample \<le> cond_LastTransitionTime c"
proof -
  let ?r = "memReconciler (\<lambda>_. [])"
  obtain i k where ro: "rolledOut ?r exampleKey (memLookup rolledOutExample) i k"
    using rolledOutExample_ok by blast
  obtain res w' calls where run: "runReconcile ?r exampleKey rolledOutExample = (res, w', calls)"
    by (rule prod_cases3)
  obtain new :: update_service where new: "untimed (us_Status new) = expectedStatus i (memLookup rolledOutExample) k"
    "UpdateStatus (i\<lparr>us_Status := us_Status new\<rparr>) \<in> set calls"
    using mem.reconcile_steady [OF memReconciler_simps(4) ro run] by blast
  have "us_Conditions (untimed (us_Status new)) \<noteq> []" unfolding new by (simp add: expectedStatus_def)
  then obtain c where c: "c \<in> set (us_Conditions (us_Status (i\<lparr>us_Status := us_Status new\<rparr>)))"
    by (cases "us_Conditions (us_Status new)") (auto simp: untimed_def)
  from saved_times_recent [OF memTimed.timed_server_axioms run new(2) c] run new(2) c
  show ?thesis by blast
qed

text \<open>
  A store with a clock that drops a status update which changes nothing, so that it causes no event.
\<close>

locale status_store = object_store r lookup + timed_server r clock
  for r :: "'w reconciler" and lookup clock +
  assumes no_change:
    "lookup w UpdateServiceKind (keyOf (us_meta us)) = Some (UpdateServiceObj old) \<Longrightarrow>
       us_Status us = us_Status old \<Longrightarrow> lookup (snd (r_api r (UpdateStatus us) w)) = lookup w"

interpretation memStatus: status_store "memReconciler getenv" memLookup mem_time
proof (unfold_locales, goal_cases)
  case (1 w us old)
  have "keyOf (us_meta old) = keyOf (us_meta us)" using memLookup_key [OF 1(1)] by simp
  then show ?case using 1 by (auto simp: memLookup_store fun_upd_idem)
qed

lemma timed_conditions_eq:
  assumes "map untimedCondition cs = map untimedCondition cs'"
    and "list_all (\<lambda>c. cond_LastHeartbeatTime c = t \<and> cond_LastTransitionTime c = t) cs"
    and "list_all (\<lambda>c. cond_LastHeartbeatTime c = t \<and> cond_LastTransitionTime c = t) cs'"
  shows "cs = cs'"
  using assms
proof (induction cs arbitrary: cs')
  case (Cons c cs)
  then obtain c' cs'' where "cs' = c' # cs''" "untimedCondition c = untimedCondition c'" by auto
  then show ?case using Cons by (cases c; cases c') (auto simp: untimedCondition_def)
qed auto

lemma same_times_same_status:
  assumes "untimed st = untimed st'" and "timesWithin t t st" and "timesWithin t t st'"
  shows "st = st'"
proof -
  have "map untimedCondition (us_Conditions st) = map untimedCondition (us_Conditions st')"
    "us_PolicyEngineURI st = us_PolicyEngineURI st'"
    using arg_cong [OF assms(1), of us_Conditions] arg_cong [OF assms(1), of us_PolicyEngineURI]
    by (simp_all add: untimed_def)
  moreover have "us_Conditions st = us_Conditions st'"
    using calculation(1) by (rule timed_conditions_eq [where t = t])
      (use assms(2,3) in \<open>auto simp: timesWithin_def list_all_iff\<close>)
  ultimately show ?thesis by (cases st; cases st') simp
qed

lemma later_times_other_status:
  assumes "us_Conditions st \<noteq> []" and "timesWithin t t1 st" and "timesWithin t2 t3 st'" and "t1 < t2"
  shows "st \<noteq> st'"
  using assms by (cases "us_Conditions st") (auto simp: timesWithin_def)

context status_store
begin

lemma second_reconcile:
  assumes "r_Scheme r = [g]" and "rolledOut r req (lookup w) i k"
    and run1: "runReconcile r req w = (res, w1, calls)" and v: "lookup v = lookup w1"
    and run2: "runReconcile r req v = (res', v', calls')" and "clock w1 \<le> clock v"
  shows "clock w = clock v' \<Longrightarrow> lookup v' = lookup v \<and> \<not> triggersItself r lookup ns g' req v"
    and "clock w1 < clock v \<Longrightarrow> triggersItself r lookup ns g' req v"
proof -
  obtain new1 :: update_service where new1: "untimed (us_Status new1) = expectedStatus i (lookup w) k"
    "sameService i new1" "UpdateStatus (i\<lparr>us_Status := us_Status new1\<rparr>) \<in> set calls"
    "lookup w1 = (lookup w)(UpdateServiceKind := (lookup w UpdateServiceKind)(req := Some (UpdateServiceObj new1)))"
    "rolledOut r req (lookup w1) new1 k"
    using reconcile_steady [OF assms(1-3)] by blast
  have found: "lookup v UpdateServiceKind req = Some (UpdateServiceObj new1)" by (simp add: v new1(4))
  obtain new2 :: update_service and u where new2: "untimed (us_Status new2) = expectedStatus new1 (lookup v) k"
    "UpdateStatus (new1\<lparr>us_Status := us_Status new2\<rparr>) \<in> set calls'" "lookup u = lookup v"
    "v' = snd (r_api r (UpdateStatus (new1\<lparr>us_Status := us_Status new2\<rparr>)) u)"
    "lookup v' = (lookup v)(UpdateServiceKind := (lookup v UpdateServiceKind)(req := Some (UpdateServiceObj new2)))"
    using reconcile_steady [OF assms(1) _ run2, of new1 k] new1(5) v by auto
  have expected: "expectedStatus new1 (lookup v) k = expectedStatus i (lookup w) k"
    using new1(2) found assms(2) by (intro rolledOut_frame(2) [of _ _ i new1 req]) (auto simp: v new1(4))
  have times: "timesWithin (clock w) (clock w1) (us_Status new1)" "timesWithin (clock v) (clock v') (us_Status new2)"
    "clock w \<le> clock w1" "clock v \<le> clock v'"
    using reconcile_timely [OF run1] reconcile_timely [OF run2] new1(3) new2(2) by (auto simp: list_all_iff)
  note triggers = triggers_by_status [OF object_store_axioms run2 new2(5), of ns g']
  show "lookup v' = lookup v \<and> \<not> triggersItself r lookup ns g' req v" if "clock w = clock v'"
  proof -
    have "clock w1 = clock w" "clock v = clock w" using times(3,4) that assms(6) by linarith+
    then have "us_Status new1 = us_Status new2"
      using same_times_same_status [of "us_Status new1" "us_Status new2" "clock w"] new1(1) new2(1) expected
        times that by simp
    moreover have "keyOf (us_meta new1) = req" using lookup_found [OF found] by simp
    ultimately have "lookup v' = lookup v"
      using no_change [of u "new1\<lparr>us_Status := us_Status new2\<rparr>" new1] found new2(3,4) by simp
    moreover have "lookup v' UpdateServiceKind req = Some (UpdateServiceObj new2)" by (simp add: new2(5))
    ultimately show ?thesis by (simp add: triggers)
  qed
  have "us_Conditions (untimed (us_Status new1)) \<noteq> []" unfolding new1 by (simp add: expectedStatus_def)
  then have "us_Conditions (us_Status new1) \<noteq> []" by (simp add: untimed_def)
  then show "triggersItself r lookup ns g' req v" if "clock w1 < clock v"
    using later_times_other_status [OF _ times(1,2)] that by (auto simp: triggers found)
qed

end



end
