(* ===== verification/Schedule.thy ===== *)
theory Schedule
  imports ConvergeProps
begin

text \<open>
  Several UpdateServices in one namespace. Reconciles of them, in any order, do not undo each other's
  work, unless the name of one is the other's with \<open>-policy-engine\<close> behind it (whose Route is then
  the other's legacy Route).
\<close>

section \<open>Objects of different UpdateServices\<close>

definition apart :: "string \<Rightarrow> string \<Rightarrow> bool" where
  "apart n m \<longleftrightarrow> n \<noteq> m \<and> n \<noteq> m @ ''-policy-engine'' \<and> m \<noteq> n @ ''-policy-engine''"

lemma apart_sym: "apart n m \<Longrightarrow> apart m n"
  by (auto simp: apart_def)

text \<open>What UpdateServices of one namespace share.\<close>

definition sharedKeys :: "update_service \<Rightarrow> (kind \<times> namespaced_name) set" where
  "sharedKeys i = insert (PodKind, podKey i) (caKey i)"

lemma append_literals: "x @ s = y @ t \<longleftrightarrow> rev s @ rev x = rev t @ rev y"
  by (metis rev_append rev_rev_ident)

lemma names_apart:
  assumes "apart n m" and "n \<noteq> ''cluster''" and "m \<noteq> ''cluster''"
  shows "n @ ''-config'' \<noteq> m @ ''-env''" "n @ ''-config'' \<noteq> m @ ''-trusted-ca''" "n @ ''-env'' \<noteq> m @ ''-trusted-ca''"
    "n @ ''-config'' \<noteq> ''cluster-trusted-ca''" "n @ ''-env'' \<noteq> ''cluster-trusted-ca''"
    "n @ ''-trusted-ca'' \<noteq> ''cluster-trusted-ca''"
    "n @ ''-graph-builder'' \<noteq> m @ ''-policy-engine''"
    "n @ ''-policy-engine-route'' \<noteq> m @ ''-route''"
proof -
  show "n @ ''-config'' \<noteq> m @ ''-env''" "n @ ''-config'' \<noteq> m @ ''-trusted-ca''" "n @ ''-env'' \<noteq> m @ ''-trusted-ca''"
    "n @ ''-graph-builder'' \<noteq> m @ ''-policy-engine''"
    by (simp_all add: append_literals)
  show "n @ ''-config'' \<noteq> ''cluster-trusted-ca''" "n @ ''-env'' \<noteq> ''cluster-trusted-ca''"
    using append_literals [of n _ "''cluster-trusted-ca''" "[]"] by simp_all
  show "n @ ''-trusted-ca'' \<noteq> ''cluster-trusted-ca''"
  proof
    assume "n @ ''-trusted-ca'' = ''cluster-trusted-ca''"
    then have "n @ ''-trusted-ca'' = ''cluster'' @ ''-trusted-ca''" by simp
    with assms(2) show False by blast
  qed
  show "n @ ''-policy-engine-route'' \<noteq> m @ ''-route''"
  proof
    assume "n @ ''-policy-engine-route'' = m @ ''-route''"
    then have "(n @ ''-policy-engine'') @ ''-route'' = m @ ''-route''" by simp
    then have "n @ ''-policy-engine'' = m" by blast
    with assms(1) show False by (simp add: apart_def)
  qed
qed

lemma owned_apart:
  assumes "apart (instName i) (instName j)" and "instName i \<noteq> ''cluster''" and "instName j \<noteq> ''cluster''"
    and "(kd, key) \<in> set (ownedObjects i)" and "(kd, key) \<in> set (ownedObjects j)"
  shows "(kd, key) \<in> sharedKeys i"
proof -
  note n = names_apart [OF assms(1-3)] names_apart [OF apart_sym [OF assms(1)] assms(3,2)]
  have "instName i \<noteq> instName j" using assms(1) by (simp add: apart_def)
  note ne = n n [symmetric] this this [symmetric]
  show ?thesis
    using assms(4,5) ownedObjects_outside [OF assms(4)]
    by (cases kd) (auto simp: owned_simps sharedKeys_def caKey_def name_defs namespacedName_def ne)
qed

lemma upToDate_away:
  assumes "agreeExcept K L L'" and "K \<inter> set (ownedObjects i) \<subseteq> sharedKeys i" and "instName i \<noteq> ''cluster''"
    and "resourcesFor i k" and "upToDate sha L k" and "clusterCAUpToDate L' k"
  shows "upToDate sha L' k"
proof -
  have same: "L' kd key = L kd key" if "(kd, key) \<in> set (ownedObjects i)" "(kd, key) \<notin> sharedKeys i" for kd key
    using assms(1,2) that unfolding agreeExcept_def by blast
  have "distinct (configMapNames i)" using assms(3) by (simp add: configMapNames_distinct)
  then have cm: "L' ConfigMapKind (namespacedName n (instNamespace i)) = L ConfigMapKind (namespacedName n (instNamespace i))"
    if "n \<in> {nameEnvConfig i, nameConfig i, nameAdditionalTrustedCA i}" for n
    using that by (intro same) (auto simp: configMapNames_def owned_simps sharedKeys_def caKey_def namespacedName_def)
  have eqs: "L' ConfigMapKind (keyOf (cm_meta (kr_graphBuilderConfig k))) = L ConfigMapKind (keyOf (cm_meta (kr_graphBuilderConfig k)))"
    "L' ConfigMapKind (keyOf (cm_meta (kr_envConfig k))) = L ConfigMapKind (keyOf (cm_meta (kr_envConfig k)))"
    "\<And>c. kr_trustedCAConfig k = Some c \<Longrightarrow> L' ConfigMapKind (keyOf (cm_meta c)) = L ConfigMapKind (keyOf (cm_meta c))"
    "L' SecretKind (keyOf (sec_meta (kr_pullSecret k))) = L SecretKind (keyOf (sec_meta (kr_pullSecret k)))"
    "L' ServiceKind (keyOf (svc_meta (kr_graphBuilderService k))) = L ServiceKind (keyOf (svc_meta (kr_graphBuilderService k)))"
    "L' ServiceKind (keyOf (svc_meta (kr_policyEngineService k))) = L ServiceKind (keyOf (svc_meta (kr_policyEngineService k)))"
    "L' PDBKind (keyOf (pdb_meta (kr_podDisruptionBudget k))) = L PDBKind (keyOf (pdb_meta (kr_podDisruptionBudget k)))"
    "L' RouteKind (keyOf (route_meta (kr_policyEngineRoute k))) = L RouteKind (keyOf (route_meta (kr_policyEngineRoute k)))"
    "L' RouteKind (keyOf (route_meta (kr_policyEngineOldRoute k))) = L RouteKind (keyOf (route_meta (kr_policyEngineOldRoute k)))"
    "L' NetworkPolicyKind (keyOf (np_meta (kr_networkPolicy k))) = L NetworkPolicyKind (keyOf (np_meta (kr_networkPolicy k)))"
    "L' DeploymentKind (keyOf (dep_meta (kr_deployment k))) = L DeploymentKind (keyOf (dep_meta (kr_deployment k)))"
    using assms(4) cm by (auto simp: resourcesFor_def Let_def owned_simps sharedKeys_def caKey_def intro!: same)
  have "routeInUse L' k = routeInUse L k" by (rule routeInUse_cong) (rule eqs)+
  then show ?thesis
    using assms(5,6) eqs
    by (simp add: upToDate_def configMapUpToDate_def secretUpToDate_def serviceUpToDate_def pdbUpToDate_def
        routeUpToDate_def networkPolicyUpToDate_def deploymentUpToDate_def trustedCAUpToDate_def option.pred_set)
qed

lemma cluster_ca_rendered:
  "newTrustedClusterCAConfig getenv i c = None \<longleftrightarrow> newTrustedClusterCAConfig getenv j d = None"
  by (simp add: newTrustedClusterCAConfig_def split: option.split)

lemma desired_cluster_ca:
  assumes "desiredResources r i L = Some k"
  shows "kr_trustedClusterCAConfig k = None \<longleftrightarrow> newTrustedClusterCAConfig (r_getenv r) j c = None"
proof -
  obtain ps ca where "newKubeResources (r_getenv r) i (r_OperandImage r) ps ca (clusterCAIn (r_getenv r) i L) = Inr k"
    using assms by (auto simp: desiredResources_def split: option.splits sum.splits)
  from newKubeResources_fields(6) [OF this] show ?thesis
    using cluster_ca_rendered [of "r_getenv r" i _ j c] by simp
qed

lemma desired_reads:
  assumes "pullSecretIn L' = pullSecretIn L" and "trustedCAIn L' = trustedCAIn L"
    and "desiredResources r i L = Some k"
  shows "desiredResources r i L' = Some (k\<lparr>kr_trustedClusterCAConfig :=
    newTrustedClusterCAConfig (r_getenv r) i (clusterCAIn (r_getenv r) i L')\<rparr>)"
proof -
  obtain ps ca where reads: "pullSecretIn L = Some ps" "trustedCAIn L = Some ca"
    and k: "newKubeResources (r_getenv r) i (r_OperandImage r) ps ca (clusterCAIn (r_getenv r) i L) = Inr k"
    using assms(3) by (auto simp: desiredResources_def split: option.splits sum.splits)
  show ?thesis unfolding desiredResources_def assms(1,2) reads by (simp add: render_cluster_ca [OF k])
qed

section \<open>A reconcile of another UpdateService\<close>

context object_store
begin

lemma renderable_key:
  assumes "renderable r req (lookup w) i k"
  shows "keyOf (us_meta i) = req" and "instName i = nn_Name req" and "instNamespace i = r_OperatorNamespace r"
proof -
  show "keyOf (us_meta i) = req" using lookup_found [OF renderableD(3) [OF assms]] by simp
  then show "instName i = nn_Name req" "instNamespace i = r_OperatorNamespace r"
    using renderableD(1) [OF assms] by (auto simp: keyOf_def)
qed

lemma reconcile_other:
  assumes g: "r_Scheme r = [g]" and j: "renderable r req' (lookup w) j kj"
    and run: "runReconcile r req' w = (res, w1, calls)"
    and i: "renderable r req (lookup w) i k" and apart: "apart (nn_Name req) (nn_Name req')"
  shows "\<exists>k'. renderable r req (lookup w1) i k'"
    and "lookup w1 DeploymentKind (namespacedName (nameDeployment i) (instNamespace i)) =
      lookup w DeploymentKind (namespacedName (nameDeployment i) (instNamespace i))"
    and "podStateOf (lookup w1) i = podAfter j (lookup w)"
    and "upToDate sha (lookup w) k \<Longrightarrow> \<exists>k'. desiredResources r i (lookup w1) = Some k' \<and> upToDate sha (lookup w1) k'"
proof -
  let ?L = "lookup w" and ?L' = "lookup w1"
  let ?K = "insert (UpdateServiceKind, req') (set (ownedObjects j))"
  note ki = renderable_key [OF i] and kj = renderable_key [OF j]
  obtain new k2 where 2: "renderable r req' ?L' new k2" "sameService j new" "agreeExcept ?K ?L ?L'"
    "podStateOf ?L' j = podAfter j ?L"
    and up2: "clusterCAUpToDate ?L' k2"
    using reconcile_next [OF g j run] by (auto simp: upToDate_def)
  have ns: "instNamespace i = instNamespace j" "instNamespace j \<noteq> OpenshiftConfigNamespace"
    using ki(3) kj(3) renderableD(1,2) [OF j] by simp_all
  have "apart (instName i) (instName j)" using apart ki(2) kj(2) by simp
  note shared = owned_apart [OF this renderableD(4) [OF i] renderableD(4) [OF j]]
  have K: "?K \<inter> set (ownedObjects i) \<subseteq> sharedKeys i"
    using shared ownedObjects_outside [of _ _ i] by auto
  have "req \<noteq> req'" using apart by (auto simp: apart_def)
  then have us: "?L' UpdateServiceKind req = ?L UpdateServiceKind req"
    using 2(3) ownedObjects_outside [of UpdateServiceKind req j] by (auto simp: agreeExcept_def)
  have desired: "desiredResources r i ?L' = Some (k\<lparr>kr_trustedClusterCAConfig :=
      newTrustedClusterCAConfig (r_getenv r) i (clusterCAIn (r_getenv r) i ?L')\<rparr>)"
    by (rule desired_reads [OF reads_agree [OF 2(3) ns(2)] renderableD(6) [OF i]])
  then show "\<exists>k'. renderable r req ?L' i k'"
    using renderableD [OF i] unfolding renderable_def us by blast
  have dep: "(DeploymentKind, namespacedName (nameDeployment i) (instNamespace i)) \<in> set (ownedObjects i)"
    by (simp add: owned_simps)
  have "(DeploymentKind, namespacedName (nameDeployment i) (instNamespace i)) \<notin> ?K"
    using K dep by (auto simp: sharedKeys_def caKey_def)
  then show "?L' DeploymentKind (namespacedName (nameDeployment i) (instNamespace i)) =
      ?L DeploymentKind (namespacedName (nameDeployment i) (instNamespace i))"
    using 2(3) by (simp add: agreeExcept_def)
  show "podStateOf ?L' i = podAfter j ?L"
    using 2(4) ns(1) by (simp add: podStateOf_def)
  have res: "resourcesFor i k" by (rule desired_resourcesFor [OF renderableD(6) [OF i]])
  have res2: "resourcesFor new k2" by (rule desired_resourcesFor [OF renderableD(6) [OF 2(1)]])
  have "kr_trustedClusterCAConfig k = None \<longleftrightarrow> kr_trustedClusterCAConfig k2 = None"
    using desired_cluster_ca [OF renderableD(6) [OF i], of new None]
      desired_cluster_ca [OF renderableD(6) [OF 2(1)], of new None] by simp
  then have ca: "clusterCAUpToDate ?L' k"
    using up2 res res2 ns(1) sameService_names(3) [OF 2(2)]
    by (cases "kr_trustedClusterCAConfig k"; cases "kr_trustedClusterCAConfig k2")
      (auto simp: clusterCAUpToDate_def resourcesFor_def Let_def)
  show "\<exists>k'. desiredResources r i ?L' = Some k' \<and> upToDate sha ?L' k'" if "upToDate sha ?L k"
  proof -
    have "upToDate sha ?L' k" by (rule upToDate_away [OF 2(3) K renderableD(4) [OF i] res that ca])
    from upToDate_cluster_ca [OF this res desired_resourcesFor [OF desired]] desired
    show ?thesis
      using desired_cluster_ca [OF renderableD(6) [OF i], of i "clusterCAIn (r_getenv r) i ?L'"] by auto
  qed
qed

end

section \<open>Stages of the roll-out\<close>

text \<open>
  How far the roll-out of an UpdateService has got after \<open>n\<close> reconciles of it, counted up to two:
  its resources can be rendered; its Deployment is there and no finished pod stands in the way of a
  digest; the cluster has been rolled out to.
\<close>

definition begun :: "update_service \<Rightarrow> contents \<Rightarrow> bool" where
  "begun i L \<longleftrightarrow>
     L DeploymentKind (namespacedName (nameDeployment i) (instNamespace i)) \<noteq> None \<and>
     (Contains (us_GraphDataImage (us_Spec i)) ''@sha256'' \<or> podStateOf L i \<noteq> Finished)"

definition stage :: "'w reconciler \<Rightarrow> namespaced_name \<Rightarrow> contents \<Rightarrow> update_service \<Rightarrow> nat \<Rightarrow> bool" where
  "stage r req L i n \<longleftrightarrow>
     (\<exists>k. renderable r req L i k) \<and> (1 \<le> n \<longrightarrow> begun i L) \<and> (2 \<le> n \<longrightarrow> (\<exists>k. rolledOut r req L i k))"

lemma podStep_not_Finished: "fst (podStep st) \<noteq> Finished"
  by (cases st) simp_all

context object_store
begin

text \<open>A reconcile takes its own UpdateService one stage further.\<close>

lemma stage_own:
  assumes g: "r_Scheme r = [g]" and run: "runReconcile r req w = (res, w1, calls)"
    and st: "stage r req (lookup w) i n"
  shows "res = \<lparr>RequeueAfter = fiveMinutes, Err = None\<rparr> \<and> (\<exists>new. sameService i new \<and> stage r req (lookup w1) new (Suc n))"
proof -
  let ?dep = "namespacedName (nameDeployment i) (instNamespace i)"
  obtain k where k: "renderable r req (lookup w) i k" using st by (auto simp: stage_def)
  obtain new k' where 1: "renderable r req (lookup w1) new k'" "sameService i new"
    "res = \<lparr>RequeueAfter = fiveMinutes, Err = None\<rparr>" "lookup w1 DeploymentKind ?dep \<noteq> None"
    "podStateOf (lookup w1) i = podAfter i (lookup w)"
    "upToDate (if lookup w DeploymentKind ?dep = None then [] else digestIn i (lookup w)) (lookup w1) k'"
    using reconcile_next [OF g k run] by blast
  note same = desired_same [OF 1(2)] sameService_names [OF 1(2)] sameService_keys [OF 1(2)]
  have "begun new (lookup w1)"
    using 1(4,5) podStep_not_Finished by (auto simp: begun_def same podAfter_def)
  moreover have "rolledOut r req (lookup w1) new k'" if "1 \<le> n"
  proof (rule renderable_rolledOut [OF 1(1)])
    have b: "begun i (lookup w)" using st that by (simp add: stage_def)
    then have "podSettled i (lookup w1) \<and> digestIn i (lookup w1) = digestIn i (lookup w)"
      using 1(5) by (cases "podStateOf (lookup w) i") (auto simp: begun_def podSettled_def digestIn_def podAfter_def)
    then show "podSettled new (lookup w1)" "upToDate (digestIn new (lookup w1)) (lookup w1) k'"
      using 1(6) b by (auto simp: same begun_def)
  qed
  ultimately show ?thesis using 1(1,2,3) by (auto simp: stage_def)
qed

text \<open>A reconcile of another one keeps the stage.\<close>

lemma stage_other:
  assumes g: "r_Scheme r = [g]" and run: "runReconcile r req' w = (res, w1, calls)"
    and j: "renderable r req' (lookup w) j kj" and st: "stage r req (lookup w) i n"
    and apart: "apart (nn_Name req) (nn_Name req')"
  shows "stage r req (lookup w1) i n"
proof -
  obtain k where k: "renderable r req (lookup w) i k" using st by (auto simp: stage_def)
  note other = reconcile_other [OF g j run k apart]
  have pod: "podStateOf (lookup w) i = podStateOf (lookup w) j"
    using renderable_key(3) [OF k] renderable_key(3) [OF j] by (simp add: podStateOf_def)
  obtain k1 where k1: "renderable r req (lookup w1) i k1" using other(1) by blast
  moreover have "begun i (lookup w1)" if "begun i (lookup w)"
    using that other(2,3) pod podStep_not_Finished by (auto simp: begun_def podAfter_def)
  moreover have "\<exists>k'. rolledOut r req (lookup w1) i k'" if "rolledOut r req (lookup w) i k0" for k0
  proof -
    have "k0 = k" using that renderableD(6) [OF k] by (simp add: rolledOut_def)
    then have up: "upToDate (digestIn i (lookup w)) (lookup w) k" "podSettled i (lookup w)"
      using that by (simp_all add: rolledOut_def)
    obtain k' where k': "desiredResources r i (lookup w1) = Some k'"
      "upToDate (digestIn i (lookup w)) (lookup w1) k'"
      using other(4) [OF up(1)] by blast
    have "k1 = k'" using k'(1) renderableD(6) [OF k1] by simp
    moreover have "podSettled i (lookup w1) \<and> digestIn i (lookup w1) = digestIn i (lookup w)"
      using up(2) other(3) pod by (auto simp: podSettled_def digestIn_def podAfter_def)
    ultimately show ?thesis using renderable_rolledOut [OF k1] k'(2) by auto
  qed
  ultimately show ?thesis using st by (auto simp: stage_def)
qed

end

section \<open>Schedules\<close>

text \<open>A series of reconciles, one after the other: their results and the world at the end.\<close>

fun runSchedule :: "'w reconciler \<Rightarrow> namespaced_name list \<Rightarrow> 'w \<Rightarrow> reconcile_result list \<times> 'w" where
  "runSchedule r [] w = ([], w)"
| "runSchedule r (req # reqs) w =
     (case runReconcile r req w of
        (res, w1, calls) \<Rightarrow> (case runSchedule r reqs w1 of (ress, w') \<Rightarrow> (res # ress, w')))"

context object_store
begin

lemma schedule_stages:
  fixes w :: 'w
  assumes "r_Scheme r = [g]" and "set reqs \<subseteq> S"
    and "\<And>a b. a \<in> S \<Longrightarrow> b \<in> S \<Longrightarrow> a \<noteq> b \<Longrightarrow> apart (nn_Name a) (nn_Name b)"
    and "\<And>a. a \<in> S \<Longrightarrow> \<exists>i. us_Spec i = spec a \<and> stage r a (lookup w) i (n a)"
    and "runSchedule r reqs w = (ress, w')"
  shows "(\<forall>res \<in> set ress. res = \<lparr>RequeueAfter = fiveMinutes, Err = None\<rparr>) \<and>
    (\<forall>a \<in> S. \<exists>i. us_Spec i = spec a \<and> stage r a (lookup w') i (n a + count_list reqs a))"
  using assms(2,4,5)
proof (induction reqs arbitrary: w n ress)
  case Nil
  then show ?case by simp
next
  case (Cons req reqs)
  obtain res w1 calls where run: "runReconcile r req w = (res, w1, calls)" by (rule prod_cases3)
  obtain ress1 where rest: "runSchedule r reqs w1 = (ress1, w')" "ress = res # ress1"
    using Cons.prems(3) run by (auto split: prod.splits)
  have "req \<in> S" and sub: "set reqs \<subseteq> S" using Cons.prems(1) by auto
  then obtain j where j: "us_Spec j = spec req" "stage r req (lookup w) j (n req)"
    using Cons.prems(2) by blast
  note own = stage_own [OF assms(1) run j(2)]
  obtain kj where kj: "renderable r req (lookup w) j kj" using j(2) by (auto simp: stage_def)
  let ?n = "n(req := Suc (n req))"
  have "\<exists>i. us_Spec i = spec a \<and> stage r a (lookup w1) i (?n a)" if "a \<in> S" for a
  proof (cases "a = req")
    case True
    then show ?thesis using own j(1) by (auto simp: sameService_def)
  next
    case False
    obtain i where i: "us_Spec i = spec a" "stage r a (lookup w) i (n a)"
      using Cons.prems(2) \<open>a \<in> S\<close> by blast
    have "stage r a (lookup w1) i (n a)"
      by (rule stage_other [OF assms(1) run kj i(2) assms(3) [OF \<open>a \<in> S\<close> \<open>req \<in> S\<close> False]])
    then show ?thesis using i(1) False by auto
  qed
  note IH = Cons.IH [OF sub this rest(1)]
  have "?n a + count_list reqs a = n a + count_list (req # reqs) a" for a by simp
  with IH own rest(2) show ?case by (metis set_ConsD)
qed

end

section \<open>Properties\<close>


definition namedInstance :: "string \<Rightarrow> update_service" where
  "namedInstance name = digestInstance\<lparr>us_meta := newMeta name ''ns''\<rparr>"

definition servicesWorld :: "string list \<Rightarrow> mem" where
  "servicesWorld names = memWorld (map (\<lambda>n. UpdateServiceObj (namedInstance n)) names @ [SecretObj exampleSecret])"

lemma namedInstance_meta: "us_meta (namedInstance n) = newMeta n ''ns''"
  by (simp add: namedInstance_def)

lemma servicesWorld_lookup:
  assumes "name \<in> set names"
  shows "memLookup (servicesWorld names) UpdateServiceKind (namespacedName name ''ns'') =
    Some (UpdateServiceObj (namedInstance name))"
proof -
  have "find (\<lambda>ob. objKind ob = UpdateServiceKind \<and> objKey ob = namespacedName name ''ns'')
      (map (\<lambda>n. UpdateServiceObj (namedInstance n)) names @ obs) = Some (UpdateServiceObj (namedInstance name))" for obs
    using assms by (induction names) (auto simp: namedInstance_meta namespacedName_def keyOf_def newMeta_def)
  then show ?thesis by (simp add: memLookup_def servicesWorld_def memWorld_def)
qed

lemma servicesWorld_other:
  assumes "kd \<notin> {UpdateServiceKind, SecretKind}"
  shows "memLookup (servicesWorld names) kd key = None"
  using assms by (auto simp: memLookup_def servicesWorld_def memWorld_def find_None_iff)

lemma servicesWorld_pullSecret: "pullSecretIn (memLookup (servicesWorld names)) = Some exampleSecret"
proof -
  let ?P = "\<lambda>ob. objKind ob = SecretKind \<and> objKey ob = namespacedName namePullSecret OpenshiftConfigNamespace"
  have "find ?P (map (\<lambda>n. UpdateServiceObj (namedInstance n)) names @ [SecretObj exampleSecret]) = Some (SecretObj exampleSecret)"
    by (induction names) (simp_all add: exampleSecret_def newMeta_def keyOf_def namespacedName_def namePullSecret_def
        OpenshiftConfigNamespace_def)
  then show ?thesis by (simp add: pullSecretIn_def memLookup_def servicesWorld_def memWorld_def)
qed

lemma servicesWorld_renderable:
  assumes "name \<in> set names" and "dnsLabel (name @ ''-route-ns'')" and "name \<noteq> ''cluster''"
    and "length name \<le> 40"
  shows "\<exists>k. renderable (memReconciler (\<lambda>_. [])) (namespacedName name ''ns'') (memLookup (servicesWorld names))
    (namedInstance name) k"
proof -
  let ?L = "memLookup (servicesWorld names)"
  have "validateRouteName (namedInstance name) name ''ns'' = None"
    using assms by (auto simp: validateRouteName_def namePolicyEngineRoute_def fullMatch_label namedInstance_meta
        newMeta_def DNS1123LabelMaxLength_def)
  moreover have "trustedCAIn ?L = Some None"
    by (simp add: trustedCAIn_def servicesWorld_other)
  moreover have "CHR ''/'' \<in> set (us_Releases (us_Spec (namedInstance name)))"
    by (simp add: namedInstance_def digestInstance_def exampleInstance_def)
  then obtain k where "newKubeResources (\<lambda>_. []) (namedInstance name) ''operand'' exampleSecret None
      (clusterCAIn (\<lambda>_. []) (namedInstance name) ?L) = Inr k"
    using newKubeResources_Inr_iff by blast
  ultimately show ?thesis
    using assms servicesWorld_lookup [OF assms(1)] servicesWorld_pullSecret [of names]
    by (auto simp: renderable_def desiredResources_def OpenshiftConfigNamespace_def namedInstance_meta newMeta_def)
qed

definition exampleServices :: mem where
  "exampleServices = servicesWorld [''app'', ''web'']"

lemma exampleServices_renderable:
  assumes "name \<in> {''app'', ''web''}"
  shows "\<exists>k. renderable (memReconciler (\<lambda>_. [])) (namespacedName name ''ns'') (memLookup exampleServices)
    (namedInstance name) k"
proof -
  have "dnsLabel ''app-route-ns''" "dnsLabel ''web-route-ns''" by code_simp+
  then show ?thesis
    using assms servicesWorld_renderable [of name "[''app'', ''web'']"] by (auto simp: exampleServices_def)
qed


end
