(* ===== verification/RouteClash.thy ===== *)
theory RouteClash
  imports Schedule
begin

text \<open>
  Why \<open>Schedule\<close> asks for names that are apart: the legacy Route of one UpdateService is the Route of
  another one, and the two cannot both be served.
\<close>

lemma desired_routes:
  assumes "desiredResources r i L = Some k"
  shows "kr_policyEngineRoute k = newPolicyEngineRoute i" and "kr_policyEngineOldRoute k = oldPolicyEngineRoute i"
  using assms
  by (auto simp: desiredResources_def newKubeResources_def Let_def split: option.splits sum.splits)

lemma routes_of:
  assumes "desiredResources r i L = Some k"
  shows "keyOf (route_meta (kr_policyEngineRoute k)) = namespacedName (instName i @ ''-route'') (instNamespace i)"
    and "keyOf (route_meta (kr_policyEngineOldRoute k)) = namespacedName (instName i @ ''-policy-engine-route'') (instNamespace i)"
    and "rt_Name (rs_To (route_Spec (kr_policyEngineRoute k))) = instName i @ ''-policy-engine''"
  by (simp_all add: desired_routes [OF assms] newPolicyEngineRoute_def oldPolicyEngineRoute_def
      policyEngineRouteNamed_def keyOf_def newMeta_def namespacedName_def name_defs)

text \<open>The Route in use leads to the service of the UpdateService.\<close>

lemma routeUpToDate_service:
  assumes "routeUpToDate L k" and "routeInUse L k = Some rt"
  shows "rt_Name (rs_To (route_Spec rt)) = rt_Name (rs_To (route_Spec (kr_policyEngineRoute k)))"
proof -
  from assms have "(route_Spec rt)\<lparr>rs_TLS := rs_TLS (route_Spec (kr_policyEngineRoute k))\<rparr> =
      route_Spec (kr_policyEngineRoute k)"
    by (simp add: routeUpToDate_def)
  from arg_cong [OF this, of "\<lambda>s. rt_Name (rs_To s)"] show ?thesis by simp
qed

context object_store
begin

lemma route_clash:
  assumes "rolledOut r req (lookup w) i k" and "rolledOut r req' (lookup w) j k'"
    and "instName j = instName i @ ''-policy-engine''"
  shows "lookup w RouteKind (namespacedName (oldPolicyEngineRouteName j) (r_OperatorNamespace r)) \<noteq> None"
proof
  assume none: "lookup w RouteKind (namespacedName (oldPolicyEngineRouteName j) (r_OperatorNamespace r)) = None"
  let ?L = "lookup w"
  have i: "desiredResources r i ?L = Some k" "routeUpToDate ?L k"
    and j: "desiredResources r j ?L = Some k'" "routeUpToDate ?L k'"
    using assms(1,2) by (simp_all add: rolledOut_def upToDate_def)
  have ns: "instNamespace i = r_OperatorNamespace r" "instNamespace j = r_OperatorNamespace r"
    using assms(1,2) lookup_found [of w UpdateServiceKind] by (fastforce simp: rolledOut_def keyOf_def)+
  note ri = routes_of [OF i(1), unfolded ns] and rj = routes_of [OF j(1), unfolded ns]
  have "?L RouteKind (keyOf (route_meta (kr_policyEngineOldRoute k'))) = None"
    using none rj(2) by (simp add: oldPolicyEngineRouteName_def namePolicyEngineService_def)
  then obtain rt where rt: "routeInUse ?L k' = Some rt"
      "Option.bind (?L RouteKind (keyOf (route_meta (kr_policyEngineRoute k')))) asRoute = Some rt"
    using j(2) by (auto simp: routeUpToDate_def routeInUse_def)
  have "keyOf (route_meta (kr_policyEngineOldRoute k)) = keyOf (route_meta (kr_policyEngineRoute k'))"
    using ri(2) rj(1) assms(3) by simp
  with rt(2) have "routeInUse ?L k = Some rt" by (simp add: routeInUse_def)
  from routeUpToDate_service [OF i(2) this] routeUpToDate_service [OF j(2) rt(1)]
  show False using ri(3) rj(3) assms(3) by simp
qed

end



end
