(* ===== verification/RequestBound.thy ===== *)
theory RequestBound
  imports Reconcile
begin

text \<open>
  How many requests a reconcile makes: no function of the operator waits or retries, so their number
  is bounded whatever the server answers.
\<close>

section \<open>Counting requests\<close>

definition costs :: "nat \<Rightarrow> ('w sess, 'a) state \<Rightarrow> bool" where
  "costs n m \<longleftrightarrow> (\<forall>s a s'. run_state m s = (a, s') \<longrightarrow> length (se_calls s') \<le> length (se_calls s) + n)"

lemma costsI:
  "(\<And>s a s'. run_state m s = (a, s') \<Longrightarrow> length (se_calls s') \<le> length (se_calls s) + n) \<Longrightarrow> costs n m"
  by (auto simp: costs_def)

lemma costs_mono: "costs n m \<Longrightarrow> n \<le> n' \<Longrightarrow> costs n' m"
  by (fastforce simp: costs_def)

lemma costs_return: "costs n (return a)"
  by (simp add: costs_def)

lemma costs_bind: "costs n m \<Longrightarrow> (\<And>a. costs n' (f a)) \<Longrightarrow> costs (n + n') (State_Monad.bind m f)"
  by (fastforce simp: costs_def split: prod.splits)

text \<open>Splitting a budget: what a program's first part costs is left out of the rest.\<close>

lemma costs_pay: "costs n m \<Longrightarrow> n \<le> t \<Longrightarrow> (\<And>a. costs (t - n) (f a)) \<Longrightarrow> costs t (State_Monad.bind m f)"
  using costs_bind [of n m "t - n" f] by simp

lemma costs_cases:
  "(b \<Longrightarrow> costs n m) \<Longrightarrow> (\<not> b \<Longrightarrow> costs n m') \<Longrightarrow> costs n (if b then m else m')"
  "(x = None \<Longrightarrow> costs n m0) \<Longrightarrow> (\<And>y. x = Some y \<Longrightarrow> costs n (m1 y)) \<Longrightarrow>
     costs n (case x of None \<Rightarrow> m0 | Some y \<Rightarrow> m1 y)"
  "(\<And>e. z = Inl e \<Longrightarrow> costs n (m2 e)) \<Longrightarrow> (\<And>y. z = Inr y \<Longrightarrow> costs n (m3 y)) \<Longrightarrow>
     costs n (case z of Inl e \<Rightarrow> m2 e | Inr y \<Rightarrow> m3 y)"
  "(l = [] \<Longrightarrow> costs n m4) \<Longrightarrow> (\<And>h t. l = h # t \<Longrightarrow> costs n (m5 h t)) \<Longrightarrow>
     costs n (case l of [] \<Rightarrow> m4 | h # t \<Rightarrow> m5 h t)"
  by (auto split: option.split sum.split list.split)

lemma costs_let: "(\<And>y. y = x \<Longrightarrow> costs n (f y)) \<Longrightarrow> costs n (Let x f)"
  by simp

section \<open>The primitive steps\<close>

lemma costs_free:
  "costs n (timeNow r)" "costs n getStatus" "costs n (putStatus st)"
  by (auto intro!: costsI simp: timeNow_def getStatus_def putStatus_def split: prod.splits)

lemma costs_SetStatusCondition: "costs n (SetStatusCondition r c)"
  by (rule costsI) (metis SetStatusCondition_effect conditionSet_def le_add1 old.unit.exhaust)

lemma costs_reports:
  "costs n (handleErr r reason e)" "costs n (handleCACertStatus r reason m)"
  "costs n (setPolicyEngineURI uri)"
  unfolding handleErr_def handleCACertStatus_def setPolicyEngineURI_def
  by (rule costs_SetStatusCondition)+
    (rule costs_pay [OF costs_free(2) le0], rule costs_free)

lemma costs_invoke: "1 \<le> n \<Longrightarrow> costs n (invoke r c)"
  by (rule costsI) (auto simp: invoke_def split: prod.splits)

lemma costs_mutate: "1 \<le> n \<Longrightarrow> costs n (mutate r c)"
  unfolding mutate_def by (rule costs_pay [OF costs_invoke [of n] order.refl], assumption, rule costs_return)

lemma costs_requests:
  "1 \<le> n \<Longrightarrow> costs n (getObj r k as key)" "1 \<le> n \<Longrightarrow> costs n (createObj r ob)"
  "1 \<le> n \<Longrightarrow> costs n (updateObj r ob)" "1 \<le> n \<Longrightarrow> costs n (deleteObj r ob)"
  "1 \<le> n \<Longrightarrow> costs n (saveStatus r i)"
proof -
  show "1 \<le> n \<Longrightarrow> costs n (getObj r k as key)"
    unfolding getObj_def by (rule costs_pay [OF costs_invoke [of n] order.refl], assumption, rule costs_return)
  show "1 \<le> n \<Longrightarrow> costs n (saveStatus r i)"
    unfolding saveStatus_def updateStatus_def by (rule costs_pay [OF costs_free(2) le0]) (simp add: costs_mutate)
qed (simp_all add: createObj_def updateObj_def deleteObj_def costs_mutate)

lemma costs_report:
  "costs n m \<Longrightarrow> costs n (reportErr r reason m)" "costs n m \<Longrightarrow> costs n (reportOnly r reason m)"
  unfolding reportErr_def reportOnly_def
  by (erule costs_pay [OF _ order.refl], intro costs_cases(2) costs_return,
      rule costs_pay [OF costs_reports(1) le0], rule costs_return)+

lemma costs_withController: "(\<And>m'. costs n (f m')) \<Longrightarrow> costs n (withController r i m f)"
  unfolding withController_def by (intro costs_cases(3) costs_return)

text \<open>The rules that split the budget of a program by its first step.\<close>

lemmas pay_get = costs_pay [OF costs_requests(1) [OF order.refl]]
lemmas pay_free = costs_pay [OF costs_free(1) le0] costs_pay [OF costs_SetStatusCondition le0]
  costs_pay [OF costs_reports(1) le0] costs_pay [OF costs_reports(2) le0] costs_pay [OF costs_reports(3) le0]
lemmas pay_report = costs_pay [OF costs_report(1) [OF costs_requests(2) [OF order.refl]]]
  costs_pay [OF costs_report(1) [OF costs_requests(4) [OF order.refl]]]
lemma pay_case:
  assumes "\<And>e. costs 0 (m e)" and "\<And>y. costs 0 (m' y)" and "\<And>a. costs t (f a)"
  shows "costs t (State_Monad.bind (case z of Inl e \<Rightarrow> m e | Inr y \<Rightarrow> m' y) f)"
  by (rule costs_pay [OF costs_cases(3) le0]) (simp_all add: assms)

lemmas cost_steps = pay_case pay_get pay_free pay_report costs_cases costs_let costs_return costs_reports
  costs_requests costs_report costs_withController

section \<open>The operator's functions\<close>

lemma costs_find:
  "costs 1 (findPullSecret r)" "costs 2 (findTrustedCAConfig r)" "costs 1 (findTrustedClusterCAConfig r i)"
  "costs 2 (findExistingRoute r k)"
  unfolding findPullSecret_def findTrustedCAConfig_def findTrustedClusterCAConfig_def findExistingRoute_def
  by (intro cost_steps; simp)+

lemma costs_sync:
  "costs 2 (ensureConfigMap r cm)" "costs 2 (ensureSecret r sec)" "costs 2 (ensureService r svc)"
  "costs 2 (syncPodDisruptionBudget r pdb)" "costs 2 (syncNetworkPolicy r np)"
  unfolding ensureConfigMap_def ensureSecret_def ensureService_def syncPodDisruptionBudget_def
    syncNetworkPolicy_def
  by (intro cost_steps; simp)+

lemma costs_steps:
  "costs 2 (ensureConfig r i k)" "costs 2 (ensurePullSecret r i k)" "costs 2 (ensureEnvConfig r i k)"
  "costs 3 (ensureTrustedClusterCA r i k)" "costs 2 (ensureAdditionalTrustedCA r i k)"
  "costs 2 (ensureGraphBuilderService r i k)" "costs 2 (ensurePolicyEngineService r i k)"
  "costs 2 (ensurePodDisruptionBudget r i k)" "costs 3 (ensurePolicyEngineRoute r i k)"
  "costs 2 (ensureNetworkPolicy r i k)"
  unfolding ensureConfig_def ensurePullSecret_def ensureEnvConfig_def ensureTrustedClusterCA_def
    ensureAdditionalTrustedCA_def ensureGraphBuilderService_def ensurePolicyEngineService_def
    ensurePodDisruptionBudget_def ensurePolicyEngineRoute_def ensureNetworkPolicy_def
  by (intro cost_steps costs_sync costs_pay [OF costs_find(3)] costs_pay [OF costs_find(4)]
      costs_mono [OF costs_sync(1)]; simp)+

lemma costs_runUntilError:
  "list_all2 costs ns fs \<Longrightarrow> costs (sum_list ns) (runUntilError fs)"
proof (induction ns fs rule: list_all2_induct)
  case Nil
  then show ?case by (simp add: costs_return)
next
  case (Cons n ns f fs)
  then show ?case
    by (auto intro!: costs_bind costs_cases costs_return)
qed

lemma costs_ensureSteps: "costs 22 (runUntilError (ensureSteps r i k))"
  using costs_runUntilError [of "[2, 2, 2, 3, 2, 2, 2, 2, 3, 2]" "ensureSteps r i k"]
  by (simp add: ensureSteps_def costs_steps)

lemma costs_ensureGraphDataSHA: "costs 2 (ensureGraphDataSHA r i)"
  unfolding ensureGraphDataSHA_def by (intro cost_steps; simp)

lemma costs_ensureDeployment: "costs 2 (ensureDeployment r i k sha)"
  unfolding ensureDeployment_def by (intro cost_steps; simp)

lemma costs_ensureAll: "costs 27 (ensureAll r i k)"
proof -
  have "costs 1 (do { e \<leftarrow> saveStatus r i; return (x :: reconcile_result) })" for x
    by (intro costs_pay [OF costs_requests(5) [of 1]] costs_return) simp_all
  then show ?thesis
    unfolding ensureAll_def
    by (intro pay_free costs_pay [OF costs_ensureSteps] costs_pay [OF costs_ensureGraphDataSHA]
        costs_pay [OF costs_ensureDeployment] costs_cases costs_return) simp_all
qed

lemma costs_reconcileInstance: "costs 31 (reconcileInstance r req i)"
  unfolding reconcileInstance_def
  by (intro pay_free costs_pay [OF costs_requests(5) [of 1]] costs_pay [OF costs_find(1)]
      costs_pay [OF costs_find(2)] costs_pay [OF costs_find(3)] costs_cases costs_return
      costs_mono [OF costs_ensureAll]) simp_all

section \<open>Properties\<close>

text \<open>
  C18: every reconcile ends after at most 32 requests to the server, whatever the server answers and
  whatever the cluster contains.
\<close>

theorem reconcile_request_bound:
  "length (snd (snd (runReconcile r req w))) \<le> 32"
proof -
  have "costs 32 (Reconcile r req)"
    unfolding Reconcile_def
    by (intro cost_steps costs_pay [OF costs_free(3) le0] costs_mono [OF costs_reconcileInstance]) simp_all
  then show ?thesis by (force simp: costs_def runReconcile_def split: prod.split)
qed

end
