(* ===== verification/DeepCopy.thy ===== *)
theory DeepCopy
  imports Conditions
begin

text \<open>
  Aliasing. The rest of the library treats an UpdateService as a value. In Go it is a struct that
  refers to maps and arrays, shared with the cache of the client, and \<open>Reconcile\<close> writes to a deep
  copy of it (\<open>api/v1/zz_generated.deepcopy.go\<close>). Here the structs, maps and arrays lie on an
  explicit heap; reading a struct off the heap gives the value that the rest of the library uses.

  Part of the model is what the copy functions of \<open>ObjectMeta\<close>, \<open>OwnerReference\<close> and \<open>Condition\<close> (vendored)
  do. Pointers that nobody writes through (the flags of an owner reference, times) and the fields
  that the operator does not touch are values.
\<close>

section \<open>The heap\<close>

type_synonym addr = nat

text \<open>A slice: its array and its length; the array may be longer.\<close>

datatype slice = Slice (s_array: addr) (s_len: nat)

record meta_cell =
  mc_Name :: string
  mc_Namespace :: string
  mc_UID :: string
  mc_Labels :: "addr option"
  mc_Annotations :: "addr option"
  mc_OwnerReferences :: "slice option"
  mc_other :: other_fields

record status_cell =
  sc_Conditions :: "slice option"
  sc_PolicyEngineURI :: string

record service_cell =
  uc_gvk :: group_version_kind
  uc_meta :: meta_cell
  uc_Spec :: us_spec
  uc_Status :: status_cell

record list_cell =
  lc_gvk :: group_version_kind
  lc_meta :: other_fields
  lc_Items :: "slice option"

text \<open>Maps, arrays by the type of their elements, single structs, and the next free address.\<close>

record heap =
  h_maps :: "addr \<Rightarrow> (string, string) fmap"
  h_owners :: "addr \<Rightarrow> owner_ref list"
  h_conditions :: "addr \<Rightarrow> condition list"
  h_items :: "addr \<Rightarrow> service_cell list"
  h_services :: "addr \<Rightarrow> service_cell"
  h_lists :: "addr \<Rightarrow> list_cell"
  h_specs :: "addr \<Rightarrow> us_spec"
  h_statuses :: "addr \<Rightarrow> status_cell"
  h_next :: addr

definition newAddr :: "(heap, addr) state" where
  "newAddr = State (\<lambda>h. (h_next h, h\<lparr>h_next := Suc (h_next h)\<rparr>))"

definition modify :: "(heap \<Rightarrow> heap) \<Rightarrow> (heap, unit) state" where
  "modify f = State (\<lambda>h. ((), f h))"

definition gets :: "(heap \<Rightarrow> 'a) \<Rightarrow> (heap, 'a) state" where
  "gets f = State (\<lambda>h. (f h, h))"

fun elements :: "(addr \<Rightarrow> 'a list) \<Rightarrow> slice option \<Rightarrow> 'a list" where
  "elements arr None = []"
| "elements arr (Some (Slice a n)) = take n (arr a)"

section \<open>The copy functions\<close>

definition copyMap :: "addr option \<Rightarrow> (heap, addr option) state" where
  "copyMap m =
     (case m of
        None \<Rightarrow> return None
      | Some a \<Rightarrow> do {
          a' \<leftarrow> newAddr;
          modify (\<lambda>h. h\<lparr>h_maps := (h_maps h)(a' := h_maps h a)\<rparr>);
          return (Some a')
        })"

definition copyOwners :: "slice option \<Rightarrow> (heap, slice option) state" where
  "copyOwners sl =
     (case sl of
        None \<Rightarrow> return None
      | Some s \<Rightarrow> do {
          a' \<leftarrow> newAddr;
          modify (\<lambda>h. h\<lparr>h_owners := (h_owners h)(a' := elements (h_owners h) sl)\<rparr>);
          return (Some (Slice a' (s_len s)))
        })"

definition ObjectMeta_DeepCopyInto :: "meta_cell \<Rightarrow> (heap, meta_cell) state" where
  "ObjectMeta_DeepCopyInto inn = do {
     labels \<leftarrow> copyMap (mc_Labels inn);
     annotations \<leftarrow> copyMap (mc_Annotations inn);
     owners \<leftarrow> copyOwners (mc_OwnerReferences inn);
     return (inn\<lparr>mc_Labels := labels, mc_Annotations := annotations, mc_OwnerReferences := owners\<rparr>)
   }"

definition UpdateServiceSpec_DeepCopyInto :: "us_spec \<Rightarrow> us_spec" where
  "UpdateServiceSpec_DeepCopyInto inn = inn"

definition UpdateServiceStatus_DeepCopyInto :: "status_cell \<Rightarrow> (heap, status_cell) state" where
  "UpdateServiceStatus_DeepCopyInto inn =
     (case sc_Conditions inn of
        None \<Rightarrow> return inn
      | Some s \<Rightarrow> do {
          a' \<leftarrow> newAddr;
          modify (\<lambda>h. h\<lparr>h_conditions := (h_conditions h)(a' := elements (h_conditions h) (sc_Conditions inn))\<rparr>);
          return (inn\<lparr>sc_Conditions := Some (Slice a' (s_len s))\<rparr>)
        })"

definition UpdateService_DeepCopyInto :: "service_cell \<Rightarrow> (heap, service_cell) state" where
  "UpdateService_DeepCopyInto inn = do {
     m \<leftarrow> ObjectMeta_DeepCopyInto (uc_meta inn);
     st \<leftarrow> UpdateServiceStatus_DeepCopyInto (uc_Status inn);
     return (inn\<lparr>uc_meta := m, uc_Spec := uc_Spec inn, uc_Status := st\<rparr>)
   }"

text \<open>The functions on pointers: on a nil pointer the result is nil.\<close>

definition UpdateServiceSpec_DeepCopy :: "addr option \<Rightarrow> (heap, addr option) state" where
  "UpdateServiceSpec_DeepCopy inn =
     (case inn of
        None \<Rightarrow> return None
      | Some p \<Rightarrow> do {
          out \<leftarrow> newAddr;
          modify (\<lambda>h. h\<lparr>h_specs := (h_specs h)(out := UpdateServiceSpec_DeepCopyInto (h_specs h p))\<rparr>);
          return (Some out)
        })"

definition UpdateServiceStatus_DeepCopy :: "addr option \<Rightarrow> (heap, addr option) state" where
  "UpdateServiceStatus_DeepCopy inn =
     (case inn of
        None \<Rightarrow> return None
      | Some p \<Rightarrow> do {
          out \<leftarrow> newAddr;
          c \<leftarrow> gets (\<lambda>h. h_statuses h p);
          c' \<leftarrow> UpdateServiceStatus_DeepCopyInto c;
          modify (\<lambda>h. h\<lparr>h_statuses := (h_statuses h)(out := c')\<rparr>);
          return (Some out)
        })"

definition UpdateService_DeepCopy :: "addr option \<Rightarrow> (heap, addr option) state" where
  "UpdateService_DeepCopy inn =
     (case inn of
        None \<Rightarrow> return None
      | Some p \<Rightarrow> do {
          out \<leftarrow> newAddr;
          c \<leftarrow> gets (\<lambda>h. h_services h p);
          c' \<leftarrow> UpdateService_DeepCopyInto c;
          modify (\<lambda>h. h\<lparr>h_services := (h_services h)(out := c')\<rparr>);
          return (Some out)
        })"

text \<open>\<open>runtime.Object\<close>, an interface: nil or a typed pointer.\<close>

datatype runtime_object = UpdateServicePtr addr | UpdateServiceListPtr addr

definition UpdateService_DeepCopyObject :: "addr option \<Rightarrow> (heap, runtime_object option) state" where
  "UpdateService_DeepCopyObject inn = do {
     c \<leftarrow> UpdateService_DeepCopy inn;
     return (map_option UpdateServicePtr c)
   }"

fun copyItems :: "service_cell list \<Rightarrow> (heap, service_cell list) state" where
  "copyItems [] = return []"
| "copyItems (c # cs) = do {
     c' \<leftarrow> UpdateService_DeepCopyInto c;
     cs' \<leftarrow> copyItems cs;
     return (c' # cs')
   }"

definition UpdateServiceList_DeepCopyInto :: "list_cell \<Rightarrow> (heap, list_cell) state" where
  "UpdateServiceList_DeepCopyInto inn =
     (case lc_Items inn of
        None \<Rightarrow> return inn
      | Some s \<Rightarrow> do {
          a' \<leftarrow> newAddr;
          cs \<leftarrow> gets (\<lambda>h. elements (h_items h) (lc_Items inn));
          cs' \<leftarrow> copyItems cs;
          modify (\<lambda>h. h\<lparr>h_items := (h_items h)(a' := cs')\<rparr>);
          return (inn\<lparr>lc_Items := Some (Slice a' (s_len s))\<rparr>)
        })"

definition UpdateServiceList_DeepCopy :: "addr option \<Rightarrow> (heap, addr option) state" where
  "UpdateServiceList_DeepCopy inn =
     (case inn of
        None \<Rightarrow> return None
      | Some p \<Rightarrow> do {
          out \<leftarrow> newAddr;
          c \<leftarrow> gets (\<lambda>h. h_lists h p);
          c' \<leftarrow> UpdateServiceList_DeepCopyInto c;
          modify (\<lambda>h. h\<lparr>h_lists := (h_lists h)(out := c')\<rparr>);
          return (Some out)
        })"

definition UpdateServiceList_DeepCopyObject :: "addr option \<Rightarrow> (heap, runtime_object option) state" where
  "UpdateServiceList_DeepCopyObject inn = do {
     c \<leftarrow> UpdateServiceList_DeepCopy inn;
     return (map_option UpdateServiceListPtr c)
   }"

section \<open>Reading the heap\<close>

definition readMeta :: "heap \<Rightarrow> meta_cell \<Rightarrow> object_meta" where
  "readMeta h m =
     \<lparr>om_Name = mc_Name m, om_Namespace = mc_Namespace m, om_UID = mc_UID m,
      om_Labels = map_option (h_maps h) (mc_Labels m),
      om_Annotations = map_option (h_maps h) (mc_Annotations m),
      om_OwnerReferences = elements (h_owners h) (mc_OwnerReferences m), om_other = mc_other m\<rparr>"

definition readStatus :: "heap \<Rightarrow> status_cell \<Rightarrow> us_status" where
  "readStatus h st =
     \<lparr>us_Conditions = elements (h_conditions h) (sc_Conditions st), us_PolicyEngineURI = sc_PolicyEngineURI st\<rparr>"

definition readService :: "heap \<Rightarrow> service_cell \<Rightarrow> update_service" where
  "readService h c =
     \<lparr>us_gvk = uc_gvk c, us_meta = readMeta h (uc_meta c), us_Spec = uc_Spec c,
      us_Status = readStatus h (uc_Status c)\<rparr>"

definition readList :: "heap \<Rightarrow> list_cell \<Rightarrow> group_version_kind \<times> other_fields \<times> update_service list" where
  "readList h l = (lc_gvk l, lc_meta l, map (readService h) (elements (h_items h) (lc_Items l)))"

text \<open>The addresses that a struct refers to.\<close>

definition arrayOf :: "slice option \<Rightarrow> addr set" where
  "arrayOf sl = (case sl of None \<Rightarrow> {} | Some s \<Rightarrow> {s_array s})"

definition metaAddrs :: "meta_cell \<Rightarrow> addr set" where
  "metaAddrs m = set_option (mc_Labels m) \<union> set_option (mc_Annotations m) \<union> arrayOf (mc_OwnerReferences m)"

definition serviceAddrs :: "service_cell \<Rightarrow> addr set" where
  "serviceAddrs c = metaAddrs (uc_meta c) \<union> arrayOf (sc_Conditions (uc_Status c))"

definition listAddrs :: "heap \<Rightarrow> list_cell \<Rightarrow> addr set" where
  "listAddrs h l = arrayOf (lc_Items l) \<union> (\<Union>c \<in> set (elements (h_items h) (lc_Items l)). serviceAddrs c)"

text \<open>Two heaps with the same contents at the addresses in \<open>A\<close>.\<close>

definition sameAt :: "addr set \<Rightarrow> heap \<Rightarrow> heap \<Rightarrow> bool" where
  "sameAt A h h' \<longleftrightarrow>
     (\<forall>a \<in> A. h_maps h' a = h_maps h a \<and> h_owners h' a = h_owners h a \<and>
        h_conditions h' a = h_conditions h a \<and> h_items h' a = h_items h a \<and>
        h_services h' a = h_services h a \<and> h_lists h' a = h_lists h a)"

lemma sameAt_trans: "sameAt A h h1 \<Longrightarrow> sameAt A h1 h2 \<Longrightarrow> sameAt A h h2"
  by (simp add: sameAt_def)

lemma sameAt_subset: "sameAt B h h' \<Longrightarrow> A \<subseteq> B \<Longrightarrow> sameAt A h h'"
  by (auto simp: sameAt_def)

lemma elements_cong: "(\<And>a. a \<in> arrayOf sl \<Longrightarrow> arr' a = arr a) \<Longrightarrow> elements arr' sl = elements arr sl"
  by (cases sl rule: option.exhaust; cases "the sl") (auto simp: arrayOf_def)

lemma readService_sameAt:
  assumes "sameAt (serviceAddrs c) h h'"
  shows "readService h' c = readService h c"
proof -
  have maps: "map_option (h_maps h') m = map_option (h_maps h) m" if "set_option m \<subseteq> serviceAddrs c" for m
    using that assms by (cases m) (auto simp: sameAt_def)
  have "elements (h_owners h') (mc_OwnerReferences (uc_meta c)) = elements (h_owners h) (mc_OwnerReferences (uc_meta c))"
    "elements (h_conditions h') (sc_Conditions (uc_Status c)) = elements (h_conditions h) (sc_Conditions (uc_Status c))"
    using assms by (auto simp: sameAt_def serviceAddrs_def metaAddrs_def intro: elements_cong)
  moreover have "set_option (mc_Labels (uc_meta c)) \<subseteq> serviceAddrs c"
    "set_option (mc_Annotations (uc_meta c)) \<subseteq> serviceAddrs c"
    by (auto simp: serviceAddrs_def metaAddrs_def)
  ultimately show ?thesis
    by (simp add: readService_def readMeta_def readStatus_def maps)
qed

section \<open>A copy reads the same and shares nothing\<close>

text \<open>
  \<open>copies rd fp m x\<close>: from a heap on which \<open>x\<close> lies, \<open>m\<close> gives a copy that reads like \<open>x\<close> and lies at
  new addresses, and changes no old address.
\<close>

definition copies ::
    "(heap \<Rightarrow> 'a \<Rightarrow> 'v) \<Rightarrow> (heap \<Rightarrow> 'a \<Rightarrow> addr set) \<Rightarrow> ('a \<Rightarrow> (heap, 'a) state) \<Rightarrow> bool" where
  "copies rd fp m \<longleftrightarrow>
     (\<forall>x h y h'. fp h x \<subseteq> {..<h_next h} \<longrightarrow> run_state (m x) h = (y, h') \<longrightarrow>
        h_next h \<le> h_next h' \<and> sameAt {..<h_next h} h h' \<and> rd h' y = rd h x \<and>
        fp h' y \<subseteq> {h_next h..<h_next h'})"

lemma copiesI:
  assumes "\<And>x h y h'. fp h x \<subseteq> {..<h_next h} \<Longrightarrow> run_state (m x) h = (y, h') \<Longrightarrow>
    h_next h \<le> h_next h' \<and> sameAt {..<h_next h} h h' \<and> rd h' y = rd h x \<and> fp h' y \<subseteq> {h_next h..<h_next h'}"
  shows "copies rd fp m"
  using assms unfolding copies_def by blast

lemma copiesD:
  assumes "copies rd fp m" and "fp h x \<subseteq> {..<h_next h}" and "run_state (m x) h = (y, h')"
  shows "h_next h \<le> h_next h'" and "sameAt {..<h_next h} h h'" and "rd h' y = rd h x"
    and "fp h' y \<subseteq> {h_next h..<h_next h'}"
  using assms unfolding copies_def by blast+

lemmas heap_steps = newAddr_def modify_def gets_def

lemma copies_map: "copies (\<lambda>h. map_option (h_maps h)) (\<lambda>h. set_option) copyMap"
  by (rule copiesI) (auto simp: copyMap_def heap_steps sameAt_def split: option.splits)

lemma copies_owners: "copies (\<lambda>h. elements (h_owners h)) (\<lambda>h. arrayOf) copyOwners"
proof (rule copiesI, goal_cases)
  case (1 x h y h')
  then show ?case
    by (cases x; cases "the x")
      (auto simp: copyOwners_def heap_steps sameAt_def arrayOf_def)
qed

lemma copies_status: "copies readStatus (\<lambda>h st. arrayOf (sc_Conditions st)) UpdateServiceStatus_DeepCopyInto"
proof (rule copiesI, goal_cases)
  case (1 x h y h')
  then show ?case
    by (cases "sc_Conditions x"; cases "the (sc_Conditions x)")
      (auto simp: UpdateServiceStatus_DeepCopyInto_def heap_steps sameAt_def arrayOf_def readStatus_def)
qed

lemma below: "A \<subseteq> {a..<b} \<Longrightarrow> A \<subseteq> {..<b}" for A :: "addr set"
  by auto

lemma sameAt_parts:
  "sameAt A h h' \<Longrightarrow> set_option m \<subseteq> A \<Longrightarrow> map_option (h_maps h') m = map_option (h_maps h) m"
  "sameAt A h h' \<Longrightarrow> arrayOf sl \<subseteq> A \<Longrightarrow> elements (h_owners h') sl = elements (h_owners h) sl"
  "sameAt A h h' \<Longrightarrow> arrayOf sl \<subseteq> A \<Longrightarrow> elements (h_conditions h') sl = elements (h_conditions h) sl"
  "sameAt A h h' \<Longrightarrow> arrayOf sl \<subseteq> A \<Longrightarrow> elements (h_items h') sl = elements (h_items h) sl"
  by (cases m; auto simp: sameAt_def) (auto simp: sameAt_def intro!: elements_cong)

lemma readMeta_sameAt: "sameAt A h h' \<Longrightarrow> metaAddrs m \<subseteq> A \<Longrightarrow> readMeta h' m = readMeta h m"
  by (simp add: readMeta_def metaAddrs_def sameAt_parts)

lemma copies_meta: "copies readMeta (\<lambda>h. metaAddrs) ObjectMeta_DeepCopyInto"
proof (rule copiesI)
  fix x h y h'
  assume x: "metaAddrs x \<subseteq> {..<h_next h}" and run: "run_state (ObjectMeta_DeepCopyInto x) h = (y, h')"
  then have fp: "set_option (mc_Labels x) \<subseteq> {..<h_next h}" "set_option (mc_Annotations x) \<subseteq> {..<h_next h}"
    "arrayOf (mc_OwnerReferences x) \<subseteq> {..<h_next h}"
    by (simp_all add: metaAddrs_def)
  obtain l h1 where 1: "run_state (copyMap (mc_Labels x)) h = (l, h1)" by (rule prod.exhaust)
  note c1 = copiesD [OF copies_map fp(1) 1]
  have "set_option (mc_Annotations x) \<subseteq> {..<h_next h1}" using fp(2) c1(1) by auto
  note step2 = copiesD [OF copies_map this]
  obtain a h2 where 2: "run_state (copyMap (mc_Annotations x)) h1 = (a, h2)" by (rule prod.exhaust)
  note c2 = step2 [OF 2]
  have "arrayOf (mc_OwnerReferences x) \<subseteq> {..<h_next h2}" using fp(3) c1(1) c2(1) by auto
  note step3 = copiesD [OF copies_owners this]
  obtain ow h3 where 3: "run_state (copyOwners (mc_OwnerReferences x)) h2 = (ow, h3)" by (rule prod.exhaust)
  note c3 = step3 [OF 3]
  have y: "y = x\<lparr>mc_Labels := l, mc_Annotations := a, mc_OwnerReferences := ow\<rparr>" "h' = h3"
    using run 1 2 3 by (simp_all add: ObjectMeta_DeepCopyInto_def)
  have same12: "sameAt {..<h_next h} h h2"
    using sameAt_trans [OF c1(2) sameAt_subset [OF c2(2)]] c1(1) by simp
  then have same: "sameAt {..<h_next h} h h3"
    using sameAt_trans [OF _ sameAt_subset [OF c3(2)]] c1(1) c2(1) by simp
  have "sameAt {..<h_next h1} h1 h3"
    using sameAt_trans [OF c2(2) sameAt_subset [OF c3(2)]] c2(1) by simp
  then have "map_option (h_maps h3) l = map_option (h_maps h1) l"
    using below [OF c1(4)] by (rule sameAt_parts(1))
  moreover have "map_option (h_maps h3) a = map_option (h_maps h2) a"
    by (rule sameAt_parts(1) [OF c3(2) below [OF c2(4)]])
  moreover have "map_option (h_maps h1) (mc_Annotations x) = map_option (h_maps h) (mc_Annotations x)"
    by (rule sameAt_parts(1) [OF c1(2) fp(2)])
  moreover have "elements (h_owners h2) (mc_OwnerReferences x) = elements (h_owners h) (mc_OwnerReferences x)"
    by (rule sameAt_parts(2) [OF same12 fp(3)])
  ultimately show "h_next h \<le> h_next h' \<and> sameAt {..<h_next h} h h' \<and> readMeta h' y = readMeta h x \<and>
      metaAddrs y \<subseteq> {h_next h..<h_next h'}"
    using same c1(1,3,4) c2(1,3,4) c3(1,3,4) by (auto simp: y readMeta_def metaAddrs_def)
qed

lemma copies_service: "copies readService (\<lambda>h. serviceAddrs) UpdateService_DeepCopyInto"
proof (rule copiesI)
  fix x h y h'
  assume x: "serviceAddrs x \<subseteq> {..<h_next h}" and run: "run_state (UpdateService_DeepCopyInto x) h = (y, h')"
  then have fp: "metaAddrs (uc_meta x) \<subseteq> {..<h_next h}" "arrayOf (sc_Conditions (uc_Status x)) \<subseteq> {..<h_next h}"
    by (simp_all add: serviceAddrs_def)
  obtain m h1 where 1: "run_state (ObjectMeta_DeepCopyInto (uc_meta x)) h = (m, h1)" by (rule prod.exhaust)
  note c1 = copiesD [OF copies_meta fp(1) 1]
  have "arrayOf (sc_Conditions (uc_Status x)) \<subseteq> {..<h_next h1}" using fp(2) c1(1) by auto
  note step2 = copiesD [OF copies_status this]
  obtain st h2 where 2: "run_state (UpdateServiceStatus_DeepCopyInto (uc_Status x)) h1 = (st, h2)" by (rule prod.exhaust)
  note c2 = step2 [OF 2]
  have y: "y = x\<lparr>uc_meta := m, uc_Status := st\<rparr>" "h' = h2"
    using run 1 2 by (simp_all add: UpdateService_DeepCopyInto_def)
  have same: "sameAt {..<h_next h} h h2"
    using sameAt_trans [OF c1(2) sameAt_subset [OF c2(2)]] c1(1) by simp
  have "readMeta h2 m = readMeta h1 m"
    by (rule readMeta_sameAt [OF c2(2) below [OF c1(4)]])
  moreover have "readStatus h1 (uc_Status x) = readStatus h (uc_Status x)"
    by (simp add: readStatus_def sameAt_parts(3) [OF c1(2) fp(2)])
  ultimately show "h_next h \<le> h_next h' \<and> sameAt {..<h_next h} h h' \<and> readService h' y = readService h x \<and>
      serviceAddrs y \<subseteq> {h_next h..<h_next h'}"
    using same c1(1,3,4) c2(1,3,4) by (auto simp: y readService_def serviceAddrs_def)
qed

lemma copies_items: "copies (\<lambda>h. map (readService h)) (\<lambda>h cs. \<Union>c \<in> set cs. serviceAddrs c) copyItems"
proof (rule copiesI)
  fix cs h y h'
  assume "(\<Union>c \<in> set cs. serviceAddrs c) \<subseteq> {..<h_next h}" and "run_state (copyItems cs) h = (y, h')"
  then show "h_next h \<le> h_next h' \<and> sameAt {..<h_next h} h h' \<and> map (readService h') y = map (readService h) cs \<and>
      (\<Union>c \<in> set y. serviceAddrs c) \<subseteq> {h_next h..<h_next h'}"
  proof (induction cs arbitrary: h y h')
    case Nil
    then show ?case by (simp add: sameAt_def)
  next
    case (Cons c cs)
    obtain c' h1 where 1: "run_state (UpdateService_DeepCopyInto c) h = (c', h1)" by (rule prod.exhaust)
    have "serviceAddrs c \<subseteq> {..<h_next h}" using Cons.prems(1) by simp
    note c1 = copiesD [OF copies_service this 1]
    obtain cs' h2 where 2: "run_state (copyItems cs) h1 = (cs', h2)" by (rule prod.exhaust)
    have "(\<Union>c \<in> set cs. serviceAddrs c) \<subseteq> {..<h_next h1}" using Cons.prems(1) c1(1) by auto
    note c2 = Cons.IH [OF this 2]
    have y: "y = c' # cs'" "h' = h2" using Cons.prems(2) 1 2 by simp_all
    have same: "sameAt {..<h_next h} h h2"
      using sameAt_trans [OF c1(2) sameAt_subset] c2 c1(1) by (meson lessThan_subset_iff)
    have "readService h2 c' = readService h1 c'"
      using c2 sameAt_subset [OF _ below [OF c1(4)]] by (blast intro: readService_sameAt)
    moreover have "map (readService h1) cs = map (readService h) cs"
      using Cons.prems(1) by (auto intro!: readService_sameAt sameAt_subset [OF c1(2)])
    ultimately show ?case using c1 c2 same by (auto simp: y)
  qed
qed

lemma copies_list: "copies readList listAddrs UpdateServiceList_DeepCopyInto"
proof (rule copiesI)
  fix l h y h'
  assume fp: "listAddrs h l \<subseteq> {..<h_next h}" and run: "run_state (UpdateServiceList_DeepCopyInto l) h = (y, h')"
  show "h_next h \<le> h_next h' \<and> sameAt {..<h_next h} h h' \<and> readList h' y = readList h l \<and>
      listAddrs h' y \<subseteq> {h_next h..<h_next h'}"
  proof (cases "lc_Items l")
    case None
    then show ?thesis
      using run by (auto simp: UpdateServiceList_DeepCopyInto_def sameAt_def listAddrs_def arrayOf_def)
  next
    case (Some s)
    let ?h1 = "h\<lparr>h_next := Suc (h_next h)\<rparr>" and ?cs = "elements (h_items h) (lc_Items l)"
    obtain cs' h2 where 2: "run_state (copyItems ?cs) ?h1 = (cs', h2)" by (rule prod.exhaust)
    have "(\<Union>c \<in> set ?cs. serviceAddrs c) \<subseteq> {..<h_next ?h1}" using fp by (auto simp: listAddrs_def)
    note c = copiesD [OF copies_items this 2]
    have y: "y = l\<lparr>lc_Items := Some (Slice (h_next h) (s_len s))\<rparr>"
      "h' = h2\<lparr>h_items := (h_items h2)(h_next h := cs')\<rparr>"
      using run 2 by (simp_all add: UpdateServiceList_DeepCopyInto_def Some heap_steps)
    have len: "length cs' \<le> s_len s"
      using arg_cong [OF c(3), of length] by (cases s) (simp add: Some)
    have read: "readService h' = readService h2"
      by (simp add: y(2) fun_eq_iff readService_def readMeta_def readStatus_def)
    have "readService ?h1 = readService h"
      by (simp add: fun_eq_iff readService_def readMeta_def readStatus_def)
    then have "readList h' y = readList h l"
      using c(3) len by (simp add: readList_def read) (simp add: y)
    moreover have "sameAt {..<h_next h} h h'"
      using c(2) by (simp add: sameAt_def y)
    moreover have "listAddrs h' y \<subseteq> {h_next h..<h_next h'}"
      using c(1,4) len by (auto simp: listAddrs_def arrayOf_def y)
    ultimately show ?thesis using c(1) by (simp add: y)
  qed
qed

section \<open>Writing through a pointer\<close>

text \<open>
  The writes of \<open>Reconcile\<close> to its copy: the status is reset, conditions are set by
  \<open>SetStatusCondition(&p.Status.Conditions, ...)\<close> and the URI is assigned. Setting a condition writes
  into the array if the type is there, and appends otherwise: in place if the array has room, else
  to a new array (of the least possible capacity).
\<close>

fun conditionIndex :: "string \<Rightarrow> condition list \<Rightarrow> nat option" where
  "conditionIndex ty [] = None"
| "conditionIndex ty (c # cs) = (if cond_Type c = ty then Some 0 else map_option Suc (conditionIndex ty cs))"

definition conditionSetTo :: "time \<Rightarrow> time \<Rightarrow> condition \<Rightarrow> condition \<Rightarrow> condition" where
  "conditionSetTo tt ht new old =
     old\<lparr>cond_Status := cond_Status new,
         cond_LastTransitionTime :=
           (if cond_Status old \<noteq> cond_Status new then tt else cond_LastTransitionTime old),
         cond_Reason := cond_Reason new, cond_Message := cond_Message new, cond_LastHeartbeatTime := ht\<rparr>"

definition storeStatus :: "addr \<Rightarrow> (status_cell \<Rightarrow> status_cell) \<Rightarrow> heap \<Rightarrow> heap" where
  "storeStatus p f h =
     h\<lparr>h_services := (h_services h)(p := (h_services h p)\<lparr>uc_Status := f (uc_Status (h_services h p))\<rparr>)\<rparr>"

definition appendCondition :: "addr \<Rightarrow> condition \<Rightarrow> heap \<Rightarrow> heap" where
  "appendCondition p x h =
     (let sl = sc_Conditions (uc_Status (h_services h p)); a' = h_next h;
          grown = storeStatus p (\<lambda>st. st\<lparr>sc_Conditions := Some (Slice a' (Suc (length (elements (h_conditions h) sl))))\<rparr>)
            (h\<lparr>h_conditions := (h_conditions h)(a' := elements (h_conditions h) sl @ [x]), h_next := Suc a'\<rparr>)
      in case sl of
           None \<Rightarrow> grown
         | Some (Slice a n) \<Rightarrow>
             if n < length (h_conditions h a)
             then storeStatus p (\<lambda>st. st\<lparr>sc_Conditions := Some (Slice a (Suc n))\<rparr>)
               (h\<lparr>h_conditions := (h_conditions h)(a := (h_conditions h a)[n := x])\<rparr>)
             else grown)"

definition setConditionAt :: "addr \<Rightarrow> condition \<Rightarrow> time \<Rightarrow> time \<Rightarrow> heap \<Rightarrow> heap" where
  "setConditionAt p new tt ht h =
     (let sl = sc_Conditions (uc_Status (h_services h p)); cs = elements (h_conditions h) sl
      in case (conditionIndex (cond_Type new) cs, sl) of
           (Some i, Some (Slice a n)) \<Rightarrow>
             h\<lparr>h_conditions := (h_conditions h)(a := (h_conditions h a)[i := conditionSetTo tt ht new (cs ! i)])\<rparr>
         | _ \<Rightarrow> appendCondition p (new\<lparr>cond_LastTransitionTime := tt, cond_LastHeartbeatTime := ht\<rparr>) h)"

datatype status_write = ClearStatus | SetURI string | SetCondition condition time time

fun writeAt :: "addr \<Rightarrow> status_write \<Rightarrow> heap \<Rightarrow> heap" where
  "writeAt p ClearStatus h = storeStatus p (\<lambda>_. \<lparr>sc_Conditions = None, sc_PolicyEngineURI = []\<rparr>) h"
| "writeAt p (SetURI uri) h = storeStatus p (\<lambda>st. st\<lparr>sc_PolicyEngineURI := uri\<rparr>) h"
| "writeAt p (SetCondition new tt ht) h = setConditionAt p new tt ht h"

text \<open>The same writes on the value.\<close>

definition conditionsWith :: "condition \<Rightarrow> time \<Rightarrow> time \<Rightarrow> condition list \<Rightarrow> condition list" where
  "conditionsWith new tt ht cs =
     (case FindStatusCondition cs (cond_Type new) of
        None \<Rightarrow> cs @ [new\<lparr>cond_LastTransitionTime := tt, cond_LastHeartbeatTime := ht\<rparr>]
      | Some old \<Rightarrow> replaceFound (cond_Type new) (conditionSetTo tt ht new old) cs)"

fun writeStatus :: "status_write \<Rightarrow> us_status \<Rightarrow> us_status" where
  "writeStatus ClearStatus st = emptyStatus"
| "writeStatus (SetURI uri) st = st\<lparr>us_PolicyEngineURI := uri\<rparr>"
| "writeStatus (SetCondition new tt ht) st = st\<lparr>us_Conditions := conditionsWith new tt ht (us_Conditions st)\<rparr>"

text \<open>It is what \<open>SetStatusCondition\<close> does with the times it reads.\<close>

lemma conditionSetTo_eq:
  "conditionSetTo tt ht new old =
     (if cond_Status old = cond_Status new
      then old\<lparr>cond_Reason := cond_Reason new, cond_Message := cond_Message new, cond_LastHeartbeatTime := ht\<rparr>
      else old\<lparr>cond_Status := cond_Status new, cond_LastTransitionTime := tt, cond_Reason := cond_Reason new,
               cond_Message := cond_Message new, cond_LastHeartbeatTime := ht\<rparr>)"
  by (cases old) (simp add: conditionSetTo_def)

lemma SetStatusCondition_writes:
  "\<exists>tt ht. se_status (snd (run_state (SetStatusCondition r new) s)) =
     writeStatus (SetCondition new tt ht) (se_status s)"
proof (cases "FindStatusCondition (us_Conditions (se_status s)) (cond_Type new)")
  case None
  then show ?thesis
    by (auto simp: SetStatusCondition_def getStatus_def timeNow_def putStatus_def conditionsWith_def
        split: prod.splits)
next
  case (Some old)
  show ?thesis
    by (cases "cond_Status old = cond_Status new")
      (auto simp: Some SetStatusCondition_def getStatus_def timeNow_def putStatus_def conditionsWith_def
        conditionSetTo_eq split: prod.splits)
qed

section \<open>Separation\<close>

definition memory :: "heap \<Rightarrow> addr \<Rightarrow> addr set" where
  "memory h p = insert p (serviceAddrs (h_services h p))"

definition serviceAt :: "heap \<Rightarrow> addr \<Rightarrow> update_service" where
  "serviceAt h p = readService h (h_services h p)"

definition separate :: "heap \<Rightarrow> addr \<Rightarrow> addr \<Rightarrow> bool" where
  "separate h p q \<longleftrightarrow> memory h p \<union> memory h q \<subseteq> {..<h_next h} \<and> memory h p \<inter> memory h q = {}"

lemma conditionIndex_None: "conditionIndex ty cs = None \<longleftrightarrow> FindStatusCondition cs ty = None"
  by (induction cs) (auto simp: FindStatusCondition_def)

lemma conditionIndex_Some:
  "conditionIndex ty cs = Some i \<Longrightarrow> i < length cs \<and> FindStatusCondition cs ty = Some (cs ! i) \<and>
     (\<forall>c. cs[i := c] = replaceFound ty c cs)"
  by (induction cs arbitrary: i) (auto simp: FindStatusCondition_def split: if_splits)

text \<open>\<open>writes q h h' st\<close>: only the memory of \<open>q\<close> is written to, and its status is then \<open>st\<close>.\<close>

definition writes :: "addr \<Rightarrow> heap \<Rightarrow> heap \<Rightarrow> us_status \<Rightarrow> bool" where
  "writes q h h' st \<longleftrightarrow>
     h_next h \<le> h_next h' \<and> sameAt ({..<h_next h} - memory h q) h h' \<and>
     memory h' q \<subseteq> memory h q \<union> {h_next h..<h_next h'} \<and>
     serviceAt h' q = (serviceAt h q)\<lparr>us_Status := st\<rparr>"

lemmas heap_unfold = writes_def sameAt_def memory_def serviceAddrs_def serviceAt_def readService_def
  readMeta_def readStatus_def arrayOf_def

lemma storeStatus_writes:
  assumes "arrayOf (sc_Conditions (f (uc_Status (h_services h q)))) \<subseteq> memory h q"
  shows "writes q h (storeStatus q f h) (readStatus h (f (uc_Status (h_services h q))))"
  using assms by (auto simp: heap_unfold storeStatus_def)

lemma appendCondition_writes:
  assumes "memory h q \<subseteq> {..<h_next h}"
  shows "writes q h (appendCondition q x h)
    (us_Status (serviceAt h q)\<lparr>us_Conditions := us_Conditions (us_Status (serviceAt h q)) @ [x]\<rparr>)"
proof -
  let ?sl = "sc_Conditions (uc_Status (h_services h q))"
  have old: "map_option (h_maps h) m = map_option (h_maps h) m" for m by (rule refl)
  show ?thesis
  proof (cases "\<exists>a n. ?sl = Some (Slice a n) \<and> n < length (h_conditions h a)")
    case True
    then obtain a n where sl: "?sl = Some (Slice a n)" "n < length (h_conditions h a)" by blast
    then have "take (Suc n) ((h_conditions h a)[n := x]) = take n (h_conditions h a) @ [x]"
      by (simp add: take_Suc_conv_app_nth)
    then show ?thesis using sl by (auto simp: heap_unfold appendCondition_def storeStatus_def Let_def)
  next
    case False
    then have grown: "appendCondition q x h =
        storeStatus q (\<lambda>st. st\<lparr>sc_Conditions := Some (Slice (h_next h) (Suc (length (elements (h_conditions h) ?sl))))\<rparr>)
          (h\<lparr>h_conditions := (h_conditions h)(h_next h := elements (h_conditions h) ?sl @ [x]),
             h_next := Suc (h_next h)\<rparr>)"
      by (cases ?sl; cases "the ?sl") (auto simp: appendCondition_def Let_def)
    show ?thesis
      unfolding grown using assms by (auto simp: heap_unfold storeStatus_def)
  qed
qed

lemma setConditionAt_writes:
  assumes "memory h q \<subseteq> {..<h_next h}"
  shows "writes q h (setConditionAt q new tt ht h) (writeStatus (SetCondition new tt ht) (us_Status (serviceAt h q)))"
proof -
  let ?sl = "sc_Conditions (uc_Status (h_services h q))"
  let ?cs = "elements (h_conditions h) ?sl"
  have cs: "us_Conditions (us_Status (serviceAt h q)) = ?cs"
    by (simp add: serviceAt_def readService_def readStatus_def)
  show ?thesis
  proof (cases "conditionIndex (cond_Type new) ?cs")
    case None
    then have "setConditionAt q new tt ht h =
        appendCondition q (new\<lparr>cond_LastTransitionTime := tt, cond_LastHeartbeatTime := ht\<rparr>) h"
      by (simp add: setConditionAt_def Let_def)
    moreover have "FindStatusCondition ?cs (cond_Type new) = None" using None by (simp add: conditionIndex_None)
    ultimately show ?thesis
      using appendCondition_writes [OF assms] by (simp add: conditionsWith_def cs)
  next
    case (Some i)
    note i = conditionIndex_Some [OF Some]
    obtain a n where sl: "?sl = Some (Slice a n)" using i by (cases ?sl; cases "the ?sl") auto
    have "take n ((h_conditions h a)[i := c]) = replaceFound (cond_Type new) c ?cs" for c
      using i by (simp add: sl take_update_swap [symmetric])
    then show ?thesis
      using Some i by (auto simp: heap_unfold setConditionAt_def Let_def sl conditionsWith_def)
  qed
qed

lemma writeAt_writes:
  assumes "memory h q \<subseteq> {..<h_next h}"
  shows "writes q h (writeAt q wr h) (writeStatus wr (us_Status (serviceAt h q)))"
proof (cases wr)
  case ClearStatus
  then show ?thesis
    using storeStatus_writes [of "\<lambda>_. \<lparr>sc_Conditions = None, sc_PolicyEngineURI = []\<rparr>" h q]
    by (simp add: arrayOf_def readStatus_def emptyStatus_def)
next
  case (SetURI uri)
  then show ?thesis
    using storeStatus_writes [of "\<lambda>st. st\<lparr>sc_PolicyEngineURI := uri\<rparr>" h q]
    by (auto simp: memory_def serviceAddrs_def readStatus_def serviceAt_def readService_def)
next
  case (SetCondition new tt ht)
  then show ?thesis using setConditionAt_writes [OF assms] by simp
qed

lemma memory_sameAt:
  assumes "sameAt (memory h p) h h'"
  shows "memory h' p = memory h p" and "serviceAt h' p = serviceAt h p"
proof -
  have p: "h_services h' p = h_services h p" using assms by (simp add: sameAt_def memory_def)
  then show "memory h' p = memory h p" by (simp add: memory_def)
  show "serviceAt h' p = serviceAt h p"
    unfolding serviceAt_def p
    by (rule readService_sameAt, rule sameAt_subset [OF assms]) (auto simp: memory_def)
qed

lemma separate_write:
  assumes "separate h p q" and "h' = writeAt q wr h"
  shows "separate h' p q" and "serviceAt h' p = serviceAt h p"
    and "serviceAt h' q = (serviceAt h q)\<lparr>us_Status := writeStatus wr (us_Status (serviceAt h q))\<rparr>"
proof -
  have sep: "memory h p \<subseteq> {..<h_next h}" "memory h q \<subseteq> {..<h_next h}" "memory h p \<inter> memory h q = {}"
    using assms(1) by (auto simp: separate_def)
  have w: "writes q h h' (writeStatus wr (us_Status (serviceAt h q)))"
    unfolding assms(2) by (rule writeAt_writes [OF sep(2)])
  then show "serviceAt h' q = (serviceAt h q)\<lparr>us_Status := writeStatus wr (us_Status (serviceAt h q))\<rparr>"
    by (simp add: writes_def)
  have "sameAt (memory h p) h h'"
    using w sep by (auto simp: writes_def intro: sameAt_subset)
  note same = memory_sameAt [OF this]
  then show "serviceAt h' p = serviceAt h p" by simp
  show "separate h' p q"
    using w sep same(1) unfolding separate_def writes_def by fastforce
qed

lemma separate_writes:
  assumes "separate h p q"
  shows "serviceAt (fold (writeAt q) ws h) p = serviceAt h p"
    and "serviceAt (fold (writeAt q) ws h) q =
      (serviceAt h q)\<lparr>us_Status := fold writeStatus ws (us_Status (serviceAt h q))\<rparr>"
  using assms
proof (induction ws arbitrary: h)
  case (Cons wr ws)
  case 1
  then show ?case using Cons(1) separate_write [OF 1 refl, of wr] by simp
next
  case (Cons wr ws)
  case 2
  then show ?case using Cons(2) separate_write [OF 2 refl, of wr] by simp
qed simp_all

lemma deepCopy_separate:
  assumes "memory h p \<subseteq> {..<h_next h}" and "run_state (UpdateService_DeepCopy (Some p)) h = (res, h')"
  shows "\<exists>q. res = Some q \<and> separate h' p q \<and> serviceAt h' p = serviceAt h p \<and> serviceAt h' q = serviceAt h p"
proof -
  let ?h1 = "h\<lparr>h_next := Suc (h_next h)\<rparr>" and ?c = "h_services h p" and ?q = "h_next h"
  obtain c' h2 where 2: "run_state (UpdateService_DeepCopyInto ?c) ?h1 = (c', h2)" by (rule prod.exhaust)
  have "serviceAddrs ?c \<subseteq> {..<h_next ?h1}" using assms(1) by (auto simp: memory_def)
  note c = copiesD [OF copies_service this 2]
  have h': "res = Some ?q" "h' = h2\<lparr>h_services := (h_services h2)(?q := c')\<rparr>"
    using assms(2) 2 by (simp_all add: UpdateService_DeepCopy_def heap_steps)
  have same: "sameAt (memory h p) h h'"
    using c(2) assms(1) by (auto simp: sameAt_def h')
  have read: "readService h' = readService h2" "readService ?h1 = readService h"
    by (simp_all add: h' fun_eq_iff readService_def readMeta_def readStatus_def)
  have "memory h' ?q \<subseteq> {?q..<h_next h'}"
    using c(1,4) by (auto simp: memory_def h')
  then have "separate h' p ?q"
    using memory_sameAt(1) [OF same] assms(1) c(1) by (fastforce simp: separate_def h')
  moreover have "serviceAt h' ?q = serviceAt h p"
    using c(3) by (simp add: serviceAt_def read) (simp add: h')
  ultimately show ?thesis using memory_sameAt(2) [OF same] h'(1) by blast
qed

section \<open>Properties\<close>

text \<open>
  C20: a deep copy of an UpdateService reads the same and shares no memory with it. Whatever the
  operator then writes to the status of the copy (resetting it, setting conditions, the URI), the
  original, which belongs to the client's cache, stays as it was, and the copy reads as the value
  with the same writes.
\<close>

theorem deep_copy_isolated:
  assumes "memory h p \<subseteq> {..<h_next h}" and "run_state (UpdateService_DeepCopy (Some p)) h = (res, h1)"
  shows "\<exists>q. res = Some q \<and> memory h1 p \<inter> memory h1 q = {} \<and> serviceAt h1 q = serviceAt h p \<and>
    serviceAt (fold (writeAt q) ws h1) p = serviceAt h p \<and>
    serviceAt (fold (writeAt q) ws h1) q =
      (serviceAt h p)\<lparr>us_Status := fold writeStatus ws (us_Status (serviceAt h p))\<rparr>"
proof -
  obtain q where q: "res = Some q" "separate h1 p q" "serviceAt h1 p = serviceAt h p" "serviceAt h1 q = serviceAt h p"
    using deepCopy_separate [OF assms] by blast
  then show ?thesis using separate_writes [OF q(2)] by (auto simp: separate_def)
qed

text \<open>A heap with one UpdateService, whose array of conditions has room for one more.\<close>

definition exampleHeap :: heap where
  "exampleHeap =
     \<lparr>h_maps = (\<lambda>_. fmempty), h_owners = (\<lambda>_. []),
      h_conditions = (\<lambda>a. if a = 1 then replicate 2 (newCondition ConditionReconcileCompleted ConditionTrue [] []) else []),
      h_items = (\<lambda>_. []),
      h_services = (\<lambda>_.
        \<lparr>uc_gvk = \<lparr>gvk_Group = [], gvk_Version = [], gvk_Kind = []\<rparr>,
         uc_meta = \<lparr>mc_Name = ''app'', mc_Namespace = ''ns'', mc_UID = [], mc_Labels = None,
           mc_Annotations = None, mc_OwnerReferences = None, mc_other = []\<rparr>,
         uc_Spec = \<lparr>us_Replicas = 1, us_Releases = [], us_GraphDataImage = []\<rparr>,
         uc_Status = \<lparr>sc_Conditions = Some (Slice 1 1), sc_PolicyEngineURI = []\<rparr>\<rparr>),
      h_lists = (\<lambda>_. \<lparr>lc_gvk = \<lparr>gvk_Group = [], gvk_Version = [], gvk_Kind = []\<rparr>, lc_meta = [], lc_Items = None\<rparr>),
      h_specs = (\<lambda>_. \<lparr>us_Replicas = 1, us_Releases = [], us_GraphDataImage = []\<rparr>),
      h_statuses = (\<lambda>_. \<lparr>sc_Conditions = None, sc_PolicyEngineURI = []\<rparr>),
      h_next = 2\<rparr>"

theorem deep_copy_isolated_witness:
  "\<exists>q h1. run_state (UpdateService_DeepCopy (Some 0)) exampleHeap = (Some q, h1) \<and>
     serviceAt (writeAt q (SetCondition (newCondition ConditionReconcileError ConditionTrue [] []) 7 7) h1) 0 =
       serviceAt exampleHeap 0"
proof -
  have mem: "memory exampleHeap 0 \<subseteq> {..<h_next exampleHeap}"
    by (simp add: memory_def serviceAddrs_def metaAddrs_def arrayOf_def exampleHeap_def)
  obtain res h1 where run: "run_state (UpdateService_DeepCopy (Some 0)) exampleHeap = (res, h1)"
    by (rule prod.exhaust)
  from deep_copy_isolated [OF mem run,
      of "[SetCondition (newCondition ConditionReconcileError ConditionTrue [] []) 7 7]"] run
  show ?thesis by auto
qed

end
