(* ===== verification/ProcessProps.thy ===== *)
theory ProcessProps
  imports MainProgram
begin

text \<open>The start of the process: what the controller is built with, and how the process ends.\<close>

section \<open>Lemmas\<close>

lemma main_outcome:
  "mainProgram rt scheme env fl =
     (if \<exists>img ns mgr. env ''RELATED_IMAGE_OPERAND'' = Some img \<and> env ''POD_NAMESPACE'' = Some ns \<and>
           NewManager rt \<lparr>opt_Scheme = scheme, BindAddress = metricsAddr fl,
             LeaderElection = enableLeaderElection fl, LeaderElectionID = ''48ad1930.openshift.io'',
             DefaultNamespaces = [ns, OpenshiftConfigNamespace]\<rparr> = Inr mgr \<and>
           Complete rt mgr \<lparr>m_client = GetClient rt mgr, m_namespace = ns\<rparr>
             ((GetClient rt mgr)\<lparr>r_Scheme := typeToGVK (GetScheme rt mgr) UpdateServiceType,
                r_OperandImage := img, r_OperatorNamespace := ns\<rparr>) controllerWatches = None \<and>
           Start rt mgr = None
      then Returned else Exited 1)"
  by (auto simp: mainProgram_def configure_def getEnvVar_def SetupWithManager_def newReconciler_def
      split: option.splits sum.splits)

lemma main_init_ok:
  assumes "configv1 newScheme = Some (None, s1)" and "clientgo s1 = Some (None, s2)"
    and "routev1 s2 = Some (None, s)" and "foreignScheme s"
  shows "\<exists>s'. main_init configv1 clientgo routev1 = Some s' \<and>
    gvkToType s' = gvkToType s ++ map_of registered \<and>
    typeToGVK s' UpdateServiceType = [updateServiceGVK] \<and>
    typeToGVK s' UpdateServiceListType = [WithKind GroupVersion ''UpdateServiceList''] \<and>
    (\<forall>t. t \<notin> snd ` set registered \<longrightarrow> typeToGVK s' t = typeToGVK s t)"
proof -
  obtain s' where s': "AddToScheme s = Some (None, s')" "gvkToType s' = gvkToType s ++ map_of registered"
    "\<And>t. typeToGVK s' t = fold appendNew (map fst (filter (\<lambda>p. snd p = t) registered)) (typeToGVK s t)"
    using AddToScheme_ok [OF assms(4)] by blast
  have "main_init configv1 clientgo routev1 = Some s'"
    using assms(1-3) s'(1) by (simp add: main_init_def Must_def)
  moreover have "map fst (filter (\<lambda>p. snd p = UpdateServiceType) registered) = [updateServiceGVK]"
    "map fst (filter (\<lambda>p. snd p = UpdateServiceListType) registered) =
       [WithKind GroupVersion ''UpdateServiceList'']"
    by (simp_all add: packageKinds_def meta_simps v1_simps updateServiceGVK_def)
  moreover have "filter (\<lambda>p. snd p = t) registered = []" if "t \<notin> snd ` set registered" for t
    using that by (auto simp: filter_empty_conv)
  moreover have "typeToGVK s UpdateServiceType = []" "typeToGVK s UpdateServiceListType = []"
    using assms(4) by (simp_all add: foreignScheme_def)
  ultimately show ?thesis using s'(2,3) by (intro exI [of _ s']) (simp add: appendNew_def)
qed

section \<open>Properties\<close>

text \<open>
  C34: the process of the operator. When the other modules register their types without a clash
  with the operator's, \<open>init\<close> does not panic, and the kind of an UpdateService is the one that the
  owner references and the watches need. The process then runs until its manager stops exactly when
  both environment variables are set, the manager can be made for this scheme and a cache restricted
  to the operator's namespace and \<open>openshift-config\<close>, the controller is accepted (with the mapper
  for the operator's namespace, all watches, and the reconciler for the two variables and that
  kind), and the manager stops without an error; in every other case it exits with code 1.
\<close>

theorem operator_process:
  assumes "configv1 newScheme = Some (None, s1)" and "clientgo s1 = Some (None, s2)"
    and "routev1 s2 = Some (None, s)" and "foreignScheme s"
    and "\<And>opts mgr. NewManager rt opts = Inr mgr \<Longrightarrow> GetScheme rt mgr = opt_Scheme opts"
  shows "operatorProcess configv1 clientgo routev1 rt env fl =
     (if \<exists>scheme img ns mgr. main_init configv1 clientgo routev1 = Some scheme \<and>
           env ''RELATED_IMAGE_OPERAND'' = Some img \<and> env ''POD_NAMESPACE'' = Some ns \<and>
           NewManager rt \<lparr>opt_Scheme = scheme, BindAddress = metricsAddr fl,
             LeaderElection = enableLeaderElection fl, LeaderElectionID = ''48ad1930.openshift.io'',
             DefaultNamespaces = [ns, OpenshiftConfigNamespace]\<rparr> = Inr mgr \<and>
           Complete rt mgr \<lparr>m_client = GetClient rt mgr, m_namespace = ns\<rparr>
             ((GetClient rt mgr)\<lparr>r_Scheme := [updateServiceGVK], r_OperandImage := img,
                r_OperatorNamespace := ns\<rparr>) controllerWatches = None \<and>
           Start rt mgr = None
      then Returned else Exited 1)"
proof -
  obtain s' where s': "main_init configv1 clientgo routev1 = Some s'"
    "typeToGVK s' UpdateServiceType = [updateServiceGVK]"
    using main_init_ok [of configv1 s1 clientgo s2 routev1 s, OF assms(1-4)] by blast
  have kinds: "typeToGVK (GetScheme rt mgr) UpdateServiceType = [updateServiceGVK]"
    if "NewManager rt opts = Inr mgr" "opt_Scheme opts = s'" for opts mgr
    using assms(5) [OF that(1)] that(2) s'(2) by simp
  show ?thesis
    by (simp add: operatorProcess_def s'(1) main_outcome) (use kinds in fastforce)
qed

definition imageBuilder :: builder where
  "imageBuilder = packageBuilder \<lparr>gv_Group = ''config.openshift.io'', gv_Version = ''v1''\<rparr>
     [\<lparr>gt_PkgPath = ''github.com/openshift/api/config/v1'', gt_Name = ''Image''\<rparr>]"

lemma imageBuilder_foreign:
  "\<exists>s. runFuncs (bld_Funcs imageBuilder) newScheme = Some (None, s) \<and> foreignScheme s"
  unfolding imageBuilder_def
proof (rule package_foreign)
  show "foreignScheme newScheme" by (simp add: foreignScheme_def sharesMeta_def newScheme_def)
qed (auto simp: fits_def packageKinds_def meta_simps v1_simps newScheme_def)

text \<open>A manager that accepts the controller if its reconciler knows the kind of an UpdateService.\<close>

definition idleRuntime :: "(scheme, mem) runtime" where
  "idleRuntime =
     \<lparr>NewManager = (\<lambda>opts. Inr (opt_Scheme opts)), GetScheme = (\<lambda>mgr. mgr),
      GetClient = (\<lambda>_. memReconciler (\<lambda>_. [])),
      Complete = (\<lambda>mgr m r watches.
        if r_Scheme r = [updateServiceGVK] then None else Some (PlainError ''no kind registered'')),
      Start = (\<lambda>_. None)\<rparr>"

theorem operator_process_witness:
  "operatorProcess (runFuncs (bld_Funcs imageBuilder)) (\<lambda>s. Some (None, s)) (\<lambda>s. Some (None, s)) idleRuntime
     (\<lambda>v. Some (if v = ''POD_NAMESPACE'' then ''ns'' else ''img'')) \<lparr>metricsAddr = '':8080'', enableLeaderElection = False\<rparr>
     = Returned \<and>
   operatorProcess (runFuncs (bld_Funcs imageBuilder)) (\<lambda>s. Some (None, s)) (\<lambda>s. Some (None, s)) idleRuntime
     (\<lambda>v. None) \<lparr>metricsAddr = '':8080'', enableLeaderElection = False\<rparr> = Exited 1"
proof -
  obtain s where s: "runFuncs (bld_Funcs imageBuilder) newScheme = Some (None, s)" "foreignScheme s"
    using imageBuilder_foreign by blast
  obtain s' where s': "main_init (runFuncs (bld_Funcs imageBuilder)) (\<lambda>s. Some (None, s)) (\<lambda>s. Some (None, s)) = Some s'"
    using main_init_ok [of "runFuncs (bld_Funcs imageBuilder)" s "\<lambda>s. Some (None, s)" s "\<lambda>s. Some (None, s)" s, OF s(1) refl refl s(2)] by blast
  show ?thesis
    by (subst (1 2) operator_process [of "runFuncs (bld_Funcs imageBuilder)" s "\<lambda>s. Some (None, s)" s "\<lambda>s. Some (None, s)" s, OF s(1) refl refl s(2)])
      (simp_all add: idleRuntime_def s')
qed

end
