(* ===== verification/Rbac.thy ===== *)
theory Rbac
  imports ReconcileProps
begin

text \<open>
  The permissions of the operator: the markers above \<open>Reconcile\<close>
  (\<open>controllers/updateservice_controller.go\<close>), from which \<open>config/rbac/role.yaml\<close> is generated, and
  what the API server makes of them. A marker without a namespace becomes a rule of a ClusterRole,
  one with a namespace a rule of a Role there.
\<close>

section \<open>Definitions\<close>

record rule =
  ru_groups :: "string list"
  ru_resourceNames :: "string list"
  ru_resources :: "string list"
  ru_verbs :: "string list"
  ru_namespace :: "string option"

text \<open>The attributes of a request; a subresource follows the resource after a slash.\<close>

record attributes =
  at_verb :: string
  at_group :: string
  at_resource :: string
  at_namespace :: string
  at_name :: string

definition ruleAllows :: "attributes \<Rightarrow> rule \<Rightarrow> bool" where
  "ruleAllows a ru \<longleftrightarrow>
     pred_option (\<lambda>ns. ns = at_namespace a) (ru_namespace ru) \<and>
     at_verb a \<in> set (ru_verbs ru) \<and>
     at_group a \<in> set (ru_groups ru) \<and>
     (''*'' \<in> set (ru_resources ru) \<or> at_resource a \<in> set (ru_resources ru)) \<and>
     (ru_resourceNames ru = [] \<or> at_name a \<in> set (ru_resourceNames ru))"

definition readVerbs :: "string list" where
  "readVerbs = [''get'', ''list'', ''watch'']"

definition allVerbs :: "string list" where
  "allVerbs = [''create'', ''delete'', ''get'', ''list'', ''patch'', ''update'', ''watch'']"

definition clusterRule :: "string \<Rightarrow> string list \<Rightarrow> string list \<Rightarrow> rule" where
  "clusterRule grp resources verbs =
     \<lparr>ru_groups = [grp], ru_resourceNames = [], ru_resources = resources, ru_verbs = verbs,
      ru_namespace = None\<rparr>"

definition namespacedRule :: "string \<Rightarrow> string list \<Rightarrow> string list \<Rightarrow> rule" where
  "namespacedRule grp resources verbs =
     (clusterRule grp resources verbs)\<lparr>ru_namespace := Some ''openshift-update-service''\<rparr>"

text \<open>The markers, in order.\<close>

definition rbacRules :: "rule list" where
  "rbacRules =
     [clusterRule [] [''configmaps'', ''pods'', ''services'', ''secrets''] readVerbs,
      clusterRule ''apps'' [''deployments''] readVerbs,
      clusterRule ''networking.k8s.io'' [''networkpolicies''] readVerbs,
      clusterRule ''policy'' [''poddisruptionbudgets''] readVerbs,
      clusterRule ''config.openshift.io'' [''images''] readVerbs,
      clusterRule ''route.openshift.io'' [''routes''] readVerbs,
      clusterRule ''updateservice.operator.openshift.io'' [''*''] readVerbs,
      namespacedRule [] [''pods'', ''services'', ''services/finalizers'', ''endpoints'',
        ''persistentvolumeclaims'', ''events'', ''configmaps'', ''secrets''] allVerbs,
      (namespacedRule ''apps'' [''deployments/finalizers''] [''update''])
        \<lparr>ru_resourceNames := [''updateservice-operator'']\<rparr>,
      namespacedRule ''apps'' [''deployments'', ''daemonsets'', ''replicasets'', ''statefulsets''] allVerbs,
      namespacedRule ''monitoring.coreos.com'' [''servicemonitors''] [''create'', ''get''],
      namespacedRule ''networking.k8s.io'' [''networkpolicies''] allVerbs,
      namespacedRule ''policy'' [''poddisruptionbudgets''] allVerbs,
      namespacedRule ''route.openshift.io'' [''routes'']
        [''create'', ''get'', ''list'', ''patch'', ''update'', ''watch''],
      namespacedRule ''updateservice.operator.openshift.io'' [''*''] allVerbs]"

definition authorized :: "attributes \<Rightarrow> bool" where
  "authorized a \<longleftrightarrow> list_ex (ruleAllows a) rbacRules"

section \<open>Requests\<close>

fun groupOf :: "kind \<Rightarrow> string" where
  "groupOf ConfigMapKind = []"
| "groupOf SecretKind = []"
| "groupOf ServiceKind = []"
| "groupOf DeploymentKind = ''apps''"
| "groupOf PDBKind = ''policy''"
| "groupOf RouteKind = ''route.openshift.io''"
| "groupOf NetworkPolicyKind = ''networking.k8s.io''"
| "groupOf PodKind = []"
| "groupOf ImageKind = ''config.openshift.io''"
| "groupOf UpdateServiceKind = ''updateservice.operator.openshift.io''"

fun resourceOf :: "kind \<Rightarrow> string" where
  "resourceOf ConfigMapKind = ''configmaps''"
| "resourceOf SecretKind = ''secrets''"
| "resourceOf ServiceKind = ''services''"
| "resourceOf DeploymentKind = ''deployments''"
| "resourceOf PDBKind = ''poddisruptionbudgets''"
| "resourceOf RouteKind = ''routes''"
| "resourceOf NetworkPolicyKind = ''networkpolicies''"
| "resourceOf PodKind = ''pods''"
| "resourceOf ImageKind = ''images''"
| "resourceOf UpdateServiceKind = ''updateservices''"

definition attributesFor :: "string \<Rightarrow> kind \<Rightarrow> string \<Rightarrow> string \<Rightarrow> attributes" where
  "attributesFor verb k namespace name =
     \<lparr>at_verb = verb, at_group = groupOf k, at_resource = resourceOf k, at_namespace = namespace,
      at_name = name\<rparr>"

text \<open>The attributes under which the server sees a request; those of a create have no name.\<close>

fun attributesOf :: "api_call \<Rightarrow> attributes" where
  "attributesOf (Get k key) = attributesFor ''get'' k (nn_Namespace key) (nn_Name key)"
| "attributesOf (ListUpdateServices namespace) = attributesFor ''list'' UpdateServiceKind namespace []"
| "attributesOf (Create ob) = attributesFor ''create'' (objKind ob) (nn_Namespace (objKey ob)) []"
| "attributesOf (Update ob) = attributesFor ''update'' (objKind ob) (nn_Namespace (objKey ob)) (nn_Name (objKey ob))"
| "attributesOf (Delete ob) = attributesFor ''delete'' (objKind ob) (nn_Namespace (objKey ob)) (nn_Name (objKey ob))"
| "attributesOf (UpdateStatus us) =
     (attributesFor ''update'' UpdateServiceKind (instNamespace us) (instName us))
       \<lparr>at_resource := ''updateservices/status''\<rparr>"

text \<open>
  An object whose owner reference blocks the deletion of the owner may only be written by those who
  may update the finalizers of the owner.
\<close>

definition finalizersOf :: "update_service \<Rightarrow> attributes" where
  "finalizersOf us = (attributesFor ''update'' UpdateServiceKind (instNamespace us) (instName us))
     \<lparr>at_resource := ''updateservices/finalizers''\<rparr>"

section \<open>Lemmas\<close>

lemmas rbac_simps = authorized_def rbacRules_def ruleAllows_def clusterRule_def namespacedRule_def
  readVerbs_def allVerbs_def attributesFor_def

lemma reads_authorized:
  "verb \<in> set readVerbs \<Longrightarrow> authorized (attributesFor verb k namespace name)"
  by (cases k) (auto simp: rbac_simps)

lemma writes_authorized:
  assumes "k \<noteq> ImageKind" and "verb \<in> {''create'', ''update''} \<or> verb = ''delete'' \<and> k = PodKind"
  shows "authorized (attributesFor verb k ''openshift-update-service'' name)"
  using assms by (cases k) (auto simp: rbac_simps)

lemma finalizers_authorized:
  "instNamespace us = ''openshift-update-service'' \<Longrightarrow> authorized (finalizersOf us)"
  by (simp add: rbac_simps finalizersOf_def)

lemma allowed_authorized:
  assumes "allowedCall i c" and "instNamespace i = ''openshift-update-service''"
  shows "authorized (attributesOf c)"
proof -
  have owned: "nn_Namespace (objKey ob) = ''openshift-update-service'' \<and> objKind ob \<noteq> ImageKind"
    if "owned i ob" for ob
    using that assms(2) by (cases ob) (auto simp: owned_def ownedObjects_def Let_def)
  show ?thesis
  proof (cases c)
    case (Get k key)
    then show ?thesis by (simp add: reads_authorized readVerbs_def)
  next
    case (UpdateStatus us)
    then have "us_meta us = us_meta i" using assms(1) by simp (metis update_service.select_convs(2) update_service.surjective update_service.update_convs(4))
    then show ?thesis using assms(2) UpdateStatus by (simp add: rbac_simps)
  qed (use assms(1) owned writes_authorized in auto)
qed

lemma writes_stay:
  assumes "authorized a" and "at_verb a \<notin> set readVerbs"
  shows "at_namespace a = ''openshift-update-service''"
proof -
  obtain ru where "ru \<in> set rbacRules" "ruleAllows a ru" using assms(1) by (auto simp: authorized_def list_ex_iff)
  moreover have "ru_verbs ru = readVerbs \<or> ru_namespace ru = Some ''openshift-update-service''"
    if "ru \<in> set rbacRules" for ru
    using that by (auto simp: rbacRules_def clusterRule_def namespacedRule_def)
  ultimately show ?thesis using assms(2) by (fastforce simp: ruleAllows_def)
qed

text \<open>The kinds that the controller's caches list and watch.\<close>

definition watchedKinds :: "kind list" where
  "watchedKinds = map (\<lambda>w. case w of For k \<Rightarrow> k | Owns k \<Rightarrow> k | Watches k \<Rightarrow> k) controllerWatches"

section \<open>Properties\<close>

text \<open>
  C32: least privilege. In the namespace that the roles are for, the operator is allowed to do
  everything it does: every request of a reconcile, the listing and watching of all kinds that the
  controller watches, in every namespace, and the blocking of an UpdateService's deletion by what
  it owns. And the roles allow it nothing but reads outside of that namespace.
\<close>

theorem requests_authorized:
  assumes "honest r" and "r_OperatorNamespace r = ''openshift-update-service''"
    and "runReconcile r req w = (res, w', calls)"
  shows "list_all (\<lambda>c. authorized (attributesOf c)) calls \<and>
    (\<forall>k \<in> set watchedKinds. \<forall>ns. authorized (attributesFor ''list'' k ns []) \<and>
       authorized (attributesFor ''watch'' k ns [])) \<and>
    (\<forall>us. instNamespace us = r_OperatorNamespace r \<longrightarrow> authorized (finalizersOf us)) \<and>
    (\<forall>a. authorized a \<and> at_verb a \<notin> set readVerbs \<longrightarrow> at_namespace a = r_OperatorNamespace r)"
proof -
  have "list_all (\<lambda>c. authorized (attributesOf c)) calls"
    using allowed_requests [OF assms(1,3)]
  proof (elim disjE exE conjE)
    fix i w1
    assume "instNamespace i = r_OperatorNamespace r"
      and calls: "list_all (allowedCall (i\<lparr>us_Status := emptyStatus\<rparr>)) calls"
    then have "instNamespace (i\<lparr>us_Status := emptyStatus\<rparr>) = ''openshift-update-service''"
      using assms(2) by simp
    with calls show ?thesis by (auto simp: list_all_iff intro: allowed_authorized)
  qed (simp_all add: reads_authorized readVerbs_def)
  then show ?thesis
    using reads_authorized finalizers_authorized writes_stay assms(2) by (auto simp: readVerbs_def)
qed

theorem requests_authorized_witness:
  "let r = (memReconciler (\<lambda>_. []))\<lparr>r_OperatorNamespace := ''openshift-update-service''\<rparr>;
       i = exampleInstance\<lparr>us_meta := newMeta ''app'' ''openshift-update-service''\<rparr>
   in list_all (\<lambda>c. authorized (attributesOf c))
        (snd (snd (runReconcile r (namespacedName ''app'' ''openshift-update-service'')
           (memWorld [UpdateServiceObj i])))) \<and>
      \<not> authorized (attributesFor ''update'' SecretKind OpenshiftConfigNamespace ''pull-secret'')"
proof -
  let ?r = "(memReconciler (\<lambda>_. []))\<lparr>r_OperatorNamespace := ''openshift-update-service''\<rparr>"
  let ?i = "exampleInstance\<lparr>us_meta := newMeta ''app'' ''openshift-update-service''\<rparr>"
  let ?req = "namespacedName ''app'' ''openshift-update-service''"
  obtain res w' calls where run: "runReconcile ?r ?req (memWorld [UpdateServiceObj ?i]) = (res, w', calls)"
    by (rule prod_cases3)
  have "honest ?r" using honest_mem [of "\<lambda>_. []"] by (simp add: honest_def)
  from requests_authorized [OF this _ run]
  have "list_all (\<lambda>c. authorized (attributesOf c)) calls \<and>
      (\<forall>a. authorized a \<and> at_verb a \<notin> set readVerbs \<longrightarrow> at_namespace a = ''openshift-update-service'')"
    by simp
  then show ?thesis
    using run by (fastforce simp: attributesFor_def readVerbs_def OpenshiftConfigNamespace_def)
qed

end
