(* ===== verification/FuncTests.thy ===== *)
theory FuncTests
  imports Scheme
begin

text \<open>
  \<open>functests/utils.go\<close>: the clients that the functional tests use and how they wait, with the
  vendored \<open>wait.Poll\<close> below them. The cluster, \<open>oc\<close>, the clock and client-go's constructors are
  parameters; a panic is \<open>None\<close>. Log output is not modelled.
\<close>

section \<open>Polling\<close>

type_synonym duration = int

definition Second :: duration where "Second = 1000000000"

definition Minute :: duration where "Minute = 60 * Second"

definition ErrWaitTimeout :: go_error where
  "ErrWaitTimeout = PlainError ''timed out waiting for the condition''"

text \<open>
  The poller's channel, as the number of signals that come out of it before it is closed: one for
  every tick before the timeout for which the receiver is ready.
\<close>

definition poller :: "duration \<Rightarrow> duration \<Rightarrow> bool list \<Rightarrow> nat" where
  "poller interval timeout ready =
     length (filter (\<lambda>b. b) (take (nat (timeout div interval)) ready))"

text \<open>The condition is run once for every signal and once more when the channel is closed.\<close>

fun waitForSignals :: "nat \<Rightarrow> ('w, go_error + bool) state \<Rightarrow> ('w, go_error option) state" where
  "waitForSignals signals cond = do {
     res \<leftarrow> cond;
     (case res of
        Inl err \<Rightarrow> return (Some err)
      | Inr ok \<Rightarrow>
          if ok then return None
          else (case signals of
              0 \<Rightarrow> return (Some ErrWaitTimeout)
            | Suc n \<Rightarrow> waitForSignals n cond))
   }"

definition Poll ::
    "bool list \<Rightarrow> duration \<Rightarrow> duration \<Rightarrow> ('w, go_error + bool) state \<Rightarrow> ('w, go_error option) state" where
  "Poll ready interval timeout cond = waitForSignals (poller interval timeout ready) cond"

section \<open>Constants and parameters\<close>

definition customResourceName :: string where "customResourceName = ''example''"

definition operatorNamespace :: string where "operatorNamespace = ''openshift-update-service''"

definition resource :: string where "resource = ''updateservices''"

definition replicas :: int where "replicas = 1"

definition retryInterval :: duration where "retryInterval = Second * 30"

definition pollTimeout :: duration where "pollTimeout = Minute * 20"

text \<open>The fields of \<open>rest.Config\<close> that are set here.\<close>

record rest_config =
  rc_ContentType :: string
  rc_GroupVersion :: "group_version option"
  rc_NegotiatedSerializer :: string
  rc_APIPath :: string
  rc_UserAgent :: string

record ('k, 'u) client_go =
  BuildConfigFromFlags :: "string \<Rightarrow> string \<Rightarrow> go_error + rest_config"
  NewForConfig :: "rest_config \<Rightarrow> go_error + 'k"
  RESTClientFor :: "rest_config \<Rightarrow> go_error + 'u"
  DefaultKubernetesUserAgent :: string
  WithoutConversion :: string

text \<open>The requests; the one for a Deployment gives the number of available replicas.\<close>

record ('k, 'u, 'w) cluster =
  getAvailableReplicas :: "'k \<Rightarrow> namespaced_name \<Rightarrow> ('w, go_error + int32) state"
  getService :: "'k \<Rightarrow> namespaced_name \<Rightarrow> ('w, go_error option) state"
  deleteNamed :: "'u \<Rightarrow> string \<Rightarrow> namespaced_name \<Rightarrow> ('w, go_error option) state"
  runCommand :: "string list \<Rightarrow> ('w, go_error + string) state"

fun IsAlreadyExists :: "go_error \<Rightarrow> bool" where
  "IsAlreadyExists (StatusError reason code text) = (reason = ''AlreadyExists'')"
| "IsAlreadyExists (PlainError text) = False"

section \<open>Clients\<close>

definition getConfig :: "('k, 'u) client_go \<Rightarrow> environ \<Rightarrow> go_error + rest_config" where
  "getConfig cg getenv =
     (case BuildConfigFromFlags cg [] (getenv ''KUBECONFIG'') of
        Inl err \<Rightarrow> Inl err
      | Inr config \<Rightarrow> Inr config)"

definition getK8sClient :: "('k, 'u) client_go \<Rightarrow> environ \<Rightarrow> go_error + 'k" where
  "getK8sClient cg getenv =
     (case getConfig cg getenv of
        Inl err \<Rightarrow> Inl err
      | Inr config \<Rightarrow>
          (case NewForConfig cg config of
             Inl err2 \<Rightarrow> Inl err2
           | Inr k8sClient \<Rightarrow> Inr k8sClient))"

definition getUpdateServiceClient :: "('k, 'u) client_go \<Rightarrow> environ \<Rightarrow> go_error + 'u" where
  "getUpdateServiceClient cg getenv =
     (case getConfig cg getenv of
        Inl err \<Rightarrow> Inl err
      | Inr config \<Rightarrow>
          (let config = config\<lparr>rc_ContentType := ''application/json'', rc_GroupVersion := Some GroupVersion,
                 rc_NegotiatedSerializer := WithoutConversion cg, rc_APIPath := ''/apis''\<rparr>;
               config = (if rc_UserAgent config = [] then config\<lparr>rc_UserAgent := DefaultKubernetesUserAgent cg\<rparr>
                 else config)
           in case RESTClientFor cg config of
                Inl err \<Rightarrow> Inl err
              | Inr updateserviceClient \<Rightarrow> Inr updateserviceClient))"

section \<open>Operations\<close>

definition deployCR :: "('k, 'u, 'w) cluster \<Rightarrow> ('w, go_error option) state" where
  "deployCR cl = do {
     output \<leftarrow> runCommand cl [''oc'', ''apply'', ''-f'',
       ''../config/samples/updateservice.operator.openshift.io_v1_updateservice_cr.yaml'', ''-n'',
       operatorNamespace];
     return (case output of Inl err \<Rightarrow> Some err | Inr _ \<Rightarrow> None)
   }"

definition deploymentAvailable ::
    "('k, 'u, 'w) cluster \<Rightarrow> 'k \<Rightarrow> string \<Rightarrow> ('w, go_error + bool) state" where
  "deploymentAvailable cl k8sClient name = do {
     res \<leftarrow> getAvailableReplicas cl k8sClient (namespacedName name operatorNamespace);
     return (case res of
         Inl err \<Rightarrow> if IsNotFound err then Inr False else Inl err
       | Inr available \<Rightarrow> if sint available \<ge> replicas then Inr True else Inr False)
   }"

definition waitForDeployment ::
    "('k, 'u, 'w) cluster \<Rightarrow> bool list \<Rightarrow> 'k \<Rightarrow> string \<Rightarrow> ('w, go_error option) state" where
  "waitForDeployment cl ready k8sClient name = do {
     err \<leftarrow> Poll ready retryInterval pollTimeout (deploymentAvailable cl k8sClient name);
     return (case err of
         Some e \<Rightarrow> if \<not> IsAlreadyExists e then Some e else None
       | None \<Rightarrow> None)
   }"

definition serviceAvailable ::
    "('k, 'u, 'w) cluster \<Rightarrow> 'k \<Rightarrow> string \<Rightarrow> ('w, go_error + bool) state" where
  "serviceAvailable cl k8sClient name = do {
     res \<leftarrow> getService cl k8sClient (namespacedName name operatorNamespace);
     return (case res of
         Some err2 \<Rightarrow> if IsNotFound err2 then Inr False else Inl err2
       | None \<Rightarrow> Inr True)
   }"

definition waitForService ::
    "('k, 'u, 'w) cluster \<Rightarrow> bool list \<Rightarrow> 'k \<Rightarrow> string \<Rightarrow> ('w, go_error option) state" where
  "waitForService cl ready k8sClient name =
     Poll ready retryInterval pollTimeout (serviceAvailable cl k8sClient name)"

text \<open>The error of \<open>getUpdateServiceClient\<close> is not looked at: its nil client is dereferenced.\<close>

definition deleteCR ::
    "('k, 'u) client_go \<Rightarrow> environ \<Rightarrow> ('k, 'u, 'w) cluster \<Rightarrow> ('w, go_error option option) state" where
  "deleteCR cg getenv cl =
     (case getUpdateServiceClient cg getenv of
        Inl _ \<Rightarrow> return None
      | Inr updateserviceClient \<Rightarrow> do {
          err \<leftarrow> deleteNamed cl updateserviceClient resource (namespacedName customResourceName operatorNamespace);
          return (Some (case err of
              Some e \<Rightarrow> if \<not> IsNotFound e then Some e else None
            | None \<Rightarrow> None))
        })"

section \<open>Lemmas\<close>

text \<open>The state before, and the answer to, the \<open>j\<close>-th of a series of the same request.\<close>

definition stateAt :: "('w, 'a) state \<Rightarrow> nat \<Rightarrow> 'w \<Rightarrow> 'w" where
  "stateAt m j = ((\<lambda>w. snd (run_state m w)) ^^ j)"

definition replyAt :: "('w, 'a) state \<Rightarrow> nat \<Rightarrow> 'w \<Rightarrow> 'a" where
  "replyAt m j w = fst (run_state m (stateAt m j w))"

lemma stateAt_simps [simp]:
  "stateAt m 0 w = w" "stateAt m (Suc j) w = stateAt m j (snd (run_state m w))"
  by (simp_all add: stateAt_def funpow_Suc_right del: funpow.simps)

lemma replyAt_Suc: "replyAt m (Suc j) w = replyAt m j (snd (run_state m w))"
  by (simp add: replyAt_def)

text \<open>The request is made until it is answered for good, or one time more than there are signals.\<close>

lemma waitForSignals_run:
  "\<exists>j \<le> signals. (\<forall>i < j. replyAt cond i w = Inr False) \<and>
     (j = signals \<or> replyAt cond j w \<noteq> Inr False) \<and>
     run_state (waitForSignals signals cond) w =
       (case replyAt cond j w of
          Inl err \<Rightarrow> Some err
        | Inr ok \<Rightarrow> if ok then None else Some ErrWaitTimeout, stateAt cond (Suc j) w)"
proof (induction signals arbitrary: w)
  case 0
  show ?case by (auto simp: replyAt_def split: prod.split sum.split)
next
  case (Suc signals)
  obtain res w1 where run: "run_state cond w = (res, w1)" by (rule prod.exhaust)
  show ?case
  proof (cases "res = Inr False")
    case False
    then show ?thesis using run
      by (intro exI [of _ 0]) (auto simp: replyAt_def split: sum.split)
  next
    case True
    obtain j where "j \<le> signals" "\<forall>i < j. replyAt cond i w1 = Inr False"
      "j = signals \<or> replyAt cond j w1 \<noteq> Inr False"
      "run_state (waitForSignals signals cond) w1 =
         (case replyAt cond j w1 of
            Inl err \<Rightarrow> Some err
          | Inr ok \<Rightarrow> if ok then None else Some ErrWaitTimeout, stateAt cond (Suc j) w1)"
      using Suc.IH by blast
    then show ?thesis using run True
      by (intro exI [of _ "Suc j"]) (auto simp: replyAt_def less_Suc_eq_0_disj)
  qed
qed

lemma replyAt_map:
  assumes "\<And>w. run_state m' w = (f (fst (run_state m w)), snd (run_state m w))"
  shows "stateAt m' j w = stateAt m j w" and "replyAt m' j w = f (replyAt m j w)"
proof -
  have "(\<lambda>w. snd (run_state m' w)) = (\<lambda>w. snd (run_state m w))" by (simp add: assms)
  then show *: "stateAt m' j w = stateAt m j w" for j by (simp add: stateAt_def)
  show "replyAt m' j w = f (replyAt m j w)" by (simp add: replyAt_def assms *)
qed

lemma poller_bound: "poller retryInterval pollTimeout ready \<le> 40"
proof -
  have "nat (pollTimeout div retryInterval) = 40"
    by (simp add: pollTimeout_def retryInterval_def Minute_def Second_def)
  then show ?thesis
    by (auto simp: poller_def intro: order_trans [OF length_filter_le])
qed

section \<open>Properties\<close>

text \<open>An answer that lets \<open>waitForDeployment\<close> go on waiting: there is no Deployment, or not all replicas.\<close>

definition unavailable :: "go_error + int32 \<Rightarrow> bool" where
  "unavailable res = (case res of Inl err \<Rightarrow> IsNotFound err | Inr available \<Rightarrow> sint available < 1)"

definition askReplicas :: "('k, 'u, 'w) cluster \<Rightarrow> 'k \<Rightarrow> string \<Rightarrow> ('w, go_error + int32) state" where
  "askReplicas cl k8sClient name = getAvailableReplicas cl k8sClient (namespacedName name operatorNamespace)"

text \<open>
  C40: waiting for a Deployment ends, whatever the cluster answers: after at most 41 requests, all
  but the last of them answered with no Deployment or one without available replicas. It succeeds
  if the last answer has an available replica (or is the error that something already exists),
  returns any other error than that there is no Deployment, and times out otherwise, which happens
  only when all signals of the poller have been used up.
\<close>

theorem waitForDeployment_ends:
  "\<exists>j \<le> 40. (\<forall>i < j. unavailable (replyAt (askReplicas cl k8sClient name) i w)) \<and>
    (unavailable (replyAt (askReplicas cl k8sClient name) j w) \<longrightarrow> j = poller retryInterval pollTimeout ready) \<and>
    run_state (waitForDeployment cl ready k8sClient name) w =
      (case replyAt (askReplicas cl k8sClient name) j w of
         Inl err \<Rightarrow> if IsNotFound err then Some ErrWaitTimeout else if IsAlreadyExists err then None else Some err
       | Inr available \<Rightarrow> if 1 \<le> sint available then None else Some ErrWaitTimeout,
       stateAt (askReplicas cl k8sClient name) (Suc j) w)"
proof -
  let ?get = "askReplicas cl k8sClient name"
  let ?cond = "deploymentAvailable cl k8sClient name" and ?n = "poller retryInterval pollTimeout ready"
  let ?f = "\<lambda>res. case res of
      Inl err \<Rightarrow> if IsNotFound err then Inr False else Inl err
    | Inr (available :: int32) \<Rightarrow> if sint available \<ge> replicas then Inr True else Inr False"
  have cond: "run_state ?cond w = (?f (fst (run_state ?get w)), snd (run_state ?get w))" for w
    by (simp add: deploymentAvailable_def askReplicas_def split: prod.split)
  note reply = replyAt_map(2) [OF cond] and state = replyAt_map(1) [OF cond]
  have wait: "?f res = Inr False \<longleftrightarrow> unavailable res" for res
    by (auto simp: unavailable_def replicas_def split: sum.split)
  obtain j where j: "j \<le> ?n" "\<forall>i < j. replyAt ?cond i w = Inr False"
    "j = ?n \<or> replyAt ?cond j w \<noteq> Inr False"
    "run_state (waitForSignals ?n ?cond) w =
       (case replyAt ?cond j w of
          Inl err \<Rightarrow> Some err
        | Inr ok \<Rightarrow> if ok then None else Some ErrWaitTimeout, stateAt ?cond (Suc j) w)"
    using waitForSignals_run [of ?n ?cond w] by blast
  have "run_state (waitForDeployment cl ready k8sClient name) w =
      (case replyAt ?get j w of
         Inl err \<Rightarrow> if IsNotFound err then Some ErrWaitTimeout else if IsAlreadyExists err then None else Some err
       | Inr available \<Rightarrow> if 1 \<le> sint available then None else Some ErrWaitTimeout,
       stateAt ?get (Suc j) w)"
    by (simp add: waitForDeployment_def Poll_def j(4) reply state ErrWaitTimeout_def replicas_def
        del: stateAt_simps waitForSignals.simps split: sum.split)
  moreover have "j \<le> 40" using j(1) poller_bound [of ready] by simp
  moreover have "\<forall>i < j. unavailable (replyAt ?get i w)" using j(2) by (simp add: reply wait)
  moreover have "unavailable (replyAt ?get j w) \<longrightarrow> j = ?n" using j(3) by (auto simp: reply wait)
  ultimately show ?thesis by blast
qed

text \<open>A cluster in which the Deployment appears at once and is available at the second look.\<close>

definition exampleCluster :: "(unit, unit, nat) cluster" where
  "exampleCluster =
     \<lparr>getAvailableReplicas = (\<lambda>_ _. State (\<lambda>n. (Inr (of_nat n), Suc n))),
      getService = (\<lambda>_ _. return None), deleteNamed = (\<lambda>_ _ _. return None),
      runCommand = (\<lambda>_. return (Inr []))\<rparr>"

theorem waitForDeployment_ends_witness:
  "\<exists>j \<le> 40. run_state (waitForDeployment exampleCluster [True, True] () ''app'') 0 = (None, Suc j)"
proof -
  let ?get = "askReplicas exampleCluster () ''app''"
  have state: "stateAt ?get j n = n + j" for j n
    by (induction j arbitrary: n) (simp_all add: exampleCluster_def askReplicas_def)
  have reply: "replyAt ?get j n = Inr (of_nat (n + j))" for j n
    by (simp add: replyAt_def state) (simp add: exampleCluster_def askReplicas_def)
  have n: "poller retryInterval pollTimeout [True, True] = 2"
    by (simp add: poller_def pollTimeout_def retryInterval_def Minute_def Second_def)
  obtain j where j: "j \<le> 40" "\<forall>i < j. unavailable (replyAt ?get i 0)"
    "unavailable (replyAt ?get j 0) \<longrightarrow> j = 2"
    "run_state (waitForDeployment exampleCluster [True, True] () ''app'') 0 =
      (case replyAt ?get j 0 of
         Inl err \<Rightarrow> if IsNotFound err then Some ErrWaitTimeout else if IsAlreadyExists err then None else Some err
       | Inr available \<Rightarrow> if 1 \<le> sint available then None else Some ErrWaitTimeout,
       stateAt ?get (Suc j) 0)"
    using waitForDeployment_ends [of exampleCluster "()" "''app''" 0 "[True, True]"] unfolding n by blast
  have "unavailable (replyAt ?get i 0) \<longleftrightarrow> i = 0" if "i \<le> 40" for i
  proof -
    have "sint (of_nat i :: int32) = int i"
      using that by (simp add: signed_of_nat signed_take_bit_int_eq_self)
    then show ?thesis by (simp add: reply unavailable_def)
  qed
  then have "j = 1" using j(1,2,3) by (cases j) (auto dest: spec [of _ 1])
  then show ?thesis using j(4) by (simp add: reply state del: stateAt_simps)
qed

end
