(* ===== verification/Results.thy ===== *)
theory Results
  imports ReconcileProps
begin

text \<open>
  The results of a reconcile: which outcomes of the first read and of the route name check lead to
  which of the three kinds of result, and so to which of the branches of the controller that decide
  when the request is run again.
\<close>

section \<open>Results of the parts\<close>

definition retried :: "reconcile_result \<Rightarrow> bool" where
  "retried res \<longleftrightarrow> res = \<lparr>RequeueAfter = fiveMinutes, Err = None\<rparr> \<or> (\<exists>e. res = failedResult e)"

lemma retried_intros [simp]:
  "retried (failedResult e)" "retried \<lparr>RequeueAfter = fiveMinutes, Err = None\<rparr>" "\<not> retried emptyResult"
  by (auto simp: retried_def emptyResult_def failedResult_def fiveMinutes_def)

lemma triple_any: "(\<And>a. triple (\<lambda>_. True) (f a) Q) \<Longrightarrow> triple (\<lambda>_. True) (State_Monad.bind m f) Q"
  by (rule triple_bind [of _ _ "\<lambda>_ _. True"]) (auto simp: triple_def)

lemma ensureAll_retried: "triple (\<lambda>_. True) (ensureAll r i k) (\<lambda>res _. retried res)"
  unfolding ensureAll_def
  by (intro triple_any) (auto intro!: triple_any triple_return split: option.split)

lemma reconcileInstance_retried:
  assumes "validateRouteName i (nn_Name req) (nn_Namespace req) = None"
  shows "triple (\<lambda>_. True) (reconcileInstance r req i) (\<lambda>res _. retried res)"
  unfolding reconcileInstance_def assms
  by (auto intro!: triple_any triple_return ensureAll_retried split: sum.split)

lemma reconcileInstance_rejected:
  assumes "validateRouteName i (nn_Name req) (nn_Namespace req) = Some err"
  shows "triple (\<lambda>_. True) (reconcileInstance r req i) (\<lambda>res _. res = emptyResult)"
  unfolding reconcileInstance_def assms by (auto intro!: triple_any triple_return)

section \<open>All results\<close>

lemma reconcile_result_cases:
  "if nn_Namespace req \<noteq> r_OperatorNamespace r then runReconcile r req w = (emptyResult, w, [])
   else (case r_api r (Get UpdateServiceKind req) w of
       (Failed e, w1) \<Rightarrow>
         runReconcile r req w =
           (if IsNotFound e then emptyResult else failedResult e, w1, [Get UpdateServiceKind req])
     | (Found (UpdateServiceObj i), w1) \<Rightarrow>
         if validateRouteName i (nn_Name req) (nn_Namespace req) = None
         then retried (fst (runReconcile r req w)) else fst (runReconcile r req w) = emptyResult
     | (_, w1) \<Rightarrow> runReconcile r req w = (failedResult wrongType, w1, [Get UpdateServiceKind req]))"
proof (cases "nn_Namespace req = r_OperatorNamespace r")
  case False
  then show ?thesis by (simp add: runReconcile_def Reconcile_def)
next
  case True
  obtain ans w1 where get: "r_api r (Get UpdateServiceKind req) w = (ans, w1)" by (rule prod.exhaust)
  show ?thesis
  proof (cases "\<exists>i. ans = Found (UpdateServiceObj i)")
    case False
    then show ?thesis
      using True get
      by (auto simp: runReconcile_def Reconcile_def getObj_def invoke_def wrongType_def
          split: api_result.splits kobject.splits)
  next
    case found: True
    then obtain i where i: "ans = Found (UpdateServiceObj i)" by blast
    have same: "validateRouteName (i\<lparr>us_Status := emptyStatus\<rparr>) n m = validateRouteName i n m" for n m
      by (simp add: validateRouteName_def namePolicyEngineRoute_def)
    let ?s = "\<lparr>se_world = w1, se_status = emptyStatus, se_calls = [Get UpdateServiceKind req]\<rparr>"
    obtain res s where run: "run_state (reconcileInstance r req (i\<lparr>us_Status := emptyStatus\<rparr>)) ?s = (res, s)"
      by (rule prod.exhaust)
    then have "fst (runReconcile r req w) = res"
      using Reconcile_found [OF True get [unfolded i]] by (simp add: runReconcile_eq)
    then show ?thesis
      using True get i tripleD [OF reconcileInstance_retried _ run] tripleD [OF reconcileInstance_rejected _ run]
      by (auto simp: same)
  qed
qed

section \<open>Properties\<close>

text \<open>
  C10: the result of every reconcile. A request for another namespace than the operator's is ignored:
  no request to the server, nothing changed, no error and no requeue. A request whose UpdateService is
  gone makes one read and ends without an error; any other failure of that read is returned, to be
  retried. An UpdateService that is found but has no valid route name ends the reconcile without an
  error and without a requeue; in every other case the result is an error, or asks for the next run
  five minutes later.
\<close>

theorem reconcile_results:
  "if nn_Namespace req \<noteq> r_OperatorNamespace r then runReconcile r req w = (emptyResult, w, [])
   else (case r_api r (Get UpdateServiceKind req) w of
       (Failed e, w1) \<Rightarrow>
         runReconcile r req w =
           (if IsNotFound e then emptyResult else failedResult e, w1, [Get UpdateServiceKind req])
     | (Found (UpdateServiceObj i), w1) \<Rightarrow>
         if validateRouteName i (nn_Name req) (nn_Namespace req) = None
         then retried (fst (runReconcile r req w)) else fst (runReconcile r req w) = emptyResult
     | (_, w1) \<Rightarrow> runReconcile r req w = (failedResult wrongType, w1, [Get UpdateServiceKind req]))"
  by (rule reconcile_result_cases)

end
