(* ===== verification/WorkQueue.thy ===== *)
theory WorkQueue
  imports Prelude "HOL-Library.Sublist"
begin

text \<open>
  The queue of reconcile requests, vendored from client-go (\<open>util/workqueue\<close>): the basic queue, the
  delaying queue on top of it and the rate limiting queue on top of that one, as three records of which
  each extends the one before. The lock makes every operation one step; metrics are left out. The
  locale \<open>item_queue\<close> is the contract of the basic queue that the controller relies on.
\<close>

section \<open>The basic queue (queue.go)\<close>

record 'a work_queue =
  wq_queue :: "'a list"
  wq_dirty :: "'a set"
  wq_processing :: "'a set"
  wq_shuttingDown :: bool

definition Add :: "'a \<Rightarrow> ('a, 'z) work_queue_scheme \<Rightarrow> ('a, 'z) work_queue_scheme" where
  "Add item q =
     (if wq_shuttingDown q then q
      else if item \<in> wq_dirty q then q
      else let q1 = q\<lparr>wq_dirty := insert item (wq_dirty q)\<rparr>
           in if item \<in> wq_processing q1 then q1
              else q1\<lparr>wq_queue := wq_queue q1 @ [item]\<rparr>)"

text \<open>\<open>Get\<close> of the queue; \<open>None\<close> where it blocks, or reports the shutdown of an empty queue.\<close>

definition GetItem :: "('a, 'z) work_queue_scheme \<Rightarrow> ('a \<times> ('a, 'z) work_queue_scheme) option" where
  "GetItem q =
     (case wq_queue q of
        [] \<Rightarrow> None
      | item # rest \<Rightarrow>
          Some (item, q\<lparr>wq_queue := rest, wq_processing := insert item (wq_processing q),
                       wq_dirty := wq_dirty q - {item}\<rparr>))"

text \<open>\<open>Done\<close> of the queue.\<close>

definition DoneItem :: "'a \<Rightarrow> ('a, 'z) work_queue_scheme \<Rightarrow> ('a, 'z) work_queue_scheme" where
  "DoneItem item q =
     (let q1 = q\<lparr>wq_processing := wq_processing q - {item}\<rparr>
      in if item \<in> wq_dirty q1 then q1\<lparr>wq_queue := wq_queue q1 @ [item]\<rparr> else q1)"

definition ShutDown :: "('a, 'z) work_queue_scheme \<Rightarrow> ('a, 'z) work_queue_scheme" where
  "ShutDown q = q\<lparr>wq_shuttingDown := True\<rparr>"

section \<open>The delaying queue (delaying_queue.go)\<close>

text \<open>
  \<open>wq_adding\<close> is the channel \<open>waitingForAddCh\<close>, and \<open>wq_waiting\<close> stands for the heap
  \<open>waitingForQueue\<close> and its index \<open>waitingEntryByData\<close>: the entries with the times at which they are
  ready, in the order they came in.
\<close>

record 'a delaying_queue = "'a work_queue" +
  wq_adding :: "('a \<times> int) list"
  wq_waiting :: "('a \<times> int) list"

definition AddAfter ::
    "int \<Rightarrow> 'a \<Rightarrow> int \<Rightarrow> ('a, 'z) delaying_queue_scheme \<Rightarrow> ('a, 'z) delaying_queue_scheme" where
  "AddAfter now item duration q =
     (if wq_shuttingDown q then q
      else if duration \<le> 0 then Add item q
      else q\<lparr>wq_adding := wq_adding q @ [(item, now + duration)]\<rparr>)"

text \<open>\<open>insert\<close>: an entry that waits already only gets an earlier time.\<close>

fun insertEntry :: "('a \<times> int) list \<Rightarrow> 'a \<times> int \<Rightarrow> ('a \<times> int) list" where
  "insertEntry [] entry = [entry]"
| "insertEntry (existing # es) entry =
     (if fst existing = fst entry
      then (if snd entry < snd existing then (fst existing, snd entry) else existing) # es
      else existing # insertEntry es entry)"

text \<open>The two parts of a round of \<open>waitingLoop\<close>: adding what is ready, and receiving one entry.\<close>

definition addReady :: "int \<Rightarrow> ('a, 'z) delaying_queue_scheme \<Rightarrow> ('a, 'z) delaying_queue_scheme" where
  "addReady now q =
     fold Add (map fst (sort_key snd (filter (\<lambda>e. snd e \<le> now) (wq_waiting q))))
       (q\<lparr>wq_waiting := filter (\<lambda>e. \<not> snd e \<le> now) (wq_waiting q)\<rparr>)"

definition receiveEntry :: "int \<Rightarrow> ('a, 'z) delaying_queue_scheme \<Rightarrow> ('a, 'z) delaying_queue_scheme" where
  "receiveEntry now q =
     (case wq_adding q of
        [] \<Rightarrow> q
      | entry # rest \<Rightarrow>
          if now < snd entry
          then q\<lparr>wq_adding := rest, wq_waiting := insertEntry (wq_waiting q) entry\<rparr>
          else Add (fst entry) (q\<lparr>wq_adding := rest\<rparr>))"

section \<open>The rate limiting queue (rate_limiting_queue.go, default_rate_limiters.go)\<close>

record 'a rate_limiting_queue = "'a delaying_queue" +
  wq_failures :: "'a \<Rightarrow> nat"

definition baseDelay :: int where "baseDelay = 5 * 10 ^ 6"

definition maxDelay :: int where "maxDelay = 1000 * 10 ^ 9"

text \<open>
  The delay of \<open>ItemExponentialFailureRateLimiter\<close> after some failures; the product is exact in a
  \<open>float64\<close> as far as it is not cut off.
\<close>

definition backoffDelay :: "nat \<Rightarrow> int" where
  "backoffDelay exp =
     (let backoff = baseDelay * 2 ^ exp
      in if backoff > 2 ^ 63 - 1 then maxDelay
         else if backoff > maxDelay then maxDelay else backoff)"

text \<open>
  \<open>AddRateLimited\<close> with the limiters of \<open>DefaultControllerRateLimiter\<close>; the delay that the token
  bucket shared by all items asks for is the argument \<open>bucket\<close>.
\<close>

definition AddRateLimited ::
    "int \<Rightarrow> int \<Rightarrow> 'a \<Rightarrow> 'a rate_limiting_queue \<Rightarrow> 'a rate_limiting_queue" where
  "AddRateLimited now bucket item q =
     AddAfter now item (max (max 0 (backoffDelay (wq_failures q item))) bucket)
       (q\<lparr>wq_failures := (wq_failures q)(item := Suc (wq_failures q item))\<rparr>)"

definition Forget :: "'a \<Rightarrow> 'a rate_limiting_queue \<Rightarrow> 'a rate_limiting_queue" where
  "Forget item q = q\<lparr>wq_failures := (wq_failures q)(item := 0)\<rparr>"

definition newQueue :: "'a rate_limiting_queue" where
  "newQueue = \<lparr>wq_queue = [], wq_dirty = {}, wq_processing = {}, wq_shuttingDown = False,
     wq_adding = [], wq_waiting = [], wq_failures = (\<lambda>_. 0)\<rparr>"

section \<open>The contract of the basic queue\<close>

text \<open>
  A queue with the items still to be handed out, whether or not they are being processed, and those
  being processed: what is added is to be handed out; an item is handed out only while nobody processes
  it, and only because it was added; nothing is left behind when \<open>get\<close> finds nothing.
\<close>

locale item_queue =
  fixes wf :: "'q \<Rightarrow> bool" and todo :: "'q \<Rightarrow> 'a set" and busy :: "'q \<Rightarrow> 'a set"
    and add :: "'a \<Rightarrow> 'q \<Rightarrow> 'q" and get :: "'q \<Rightarrow> ('a \<times> 'q) option" and finish :: "'a \<Rightarrow> 'q \<Rightarrow> 'q"
  assumes add: "wf q \<Longrightarrow> wf (add x q) \<and> todo (add x q) = insert x (todo q) \<and> busy (add x q) = busy q"
    and get_Some: "wf q \<Longrightarrow> get q = Some (x, q') \<Longrightarrow> wf q' \<and> x \<in> todo q \<and> x \<notin> busy q \<and>
      todo q' = todo q - {x} \<and> busy q' = insert x (busy q)"
    and get_None: "wf q \<Longrightarrow> get q = None \<Longrightarrow> todo q \<subseteq> busy q"
    and finish: "wf q \<Longrightarrow> x \<in> busy q \<Longrightarrow> wf (finish x q) \<and> todo (finish x q) = todo q \<and>
      busy (finish x q) = busy q - {x}"
begin

lemma add_all:
  assumes "wf q"
  shows "wf (fold add xs q) \<and> todo (fold add xs q) = set xs \<union> todo q \<and> busy (fold add xs q) = busy q"
  using assms by (induction xs arbitrary: q) (auto simp: add)

lemma get_iff:
  assumes "wf q" and "busy q = {}"
  shows "get q = None \<longleftrightarrow> todo q = {}"
proof
  show "todo q = {}" if "get q = None" using get_None [OF assms(1) that] assms(2) by simp
  show "get q = None" if "todo q = {}"
    using get_Some [OF assms(1)] that by (cases "get q") auto
qed

end

section \<open>The vendored queue keeps it\<close>

text \<open>The invariant that the comments in \<open>queue.go\<close> state, of a queue that is not shutting down.\<close>

definition queueOK :: "('a, 'z) work_queue_scheme \<Rightarrow> bool" where
  "queueOK q \<longleftrightarrow> distinct (wq_queue q) \<and> set (wq_queue q) = wq_dirty q - wq_processing q \<and> \<not> wq_shuttingDown q"

interpretation wq: item_queue queueOK wq_dirty wq_processing Add GetItem DoneItem
proof (unfold_locales, goal_cases)
  case (1 q x)
  then show ?case by (auto simp: queueOK_def Add_def Let_def)
next
  case (2 q x q')
  then obtain rest where q: "wq_queue q = x # rest"
    "q' = q\<lparr>wq_queue := rest, wq_processing := insert x (wq_processing q), wq_dirty := wq_dirty q - {x}\<rparr>"
    by (auto simp: GetItem_def split: list.splits)
  then have "distinct (x # rest)" "set (x # rest) = wq_dirty q - wq_processing q"
    using 2(1) by (auto simp only: queueOK_def)
  then show ?case using 2(1) q(2) by (simp add: queueOK_def) blast
next
  case (3 q)
  then show ?case by (auto simp: queueOK_def GetItem_def split: list.splits)
next
  case (4 q x)
  then show ?case by (auto simp: queueOK_def DoneItem_def Let_def)
qed

lemma queueOK_new [simp]: "queueOK newQueue"
  by (simp add: queueOK_def newQueue_def)

lemma queueOK_update [simp]:
  "queueOK (q\<lparr>wq_adding := a\<rparr>) = queueOK q"
  "queueOK (q\<lparr>wq_waiting := w\<rparr>) = queueOK q"
  "queueOK (q'\<lparr>wq_failures := f\<rparr>) = queueOK q'"
  by (simp_all add: queueOK_def)

lemma Add_frame [simp]:
  "wq_adding (Add x q) = wq_adding q" "wq_waiting (Add x q) = wq_waiting q"
  "wq_failures (Add x q') = wq_failures q'" "wq_shuttingDown (Add x q'') = wq_shuttingDown q''"
  by (simp_all add: Add_def Let_def)

lemma Add_all_frame [simp]:
  "wq_adding (fold Add xs q) = wq_adding q" "wq_waiting (fold Add xs q) = wq_waiting q"
  by (induction xs arbitrary: q) simp_all

lemma GetItem_frame:
  "GetItem q = Some (x, q') \<Longrightarrow> wq_adding q' = wq_adding q \<and> wq_waiting q' = wq_waiting q"
  by (auto simp: GetItem_def split: list.splits)

lemma DoneItem_frame [simp]:
  "wq_adding (DoneItem x q) = wq_adding q" "wq_waiting (DoneItem x q) = wq_waiting q"
  by (simp_all add: DoneItem_def Let_def)

section \<open>Items that wait\<close>

text \<open>The entries that will be added at some time, in the channel or in the heap.\<close>

definition delayed :: "('a, 'z) delaying_queue_scheme \<Rightarrow> ('a \<times> int) set" where
  "delayed q = set (wq_adding q) \<union> set (wq_waiting q)"

definition waits :: "'a \<Rightarrow> int \<Rightarrow> ('a, 'z) delaying_queue_scheme \<Rightarrow> bool" where
  "waits x until q \<longleftrightarrow> (\<exists>t \<le> until. (x, t) \<in> delayed q)"

lemma waits_mono: "waits x t q \<Longrightarrow> t \<le> t' \<Longrightarrow> waits x t' q"
  unfolding waits_def by (meson order_trans)

lemma waitsI: "(x, t') \<in> delayed q \<Longrightarrow> t' \<le> t \<Longrightarrow> waits x t q"
  by (auto simp: waits_def)

lemma insertEntry_keeps:
  "(x, t) \<in> set es \<Longrightarrow> \<exists>t' \<le> t. (x, t') \<in> set (insertEntry es e)"
proof (induction es)
  case (Cons a es)
  show ?case
  proof (cases "(x, t) = a")
    case True
    then show ?thesis by (cases "fst e = x \<and> snd e < t") (auto intro: exI [of _ t] exI [of _ "snd e"])
  next
    case False
    then show ?thesis using Cons by auto
  qed
qed simp

lemma insertEntry_enters:
  "\<exists>t' \<le> snd e. (fst e, t') \<in> set (insertEntry es e)"
proof (induction es)
  case (Cons a es)
  show ?case
  proof (cases "fst a = fst e")
    case True
    then show ?thesis by (cases a; cases "snd e < snd a") (auto simp: not_less)
  qed (use Cons in auto)
qed (cases e, auto)

text \<open>An entry is never lost: it stays, with a time that is not later, or its item is to be handed out.\<close>

lemma waits_receive:
  assumes "queueOK q" and "waits x t q"
  shows "waits x t (receiveEntry now q) \<or> x \<in> wq_dirty (receiveEntry now q)"
proof -
  obtain t' where t': "t' \<le> t" "(x, t') \<in> delayed q" using assms(2) by (auto simp: waits_def)
  show ?thesis
  proof (cases "wq_adding q")
    case Nil
    then show ?thesis using assms(2) by (simp add: receiveEntry_def)
  next
    case (Cons e rest)
    show ?thesis
    proof (cases "now < snd e")
      case True
      have "\<exists>u \<le> t'. (x, u) \<in> set rest \<union> set (insertEntry (wq_waiting q) e)"
        using t'(2) Cons insertEntry_enters [of e "wq_waiting q"] insertEntry_keeps [of x t' "wq_waiting q" e]
        by (auto simp: delayed_def)
      then obtain u where "u \<le> t'" "(x, u) \<in> delayed (receiveEntry now q)"
        using True Cons by (auto simp: receiveEntry_def delayed_def)
      then show ?thesis using t'(1) waitsI [of x u] by force
    next
      case False
      then show ?thesis
        using t' Cons wq.add [of "q\<lparr>wq_adding := rest\<rparr>" "fst e"] assms(1)
        by (auto simp: receiveEntry_def waits_def delayed_def)
    qed
  qed
qed

lemma queueOK_receive:
  "queueOK q \<Longrightarrow> queueOK (receiveEntry now q) \<and> wq_processing (receiveEntry now q) = wq_processing q \<and>
     wq_dirty q \<subseteq> wq_dirty (receiveEntry now q)"
  using wq.add [of "q\<lparr>wq_adding := tl (wq_adding q)\<rparr>"]
  by (auto simp: receiveEntry_def split: list.split)

lemma queueOK_ready:
  assumes "queueOK q"
  shows "queueOK (addReady now q)" and "wq_processing (addReady now q) = wq_processing q"
    and "wq_dirty (addReady now q) = {x. \<exists>t \<le> now. (x, t) \<in> set (wq_waiting q)} \<union> wq_dirty q"
    and "wq_adding (addReady now q) = wq_adding q"
    and "wq_waiting (addReady now q) = filter (\<lambda>e. \<not> snd e \<le> now) (wq_waiting q)"
  using wq.add_all [of "q\<lparr>wq_waiting := filter (\<lambda>e. \<not> snd e \<le> now) (wq_waiting q)\<rparr>"] assms
  by (force simp: addReady_def image_iff)+

lemma waits_ready:
  assumes "queueOK q" and "waits x t q"
  shows "waits x t (addReady now q) \<or> x \<in> wq_dirty (addReady now q)"
proof -
  obtain t' where "t' \<le> t" "(x, t') \<in> delayed q" using assms(2) by (auto simp: waits_def)
  then show ?thesis
    by (cases "t' \<le> now") (auto simp: queueOK_ready [OF assms(1)] waits_def delayed_def intro!: exI [of _ t'])
qed

lemma AddAfter_OK:
  "queueOK q \<Longrightarrow> queueOK (AddAfter now x d q) \<and> wq_processing (AddAfter now x d q) = wq_processing q \<and>
     wq_dirty q \<subseteq> wq_dirty (AddAfter now x d q) \<and> delayed q \<subseteq> delayed (AddAfter now x d q) \<and>
     (x \<in> wq_dirty (AddAfter now x d q) \<or> waits x (now + d) (AddAfter now x d q))"
  using wq.add [of q x] by (auto simp: AddAfter_def delayed_def waits_def queueOK_def [of q])

lemma backoff_bound: "0 < backoffDelay n \<and> backoffDelay n \<le> maxDelay"
  by (simp add: backoffDelay_def baseDelay_def maxDelay_def Let_def)

section \<open>Turns\<close>

text \<open>Only taking an item shortens the queue; everything else appends to it.\<close>

lemma prefix_Add: "prefix (wq_queue q) (wq_queue (Add x q))"
  by (simp add: Add_def Let_def)

lemma prefix_Add_all: "prefix (wq_queue q) (wq_queue (fold Add xs q))"
  by (induction xs arbitrary: q) (auto intro: prefix_Add prefix_order.trans)

lemma prefix_DoneItem: "prefix (wq_queue q) (wq_queue (DoneItem x q))"
  by (simp add: DoneItem_def Let_def)

lemma prefix_AddAfter: "prefix (wq_queue q) (wq_queue (AddAfter now x d q))"
  by (simp add: AddAfter_def prefix_Add)

lemma prefix_receiveEntry: "prefix (wq_queue q) (wq_queue (receiveEntry now q))"
  using prefix_Add [of "q\<lparr>wq_adding := tl (wq_adding q)\<rparr>"]
  by (auto simp: receiveEntry_def split: list.split)

lemma prefix_addReady: "prefix (wq_queue q) (wq_queue (addReady now q))"
  using prefix_Add_all [of "q\<lparr>wq_waiting := filter (\<lambda>e. \<not> snd e \<le> now) (wq_waiting q)\<rparr>"]
  by (simp add: addReady_def)

text \<open>The number of items before one.\<close>

definition ahead :: "'a \<Rightarrow> ('a, 'z) work_queue_scheme \<Rightarrow> nat" where
  "ahead x q = length (takeWhile (\<lambda>y. y \<noteq> x) (wq_queue q))"

lemma ahead_prefix:
  assumes "x \<in> set (wq_queue q)" and "prefix (wq_queue q) (wq_queue q')"
  shows "x \<in> set (wq_queue q')" and "ahead x q' = ahead x q"
  using assms by (auto simp: ahead_def prefix_def takeWhile_append1)

lemma ahead_GetItem:
  assumes "x \<in> set (wq_queue q)" and "GetItem q = Some (y, q')" and "y \<noteq> x"
  shows "x \<in> set (wq_queue q')" and "ahead x q = Suc (ahead x q')"
  using assms by (auto simp: GetItem_def ahead_def split: list.splits)

end
