(* ===== verification/Controller.thy ===== *)
theory Controller
  imports Results Mapper WorkQueue
begin

text \<open>
  The operator as a running process: what the watches report, the queue of requests, the worker that
  takes requests from it and reconciles them, and everybody else changing the cluster meanwhile, as a
  step relation. The worker is \<open>processNextWorkItem\<close> and \<open>reconcileHandler\<close> of controller-runtime
  (\<open>pkg/internal/controller/controller.go\<close>); \<open>SetupWithManager\<close> leaves the number of workers at its
  default, which is one.
\<close>

section \<open>The worker\<close>

text \<open>
  What is done with the result of a reconcile: an error puts the request back after a growing delay, a
  \<open>RequeueAfter\<close> after that time. No error of the operator is a \<open>TerminalError\<close> and no result asks
  for \<open>Requeue\<close>.
\<close>

definition reconcileHandler ::
    "'w reconciler \<Rightarrow> int \<Rightarrow> int \<Rightarrow> namespaced_name \<Rightarrow> 'w \<times> namespaced_name rate_limiting_queue \<Rightarrow>
       'w \<times> namespaced_name rate_limiting_queue" where
  "reconcileHandler r now bucket req = (\<lambda>(w, q).
     case runReconcile r req w of
       (result, w', calls) \<Rightarrow>
         (w', case Err result of
                Some err \<Rightarrow> AddRateLimited now bucket req q
              | None \<Rightarrow>
                  if RequeueAfter result > 0
                  then AddAfter now req (RequeueAfter result) (Forget req q)
                  else Forget req q))"

section \<open>Steps\<close>

text \<open>
  The state of the process and its surroundings: the world as the cache shows it to the operator, the
  events that the watches have yet to deliver, the queue, the request that the worker has taken, and
  the time. Two ghosts, which no step looks at: what was stored under a key when the last reconcile of
  it began, and the reconciles so far.
\<close>

record 'w controller =
  ctl_world :: 'w
  ctl_events :: "kobject list"
  ctl_queue :: "namespaced_name rate_limiting_queue"
  ctl_worker :: "namespaced_name option"
  ctl_now :: int
  ctl_read :: "namespaced_name \<Rightarrow> kobject option"
  ctl_log :: "namespaced_name list"

text \<open>
  When the world changes, the watches report at least every UpdateService that is new or has changed.
\<close>

definition announced ::
    "('w \<Rightarrow> kind \<Rightarrow> namespaced_name \<Rightarrow> kobject option) \<Rightarrow> 'w \<Rightarrow> 'w \<Rightarrow> kobject list \<Rightarrow> bool" where
  "announced lookup w w' evs \<longleftrightarrow>
     (\<forall>key ob. lookup w' UpdateServiceKind key = Some ob \<longrightarrow>
        lookup w UpdateServiceKind key = Some ob \<or> ob \<in> set evs)"

inductive controllerStep ::
    "('w \<Rightarrow> kind \<Rightarrow> namespaced_name \<Rightarrow> kobject option) \<Rightarrow> 'w reconciler \<Rightarrow> 'w mapper \<Rightarrow>
       group_version_kind \<Rightarrow> int \<Rightarrow> 'w controller \<Rightarrow> 'w controller \<Rightarrow> bool"
  for lookup :: "'w \<Rightarrow> kind \<Rightarrow> namespaced_name \<Rightarrow> kobject option" and r :: "'w reconciler"
    and m :: "'w mapper" and ownerType :: group_version_kind and bound :: int
where
  environment:
    "announced lookup (ctl_world st) w' evs \<Longrightarrow>
     controllerStep lookup r m ownerType bound st
       (st\<lparr>ctl_world := w', ctl_events := ctl_events st @ evs\<rparr>)"
| deliver:
    "ctl_events st = before @ ob # after \<Longrightarrow>
     run_state (handleEvent m ownerType ob controllerWatches) (startSession (ctl_world st)) = (reqs, s) \<Longrightarrow>
     announced lookup (ctl_world st) (se_world s) evs \<Longrightarrow>
     controllerStep lookup r m ownerType bound st
       (st\<lparr>ctl_world := se_world s, ctl_events := before @ after @ evs,
           ctl_queue := fold Add reqs (ctl_queue st)\<rparr>)"
| tick:
    "ctl_now st \<le> t \<Longrightarrow> controllerStep lookup r m ownerType bound st (st\<lparr>ctl_now := t\<rparr>)"
| receive:
    "controllerStep lookup r m ownerType bound st
       (st\<lparr>ctl_queue := receiveEntry (ctl_now st) (ctl_queue st)\<rparr>)"
| ready:
    "controllerStep lookup r m ownerType bound st
       (st\<lparr>ctl_queue := addReady (ctl_now st) (ctl_queue st)\<rparr>)"
| take:
    "ctl_worker st = None \<Longrightarrow> GetItem (ctl_queue st) = Some (req, q) \<Longrightarrow>
     controllerStep lookup r m ownerType bound st (st\<lparr>ctl_queue := q, ctl_worker := Some req\<rparr>)"
| reconcile:
    "ctl_worker st = Some req \<Longrightarrow> bucket \<le> bound \<Longrightarrow>
     reconcileHandler r (ctl_now st) bucket req (ctl_world st, ctl_queue st) = (w', q) \<Longrightarrow>
     announced lookup (ctl_world st) w' evs \<Longrightarrow>
     controllerStep lookup r m ownerType bound st
       (st\<lparr>ctl_world := w', ctl_events := ctl_events st @ evs, ctl_queue := DoneItem req q,
           ctl_worker := None, ctl_read := (ctl_read st)(req := lookup (ctl_world st) UpdateServiceKind req),
           ctl_log := ctl_log st @ [req]\<rparr>)"

text \<open>
  The process starts with an empty queue and an event for every UpdateService there is, from the first
  list of the watch.
\<close>

definition started :: "('w \<Rightarrow> kind \<Rightarrow> namespaced_name \<Rightarrow> kobject option) \<Rightarrow> 'w controller \<Rightarrow> bool" where
  "started lookup st \<longleftrightarrow>
     ctl_queue st = newQueue \<and> ctl_worker st = None \<and>
     (\<forall>key ob. lookup (ctl_world st) UpdateServiceKind key = Some ob \<longrightarrow> ob \<in> set (ctl_events st))"

inductive controllerReachable ::
    "('w \<Rightarrow> kind \<Rightarrow> namespaced_name \<Rightarrow> kobject option) \<Rightarrow> 'w reconciler \<Rightarrow> 'w mapper \<Rightarrow>
       group_version_kind \<Rightarrow> int \<Rightarrow> 'w controller \<Rightarrow> bool"
  for lookup :: "'w \<Rightarrow> kind \<Rightarrow> namespaced_name \<Rightarrow> kobject option" and r :: "'w reconciler"
    and m :: "'w mapper" and ownerType :: group_version_kind and bound :: int
where
  reachable_start: "started lookup st \<Longrightarrow> controllerReachable lookup r m ownerType bound st"
| reachable_step:
    "controllerReachable lookup r m ownerType bound st \<Longrightarrow>
     controllerStep lookup r m ownerType bound st st' \<Longrightarrow>
     controllerReachable lookup r m ownerType bound st'"

section \<open>What is due\<close>

text \<open>An UpdateService is about to be reconciled, because of an event, the queue or the worker.\<close>

definition pending :: "'w controller \<Rightarrow> namespaced_name \<Rightarrow> kobject \<Rightarrow> bool" where
  "pending st req ob \<longleftrightarrow>
     ob \<in> set (ctl_events st) \<or> req \<in> wq_dirty (ctl_queue st) \<or> ctl_worker st = Some req"

text \<open>
  It was reconciled as it is now, and is again after some time, unless its route name is invalid.
\<close>

definition settled :: "int \<Rightarrow> 'w controller \<Rightarrow> namespaced_name \<Rightarrow> kobject \<Rightarrow> bool" where
  "settled delay st req ob \<longleftrightarrow>
     ctl_read st req = Some ob \<and>
     (waits req (ctl_now st + delay) (ctl_queue st) \<or>
      (\<exists>i. ob = UpdateServiceObj i \<and> validateRouteName i (nn_Name req) (nn_Namespace req) \<noteq> None))"

definition queueInStep :: "'w controller \<Rightarrow> bool" where
  "queueInStep st \<longleftrightarrow>
     queueOK (ctl_queue st) \<and> wq_processing (ctl_queue st) = set_option (ctl_worker st)"

lemma event_requests:
  assumes "objKind ob = UpdateServiceKind"
    and "run_state (handleEvent m ownerType ob controllerWatches) s = (reqs, s')"
  shows "objKey ob \<in> set reqs"
  using assms by (auto simp: controllerWatches_def handleWatch_def split: prod.splits)

lemma handler_queue:
  assumes "queueOK q" and "bucket \<le> bound" and "reconcileHandler r now bucket req (w, q) = (w', q')"
  shows "queueOK q' \<and> wq_processing q' = wq_processing q \<and> wq_dirty q \<subseteq> wq_dirty q' \<and> delayed q \<subseteq> delayed q'"
    and "retried (fst (runReconcile r req w)) \<Longrightarrow>
      req \<in> wq_dirty q' \<or> waits req (now + max maxDelay bound) q'"
proof -
  obtain res w1 calls where run: "runReconcile r req w = (res, w1, calls)" by (rule prod_cases3)
  let ?d = "max (max 0 (backoffDelay (wq_failures q req))) bucket"
  let ?q = "q\<lparr>wq_failures := (wq_failures q)(req := Suc (wq_failures q req))\<rparr>"
  have frame: "wq_processing (q\<lparr>wq_failures := f\<rparr>) = wq_processing q" "wq_dirty (q\<lparr>wq_failures := f\<rparr>) = wq_dirty q"
    "delayed (q\<lparr>wq_failures := f\<rparr>) = delayed q" for f
    by (simp_all add: delayed_def)
  have d: "?d \<le> max maxDelay bound"
    using backoff_bound [of "wq_failures q req"] assms(2) by auto
  have later: "waits x (now + d') q'' \<Longrightarrow> d' \<le> max maxDelay bound \<Longrightarrow> waits x (now + max maxDelay bound) q''"
    for x d' and q'' :: "namespaced_name rate_limiting_queue"
    using waits_mono by force
  have five: "fiveMinutes \<le> max maxDelay bound" "0 < fiveMinutes" by (simp_all add: fiveMinutes_def maxDelay_def)
  have q': "q' = (case Err res of Some e \<Rightarrow> AddAfter now req ?d ?q
      | None \<Rightarrow> if RequeueAfter res > 0 then AddAfter now req (RequeueAfter res) (Forget req q) else Forget req q)"
    using assms(3) run by (cases "Err res") (auto simp: reconcileHandler_def AddRateLimited_def)
  note after = AddAfter_OK [of ?q now req ?d] AddAfter_OK [of "Forget req q" now req "RequeueAfter res"]
  show "queueOK q' \<and> wq_processing q' = wq_processing q \<and> wq_dirty q \<subseteq> wq_dirty q' \<and> delayed q \<subseteq> delayed q'"
    using after assms(1) unfolding q' by (auto simp: Forget_def frame split: option.split)
  show "req \<in> wq_dirty q' \<or> waits req (now + max maxDelay bound) q'" if "retried (fst (runReconcile r req w))"
  proof (cases "Err res")
    case None
    then have "q' = AddAfter now req fiveMinutes (Forget req q)"
      using that run q' five(2) by (auto simp: retried_def failedResult_def)
    then show ?thesis
      using AddAfter_OK [of "Forget req q" now req fiveMinutes] assms(1) later [OF _ five(1)]
      by (auto simp: Forget_def)
  next
    case (Some e)
    then show ?thesis using after(1) assms(1) later [OF _ d] unfolding q' by auto
  qed
qed

section \<open>The server the watches read from\<close>

text \<open>
  What a reader of UpdateServices can rely on, even when every request may fail for other reasons: an
  object that is found is the one stored, and one that is reported missing is missing.
\<close>

locale read_server =
  fixes r :: "'w reconciler" and lookup :: "'w \<Rightarrow> kind \<Rightarrow> namespaced_name \<Rightarrow> kobject option"
  assumes present: "r_api r (Get UpdateServiceKind key) w = (Found ob, w') \<Longrightarrow>
      lookup w UpdateServiceKind key = Some ob"
    and absent: "r_api r (Get UpdateServiceKind key) w = (Failed e, w') \<Longrightarrow> IsNotFound e \<Longrightarrow>
      lookup w UpdateServiceKind key = None"
    and keyed: "lookup w UpdateServiceKind key = Some ob \<Longrightarrow> objKind ob = UpdateServiceKind \<and> objKey ob = key"
begin

lemma reconcile_due:
  assumes "nn_Namespace req = r_OperatorNamespace r" and "lookup w UpdateServiceKind req = Some ob"
  shows "retried (fst (runReconcile r req w)) \<or>
    (\<exists>i. ob = UpdateServiceObj i \<and> validateRouteName i (nn_Name req) (nn_Namespace req) \<noteq> None)"
proof -
  obtain ans w1 where get: "r_api r (Get UpdateServiceKind req) w = (ans, w1)" by (rule prod.exhaust)
  note res = reconcile_result_cases [of req r w]
  show ?thesis
  proof (cases ans)
    case (Failed e)
    then have "\<not> IsNotFound e" using absent [of req w e] get assms(2) by auto
    then show ?thesis using res get Failed assms(1) by auto
  next
    case (Found ob')
    then have "ob' = ob" using present [of req w ob'] get assms(2) by auto
    then show ?thesis using res get Found assms(1) by (cases ob) (auto split: if_splits)
  qed (use res get assms(1) in auto)
qed

end

sublocale object_store < reads: read_server r lookup
proof unfold_locales
  show "lookup w UpdateServiceKind key = Some ob" if "r_api r (Get UpdateServiceKind key) w = (Found ob, w')" for key w ob w'
    using that get [of UpdateServiceKind key w] by (auto split: option.splits)
  show "lookup w UpdateServiceKind key = None"
    if "r_api r (Get UpdateServiceKind key) w = (Failed e, w')" "IsNotFound e" for key w e w'
    using that get [of UpdateServiceKind key w] by (auto split: option.splits)
  show "objKind ob = UpdateServiceKind \<and> objKey ob = key" if "lookup w UpdateServiceKind key = Some ob" for w key ob
    by (rule lookup_found [OF that])
qed

interpretation memReads: read_server "memReconciler getenv" memLookup
  by (rule mem.reads.read_server_axioms)

section \<open>The invariant\<close>

text \<open>Every UpdateService of the operator's namespace is looked after.\<close>

definition attended ::
    "('w \<Rightarrow> kind \<Rightarrow> namespaced_name \<Rightarrow> kobject option) \<Rightarrow> 'w reconciler \<Rightarrow> int \<Rightarrow> 'w controller \<Rightarrow> bool" where
  "attended lookup r delay st \<longleftrightarrow>
     (\<forall>req ob. nn_Namespace req = r_OperatorNamespace r \<longrightarrow>
        lookup (ctl_world st) UpdateServiceKind req = Some ob \<longrightarrow>
        pending st req ob \<or> settled delay st req ob)"

context read_server
begin

lemma attended_start:
  "started lookup st \<Longrightarrow> queueInStep st \<and> attended lookup r delay st"
  by (auto simp: started_def queueInStep_def attended_def pending_def newQueue_def queueOK_def)

text \<open>Steps that only change the queue, the events or the time.\<close>

lemma attended_queue:
  assumes "attended lookup r delay st" and "ctl_world st' = ctl_world st" and "ctl_read st' = ctl_read st"
    and "set (ctl_events st) \<subseteq> set (ctl_events st')" and "ctl_now st \<le> ctl_now st'"
    and "\<And>req. req \<in> wq_dirty (ctl_queue st) \<or> ctl_worker st = Some req \<Longrightarrow>
      req \<in> wq_dirty (ctl_queue st') \<or> ctl_worker st' = Some req"
    and "\<And>req t. waits req t (ctl_queue st) \<Longrightarrow> waits req t (ctl_queue st') \<or> req \<in> wq_dirty (ctl_queue st')"
  shows "attended lookup r delay st'"
  unfolding attended_def
proof (intro allI impI)
  fix req ob
  assume "nn_Namespace req = r_OperatorNamespace r" "lookup (ctl_world st') UpdateServiceKind req = Some ob"
  then consider "pending st req ob" | "settled delay st req ob" using assms(1,2) by (auto simp: attended_def)
  then show "pending st' req ob \<or> settled delay st' req ob"
  proof cases
    case 1
    then show ?thesis using assms(4,6) by (auto simp: pending_def)
  next
    case 2
    have "waits req (ctl_now st + delay) q \<Longrightarrow> waits req (ctl_now st' + delay) q"
      for q :: "namespaced_name rate_limiting_queue"
      using assms(5) waits_mono by force
    then show ?thesis using 2 assms(3) assms(7) [of req "ctl_now st + delay"] by (auto simp: settled_def pending_def)
  qed
qed

text \<open>A step that changes the world: what it announces is pending.\<close>

lemma attended_world:
  assumes "announced lookup (ctl_world st) (ctl_world st') evs" and "set evs \<subseteq> set (ctl_events st')"
    and "\<And>req ob. nn_Namespace req = r_OperatorNamespace r \<Longrightarrow>
      lookup (ctl_world st) UpdateServiceKind req = Some ob \<Longrightarrow> pending st' req ob \<or> settled delay st' req ob"
  shows "attended lookup r delay st'"
  using assms unfolding attended_def announced_def pending_def by blast

lemma attended_reconcile:
  assumes inv: "queueInStep st" "attended lookup r (max maxDelay bound) st"
    and step: "ctl_worker st = Some req" "bucket \<le> bound"
      "reconcileHandler r (ctl_now st) bucket req (ctl_world st, ctl_queue st) = (w', q)"
      "announced lookup (ctl_world st) w' evs"
    and st': "st' = st\<lparr>ctl_world := w', ctl_events := ctl_events st @ evs, ctl_queue := DoneItem req q,
      ctl_worker := None, ctl_read := (ctl_read st)(req := lookup (ctl_world st) UpdateServiceKind req),
      ctl_log := ctl_log st @ [req]\<rparr>"
  shows "queueInStep st' \<and> attended lookup r (max maxDelay bound) st'"
proof
  have q0: "queueOK (ctl_queue st)" "wq_processing (ctl_queue st) = {req}"
    using inv(1) step(1) by (simp_all add: queueInStep_def)
  note handled = handler_queue [OF q0(1) step(2,3)]
  have q: "queueOK q" "req \<in> wq_processing q" using handled(1) q0(2) by auto
  note fin = wq.finish [OF q]
  show "queueInStep st'" using fin handled(1) q0(2) by (simp add: queueInStep_def st')
  have queue: "wq_dirty (ctl_queue st') = wq_dirty q" "waits x t (ctl_queue st') = waits x t q" for x t
    using fin by (simp_all add: st' waits_def delayed_def)
  have now: "ctl_now st' = ctl_now st" by (simp add: st')
  show "attended lookup r (max maxDelay bound) st'"
  proof (rule attended_world [of st _ evs])
    show "announced lookup (ctl_world st) (ctl_world st') evs" "set evs \<subseteq> set (ctl_events st')"
      using step(4) by (simp_all add: st')
    fix req' ob
    assume req': "nn_Namespace req' = r_OperatorNamespace r" "lookup (ctl_world st) UpdateServiceKind req' = Some ob"
    show "pending st' req' ob \<or> settled (max maxDelay bound) st' req' ob"
    proof (cases "req' = req")
      case True
      then have "ctl_read st' req' = Some ob" using req'(2) by (simp add: st')
      then show ?thesis
        using reconcile_due [OF req'] handled(2) True by (auto simp: pending_def settled_def queue now)
    next
      case False
      have old: "pending st req' ob \<or> settled (max maxDelay bound) st req' ob"
        using inv(2) req' by (auto simp: attended_def)
      have "waits req' t (ctl_queue st) \<Longrightarrow> waits req' t q" for t using handled(1) by (auto simp: waits_def)
      with old show ?thesis
        using False step(1) handled(1) by (auto simp: pending_def settled_def queue now) (auto simp: st')
    qed
  qed
qed

lemma attended_step:
  assumes "controllerStep lookup r m ownerType bound st st'"
    and "queueInStep st" and "attended lookup r (max maxDelay bound) st"
  shows "queueInStep st' \<and> attended lookup r (max maxDelay bound) st'"
  using assms
proof cases
  case (environment w' evs)
  then have mono: "pending st req ob \<Longrightarrow> pending st' req ob" "settled d st req ob \<Longrightarrow> settled d st' req ob" for d req ob
    by (auto simp: pending_def settled_def)
  have "attended lookup r (max maxDelay bound) st'"
  proof (rule attended_world)
    show "announced lookup (ctl_world st) (ctl_world st') evs" "set evs \<subseteq> set (ctl_events st')"
      using environment by simp_all
    show "pending st' req ob \<or> settled (max maxDelay bound) st' req ob"
      if "nn_Namespace req = r_OperatorNamespace r" "lookup (ctl_world st) UpdateServiceKind req = Some ob" for req ob
      using assms(3) that mono unfolding attended_def by blast
  qed
  then show ?thesis using assms(2) environment(1) by (simp add: queueInStep_def)
next
  case (deliver before ob after reqs s evs)
  have add: "queueOK (ctl_queue st') \<and> wq_dirty (ctl_queue st') = set reqs \<union> wq_dirty (ctl_queue st) \<and>
      wq_processing (ctl_queue st') = wq_processing (ctl_queue st)"
    using wq.add_all [of "ctl_queue st" reqs] assms(2) deliver(1) by (simp add: queueInStep_def)
  have "pending st' req ob' \<or> settled (max maxDelay bound) st' req ob'"
    if req: "nn_Namespace req = r_OperatorNamespace r" "lookup (ctl_world st) UpdateServiceKind req = Some ob'" for req ob'
  proof -
    have "ob' = ob \<Longrightarrow> req \<in> set reqs" using event_requests [OF _ deliver(3)] keyed [OF req(2)] by auto
    moreover have "pending st req ob' \<or> settled (max maxDelay bound) st req ob'"
      using assms(3) req by (auto simp: attended_def)
    ultimately show ?thesis
      using add deliver(1,2) by (auto simp: pending_def settled_def waits_def delayed_def)
  qed
  then have "attended lookup r (max maxDelay bound) st'"
    using attended_world [of st st' evs] deliver(1,4) by auto
  then show ?thesis using add assms(2) deliver(1) by (simp add: queueInStep_def)
next
  case (tick t)
  then show ?thesis using assms(2,3) attended_queue [of _ st st'] by (auto simp: queueInStep_def)
next
  case receive
  have q: "queueOK (ctl_queue st)" using assms(2) by (simp add: queueInStep_def)
  note received = queueOK_receive [OF q, of "ctl_now st"] waits_receive [OF q]
  have "attended lookup r (max maxDelay bound) st'"
    by (rule attended_queue [OF assms(3)]) (use receive received in auto)
  then show ?thesis using received(1) assms(2) receive by (simp add: queueInStep_def)
next
  case ready
  have q: "queueOK (ctl_queue st)" using assms(2) by (simp add: queueInStep_def)
  note added = queueOK_ready(1,2) [OF q, of "ctl_now st"]
  have "wq_dirty (ctl_queue st) \<subseteq> wq_dirty (addReady (ctl_now st) (ctl_queue st))"
    using queueOK_ready(3) [OF q] by blast
  then have "attended lookup r (max maxDelay bound) st'"
    by (intro attended_queue [OF assms(3)]) (use ready waits_ready [OF q] in auto)
  then show ?thesis using added(1,2) assms(2) ready by (simp add: queueInStep_def)
next
  case (take req q)
  have "queueOK (ctl_queue st)" "wq_processing (ctl_queue st) = {}"
    using assms(2) take(2) by (simp_all add: queueInStep_def)
  note taken = wq.get_Some [OF this(1) take(3)]
  have "waits x t q = waits x t (ctl_queue st)" for x t
    using GetItem_frame [OF take(3)] by (simp add: waits_def delayed_def)
  then show ?thesis
    using assms(2,3) taken take(1,2) attended_queue [of _ st st'] by (auto simp: queueInStep_def)
next
  case (reconcile req bucket w' q evs)
  then show ?thesis using attended_reconcile [OF assms(2,3)] by blast
qed

lemma reachable_attended:
  assumes "controllerReachable lookup r m ownerType bound st"
  shows "queueInStep st \<and> attended lookup r (max maxDelay bound) st"
  using assms by induction (auto simp: attended_start dest: attended_step)

end

text \<open>An idle worker is never stuck while a request is to be handed out.\<close>

lemma worker_not_stuck:
  assumes "queueInStep st" and "ctl_worker st = None" and "req \<in> wq_dirty (ctl_queue st)"
  shows "\<exists>req' q. GetItem (ctl_queue st) = Some (req', q) \<and>
    controllerStep lookup r m ownerType bound st (st\<lparr>ctl_queue := q, ctl_worker := Some req'\<rparr>)"
proof -
  have "GetItem (ctl_queue st) \<noteq> None"
    using assms wq.get_iff [of "ctl_queue st"] by (auto simp: queueInStep_def)
  then show ?thesis using controllerStep.take [OF assms(2)] by auto
qed

end
