(* ===== verification/ControllerProps.thy ===== *)
theory ControllerProps
  imports Controller Isolation
begin

text \<open>
  What the running operator guarantees, over all interleavings of events, the queue, the worker and
  everybody else: no UpdateService is forgotten, and requests are served in turn.
\<close>

section \<open>Turns\<close>

text \<open>The number of reconciles that end before a request in the queue is taken.\<close>

definition turnsBefore :: "'w controller \<Rightarrow> namespaced_name \<Rightarrow> nat" where
  "turnsBefore st req = ahead req (ctl_queue st) + (if ctl_worker st = None then 0 else 1)"

text \<open>A request that waits in the queue, is being served or has been served since, in time.\<close>

definition inTurn :: "nat \<Rightarrow> nat \<Rightarrow> namespaced_name \<Rightarrow> 'w controller \<Rightarrow> bool" where
  "inTurn old limit req st \<longleftrightarrow>
     old \<le> length (ctl_log st) \<and>
     (req \<in> set (drop old (ctl_log st)) \<or>
      req \<in> set (wq_queue (ctl_queue st)) \<and> length (ctl_log st) + turnsBefore st req \<le> limit \<or>
      ctl_worker st = Some req \<and> length (ctl_log st) \<le> limit)"

lemma inTurn_queue:
  assumes "inTurn old limit req st" and "prefix (wq_queue (ctl_queue st)) (wq_queue (ctl_queue st'))"
    and "ctl_worker st' = ctl_worker st" and "ctl_log st' = ctl_log st"
  shows "inTurn old limit req st'"
  using assms ahead_prefix [OF _ assms(2)] by (auto simp: inTurn_def turnsBefore_def)

lemma prefix_handler:
  assumes "reconcileHandler r now bucket req (w, q) = (w', q')"
  shows "prefix (wq_queue q) (wq_queue q')"
proof -
  obtain res w1 calls where run: "runReconcile r req w = (res, w1, calls)" by (rule prod_cases3)
  let ?q = "q\<lparr>wq_failures := (wq_failures q)(req := Suc (wq_failures q req))\<rparr>"
  have frame: "wq_queue ?q = wq_queue q" "wq_queue (Forget req q) = wq_queue q" by (simp_all add: Forget_def)
  show ?thesis
  proof (cases "Err res")
    case None
    then have "q' = AddAfter now req (RequeueAfter res) (Forget req q) \<or> q' = Forget req q"
      using assms run by (auto simp: reconcileHandler_def)
    then show ?thesis using prefix_AddAfter [of "Forget req q"] frame(2) by auto
  next
    case (Some e)
    then have "q' = AddRateLimited now bucket req q" using assms run by (simp add: reconcileHandler_def)
    then show ?thesis unfolding AddRateLimited_def using prefix_AddAfter [of ?q] frame(1) by metis
  qed
qed

lemma inTurn_step:
  assumes "controllerStep lookup r m ownerType bound st st'" and "inTurn old limit req st"
  shows "inTurn old limit req st'"
  using assms(1)
proof cases
  case (environment w' evs)
  show ?thesis by (rule inTurn_queue [OF assms(2)]) (simp_all add: environment(1))
next
  case (deliver before ob after reqs s evs)
  show ?thesis by (rule inTurn_queue [OF assms(2)]) (simp_all add: deliver(1) prefix_Add_all)
next
  case (tick t)
  show ?thesis by (rule inTurn_queue [OF assms(2)]) (simp_all add: tick(1))
next
  case receive
  show ?thesis by (rule inTurn_queue [OF assms(2)]) (simp_all add: receive prefix_receiveEntry)
next
  case ready
  show ?thesis by (rule inTurn_queue [OF assms(2)]) (simp_all add: ready prefix_addReady)
next
  case (take x q)
  show ?thesis
  proof (cases "x = req")
    case True
    then show ?thesis using take assms(2) by (auto simp: inTurn_def)
  next
    case False
    then show ?thesis
      using take assms(2) ahead_GetItem [OF _ take(3) False] by (auto simp: inTurn_def turnsBefore_def)
  qed
next
  case (reconcile x bucket w' q evs)
  have "prefix (wq_queue (ctl_queue st)) (wq_queue (DoneItem x q))"
    using prefix_handler [OF reconcile(4)] prefix_DoneItem by (rule prefix_order.trans)
  from ahead_prefix [OF _ this] reconcile(1,2) assms(2) show ?thesis
    by (auto simp: inTurn_def turnsBefore_def)
qed

section \<open>An example\<close>

definition exampleMapper :: "mem mapper" where
  "exampleMapper = \<lparr>m_client = memReconciler (\<lambda>_. []), m_namespace = ''ns''\<rparr>"

definition exampleGVK :: group_version_kind where
  "exampleGVK = \<lparr>gvk_Group = ''updateservice.operator.openshift.io'', gvk_Version = ''v1'',
     gvk_Kind = ''UpdateService''\<rparr>"

abbreviation exampleStep :: "mem controller \<Rightarrow> mem controller \<Rightarrow> bool" where
  "exampleStep \<equiv> controllerStep memLookup (memReconciler (\<lambda>_. [])) exampleMapper exampleGVK 0"

text \<open>The state in which the process starts, with one UpdateService, and with given requests queued.\<close>

definition exampleStart :: "mem controller" where
  "exampleStart = \<lparr>ctl_world = exampleWorld, ctl_events = [UpdateServiceObj digestInstance], ctl_queue = newQueue,
     ctl_worker = None, ctl_now = 0, ctl_read = (\<lambda>_. None), ctl_log = []\<rparr>"

definition exampleQueued :: "namespaced_name list \<Rightarrow> mem controller" where
  "exampleQueued reqs = exampleStart\<lparr>ctl_events := [], ctl_queue := fold Add reqs newQueue\<rparr>"

lemma example_objects: "memLookup exampleWorld UpdateServiceKind key =
    (if key = exampleKey then Some (UpdateServiceObj digestInstance) else None)"
  by (auto simp: exampleWorld_def memLookup_def memWorld_def exampleKey_def digestInstance_def
      example_defs keyOf_def namespacedName_def)

lemma example_delivery: "exampleStep exampleStart (exampleQueued [exampleKey])"
proof -
  have events: "ctl_events exampleStart = [] @ UpdateServiceObj digestInstance # []"
    by (simp add: exampleStart_def)
  have "run_state (handleEvent exampleMapper exampleGVK (UpdateServiceObj digestInstance) controllerWatches)
      (startSession (ctl_world exampleStart)) = ([exampleKey], startSession (ctl_world exampleStart))"
    by (simp add: controllerWatches_def handleWatch_def exampleKey_def digestInstance_def example_defs keyOf_def
        namespacedName_def newMeta_def)
  from controllerStep.deliver [OF events this, of memLookup "[]"] show ?thesis
    by (simp add: exampleStart_def exampleQueued_def announced_def startSession_def)
qed

text \<open>A turn of the worker.\<close>

lemma example_turn:
  assumes "ctl_worker st = None" and "GetItem (ctl_queue st) = Some (req, q)"
  shows "\<exists>st' res calls. rtranclp exampleStep st st' \<and> ctl_worker st' = None \<and> ctl_log st' = ctl_log st @ [req] \<and>
    runReconcile (memReconciler (\<lambda>_. [])) req (ctl_world st) = (res, ctl_world st', calls) \<and>
    prefix (wq_queue q) (wq_queue (ctl_queue st'))"
proof -
  let ?st1 = "st\<lparr>ctl_queue := q, ctl_worker := Some req\<rparr>"
  obtain res w' calls where run: "runReconcile (memReconciler (\<lambda>_. [])) req (ctl_world st) = (res, w', calls)"
    by (rule prod_cases3)
  obtain w1 q' where handler: "reconcileHandler (memReconciler (\<lambda>_. [])) (ctl_now st) 0 req (ctl_world st, q) = (w1, q')"
    by (rule prod.exhaust)
  have w1: "w1 = w'" using handler run by (simp add: reconcileHandler_def)
  have "announced memLookup (ctl_world st) w' (mem_objects w')"
    by (auto simp: announced_def memLookup_def find_Some_iff)
  from controllerStep.reconcile [of ?st1 req 0 0 "memReconciler (\<lambda>_. [])" w' q' memLookup "mem_objects w'"] this handler w1
  have "exampleStep ?st1 (?st1\<lparr>ctl_world := w', ctl_events := ctl_events st @ mem_objects w', ctl_queue := DoneItem req q',
      ctl_worker := None, ctl_read := (ctl_read st)(req := memLookup (ctl_world st) UpdateServiceKind req),
      ctl_log := ctl_log st @ [req]\<rparr>)" (is "exampleStep _ ?st2")
    by simp
  with controllerStep.take [OF assms] have "rtranclp exampleStep st ?st2"
    by (meson rtranclp.rtrancl_into_rtrancl rtranclp.rtrancl_refl)
  moreover have "prefix (wq_queue q) (wq_queue (ctl_queue ?st2))"
    using prefix_order.trans [OF prefix_handler [OF handler] prefix_DoneItem] by simp
  ultimately show ?thesis using run by (intro exI [of _ ?st2]) auto
qed

section \<open>Properties\<close>

text \<open>
  C4: no UpdateService is forgotten. Take any state that the operator's process can be in, with events,
  queue, worker and everybody else interleaved in any way and requests failing in any way, as long as
  what a read of an UpdateService finds or misses is so and the watches report new and changed
  UpdateServices. Then every UpdateService in the operator's namespace is about to be reconciled (an
  event for it has yet to be delivered, its key is in the queue, or the worker has it), or the last
  reconcile of it began with the UpdateService as it is now, and the next one is due at a time within
  the larger one of 1000 seconds and the delay that the token bucket asks for; only one whose route
  name is invalid is left alone until it changes.
\<close>

theorem no_update_service_forgotten:
  assumes "read_server r lookup" and "controllerReachable lookup r m ownerType bound st"
    and "nn_Namespace req = r_OperatorNamespace r"
    and "lookup (ctl_world st) UpdateServiceKind req = Some ob"
  shows "(ob \<in> set (ctl_events st) \<or> req \<in> wq_dirty (ctl_queue st) \<or> ctl_worker st = Some req) \<or>
    (ctl_read st req = Some ob \<and>
     (waits req (ctl_now st + max maxDelay bound) (ctl_queue st) \<or>
      (\<exists>i. ob = UpdateServiceObj i \<and> validateRouteName i (nn_Name req) (nn_Namespace req) \<noteq> None)))"
  using read_server.reachable_attended [OF assms(1,2)] assms(3,4)
  by (auto simp: attended_def pending_def settled_def)

theorem no_update_service_forgotten_witness:
  "\<exists>st ob. rtranclp exampleStep exampleStart st \<and> ctl_log st = [exampleKey] \<and>
    memLookup (ctl_world st) UpdateServiceKind exampleKey = Some ob \<and>
    ((ob \<in> set (ctl_events st) \<or> exampleKey \<in> wq_dirty (ctl_queue st) \<or> ctl_worker st = Some exampleKey) \<or>
     ctl_read st exampleKey = Some ob)"
proof -
  let ?r = "memReconciler (\<lambda>_. [])" and ?q = "exampleQueued [exampleKey]"
  have q: "ctl_worker ?q = None" "\<exists>q. GetItem (ctl_queue ?q) = Some (exampleKey, q)"
    "ctl_log ?q = []" "ctl_world ?q = exampleWorld"
    by (simp_all add: exampleQueued_def exampleStart_def newQueue_def Add_def GetItem_def)
  obtain st res calls where st: "rtranclp exampleStep ?q st" "ctl_log st = [exampleKey]"
    "runReconcile ?r exampleKey exampleWorld = (res, ctl_world st, calls)"
    using q example_turn [of ?q exampleKey] by auto
  have run: "rtranclp exampleStep exampleStart st"
    by (rule converse_rtranclp_into_rtranclp [of exampleStep, OF example_delivery st(1)])
  have "started memLookup exampleStart"
    by (auto simp: started_def exampleStart_def example_objects split: if_splits)
  then have "controllerReachable memLookup ?r exampleMapper exampleGVK 0 exampleStart"
    by (rule controllerReachable.reachable_start)
  with run have reach: "controllerReachable memLookup ?r exampleMapper exampleGVK 0 st"
    by (induction rule: rtranclp_induct) (auto intro: controllerReachable.reachable_step)
  obtain ob where ob: "memLookup (ctl_world st) UpdateServiceKind exampleKey = Some ob"
    using memFramed.reconcile_spec [OF st(3), of exampleKey]
    by (auto simp: sameSpec_def example_objects split: option.splits)
  have "nn_Namespace exampleKey = r_OperatorNamespace ?r" by (simp add: exampleKey_def)
  from no_update_service_forgotten [OF mem.reads.read_server_axioms reach this ob] run st(2) ob show ?thesis
    by blast
qed

text \<open>
  C19: requests are served in turn: when a request is in the queue, then at the latest after as many
  reconciles as there are requests before it, and the one under way, its own reconcile follows,
  whatever else is added to the queue.
\<close>

theorem served_in_turn:
  assumes "rtranclp (controllerStep lookup r m ownerType bound) st st'"
    and "req \<in> set (wq_queue (ctl_queue st))"
    and "length (ctl_log st) + turnsBefore st req < length (ctl_log st')"
  shows "req \<in> set (drop (length (ctl_log st)) (ctl_log st'))"
proof -
  have "inTurn (length (ctl_log st)) (length (ctl_log st) + turnsBefore st req) req st'"
    using assms(1)
  proof induction
    case base
    show ?case using assms(2) by (simp add: inTurn_def)
  next
    case (step st1 st2)
    show ?case by (rule inTurn_step [OF step(2,3)])
  qed
  then show ?thesis using assms(3) by (auto simp: inTurn_def)
qed

theorem served_in_turn_witness:
  "\<exists>st. rtranclp exampleStep (exampleQueued [namespacedName ''x'' ''y'', exampleKey]) st \<and>
    length (ctl_log st) = 2 \<and> exampleKey \<in> set (ctl_log st)"
proof -
  let ?x = "namespacedName ''x'' ''y''"
  let ?q = "exampleQueued [?x, exampleKey]"
  have "?x \<noteq> exampleKey" by (simp add: exampleKey_def namespacedName_def)
  then have q: "ctl_worker ?q = None" "wq_queue (ctl_queue ?q) = [?x, exampleKey]" "ctl_log ?q = []"
    by (simp_all add: exampleQueued_def exampleStart_def newQueue_def Add_def)
  obtain q1 where q1: "GetItem (ctl_queue ?q) = Some (?x, q1)" "wq_queue q1 = [exampleKey]"
    using q(2) by (auto simp: GetItem_def)
  obtain st1 where st1: "rtranclp exampleStep ?q st1" "ctl_worker st1 = None" "ctl_log st1 = [?x]"
    "prefix [exampleKey] (wq_queue (ctl_queue st1))"
    using example_turn [OF q(1) q1(1)] q1(2) q(3) by auto
  then obtain q2 where "GetItem (ctl_queue st1) = Some (exampleKey, q2)"
    by (auto simp: prefix_def GetItem_def)
  from example_turn [OF st1(2) this] st1(3) obtain st2 where
    st2: "rtranclp exampleStep st1 st2" "ctl_log st2 = [?x, exampleKey]" by auto
  have run: "rtranclp exampleStep ?q st2" using st1(1) st2(1) by (rule rtranclp_trans)
  have "turnsBefore ?q exampleKey = 1"
    using q \<open>?x \<noteq> exampleKey\<close> by (simp add: turnsBefore_def ahead_def)
  then show ?thesis
    using served_in_turn [OF run, of exampleKey] run q(2,3) st2(2) by auto
qed

end
