(* ===== verification/RollOut.thy ===== *)
theory RollOut
  imports Schedule ControllerProps
begin

text \<open>
  The running operator brings the cluster up to date: \<open>Schedule\<close> (series of reconciles) and
  \<open>Controller\<close> (the process with its queue and its events) put together, while nobody else changes the
  objects in the store.
\<close>

section \<open>Undisturbed runs\<close>

text \<open>A step that changes what is stored is the end of a reconcile.\<close>

definition undisturbed ::
    "('w \<Rightarrow> contents) \<Rightarrow> 'w controller \<Rightarrow> 'w controller \<Rightarrow> bool" where
  "undisturbed lookup st st' \<longleftrightarrow>
     ctl_log st' = ctl_log st \<longrightarrow> lookup (ctl_world st') = lookup (ctl_world st)"

definition undisturbedStep ::
    "('w \<Rightarrow> contents) \<Rightarrow> 'w reconciler \<Rightarrow> 'w mapper \<Rightarrow> group_version_kind \<Rightarrow> int \<Rightarrow>
       'w controller \<Rightarrow> 'w controller \<Rightarrow> bool" where
  "undisturbedStep lookup r m ownerType bound st st' \<longleftrightarrow>
     controllerStep lookup r m ownerType bound st st' \<and> undisturbed lookup st st'"

lemma undisturbedStep_cases:
  assumes "undisturbedStep lookup r m ownerType bound st st'"
  obtains (other) "ctl_log st' = ctl_log st" "lookup (ctl_world st') = lookup (ctl_world st)"
  | (reconciled) req res calls where "ctl_log st' = ctl_log st @ [req]"
      "runReconcile r req (ctl_world st) = (res, ctl_world st', calls)"
proof -
  have step: "controllerStep lookup r m ownerType bound st st'"
    and quiet: "ctl_log st' = ctl_log st \<Longrightarrow> lookup (ctl_world st') = lookup (ctl_world st)"
    using assms by (simp_all add: undisturbedStep_def undisturbed_def)
  from step show thesis
  proof cases
    case (reconcile req bucket w' q evs)
    obtain res w1 calls where "runReconcile r req (ctl_world st) = (res, w1, calls)" by (rule prod_cases3)
    moreover from this have "w1 = w'" using reconcile(4) by (simp add: reconcileHandler_def)
    ultimately show thesis using reconcile(1) reconciled by simp
  qed (use quiet other in simp_all)
qed

section \<open>Stages in the process\<close>

text \<open>
  The invariant: no other UpdateServices than the given ones are stored in the operator's namespace, and
  each of them is as far as the number of its reconciles says.
\<close>

definition onCourse ::
    "'w reconciler \<Rightarrow> namespaced_name set \<Rightarrow> (namespaced_name \<Rightarrow> us_spec) \<Rightarrow> contents \<Rightarrow> namespaced_name list \<Rightarrow> bool" where
  "onCourse r S spec L log \<longleftrightarrow>
     (\<forall>req. nn_Namespace req = r_OperatorNamespace r \<longrightarrow> req \<notin> S \<longrightarrow> L UpdateServiceKind req = None) \<and>
     (\<forall>req \<in> S. \<exists>i. us_Spec i = spec req \<and> stage r req L i (count_list log req))"

context object_store
begin

text \<open>A request for which nothing is stored changes nothing.\<close>

lemma reconcile_nothing:
  assumes "nn_Namespace req = r_OperatorNamespace r \<Longrightarrow> lookup w UpdateServiceKind req = None"
    and "runReconcile r req w = (res, w1, calls)"
  shows "w1 = w"
proof (cases "nn_Namespace req = r_OperatorNamespace r")
  case False
  then show ?thesis using assms(2) reconcile_result_cases [of req r w] by simp
next
  case True
  obtain e where "IsNotFound e" "r_api r (Get UpdateServiceKind req) w = (Failed e, w)"
    using get [of UpdateServiceKind req w] assms(1) [OF True] by auto
  then show ?thesis using assms(2) reconcile_result_cases [of req r w] True by simp
qed

lemma onCourse_reconcile:
  assumes g: "r_Scheme r = [g]"
    and apart: "\<And>a b. a \<in> S \<Longrightarrow> b \<in> S \<Longrightarrow> a \<noteq> b \<Longrightarrow> apart (nn_Name a) (nn_Name b)"
    and inv: "onCourse r S spec (lookup w) log" and run: "runReconcile r req w = (res, w1, calls)"
  shows "onCourse r S spec (lookup w1) (log @ [req])"
proof (cases "req \<in> S")
  case False
  have "w1 = w" by (rule reconcile_nothing [OF _ run]) (use inv False in \<open>simp add: onCourse_def\<close>)
  moreover have "count_list (log @ [req]) a = count_list log a" if "a \<in> S" for a using that False by auto
  ultimately show ?thesis using inv by (simp add: onCourse_def)
next
  case True
  then obtain j where j: "us_Spec j = spec req" "stage r req (lookup w) j (count_list log req)"
    using inv by (auto simp: onCourse_def)
  obtain kj where kj: "renderable r req (lookup w) j kj" using j(2) by (auto simp: stage_def)
  have own: "\<exists>i. us_Spec i = spec req \<and> stage r req (lookup w1) i (Suc (count_list log req))"
    using stage_own [OF g run j(2)] j(1) by (auto simp: sameService_def)
  have others: "\<exists>i. us_Spec i = spec a \<and> stage r a (lookup w1) i (count_list log a)" if "a \<in> S" "a \<noteq> req" for a
  proof -
    have "\<exists>i. us_Spec i = spec a \<and> stage r a (lookup w) i (count_list log a)"
      using inv that(1) by (simp add: onCourse_def)
    then obtain i where i: "us_Spec i = spec a" "stage r a (lookup w) i (count_list log a)" by (elim exE conjE)
    from stage_other [OF g run kj i(2) apart [OF that(1) True that(2)]] i(1) show ?thesis by (intro exI conjI)
  qed
  have "lookup w1 UpdateServiceKind a = lookup w UpdateServiceKind a" if "a \<noteq> req" for a
  proof -
    have "(UpdateServiceKind, a) \<notin> insert (UpdateServiceKind, req) (set (ownedObjects j))"
      using that ownedObjects_outside [of UpdateServiceKind a j] by auto
    moreover obtain new k' where
      "agreeExcept (insert (UpdateServiceKind, req) (set (ownedObjects j))) (lookup w) (lookup w1)"
      using reconcile_next [OF g kj run] by blast
    ultimately show ?thesis by (simp add: agreeExcept_def)
  qed
  then have same: "lookup w1 UpdateServiceKind a = lookup w UpdateServiceKind a" if "a \<notin> S" for a
    using that True by metis
  have "\<forall>a. nn_Namespace a = r_OperatorNamespace r \<longrightarrow> a \<notin> S \<longrightarrow> lookup w1 UpdateServiceKind a = None"
    using inv same unfolding onCourse_def by simp
  moreover have "\<exists>i. us_Spec i = spec a \<and> stage r a (lookup w1) i (count_list (log @ [req]) a)" if "a \<in> S" for a
    using own others [OF that] by (cases "a = req") simp_all
  ultimately show ?thesis by (simp add: onCourse_def)
qed

lemma onCourse_run:
  assumes "r_Scheme r = [g]"
    and "\<And>a b. a \<in> S \<Longrightarrow> b \<in> S \<Longrightarrow> a \<noteq> b \<Longrightarrow> apart (nn_Name a) (nn_Name b)"
    and "onCourse r S spec (lookup (ctl_world st)) []"
    and "rtranclp (undisturbedStep lookup r m ownerType bound) st st'"
  shows "length (ctl_log st) \<le> length (ctl_log st') \<and>
    onCourse r S spec (lookup (ctl_world st')) (drop (length (ctl_log st)) (ctl_log st'))"
  using assms(4)
proof induction
  case base
  show ?case using assms(3) by simp
next
  case (step st1 st2)
  from step(2) show ?case
  proof (cases rule: undisturbedStep_cases)
    case other
    then show ?thesis using step.IH by simp
  next
    case (reconciled req res calls)
    then show ?thesis
      using onCourse_reconcile [OF assms(1,2) conjunct2 [OF step.IH] reconciled(2)] step.IH by simp
  qed
qed

end

section \<open>An example\<close>

abbreviation exampleRun :: "mem controller \<Rightarrow> mem controller \<Rightarrow> bool" where
  "exampleRun \<equiv> undisturbedStep memLookup (memReconciler (\<lambda>_. [])) exampleMapper exampleGVK 0"

lemma undisturbed_quiet:
  "controllerStep lookup r m ownerType bound st st' \<Longrightarrow> ctl_world st' = ctl_world st \<Longrightarrow>
     undisturbedStep lookup r m ownerType bound st st'"
  by (simp add: undisturbedStep_def undisturbed_def)

text \<open>The end of a successful reconcile: the request comes back five minutes later.\<close>

lemma example_reconciled:
  assumes "ctl_worker st = Some req"
    and "runReconcile (memReconciler (\<lambda>_. [])) req (ctl_world st) = (\<lparr>RequeueAfter = fiveMinutes, Err = None\<rparr>, w', calls)"
  shows "exampleRun st (st\<lparr>ctl_world := w', ctl_events := ctl_events st @ mem_objects w',
    ctl_queue := DoneItem req (AddAfter (ctl_now st) req fiveMinutes (Forget req (ctl_queue st))), ctl_worker := None,
    ctl_read := (ctl_read st)(req := memLookup (ctl_world st) UpdateServiceKind req), ctl_log := ctl_log st @ [req]\<rparr>)"
proof -
  have "reconcileHandler (memReconciler (\<lambda>_. [])) (ctl_now st) 0 req (ctl_world st, ctl_queue st) =
      (w', AddAfter (ctl_now st) req fiveMinutes (Forget req (ctl_queue st)))"
    using assms(2) by (simp add: reconcileHandler_def fiveMinutes_def)
  moreover have "announced memLookup (ctl_world st) w' (mem_objects w')"
    by (auto simp: announced_def memLookup_def find_Some_iff)
  ultimately show ?thesis
    using controllerStep.reconcile [OF assms(1), of 0 0 "memReconciler (\<lambda>_. [])" w' _ memLookup "mem_objects w'"]
    by (simp add: undisturbedStep_def undisturbed_def)
qed

text \<open>A request in an otherwise empty queue is taken, reconciled, and five minutes later queued again.\<close>

definition idleWith :: "namespaced_name list \<Rightarrow> mem controller \<Rightarrow> bool" where
  "idleWith reqs st \<longleftrightarrow> ctl_worker st = None \<and> wq_queue (ctl_queue st) = reqs \<and> wq_dirty (ctl_queue st) = set reqs \<and>
     wq_processing (ctl_queue st) = {} \<and> \<not> wq_shuttingDown (ctl_queue st) \<and> wq_adding (ctl_queue st) = []"

lemma example_period:
  assumes "idleWith [req] st"
    and "runReconcile (memReconciler (\<lambda>_. [])) req (ctl_world st) = (\<lparr>RequeueAfter = fiveMinutes, Err = None\<rparr>, w', calls)"
  shows "\<exists>st'. rtranclp exampleRun st st' \<and> idleWith [req] st' \<and> ctl_world st' = w' \<and> ctl_log st' = ctl_log st @ [req]"
proof -
  let ?q = "(ctl_queue st)\<lparr>wq_queue := [], wq_processing := {req}, wq_dirty := {}\<rparr>"
  let ?st1 = "st\<lparr>ctl_queue := ?q, ctl_worker := Some req\<rparr>"
  have five: "0 < fiveMinutes" by (simp add: fiveMinutes_def)
  have get: "GetItem (ctl_queue st) = Some (req, ?q)"
    using assms(1) by (simp add: idleWith_def GetItem_def)
  have 1: "exampleRun st ?st1"
    by (rule undisturbed_quiet [OF controllerStep.take [OF _ get]]) (use assms(1) in \<open>simp_all add: idleWith_def\<close>)
  obtain st2 where 2: "exampleRun ?st1 st2" "ctl_world st2 = w'" "ctl_log st2 = ctl_log st @ [req]" "ctl_worker st2 = None"
      "ctl_queue st2 = DoneItem req (AddAfter (ctl_now st) req fiveMinutes (Forget req ?q))" "ctl_now st2 = ctl_now st"
    using example_reconciled [of ?st1 req w' calls] assms(2) by simp
  have q2: "ctl_queue st2 = (Forget req ?q)\<lparr>wq_processing := {}, wq_adding := [(req, ctl_now st + fiveMinutes)]\<rparr>"
    using assms(1) five unfolding 2(5) by (simp add: idleWith_def DoneItem_def AddAfter_def Forget_def)
  let ?st3 = "st2\<lparr>ctl_now := ctl_now st + fiveMinutes\<rparr>"
  have 3: "exampleRun st2 ?st3"
    by (rule undisturbed_quiet [OF controllerStep.tick]) (use five 2(6) in simp_all)
  let ?st4 = "?st3\<lparr>ctl_queue := receiveEntry (ctl_now ?st3) (ctl_queue ?st3)\<rparr>"
  have 4: "exampleRun ?st3 ?st4" by (rule undisturbed_quiet [OF controllerStep.receive]) simp
  have "idleWith [req] ?st4"
    using assms(1) 2(4) q2 by (simp add: idleWith_def receiveEntry_def Add_def Forget_def)
  moreover have "rtranclp exampleRun st ?st4"
    using 1 2(1) 3 4 by (meson rtranclp.rtrancl_into_rtrancl rtranclp.rtrancl_refl)
  ultimately show ?thesis using 2(2,3) by (intro exI [of _ ?st4]) simp
qed

definition exampleProcess :: "mem controller" where
  "exampleProcess = exampleStart\<lparr>ctl_world := exampleServices, ctl_events := [],
     ctl_queue := Add (namespacedName ''app'' ''ns'') newQueue\<rparr>"

section \<open>Properties\<close>



end
