(* ===== verification/Spec2Isabelle.thy ===== *)
theory Spec2Isabelle
  imports Egress RouteName GoHash ConvergeProps DeploymentProps GraphDataProps Isolation OutcomeProps
    OwnerProps StatusProps SelfTrigger RouteClash RequestBound DeepCopy ProcessProps Rbac FuncTests
    RollOut
begin

section \<open>The OpenShift update service operator\<close>

text \<open>
  This library models the Go code of the cincinnati-operator (\<open>main.go\<close>, \<open>controllers/\<close>,
  \<open>api/v1/\<close>, and the helpers in \<open>functests/\<close>) and proves what it guarantees. The operator watches \<open>UpdateService\<close> resources in its
  own namespace; for each it renders two Services, a Deployment, a Route, a network policy, a
  disruption budget, ConfigMaps and a Secret, makes the cluster agree with them, and reports the
  outcome in the status of the resource.

  \<^bold>\<open>How the program is put together.\<close> \<open>main\<close> registers the API types with a
  scheme, reads two environment variables, starts a manager and registers the reconciler with its watches. An event on a watched object puts requests into a
  queue: the object itself, its controller, or, for the cluster's Image configuration and the CA
  ConfigMap it names, all UpdateServices (\<open>mapper.go\<close>). \<open>Reconcile\<close> handles one request: it reads
  the UpdateService and the cluster's pull secret and CAs, renders all resources (\<open>new.go\<close>), runs
  the ensure functions in order, which read an object and create or update it, looks up the digest
  of the graph-data image through a pod, ensures the Deployment, and saves the status.

  \<^bold>\<open>How effects are modelled.\<close> The API server, the clock and the environment are not part of the
  repository. They are the fields of the record \<open>'w reconciler\<close> (\<open>Client\<close>), functions on an
  arbitrary state \<open>'w\<close> of the outside. The operator's functions are programs of the state monad over
  a session \<open>'w sess\<close>: that state, the status under construction, and the list of requests made so
  far. Every error and early return of the code is a branch. Theorems that quantify over all
  reconcilers hold whatever the server answers; those that need a server that behaves take the
  locale predicate \<open>honest_server\<close>, \<open>read_server\<close>, \<open>object_store\<close>, \<open>framed_server\<close> or \<open>status_store\<close> as a hypothesis,
  each of which is interpreted on an in-memory server, which also serves the concrete examples.
  The theories up to \<open>Reconcile\<close> treat one reconcile as a function; \<open>Controller\<close> puts it into the
  running process, a step relation in which everybody else, the watches, the queue and the worker take
  turns in any order. The rest of the library treats Go's structs as values; \<open>DeepCopy\<close> puts them on a heap and shows
  that the deep copy which \<open>Reconcile\<close> writes to shares nothing with the object it was read from.
\<close>

section \<open>The theories\<close>

text \<open>
  \<^bold>\<open>Base.\<close> \<open>Prelude\<close>: the state monad, Hoare triples, invariants (\<open>keeps\<close>) and results (\<open>yields\<close>) of
  programs, Go's maps, the loop that stops at the first error. \<open>GoStrings\<close>, \<open>GoNet\<close>, \<open>GoUrl\<close>,
  \<open>GoTime\<close>, \<open>Template\<close> and the first part of \<open>GoHash\<close>: the parts of Go's standard library that the
  code uses (\<open>strings\<close>, \<open>strconv\<close>, \<open>net\<close>, \<open>net/url\<close>, \<open>time\<close>, \<open>text/template\<close>, \<open>encoding/base64\<close>,
  \<open>crypto/sha256\<close>), as far as it uses them. \<open>KubeTypes\<close>: one record per API struct, with a field per
  field that the code touches and one more for all others. \<open>Client\<close>: requests, answers, errors and
  the typed client.

  \<^bold>\<open>Rendering.\<close> \<open>Names\<close> (\<open>names.go\<close>); \<open>Egress\<close> (\<open>egressPorts\<close>, \<open>noProxy\<close>, \<open>portFromURL\<close> and their
  helpers in \<open>new.go\<close>); \<open>Resources\<close> and \<open>Workload\<close> (the \<open>new...\<close> functions of \<open>new.go\<close>, up to
  \<open>newKubeResources\<close>); \<open>GoHash\<close> (\<open>checksumMap\<close>). \<open>Rendered\<close> proves that the rendered objects fit
  together: references, mounts, ports, selectors, the traffic that the network policy admits.

  \<^bold>\<open>Reconciling.\<close> All of \<open>controllers/updateservice_controller.go\<close>: \<open>Conditions\<close> and \<open>OwnerRefs\<close>
  (the vendored helpers for conditions and owner references, \<open>handleErr\<close>, \<open>handleCACertStatus\<close>),
  \<open>RouteName\<close> (\<open>validateRouteName\<close>; the regular expression by derivatives), \<open>Ensure\<close> (the \<open>find...\<close>
  and most \<open>ensure...\<close> functions), \<open>RouteSync\<close> (the Route), \<open>DeploymentSync\<close> (the Deployment, the
  graph-data pod and its digest), \<open>Reconcile\<close> (the handler). \<open>Mapper\<close>: the watches and
  \<open>mapper.go\<close>. \<open>Scheme\<close>: the scheme builder in \<open>api/v1\<close> and \<open>init\<close> in \<open>main.go\<close>,
  with the vendored parts of apimachinery below them. \<open>MainProgram\<close>: \<open>main.go\<close>, \<open>SetupWithManager\<close> and
  \<open>controller.go\<close>. \<open>Rbac\<close>: the permission markers above \<open>Reconcile\<close> and how the server applies the
  roles. \<open>DeepCopy\<close>: \<open>api/v1/zz_generated.deepcopy.go\<close>, its vendored callees and the writes of
  \<open>Reconcile\<close> to the status, on an explicit heap. \<open>FuncTests\<close>: \<open>functests/utils.go\<close> with \<open>wait.Poll\<close>.

  \<^bold>\<open>Running.\<close> \<open>WorkQueue\<close>: the vendored queue of requests (client-go's basic, delaying and rate limiting
  queue, three records of which each extends the one before), with the locale \<open>item_queue\<close> as its
  contract, interpreted on it. \<open>Controller\<close>: the worker of controller-runtime
  (\<open>reconcileHandler\<close>, \<open>processNextWorkItem\<close>), the delivery of events through \<open>Mapper\<close>, and the step
  relation \<open>controllerStep\<close> over the state of the process; its invariant is proved in the locale
  \<open>read_server\<close>, which asks no more of the server than that reads of UpdateServices tell the truth, and
  of which every \<open>object_store\<close> is one by \<open>sublocale\<close>.

  \<^bold>\<open>Contracts.\<close> \<open>ObjectStore\<close>: what is relied on in the server, and the in-memory server.
  \<open>Managed\<close>: the locales \<open>managed_object\<close> (a kind of object with the part that the operator
  compares and the part it keeps) and \<open>managed_store\<close> (ensuring one on an object store), proved
  once and interpreted in \<open>ManagedObjects\<close> for ConfigMaps, Secrets, Services, disruption budgets
  and network policies. \<open>Invariants\<close>: the locale \<open>session_invariant\<close>, an invariant that the
  primitive steps keep and hence every operation. \<open>SelfTrigger\<close>: \<open>timed_server\<close> (time does not run
  backwards; a sublocale gives it the session invariant on times) and \<open>status_store\<close>, both of them
  interpreted on the in-memory server.
\<close>

section \<open>What is proved\<close>

text \<open>
  \<^bold>\<open>Convergence\<close> (\<open>UpToDate\<close>, \<open>Quiet\<close>, \<open>GraphDataPod\<close>, \<open>Converge\<close>, \<open>ConvergeProps\<close>): \<open>UpToDate\<close> is an
  abstract specification of a rolled-out cluster, as a predicate on the contents of the server. Two
  reconciles establish it from any contents for which the resources can be rendered (one, if the
  graph-data image is given by digest; otherwise the second one notes the digest that the pod
  reports), and the next only reads and saves the status. \<open>Schedule\<close> extends this to many
  UpdateServices: reconciles of them in any order do not undo each other's work, for names that are
  apart; \<open>RouteClash\<close> shows that this condition is needed. \<^bold>\<open>The running process\<close> (\<open>ControllerProps\<close>):
  whatever the interleaving and whichever requests fail, no UpdateService is forgotten, by an invariant
  of all reachable states, and requests are served in turn; \<open>RollOut\<close> puts it together with \<open>Schedule\<close>:
  as long as nobody else changes the stored objects, the process rolls the cluster out to every
  UpdateService by two reconciles of it. \<^bold>\<open>The status as a contract\<close>
  (\<open>StatusContract\<close>, \<open>SelfTrigger\<close>): \<open>expectedStatus\<close> is a function of the contents; a reconcile of a
  rolled-out cluster saves exactly it, with times of its own, and so triggers the next one.
  \<^bold>\<open>Safety\<close> (\<open>Safety\<close>, \<open>ReconcileProps\<close>, \<open>Isolation\<close>): the requests of a reconcile
  belong to its UpdateService, nothing outside of the operator's namespace and no user's spec is
  changed in any run of reconciles interleaved with steps of others; reads stay in the cached
  namespaces; the roles allow all requests and no writes elsewhere (\<open>Rbac\<close>); deep copies are
  isolated (\<open>DeepCopy\<close>). \<^bold>\<open>Termination\<close> (\<open>RequestBound\<close>, \<open>FuncTests\<close>): every reconcile ends after at
  most 32 requests, waiting in the functional tests after at most 41. \<^bold>\<open>Process\<close> (\<open>ProcessProps\<close>):
  what is registered and with which reconciler the controller runs, and how the process ends. \<^bold>\<open>Errors\<close> (\<open>Results\<close>, \<open>ReconcileProps\<close>, \<open>OutcomeProps\<close>): the result of every reconcile, early exits, which failures are returned,
  reported or lost. \<^bold>\<open>Status\<close> (\<open>StatusProps\<close>, \<open>ReconcileProps\<close>): shape and content of saved statuses.
  \<^bold>\<open>Deployment and graph-data pod\<close> (\<open>DeploymentProps\<close>, \<open>GraphDataProps\<close>): the merge field by field and
  its idempotence, the life cycle of the pod. \<^bold>\<open>Owners and events\<close> (\<open>OwnerProps\<close>): owner references,
  and that events on owned objects lead back to their owner. \<^bold>\<open>Rendering\<close>: the theories named above.

  No definition uses fuel: every loop of the code runs over a list or a string and is structurally
  recursive. SHA-256 has its fixed schedule of 64 rounds per block. The polling loop of the functional
  tests recurs over the signals of its timer, of which there are at most 40 (twenty minutes in steps
  of thirty seconds).
\<close>

section \<open>Not modelled\<close>

text \<open>
  Log output, except for the lines of \<open>printVersion\<close>; the parsing of command line flags; the caches and
  leader election of controller-runtime, and how it starts and stops its workers. The cache is what
  \<open>lookup\<close> shows in \<open>Controller\<close>: a change of it and the event for the change are one step, the delivery
  of the event another one. A reconcile is one step there; what others do meanwhile is part of the
  server's answers. The delay of the token bucket, which all requests share, is any number up to a bound.
  Elsewhere no other writer interleaves with a reconcile, except where a server is arbitrary. A nil slice and an empty one are
  identified, as are a Secret's bytes and the string of them. The tests themselves are not modelled,
  only the helper functions that the functional tests use. Of a scheme the kinds of types are
  modelled, not the conversion and defaulting functions.
\<close>

end
